(* ===== verification/Prelude.thy ===== *)
theory Prelude
  imports Main "HOL-Library.Word" "HOL-Library.Char_ord" "HOL-Library.List_Lexorder"
begin

text \<open>
  The vocabulary shared by every component: the scalar types of the service
  (identifiers, instants, durations, byte strings), relational tables as lists of
  rows with the four statement forms the generated queries use, and the list lemmas
  the component proofs rest on.

  \<^item> A Go \<^verbatim>\<open>string\<close> and a Go \<^verbatim>\<open>[]byte\<close> are both \<^typ>\<open>string\<close>: an Isabelle
    character is one of 256 bytes, so a Go string is the list of its bytes.
  \<^item> A \<^verbatim>\<open>uuid.UUID\<close> is its 128-bit value, ordered as PostgreSQL orders it; \<^verbatim>\<open>uuid.Nil\<close>
    is 0.
  \<^item> An instant is the number of microseconds since Go's zero time, the resolution of
    \<^verbatim>\<open>timestamptz\<close>; \<^verbatim>\<open>time.Time.IsZero\<close> is equality with 0. A duration is a number of
    microseconds.
\<close>

named_theorems table_simps \<open>reading a table after a statement\<close>

section \<open>Scalars\<close>

type_synonym uuid = "128 word"
type_synonym time = int
type_synonym duration = int

abbreviation uuid_Nil :: uuid where "uuid_Nil \<equiv> 0"

definition Second :: duration where "Second = 1000000"
definition Minute :: duration where "Minute = 60 * Second"
definition Hour :: duration where "Hour = 60 * Minute"

definition IsZero :: "time \<Rightarrow> bool" where "IsZero t \<longleftrightarrow> t = 0"

text \<open>\<^verbatim>\<open>time.Time.Unix\<close>: whole seconds since 1970, rounding towards the past.\<close>

definition Unix :: "time \<Rightarrow> int" where "Unix t = t div Second - 62135596800"

definition MaxInt64 :: int where "MaxInt64 = 9223372036854775807"

lemmas duration_defs = Second_def Minute_def Hour_def

lemma duration_pos [simp]: "0 < Second" "0 < Minute" "0 < Hour"
  by (simp_all add: duration_defs)

lemma Unix_mono: "s \<le> t \<Longrightarrow> Unix s \<le> Unix t"
  by (simp add: Unix_def zdiv_mono1)

section \<open>Sorted lists\<close>

lemma sorted_distinct_set_unique_iff:
  fixes xs ys :: "'a::linorder list"
  assumes "sorted xs" "distinct xs" "sorted ys" "distinct ys"
  shows "xs = ys \<longleftrightarrow> set xs = set ys"
  using assms by (metis sorted_distinct_set_unique)

lemma sort_remdups_canonical [simp]:
  "sorted (sort (remdups xs))" "distinct (sort (remdups xs))" "set (sort (remdups xs)) = set xs"
  by simp_all

text \<open>Adjacent duplicates of a sorted list are all of its duplicates.\<close>

lemma sorted_distinct_adj:
  fixes xs :: "'a::linorder list"
  assumes "sorted xs"
  shows "distinct_adj xs \<longleftrightarrow> distinct xs"
  using assms
proof (induction xs rule: induct_list012)
  case (3 x y zs)
  then show ?case by (auto simp: less_le_trans dest: order_antisym)
qed simp_all

section \<open>Tables\<close>

text \<open>
  A table is the list of its rows in insertion order. \<^verbatim>\<open>SELECT ... WHERE p\<close> with a unique
  key returns at most one row; \<^verbatim>\<open>UPDATE\<close> and \<^verbatim>\<open>DELETE\<close> address the rows of a predicate.
\<close>

type_synonym 'r table = "'r list"

definition select_one :: "('r \<Rightarrow> bool) \<Rightarrow> 'r table \<Rightarrow> 'r option" where
  "select_one p t = List.find p t"

definition select_where :: "('r \<Rightarrow> bool) \<Rightarrow> 'r table \<Rightarrow> 'r list" where
  "select_where p t = filter p t"

definition update_where :: "('r \<Rightarrow> bool) \<Rightarrow> ('r \<Rightarrow> 'r) \<Rightarrow> 'r table \<Rightarrow> 'r table" where
  "update_where p f t = map (\<lambda>r. if p r then f r else r) t"

definition delete_where :: "('r \<Rightarrow> bool) \<Rightarrow> 'r table \<Rightarrow> 'r table" where
  "delete_where p t = filter (\<lambda>r. \<not> p r) t"

definition insert_row :: "'r \<Rightarrow> 'r table \<Rightarrow> 'r table" where
  "insert_row r t = t @ [r]"

lemma select_one_Some [dest]:
  assumes "select_one p t = Some r"
  shows "r \<in> set t" "p r"
  using assms by (auto simp: select_one_def find_Some_iff)

lemma select_one_None_iff: "select_one p t = None \<longleftrightarrow> (\<forall>r\<in>set t. \<not> p r)"
  by (auto simp: select_one_def find_None_iff)

lemma select_one_ex: "r \<in> set t \<Longrightarrow> p r \<Longrightarrow> \<exists>r'. select_one p t = Some r'"
  using select_one_None_iff[of p t] by (cases "select_one p t") auto

lemma set_update_where [table_simps]:
  "set (update_where p f t) = (\<lambda>r. if p r then f r else r) ` set t"
  by (simp add: update_where_def)

lemma set_delete_where [table_simps]: "set (delete_where p t) = {r \<in> set t. \<not> p r}"
  by (simp add: delete_where_def)

lemma set_select_where [table_simps]: "set (select_where p t) = {r \<in> set t. p r}"
  by (simp add: select_where_def)

lemma set_insert_row [table_simps]: "set (insert_row r t) = insert r (set t)"
  by (simp add: insert_row_def)

lemma length_update_where [simp]: "length (update_where p f t) = length t"
  by (simp add: update_where_def)

text \<open>An update that keeps a column keeps the list of that column's values.\<close>

lemma map_update_where [table_simps]:
  assumes "\<And>r. k (f r) = k r"
  shows "map k (update_where p f t) = map k t"
  using assms by (simp add: update_where_def comp_def cong: map_cong)

lemma select_one_insert_row [table_simps]:
  "select_one p (insert_row r t) =
     (case select_one p t of Some r' \<Rightarrow> Some r' | None \<Rightarrow> if p r then Some r else None)"
  by (induction t) (simp_all add: select_one_def insert_row_def)

text \<open>A lookup by a column that the update keeps finds the updated row.\<close>

lemma select_one_update_where [table_simps]:
  assumes "\<And>r. q (f r) = q r"
  shows "select_one q (update_where p f t) =
           map_option (\<lambda>r. if p r then f r else r) (select_one q t)"
  by (induction t) (auto simp: select_one_def update_where_def assms)

text \<open>A unique column makes the lookup complete: any row of the table is found by its key.\<close>

lemma select_one_unique:
  assumes "distinct (map k t)" "r \<in> set t"
  shows "select_one (\<lambda>r'. k r' = k r) t = Some r"
  using assms by (induction t) (auto simp: select_one_def image_iff)

lemma distinct_map_eq: "distinct (map k t) \<Longrightarrow> r \<in> set t \<Longrightarrow> s \<in> set t \<Longrightarrow> k r = k s \<Longrightarrow> r = s"
  by (auto simp: distinct_map dest: inj_onD)

lemma distinct_map_delete_where:
  "distinct (map k t) \<Longrightarrow> distinct (map k (delete_where p t))"
  by (simp add: delete_where_def distinct_map_filter)

lemma distinct_map_insert_row:
  "distinct (map k (insert_row r t)) \<longleftrightarrow> distinct (map k t) \<and> k r \<notin> k ` set t"
  by (auto simp: insert_row_def)


section \<open>Results\<close>

text \<open>Sequencing of fallible computations: an error of the first is the result.\<close>

definition rbind :: "'e + 'a \<Rightarrow> ('a \<Rightarrow> 'e + 'b) \<Rightarrow> 'e + 'b" where
  "rbind r f = (case r of Inl e \<Rightarrow> Inl e | Inr x \<Rightarrow> f x)"

definition or_error :: "'a option \<Rightarrow> 'e \<Rightarrow> 'e + 'a" where
  "or_error x e = (case x of None \<Rightarrow> Inl e | Some v \<Rightarrow> Inr v)"

lemma rbind_simps [simp]: "rbind (Inl e) f = Inl e" "rbind (Inr x) f = f x"
  by (simp_all add: rbind_def)

lemma rbind_Inr: "rbind r f = Inr y \<longleftrightarrow> (\<exists>x. r = Inr x \<and> f x = Inr y)"
  by (cases r) simp_all

lemma or_error_simps [simp]: "or_error None e = Inl e" "or_error (Some v) e = Inr v"
  by (simp_all add: or_error_def)

lemma or_error_Inr: "or_error x e = Inr v \<longleftrightarrow> x = Some v"
  by (cases x) simp_all

lemmas result_Inr = rbind_Inr or_error_Inr

text \<open>The inversion of a successful computation, step by step.\<close>

lemma rbind_InrE:
  assumes "rbind r f = Inr y"
  obtains x where "r = Inr x" "f x = Inr y"
  using assms by (auto simp: rbind_Inr)

lemma rbind_pair_InrE:
  assumes "rbind r (\<lambda>(a, b). f a b) = Inr y"
  obtains a b where "r = Inr (a, b)" "f a b = Inr y"
  using assms by (auto simp: rbind_Inr)

lemma rbind_or_error_InrE:
  assumes "rbind (or_error x e) f = Inr y"
  obtains v where "x = Some v" "f v = Inr y"
  using assms by (auto simp: result_Inr)

lemma rbind_or_error_pair_InrE:
  assumes "rbind (or_error x e) (\<lambda>(a, b). f a b) = Inr y"
  obtains a b where "x = Some (a, b)" "f a b = Inr y"
  using assms by (auto simp: result_Inr)

lemma rbind_or_error_triple_InrE:
  assumes "rbind (or_error x e) (\<lambda>((a, b), c). f a b c) = Inr y"
  obtains a b c where "x = Some ((a, b), c)" "f a b c = Inr y"
  using assms by (auto simp: result_Inr)

lemma if_InlE:
  assumes "(if b then Inl e else r) = Inr y"
  obtains "\<not> b" "r = Inr y"
  using assms by (auto split: if_splits)

lemma if_NoneE:
  assumes "(if b then None else r) = Some y"
  obtains "\<not> b" "r = Some y"
  using assms by (auto split: if_splits)

lemma case_option_InrE:
  assumes "(case x of None \<Rightarrow> Inl e | Some v \<Rightarrow> f v) = Inr y"
  obtains v where "x = Some v" "f v = Inr y"
  using assms by (cases x) auto

lemmas result_elims = if_InlE case_option_InrE rbind_or_error_triple_InrE rbind_or_error_pair_InrE
  rbind_or_error_InrE rbind_pair_InrE rbind_InrE

end
