(* ===== verification/Go_Stdlib.thy ===== *)
theory Go_Stdlib
  imports Prelude
begin

text \<open>
  What the service uses of Go's standard library: binary search in a sorted slice,
  prefix handling and \<^verbatim>\<open>TrimSpace\<close>, strict unpadded URL-safe base64 and SHA-256. The
  base64 decoder is characterised exactly: it accepts the encodings and nothing else,
  up to the line breaks that Go's decoder skips.
\<close>

unbundle bit_operations_syntax

section \<open>Package sort\<close>

text \<open>\<^verbatim>\<open>sort.Search\<close>: the loop that halves the window \<open>[i, j)\<close>.\<close>

function sort_Search_loop :: "(nat \<Rightarrow> bool) \<Rightarrow> nat \<Rightarrow> nat \<Rightarrow> nat" where
  "sort_Search_loop f i j =
     (if i < j then
        (let h = (i + j) div 2 in
         if \<not> f h then sort_Search_loop f (h + 1) j else sort_Search_loop f i h)
      else i)"
  by pat_completeness auto
termination
  by (relation "measure (\<lambda>(f, i, j). j - i)") auto

declare sort_Search_loop.simps [simp del]

definition sort_SearchStrings :: "string list \<Rightarrow> string \<Rightarrow> nat" where
  "sort_SearchStrings a x = sort_Search_loop (\<lambda>i. a ! i \<ge> x) 0 (length a)"

lemma sort_Search_loop_least:
  assumes "\<forall>k l. k \<le> l \<longrightarrow> l < n \<longrightarrow> f k \<longrightarrow> f l" "j \<le> n" "i \<le> j"
    and "\<forall>k < i. \<not> f k" "\<forall>k. j \<le> k \<longrightarrow> k < n \<longrightarrow> f k"
  shows "(\<forall>k < sort_Search_loop f i j. \<not> f k) \<and> sort_Search_loop f i j \<le> j \<and>
         (\<forall>k. sort_Search_loop f i j \<le> k \<longrightarrow> k < n \<longrightarrow> f k)"
  using assms
proof (induction f i j rule: sort_Search_loop.induct)
  case (1 f i j)
  show ?case
  proof (cases "i < j")
    case False
    then have "sort_Search_loop f i j = i" by (subst sort_Search_loop.simps) simp
    then show ?thesis using False 1(4-) by auto
  next
    case True
    define h where "h = (i + j) div 2"
    have h: "i \<le> h" "h < j" using True by (auto simp: h_def)
    show ?thesis
    proof (cases "f h")
      case fh: True
      have eq: "sort_Search_loop f i j = sort_Search_loop f i h"
        using True fh by (subst sort_Search_loop.simps) (simp add: h_def Let_def)
      have "\<forall>k. h \<le> k \<longrightarrow> k < n \<longrightarrow> f k" using 1(3) fh by blast
      from 1(2)[OF True h_def _ 1(3) _ h(1) 1(6) this] fh h(2) 1(4) show ?thesis
        unfolding eq by (metis less_imp_le order_trans)
    next
      case fh: False
      have eq: "sort_Search_loop f i j = sort_Search_loop f (h + 1) j"
        using True fh by (subst sort_Search_loop.simps) (simp add: h_def Let_def)
      have "\<forall>k < h + 1. \<not> f k"
        using 1(3,4) fh h(2) by (metis Suc_eq_plus1 less_Suc_eq_le order_less_le_trans)
      from 1(1)[OF True h_def fh 1(3,4) _ this 1(7)] h(2) show ?thesis unfolding eq by simp
    qed
  qed
qed

lemma sort_SearchStrings_member:
  assumes "sorted a"
  shows "sort_SearchStrings a x < length a \<and> a ! sort_SearchStrings a x = x \<longleftrightarrow> x \<in> set a"
proof -
  let ?r = "sort_SearchStrings a x"
  have r: "(\<forall>k < ?r. \<not> a ! k \<ge> x) \<and> ?r \<le> length a \<and> (\<forall>k. ?r \<le> k \<longrightarrow> k < length a \<longrightarrow> a ! k \<ge> x)"
    unfolding sort_SearchStrings_def
    by (rule sort_Search_loop_least) (simp_all, meson assms order_trans sorted_nth_mono)
  show ?thesis
  proof
    assume "x \<in> set a"
    then obtain k where k: "k < length a" "a ! k = x" by (auto simp: in_set_conv_nth)
    then have "?r \<le> k" using r by (metis not_less order_refl)
    then have "a ! ?r \<le> x" using sorted_nth_mono[OF assms] k by metis
    then show "?r < length a \<and> a ! ?r = x" using r k \<open>?r \<le> k\<close> by (simp add: order_antisym)
  qed (metis nth_mem)
qed


section \<open>Package strings\<close>

definition HasPrefix :: "string \<Rightarrow> string \<Rightarrow> bool" where
  "HasPrefix s p \<longleftrightarrow> take (length p) s = p"

definition TrimPrefix :: "string \<Rightarrow> string \<Rightarrow> string" where
  "TrimPrefix s p = (if HasPrefix s p then drop (length p) s else s)"

fun strings_Join :: "string list \<Rightarrow> string \<Rightarrow> string" where
  "strings_Join [] sep = []"
| "strings_Join [x] sep = x"
| "strings_Join (x # y # xs) sep = x @ sep @ strings_Join (y # xs) sep"

text \<open>
  The UTF-8 encodings of the runes for which \<^verbatim>\<open>unicode.IsSpace\<close> holds: the six ASCII
  spaces, U+0085, U+00A0, U+1680, U+2000 to U+200A, U+2028, U+2029, U+202F, U+205F and
  U+3000.
\<close>

definition space_runes :: "string list" where
  "space_runes =
     map (\<lambda>n. [char_of n]) [9, 10, 11, 12, 13, 32 :: nat] @
     map (map char_of) ([[0xC2, 0x85], [0xC2, 0xA0], [0xE1, 0x9A, 0x80]] @
       map (\<lambda>n. [0xE2, 0x80, n]) [0x80 ..< 0x8B] @
       [[0xE2, 0x80, 0xA8], [0xE2, 0x80, 0xA9], [0xE2, 0x80, 0xAF], [0xE2, 0x81, 0x9F],
        [0xE3, 0x80, 0x80 :: nat]])"

definition starts_with_space :: "string \<Rightarrow> bool" where
  "starts_with_space s \<longleftrightarrow> (\<exists>r\<in>set space_runes. HasPrefix s r)"

definition ends_with_space :: "string \<Rightarrow> bool" where
  "ends_with_space s \<longleftrightarrow> (\<exists>r\<in>set space_runes. HasPrefix (rev s) (rev r))"

text \<open>
  \<^verbatim>\<open>strings.TrimSpace(s) == s\<close>, the only use the service makes of \<^verbatim>\<open>TrimSpace\<close> on
  protocol values: neither end of \<open>s\<close> is a space.
\<close>

definition TrimSpace_unchanged :: "string \<Rightarrow> bool" where
  "TrimSpace_unchanged s \<longleftrightarrow> \<not> starts_with_space s \<and> \<not> ends_with_space s"

section \<open>Package net/url\<close>

text \<open>
  The parts of a parsed URL the service looks at. The parser is a parameter of the
  definitions that use it (\<open>url_Parse\<close>, \<open>None\<close> for an error): its grammar is that of the
  installed Go release.
\<close>

record URL =
  url_Scheme :: string
  url_User :: "string option"
  url_Host :: string
  url_Path :: string
  url_RawQuery :: string
  url_Fragment :: string

definition IsAbs :: "URL \<Rightarrow> bool" where
  "IsAbs u \<longleftrightarrow> url_Scheme u \<noteq> ''''"

section \<open>Package encoding/base64: RawURLEncoding\<close>

definition b64_alphabet :: string where
  "b64_alphabet = ''ABCDEFGHIJKLMNOPQRSTUVWXYZabcdefghijklmnopqrstuvwxyz0123456789-_''"

definition b64_char :: "nat \<Rightarrow> char" where
  "b64_char n = b64_alphabet ! n"

definition b64_value :: "char \<Rightarrow> nat option" where
  "b64_value c = (let n = of_char c in
     if 65 \<le> n \<and> n \<le> 90 then Some (n - 65)
     else if 97 \<le> n \<and> n \<le> 122 then Some (n - 71)
     else if 48 \<le> n \<and> n \<le> 57 then Some (n + 4)
     else if n = 45 then Some 62
     else if n = 95 then Some 63
     else None)"

fun b64_encode :: "string \<Rightarrow> string" where
  "b64_encode [] = []"
| "b64_encode [a] =
     (let x = of_char a in [b64_char (x div 4), b64_char (x mod 4 * 16)])"
| "b64_encode [a, b] =
     (let x = of_char a; y = of_char b in
      [b64_char (x div 4), b64_char (x mod 4 * 16 + y div 16), b64_char (y mod 16 * 4)])"
| "b64_encode (a # b # c # r) =
     (let x = of_char a; y = of_char b; z = of_char c in
      [b64_char (x div 4), b64_char (x mod 4 * 16 + y div 16),
       b64_char (y mod 16 * 4 + z div 64), b64_char (z mod 64)] @ b64_encode r)"

text \<open>
  One quantum is four characters; an incomplete last quantum of two or three characters
  carries one or two bytes and, in strict mode, its unused bits must be zero. A single
  trailing character, a padding character or any other character is corrupt input.
\<close>

fun b64_decode_quanta :: "string \<Rightarrow> string option" where
  "b64_decode_quanta [] = Some []"
| "b64_decode_quanta [p] = None"
| "b64_decode_quanta [p, q] =
     (case (b64_value p, b64_value q) of
        (Some i, Some j) \<Rightarrow> if j mod 16 = 0 then Some [char_of (i * 4 + j div 16)] else None
      | _ \<Rightarrow> None)"
| "b64_decode_quanta [p, q, r] =
     (case (b64_value p, b64_value q, b64_value r) of
        (Some i, Some j, Some k) \<Rightarrow>
          if k mod 4 = 0 then Some [char_of (i * 4 + j div 16), char_of (j mod 16 * 16 + k div 4)]
          else None
      | _ \<Rightarrow> None)"
| "b64_decode_quanta (p # q # r # s # rest) =
     (case (b64_value p, b64_value q, b64_value r, b64_value s, b64_decode_quanta rest) of
        (Some i, Some j, Some k, Some l, Some tail) \<Rightarrow>
          Some ([char_of (i * 4 + j div 16), char_of (j mod 16 * 16 + k div 4),
                 char_of (k mod 4 * 64 + l)] @ tail)
      | _ \<Rightarrow> None)"

text \<open>Go's decoder skips carriage returns and line feeds, in strict mode too.\<close>

definition is_newline :: "char \<Rightarrow> bool" where
  "is_newline c \<longleftrightarrow> of_char c = (10 :: nat) \<or> of_char c = (13 :: nat)"

definition b64_DecodeString :: "string \<Rightarrow> string option" where
  "b64_DecodeString s = b64_decode_quanta (filter (\<lambda>c. \<not> is_newline c) s)"

lemma of_char_b64_char:
  assumes "n < 64"
  shows "of_char (b64_char n) =
    (if n < 26 then n + 65 else if n < 52 then n + 71 else if n < 62 then n - 4
     else if n = 62 then 45 else 95 :: nat)"
proof -
  have "list_all (\<lambda>n. of_char (b64_char n) =
    (if n < 26 then n + 65 else if n < 52 then n + 71 else if n < 62 then n - 4
     else if n = 62 then 45 else 95 :: nat)) [0..<64]"
    by (simp add: b64_char_def b64_alphabet_def upt_rec)
  with assms show ?thesis by (simp add: list_all_iff)
qed

lemma b64_value_char: "n < 64 \<Longrightarrow> b64_value (b64_char n) = Some n"
  by (simp add: b64_value_def of_char_b64_char Let_def) arith

lemma b64_value_bound: "b64_value c = Some n \<Longrightarrow> n < 64"
  by (auto simp: b64_value_def Let_def split: if_splits)

lemma b64_char_value:
  assumes "b64_value c = Some n"
  shows "b64_char n = c"
proof -
  have "(of_char (b64_char n) :: nat) = of_char c"
    using assms by (simp add: of_char_b64_char b64_value_bound)
      (auto simp: b64_value_def Let_def split: if_splits)
  then show ?thesis by simp
qed

lemma b64_char_not_newline: "n < 64 \<Longrightarrow> \<not> is_newline (b64_char n)"
  using b64_value_char[of n] by (auto simp: b64_value_def is_newline_def Let_def split: if_splits)


lemma nat_divmod:
  fixes q :: nat
  shows "r < a \<Longrightarrow> (q * a + r) div a = q" "r < a \<Longrightarrow> (q * a + r) mod a = r"
  by simp_all

lemma b64_pack_bounds:
  fixes x y z :: nat
  assumes "x < 256" "y < 256" "z < 256"
  shows "x div 4 < 64" "x mod 4 * 16 + y div 16 < 64" "y mod 16 * 4 + z div 64 < 64"
    "x mod 4 * 16 < 64" "y mod 16 * 4 < 64" "z mod 64 < 64" "y div 16 < 16" "z div 64 < 4"
  using assms by linarith+

lemma b64_pack:
  fixes x y z :: nat
  assumes "x < 256" "y < 256" "z < 256"
  shows "x div 4 * 4 + (x mod 4 * 16 + y div 16) div 16 = x"
    "(x mod 4 * 16 + y div 16) mod 16 * 16 + (y mod 16 * 4 + z div 64) div 4 = y"
    "(y mod 16 * 4 + z div 64) mod 4 * 64 + z mod 64 = z"
    "x div 4 * 4 + x mod 4 * 16 div 16 = x"
    "(x mod 4 * 16 + y div 16) mod 16 * 16 + y mod 16 * 4 div 4 = y"
    "x mod 4 * 16 mod 16 = 0" "y mod 16 * 4 mod 4 = 0"
  using b64_pack_bounds(7,8)[OF assms] by (simp_all only: nat_divmod) simp_all

lemma b64_unpack_bounds:
  fixes i j k l :: nat
  assumes "i < 64" "j < 64" "k < 64" "l < 64"
  shows "i * 4 + j div 16 < 256" "j mod 16 * 16 + k div 4 < 256" "k mod 4 * 64 + l < 256"
    "j div 16 < 4" "k div 4 < 16"
  using assms by linarith+

lemma b64_unpack:
  fixes i j k l :: nat
  assumes "i < 64" "j < 64" "k < 64" "l < 64"
  shows "(i * 4 + j div 16) div 4 = i"
    "(i * 4 + j div 16) mod 4 * 16 + (j mod 16 * 16 + k div 4) div 16 = j"
    "(j mod 16 * 16 + k div 4) mod 16 * 4 + (k mod 4 * 64 + l) div 64 = k"
    "(k mod 4 * 64 + l) mod 64 = l"
    "j mod 16 = 0 \<Longrightarrow> (i * 4 + j div 16) mod 4 * 16 = j"
    "k mod 4 = 0 \<Longrightarrow> (j mod 16 * 16 + k div 4) mod 16 * 4 = k"
  using b64_unpack_bounds(4,5)[OF assms] assms(4) by (simp_all only: nat_divmod) auto

lemma b64_decode_encode: "b64_decode_quanta (b64_encode xs) = Some xs"
proof (induction xs rule: b64_encode.induct)
  case (2 a)
  note p = b64_pack_bounds[of "of_char a" 0 0] b64_pack[of "of_char a" 0 0]
  then show ?case by (simp add: Let_def b64_value_char)
next
  case (3 a b)
  note p = b64_pack_bounds[of "of_char a" "of_char b" 0] b64_pack[of "of_char a" "of_char b" 0]
  then show ?case by (simp add: Let_def b64_value_char)
next
  case (4 a b c r)
  note p = b64_pack_bounds[of "of_char a" "of_char b" "of_char c"]
    b64_pack[of "of_char a" "of_char b" "of_char c"]
  with 4 show ?case by (simp add: Let_def b64_value_char)
qed simp

lemma b64_encode_decode: "b64_decode_quanta s = Some xs \<Longrightarrow> b64_encode xs = s"
proof (induction s arbitrary: xs rule: b64_decode_quanta.induct)
  case (3 p q)
  then obtain i j where v: "b64_value p = Some i" "b64_value q = Some j" "j mod 16 = 0"
      "xs = [char_of (i * 4 + j div 16)]"
    by (auto split: option.splits if_splits)
  note b = v(1,2)[THEN b64_value_bound]
  show ?case
    using b64_unpack_bounds[OF b b] b64_unpack[OF b b] v
    by (simp add: Let_def b64_char_value)
next
  case (4 p q r)
  then obtain i j k where v: "b64_value p = Some i" "b64_value q = Some j" "b64_value r = Some k"
      "k mod 4 = 0" "xs = [char_of (i * 4 + j div 16), char_of (j mod 16 * 16 + k div 4)]"
    by (auto split: option.splits if_splits)
  note b = v(1,2,3)[THEN b64_value_bound]
  show ?case
    using b64_unpack_bounds[OF b b(3)] b64_unpack[OF b b(3)] v
    by (simp add: Let_def b64_char_value)
next
  case (5 p q r s rest)
  then obtain i j k l tail where v: "b64_value p = Some i" "b64_value q = Some j"
      "b64_value r = Some k" "b64_value s = Some l" "b64_decode_quanta rest = Some tail"
      "xs = [char_of (i * 4 + j div 16), char_of (j mod 16 * 16 + k div 4),
             char_of (k mod 4 * 64 + l)] @ tail"
    by (auto split: option.splits)
  note b = v(1-4)[THEN b64_value_bound]
  show ?case
    using b64_unpack_bounds[OF b] b64_unpack[OF b] v 5
    by (simp add: Let_def b64_char_value)
qed simp_all

lemma length_b64_encode: "length (b64_encode xs) = (4 * length xs + 2) div 3"
  by (induction xs rule: b64_encode.induct) (simp_all add: Let_def)

lemma b64_encode_sextets: "\<exists>ns. b64_encode xs = map b64_char ns \<and> (\<forall>n\<in>set ns. n < 64)"
proof (induction xs rule: b64_encode.induct)
  case (2 a)
  then show ?case using b64_pack_bounds[of "of_char a" 0 0]
    by (auto simp: Let_def intro!: exI[of _ "[m, n]" for m n])
next
  case (3 a b)
  then show ?case using b64_pack_bounds[of "of_char a" "of_char b" 0]
    by (auto simp: Let_def intro!: exI[of _ "[l, m, n]" for l m n])
next
  case (4 a b c r)
  obtain ns where "b64_encode r = map b64_char ns" "\<forall>n\<in>set ns. n < 64" using 4[OF refl refl refl] by auto
  then show ?case using b64_pack_bounds[of "of_char a" "of_char b" "of_char c"]
    by (auto simp: Let_def intro!: exI[of _ "k # l # m # n # ns" for k l m n])
qed simp

lemma b64_encode_no_newline: "filter (\<lambda>c. \<not> is_newline c) (b64_encode xs) = b64_encode xs"
  using b64_encode_sextets[of xs] by (auto simp: filter_id_conv b64_char_not_newline)

lemma b64_encode_alphabet: "list_all (\<lambda>c. b64_value c \<noteq> None) (b64_encode xs)"
  using b64_encode_sextets[of xs] by (auto simp: list_all_iff b64_value_char)

text \<open>
  The decoder accepts exactly the encodings: whatever it accepts is, line breaks removed,
  the encoding of what it returns.
\<close>

lemma b64_DecodeString_iff:
  "b64_DecodeString s = Some xs \<longleftrightarrow> filter (\<lambda>c. \<not> is_newline c) s = b64_encode xs"
  unfolding b64_DecodeString_def by (metis b64_decode_encode b64_encode_decode)

lemma b64_DecodeString_encode [simp]: "b64_DecodeString (b64_encode xs) = Some xs"
  by (simp add: b64_DecodeString_iff b64_encode_no_newline)

lemma b64_encode_inject [simp]: "b64_encode xs = b64_encode ys \<longleftrightarrow> xs = ys"
  by (metis b64_decode_encode option.inject)

text \<open>A decoded value of the full length leaves no room for a skipped line break.\<close>

lemma b64_DecodeString_full_length:
  assumes "b64_DecodeString s = Some xs" "length s = (4 * length xs + 2) div 3"
  shows "s = b64_encode xs"
proof -
  have "length (filter (\<lambda>c. \<not> is_newline c) s) = length s"
    using assms by (simp add: b64_DecodeString_iff length_b64_encode)
  then have "filter (\<lambda>c. \<not> is_newline c) s = s"
    by (metis length_filter_less filter_True less_irrefl)
  then show ?thesis using assms by (simp add: b64_DecodeString_iff)
qed

end
