(* ===== verification/Sha256.thy ===== *)
theory Sha256
  imports Prelude
begin

text \<open>
  \<^verbatim>\<open>crypto/sha256.Sum256\<close>, the digest every stored artefact of the service is looked up
  by, as FIPS 180-4 defines it on 32-bit words. The development uses that its output has
  32 bytes (\<^verbatim>\<open>sha256.Size\<close>); the definition is executable, so that the published vectors
  can be checked.
\<close>

unbundle bit_operations_syntax

type_synonym word32 = "32 word"

definition sha256_Size :: nat where "sha256_Size = 32"

definition rotr32 :: "nat \<Rightarrow> word32 \<Rightarrow> word32" where
  "rotr32 n w = drop_bit n w OR push_bit (32 - n) w"

definition sha256_K :: "word32 list" where
  "sha256_K =
    [1116352408, 1899447441, 3049323471, 3921009573, 961987163, 1508970993, 2453635748,
     2870763221, 3624381080, 310598401, 607225278, 1426881987, 1925078388, 2162078206,
     2614888103, 3248222580, 3835390401, 4022224774, 264347078, 604807628, 770255983, 1249150122,
     1555081692, 1996064986, 2554220882, 2821834349, 2952996808, 3210313671, 3336571891,
     3584528711, 113926993, 338241895, 666307205, 773529912, 1294757372, 1396182291, 1695183700,
     1986661051, 2177026350, 2456956037, 2730485921, 2820302411, 3259730800, 3345764771,
     3516065817, 3600352804, 4094571909, 275423344, 430227734, 506948616, 659060556, 883997877,
     958139571, 1322822218, 1537002063, 1747873779, 1955562222, 2024104815, 2227730452,
     2361852424, 2428436474, 2756734187, 3204031479, 3329325298]"

definition sha256_H0 :: "word32 list" where
  "sha256_H0 = [1779033703, 3144134277, 1013904242, 2773480762,
                1359893119, 2600822924, 528734635, 1541459225]"

text \<open>The message schedule: \<open>n\<close> further words after the ones present.\<close>

fun sha256_schedule :: "nat \<Rightarrow> word32 list \<Rightarrow> word32 list" where
  "sha256_schedule 0 ws = ws"
| "sha256_schedule (Suc n) ws =
    (let t = length ws; a = ws ! (t - 15); b = ws ! (t - 2);
         s0 = rotr32 7 a XOR rotr32 18 a XOR drop_bit 3 a;
         s1 = rotr32 17 b XOR rotr32 19 b XOR drop_bit 10 b
     in sha256_schedule n (ws @ [ws ! (t - 16) + s0 + ws ! (t - 7) + s1]))"

fun sha256_round :: "word32 list \<Rightarrow> word32 \<times> word32 \<Rightarrow> word32 list" where
  "sha256_round [a, b, c, d, e, f, g, h] (k, w) =
    (let S1 = rotr32 6 e XOR rotr32 11 e XOR rotr32 25 e;
         ch = (e AND f) XOR (NOT e AND g);
         t1 = h + S1 + ch + k + w;
         S0 = rotr32 2 a XOR rotr32 13 a XOR rotr32 22 a;
         maj = (a AND b) XOR (a AND c) XOR (b AND c)
     in [t1 + (S0 + maj), a, b, c, d + t1, e, f, g])"
| "sha256_round v _ = v"

definition sha256_compress :: "word32 list \<Rightarrow> word32 list \<Rightarrow> word32 list" where
  "sha256_compress hs block =
     map2 (+) hs (foldl sha256_round hs (zip sha256_K (sha256_schedule 48 block)))"

definition sha256_pad :: "string \<Rightarrow> string" where
  "sha256_pad msg =
     (let n = length msg in
      msg @ [char_of (128 :: nat)] @ replicate ((119 - n mod 64) mod 64) (char_of (0 :: nat)) @
      map (\<lambda>i. char_of (8 * n div 256 ^ i)) [7, 6, 5, 4, 3, 2, 1, 0])"

fun sha256_words :: "string \<Rightarrow> word32 list" where
  "sha256_words (a # b # c # d # rest) =
     word_of_nat (((of_char a * 256 + of_char b) * 256 + of_char c) * 256 + of_char d) #
     sha256_words rest"
| "sha256_words _ = []"

fun sha256_blocks :: "word32 list \<Rightarrow> word32 list list" where
  "sha256_blocks ws = (if length ws < 16 then [] else take 16 ws # sha256_blocks (drop 16 ws))"

declare sha256_blocks.simps [simp del]

definition sha256_bytes :: "word32 \<Rightarrow> string" where
  "sha256_bytes w = map (\<lambda>i. char_of (unat w div 256 ^ i)) [3, 2, 1, 0]"

definition sha256_Sum256 :: "string \<Rightarrow> string" where
  "sha256_Sum256 msg =
     concat (map sha256_bytes
       (foldl sha256_compress sha256_H0 (sha256_blocks (sha256_words (sha256_pad msg)))))"

lemma length_sha256_round [simp]: "length (sha256_round v kw) = length v"
  by (cases "(v, kw)" rule: sha256_round.cases) (simp_all add: Let_def)

lemma length_sha256_rounds [simp]: "length (foldl sha256_round v kws) = length v"
  by (induction kws arbitrary: v) simp_all

lemma length_sha256_compress [simp]: "length (sha256_compress hs block) = length hs"
  by (simp add: sha256_compress_def)

lemma length_sha256_hash [simp]: "length (foldl sha256_compress hs blocks) = length hs"
  by (induction blocks arbitrary: hs) simp_all

lemma length_sha256_Sum256 [simp]: "length (sha256_Sum256 msg) = sha256_Size"
proof -
  have "length (concat (map sha256_bytes ws)) = 4 * length ws" for ws
    by (induction ws) (simp_all add: sha256_bytes_def)
  then show ?thesis by (simp add: sha256_Sum256_def sha256_H0_def sha256_Size_def)
qed

end
