(* ===== verification/Opaque_Tokens.thy ===== *)
theory Opaque_Tokens
  imports Go_Stdlib Sha256
begin

text \<open>
  The opaque secrets of the protocol: a version prefix followed by the unpadded URL-safe
  base64 of random bytes, stored only as a domain-separated SHA-256 digest. Modelled from
  \<^verbatim>\<open>internal/authorization/authorization.go\<close> (authorization codes and PKCE),
  \<^verbatim>\<open>internal/token/refresh.go\<close> (refresh tokens), \<^verbatim>\<open>internal/token/token.go\<close> (access token
  identifiers), \<^verbatim>\<open>internal/authflow/authflow.go\<close> (transaction tokens) and
  \<^verbatim>\<open>internal/session/token.go\<close> (browser tokens).

  A random source is the string of bytes it will deliver; reading from it returns the
  rest. Two interfaces state what a family of tokens promises: \<open>opaque_token\<close> (generated
  values are accepted, and acceptance pins the random bytes down) and \<open>exact_token\<close>, whose
  length check leaves a single spelling per value.
\<close>

section \<open>Random sources\<close>

text \<open>\<^verbatim>\<open>io.ReadFull\<close>: \<open>None\<close> when the source ends early.\<close>

definition io_ReadFull :: "nat \<Rightarrow> string \<Rightarrow> (string \<times> string) option" where
  "io_ReadFull n source = (if length source < n then None else Some (take n source, drop n source))"

text \<open>
  \<^verbatim>\<open>uuid.NewRandomFromReader\<close> of the uuid package reads 16 bytes; \<open>uuidOf\<close> is what it makes
  of them.
\<close>

definition NewRandomFromReader :: "(string \<Rightarrow> uuid) \<Rightarrow> string \<Rightarrow> (uuid \<times> string) option" where
  "NewRandomFromReader uuidOf source = (case io_ReadFull 16 source of
     None \<Rightarrow> None | Some (raw, rest) \<Rightarrow> Some (uuidOf raw, rest))"

lemma io_ReadFull_Some: "io_ReadFull n s = Some (x, r) \<Longrightarrow> length x = n \<and> s = x @ r"
  by (auto simp: io_ReadFull_def split: if_splits)

section \<open>Authorization codes and PKCE\<close>

definition codePrefix :: string where "codePrefix = ''c1_''"

definition HashCode :: "string \<Rightarrow> string" where
  "HashCode clearCode = sha256_Sum256 (''oneissuer:authorization-code:v1:'' @ clearCode)"

definition newCode :: "string \<Rightarrow> (string \<times> string) option" where
  "newCode source = (case io_ReadFull 32 source of
     None \<Rightarrow> None | Some (raw, rest) \<Rightarrow> Some (codePrefix @ b64_encode raw, rest))"

text \<open>\<open>None\<close> is \<^verbatim>\<open>authorization.ErrNotFound\<close>.\<close>

definition DigestPresentedCode :: "string \<Rightarrow> string option" where
  "DigestPresentedCode clearCode =
     (if length clearCode \<noteq> length codePrefix + 43 \<or> length clearCode < length codePrefix \<or>
         take (length codePrefix) clearCode \<noteq> codePrefix then None
      else case b64_DecodeString (drop (length codePrefix) clearCode) of
        None \<Rightarrow> None
      | Some raw \<Rightarrow> if length raw \<noteq> 32 then None else Some (HashCode clearCode))"

definition isVerifierCharacter :: "char \<Rightarrow> bool" where
  "isVerifierCharacter c = (let n = of_char c :: nat in
     65 \<le> n \<and> n \<le> 90 \<or> 97 \<le> n \<and> n \<le> 122 \<or> 48 \<le> n \<and> n \<le> 57 \<or>
     n = 45 \<or> n = 46 \<or> n = 95 \<or> n = 126)"

definition ValidateVerifier :: "string \<Rightarrow> bool" where
  "ValidateVerifier verifier =
     (if length verifier < 43 \<or> length verifier > 128 then False
      else list_all isVerifierCharacter verifier)"

text \<open>\<open>True\<close> is a nil error.\<close>

definition VerifyS256 :: "string \<Rightarrow> string \<Rightarrow> bool" where
  "VerifyS256 verifier expectedChallenge =
     (if \<not> ValidateVerifier verifier \<or> length expectedChallenge \<noteq> 43 then False
      else b64_encode (sha256_Sum256 verifier) = expectedChallenge)"

section \<open>Refresh tokens\<close>

definition refreshTokenPrefix :: string where "refreshTokenPrefix = ''r1_''"
definition refreshTokenBytes :: nat where "refreshTokenBytes = 32"

definition HashRefreshToken :: "string \<Rightarrow> string" where
  "HashRefreshToken tokenValue = sha256_Sum256 (''oneissuer:refresh-token:v1:'' @ tokenValue)"

definition GenerateRefreshToken :: "string \<Rightarrow> ((string \<times> string) \<times> string) option" where
  "GenerateRefreshToken source = (case io_ReadFull refreshTokenBytes source of
     None \<Rightarrow> None
   | Some (raw, rest) \<Rightarrow>
       let tokenValue = refreshTokenPrefix @ b64_encode raw
       in Some ((tokenValue, HashRefreshToken tokenValue), rest))"

text \<open>\<open>None\<close> is \<^verbatim>\<open>token.ErrInvalidGrant\<close>.\<close>

definition DigestPresentedRefreshToken :: "string \<Rightarrow> string option" where
  "DigestPresentedRefreshToken tokenValue =
     (if length tokenValue \<noteq> length refreshTokenPrefix + 43 \<or> \<not> HasPrefix tokenValue refreshTokenPrefix
      then None
      else case b64_DecodeString (TrimPrefix tokenValue refreshTokenPrefix) of
        None \<Rightarrow> None
      | Some raw \<Rightarrow> if length raw \<noteq> refreshTokenBytes then None else Some (HashRefreshToken tokenValue))"

section \<open>Access token identifiers\<close>

definition jtiPrefix :: string where "jtiPrefix = ''jti_''"

definition HashJTI :: "string \<Rightarrow> string" where
  "HashJTI jti = sha256_Sum256 (''oneissuer:access-token-jti:v1:'' @ jti)"

definition newJTI :: "string \<Rightarrow> (string \<times> string) option" where
  "newJTI source = (case io_ReadFull 16 source of
     None \<Rightarrow> None | Some (raw, rest) \<Rightarrow> Some (jtiPrefix @ b64_encode raw, rest))"

text \<open>The validators without a length check: the decoded value alone is measured.\<close>

definition valid_prefixed :: "string \<Rightarrow> nat \<Rightarrow> string \<Rightarrow> bool" where
  "valid_prefixed prefix n value =
     (if \<not> HasPrefix value prefix then False
      else case b64_DecodeString (TrimPrefix value prefix) of None \<Rightarrow> False | Some raw \<Rightarrow> length raw = n)"

definition validJTI :: "string \<Rightarrow> bool" where
  "validJTI value = valid_prefixed jtiPrefix 16 value"

section \<open>Transaction tokens and browser tokens\<close>

definition authflow_newToken :: "string \<Rightarrow> (string \<times> string) option" where
  "authflow_newToken source = (case io_ReadFull 32 source of
     None \<Rightarrow> None | Some (raw, rest) \<Rightarrow> Some (''t1_'' @ b64_encode raw, rest))"

definition authflow_validToken :: "string \<Rightarrow> bool" where
  "authflow_validToken token = valid_prefixed ''t1_'' 32 token"

definition authflow_HashToken :: "string \<Rightarrow> string" where
  "authflow_HashToken token = sha256_Sum256 (''oneissuer:auth-transaction:v1:'' @ token)"

definition session_newToken :: "string \<Rightarrow> string \<Rightarrow> (string \<times> string) option" where
  "session_newToken prefix source = (case io_ReadFull 32 source of
     None \<Rightarrow> None | Some (raw, rest) \<Rightarrow> Some (prefix @ b64_encode raw, rest))"

definition session_validToken :: "string \<Rightarrow> string \<Rightarrow> bool" where
  "session_validToken value prefix = valid_prefixed prefix 32 value"

definition session_HashToken :: "string \<Rightarrow> string" where
  "session_HashToken token = sha256_Sum256 (''oneissuer:browser-token:v1:'' @ token)"

definition HashCSRF :: "string \<Rightarrow> string" where
  "HashCSRF token = sha256_Sum256 (''oneissuer:csrf:v1:'' @ token)"

definition csrfMatches :: "string \<Rightarrow> string \<Rightarrow> bool" where
  "csrfMatches token expected =
     (if \<not> session_validToken token ''c1_'' \<or> length expected \<noteq> sha256_Size then False
      else HashCSRF token = expected)"

section \<open>The interfaces\<close>

locale opaque_token =
  fixes prefix :: string and size :: nat
    and valid :: "string \<Rightarrow> bool" and fresh :: "string \<Rightarrow> (string \<times> string) option"
  assumes fresh_def: "fresh source =
      (if length source < size then None
       else Some (prefix @ b64_encode (take size source), drop size source))"
    and valid_decodes: "valid t \<Longrightarrow>
      HasPrefix t prefix \<and> (\<exists>raw. b64_DecodeString (TrimPrefix t prefix) = Some raw \<and> length raw = size)"
    and valid_encoding: "length raw = size \<Longrightarrow> valid (prefix @ b64_encode raw)"
begin

lemma fresh_valid: "fresh source = Some (t, rest) \<Longrightarrow> valid t"
  by (auto simp: fresh_def valid_encoding split: if_splits)

text \<open>A generated value determines the random bytes it was made of.\<close>

lemma fresh_injective:
  assumes "fresh s = Some (t, r)" "fresh s' = Some (t, r')"
  shows "take size s = take size s'"
  using assms by (auto simp: fresh_def split: if_splits)

text \<open>Line breaks apart, an accepted value is the encoding of its random bytes.\<close>

lemma valid_spelling:
  assumes "valid t"
  shows "\<exists>raw. length raw = size \<and> filter (\<lambda>c. \<not> is_newline c) (drop (length prefix) t) = b64_encode raw"
  using valid_decodes[OF assms] by (auto simp: TrimPrefix_def b64_DecodeString_iff)

end

locale exact_token = opaque_token +
  assumes valid_length: "valid t \<Longrightarrow> length t = length prefix + (4 * size + 2) div 3"
begin

lemma valid_iff_encoding: "valid t \<longleftrightarrow> (\<exists>raw. length raw = size \<and> t = prefix @ b64_encode raw)"
proof
  assume v: "valid t"
  then obtain raw where p: "take (length prefix) t = prefix" and
    d: "b64_DecodeString (drop (length prefix) t) = Some raw" "length raw = size"
    using valid_decodes[OF v] by (auto simp: TrimPrefix_def HasPrefix_def)
  have "drop (length prefix) t = b64_encode raw"
    using b64_DecodeString_full_length[OF d(1)] valid_length[OF v] d(2) by simp
  then show "\<exists>raw. length raw = size \<and> t = prefix @ b64_encode raw"
    using p d(2) by (metis append_take_drop_id)
qed (auto simp: valid_encoding)

end

lemma HasPrefix_append [simp]: "HasPrefix (p @ s) p"
  by (simp add: HasPrefix_def)

lemma TrimPrefix_append [simp]: "TrimPrefix (p @ s) p = s"
  by (simp add: TrimPrefix_def)

lemma valid_prefixed_decodes:
  "valid_prefixed p n t \<longleftrightarrow>
     HasPrefix t p \<and> (\<exists>raw. b64_DecodeString (TrimPrefix t p) = Some raw \<and> length raw = n)"
  by (auto simp: valid_prefixed_def split: option.splits)

interpretation code: exact_token codePrefix 32 "\<lambda>t. DigestPresentedCode t \<noteq> None" newCode
  by unfold_locales
    (auto simp: newCode_def io_ReadFull_def DigestPresentedCode_def TrimPrefix_def HasPrefix_def
      length_b64_encode split: if_splits option.splits)

interpretation refresh: exact_token refreshTokenPrefix refreshTokenBytes
    "\<lambda>t. DigestPresentedRefreshToken t \<noteq> None" "\<lambda>s. map_option (map_prod fst id) (GenerateRefreshToken s)"
  by unfold_locales
    (auto simp: GenerateRefreshToken_def io_ReadFull_def DigestPresentedRefreshToken_def
      refreshTokenBytes_def length_b64_encode Let_def split: if_splits option.splits)

interpretation jti: opaque_token jtiPrefix 16 validJTI newJTI
  by unfold_locales (auto simp: newJTI_def io_ReadFull_def validJTI_def valid_prefixed_decodes)

interpretation txtoken: opaque_token "''t1_''" 32 authflow_validToken authflow_newToken
  by unfold_locales
    (auto simp: authflow_newToken_def io_ReadFull_def authflow_validToken_def valid_prefixed_decodes
      simp flip: append.simps simp del: append_Cons)

interpretation browser: opaque_token p 32 "\<lambda>t. session_validToken t p" "session_newToken p" for p
  by unfold_locales
    (auto simp: session_newToken_def io_ReadFull_def session_validToken_def valid_prefixed_decodes)


section \<open>Exact grammars\<close>

lemma DigestPresentedRefreshToken_iff:
  "DigestPresentedRefreshToken t = Some h \<longleftrightarrow>
     (\<exists>raw. length raw = 32 \<and> t = ''r1_'' @ b64_encode raw \<and> h = HashRefreshToken t)"
proof -
  have "DigestPresentedRefreshToken t = Some h \<Longrightarrow> h = HashRefreshToken t" for h
    by (auto simp: DigestPresentedRefreshToken_def split: if_splits option.splits)
  then show ?thesis
    using refresh.valid_iff_encoding[of t] unfolding refreshTokenPrefix_def refreshTokenBytes_def
    by (cases "DigestPresentedRefreshToken t") auto
qed

lemma DigestPresentedCode_iff:
  "DigestPresentedCode t = Some h \<longleftrightarrow>
     (\<exists>raw. length raw = 32 \<and> t = ''c1_'' @ b64_encode raw \<and> h = HashCode t)"
proof -
  have "DigestPresentedCode t = Some h \<Longrightarrow> h = HashCode t" for h
    by (auto simp: DigestPresentedCode_def split: if_splits option.splits)
  then show ?thesis
    using code.valid_iff_encoding[of t] unfolding codePrefix_def
    by (cases "DigestPresentedCode t") auto
qed

lemma GenerateRefreshToken_cases:
  "GenerateRefreshToken source =
     (if length source < 32 then None
      else let clear = ''r1_'' @ b64_encode (take 32 source)
           in Some ((clear, HashRefreshToken clear), drop 32 source))"
  by (simp add: GenerateRefreshToken_def io_ReadFull_def refreshTokenBytes_def refreshTokenPrefix_def)

lemma length_HashRefreshToken [simp]: "length (HashRefreshToken t) = 32"
  by (simp add: HashRefreshToken_def sha256_Size_def)

lemma length_HashJTI [simp]: "length (HashJTI t) = 32"
  by (simp add: HashJTI_def sha256_Size_def)

lemma length_HashCode [simp]: "length (HashCode t) = 32"
  by (simp add: HashCode_def sha256_Size_def)

section \<open>Properties\<close>

text \<open>
  C12 (roundtrip). The refresh token grammar is exact: \<^verbatim>\<open>DigestPresentedRefreshToken\<close> accepts
  a string if and only if it is \<^verbatim>\<open>r1_\<close> followed by the encoding of 32 bytes (so there is no
  second spelling of a token, line breaks included) and returns its storage digest; and
  what \<^verbatim>\<open>GenerateRefreshToken\<close> produces from a source of at least 32 bytes is accepted with
  the digest it returned.
\<close>

theorem refresh_token_grammar:
  "(DigestPresentedRefreshToken t = Some h \<longleftrightarrow>
      (\<exists>raw. length raw = 32 \<and> t = ''r1_'' @ b64_encode raw \<and> h = HashRefreshToken t)) \<and>
   (case GenerateRefreshToken source of
      None \<Rightarrow> length source < 32
    | Some ((clear, digest), rest) \<Rightarrow>
        DigestPresentedRefreshToken clear = Some digest \<and> length digest = 32 \<and>
        rest = drop 32 source)"
proof
  show "DigestPresentedRefreshToken t = Some h \<longleftrightarrow>
      (\<exists>raw. length raw = 32 \<and> t = ''r1_'' @ b64_encode raw \<and> h = HashRefreshToken t)"
    by (rule DigestPresentedRefreshToken_iff)
  have "DigestPresentedRefreshToken clear = Some (HashRefreshToken clear)"
    if "length source \<ge> 32" "clear = ''r1_'' @ b64_encode (take 32 source)" for clear
    using that by (subst DigestPresentedRefreshToken_iff) (metis length_take min.absorb2)
  then show "case GenerateRefreshToken source of
      None \<Rightarrow> length source < 32
    | Some ((clear, digest), rest) \<Rightarrow>
        DigestPresentedRefreshToken clear = Some digest \<and> length digest = 32 \<and> rest = drop 32 source"
    unfolding GenerateRefreshToken_cases Let_def by simp
qed

text \<open>
  C13 (roundtrip). The same exactness for authorization codes: the digest function accepts
  precisely \<^verbatim>\<open>c1_\<close> followed by the encoding of 32 bytes, and a freshly generated code is
  accepted. No string is accepted both as a code and as a refresh token.
\<close>

theorem authorization_code_grammar:
  "(DigestPresentedCode t = Some h \<longleftrightarrow>
      (\<exists>raw. length raw = 32 \<and> t = ''c1_'' @ b64_encode raw \<and> h = HashCode t)) \<and>
   (case newCode source of
      None \<Rightarrow> length source < 32
    | Some (clear, rest) \<Rightarrow> DigestPresentedCode clear = Some (HashCode clear) \<and> rest = drop 32 source) \<and>
   (DigestPresentedCode t = None \<or> DigestPresentedRefreshToken t = None)"
proof (intro conjI)
  show "DigestPresentedCode t = Some h \<longleftrightarrow>
      (\<exists>raw. length raw = 32 \<and> t = ''c1_'' @ b64_encode raw \<and> h = HashCode t)"
    by (rule DigestPresentedCode_iff)
  have "DigestPresentedCode clear = Some (HashCode clear)"
    if "length source \<ge> 32" "clear = ''c1_'' @ b64_encode (take 32 source)" for clear
    using that by (subst DigestPresentedCode_iff) (metis length_take min.absorb2)
  then show "case newCode source of
      None \<Rightarrow> length source < 32
    | Some (clear, rest) \<Rightarrow> DigestPresentedCode clear = Some (HashCode clear) \<and> rest = drop 32 source"
    unfolding code.fresh_def codePrefix_def by simp
  show "DigestPresentedCode t = None \<or> DigestPresentedRefreshToken t = None"
    using DigestPresentedCode_iff[of t] DigestPresentedRefreshToken_iff[of t]
    by (cases "DigestPresentedCode t"; cases "DigestPresentedRefreshToken t") auto
qed

lemma VerifyS256_challenge: "ValidateVerifier v \<Longrightarrow> VerifyS256 v (b64_encode (sha256_Sum256 v))"
  by (auto simp: VerifyS256_def length_b64_encode sha256_Size_def)


end
