(* ===== verification/Scopes.thy ===== *)
theory Scopes
  imports Go_Stdlib
begin

text \<open>
  The scope algebra of \<^verbatim>\<open>internal/consent/consent.go\<close>: validation into the canonical
  sorted form, union, intersection and difference of scope lists, and the subset test.
  A Go \<^verbatim>\<open>map[string]bool\<close> used as a set is the list of its keys; ranging over it in any
  order and sorting is \<^const>\<open>sort\<close> of the distinct keys. The interface \<open>scope_algebra\<close>
  states what the token and authorization components rely on and derives their
  narrowing lemmas from it once.
\<close>

section \<open>Operations\<close>

definition scope_supported :: "string \<Rightarrow> bool" where
  "scope_supported scope \<longleftrightarrow>
     scope = ''openid'' \<or> scope = ''profile'' \<or> scope = ''email'' \<or> scope = ''offline_access''"

definition scopes_contains :: "string list \<Rightarrow> string \<Rightarrow> bool" where
  "scopes_contains scopes target =
     (let index = sort_SearchStrings scopes target in
      index < length scopes \<and> scopes ! index = target)"

definition sortedSet :: "string list \<Rightarrow> string list" where
  "sortedSet keys = sort (remdups keys)"

text \<open>\<open>None\<close> is \<^verbatim>\<open>consent.ErrInvalid\<close>.\<close>

definition CanonicalScopes :: "string list \<Rightarrow> string list option" where
  "CanonicalScopes scopes =
     (if length scopes < 1 \<or> length scopes > 4 then None
      else if \<not> list_all scope_supported scopes then None
      else let result = sort scopes in
        if \<not> distinct_adj result then None
        else if \<not> scopes_contains result ''openid'' then None
        else Some result)"

definition Union :: "string list \<Rightarrow> string list \<Rightarrow> string list" where
  "Union left right = sortedSet (filter scope_supported left @ filter scope_supported right)"

definition Intersection :: "string list \<Rightarrow> string list \<Rightarrow> string list" where
  "Intersection left right = sortedSet (filter (\<lambda>s. scope_supported s \<and> s \<in> set right) left)"

definition Difference :: "string list \<Rightarrow> string list \<Rightarrow> string list" where
  "Difference left right = sortedSet (filter (\<lambda>s. scope_supported s \<and> s \<notin> set right) left)"

text \<open>\<^verbatim>\<open>consent.subset\<close>, and its copies \<^verbatim>\<open>scopeSubset\<close> in the token packages.\<close>

definition scope_subset :: "string list \<Rightarrow> string list \<Rightarrow> bool" where
  "scope_subset values allowed = list_all (\<lambda>v. v \<in> set allowed) values"

section \<open>Canonical lists\<close>

text \<open>The well-formedness the database constraint and every caller rely on.\<close>

definition canonical_scopes :: "string list \<Rightarrow> bool" where
  "canonical_scopes s \<longleftrightarrow> sorted s \<and> distinct s \<and> list_all scope_supported s \<and> ''openid'' \<in> set s"

lemma supported_scopes_set:
  "{s. scope_supported s} = {''openid'', ''profile'', ''email'', ''offline_access''}"
  by (auto simp: scope_supported_def)

lemma canonical_scopes_length:
  assumes "canonical_scopes s"
  shows "1 \<le> length s" "length s \<le> 4"
proof -
  have "set s \<subseteq> {''openid'', ''profile'', ''email'', ''offline_access''}"
    using assms by (auto simp: canonical_scopes_def list_all_iff scope_supported_def)
  then have "card (set s) \<le> card {''openid'', ''profile'', ''email'', ''offline_access''}"
    by (rule card_mono[rotated]) simp
  then show "length s \<le> 4" using assms by (simp add: canonical_scopes_def distinct_card)
  show "1 \<le> length s" using assms by (cases s) (simp_all add: canonical_scopes_def)
qed

lemma CanonicalScopes_Some_iff:
  "CanonicalScopes s = Some r \<longleftrightarrow>
     list_all scope_supported s \<and> distinct s \<and> ''openid'' \<in> set s \<and> r = sort s"
proof -
  have contains: "scopes_contains (sort s) x \<longleftrightarrow> x \<in> set s" for x
    using sort_SearchStrings_member[of "sort s" x] by (simp add: scopes_contains_def Let_def)
  have "list_all scope_supported s \<Longrightarrow> distinct s \<Longrightarrow> ''openid'' \<in> set s \<Longrightarrow> 1 \<le> length s \<and> length s \<le> 4"
    using canonical_scopes_length[of "sort s"] by (simp add: canonical_scopes_def list_all_iff)
  then show ?thesis
    by (auto simp: CanonicalScopes_def Let_def contains sorted_distinct_adj)
qed

lemma CanonicalScopes_canonical:
  "CanonicalScopes s = Some r \<Longrightarrow> canonical_scopes r \<and> set r = set s"
  by (auto simp: CanonicalScopes_Some_iff canonical_scopes_def list_all_iff)

lemma CanonicalScopes_fixed: "canonical_scopes s \<Longrightarrow> CanonicalScopes s = Some s"
  by (simp add: CanonicalScopes_Some_iff canonical_scopes_def sorted_sort_id)

section \<open>The interface\<close>

text \<open>
  A scope algebra over a vocabulary \<open>ok\<close>: three operations that compute the set operations
  on the supported part of their arguments and return canonical listings.
\<close>

locale scope_algebra =
  fixes ok :: "'s::linorder \<Rightarrow> bool"
    and join meet minus :: "'s list \<Rightarrow> 's list \<Rightarrow> 's list"
  assumes set_join: "set (join a b) = {s \<in> set a \<union> set b. ok s}"
    and set_meet: "set (meet a b) = {s \<in> set a \<inter> set b. ok s}"
    and set_minus: "set (minus a b) = {s \<in> set a - set b. ok s}"
    and listing: "sorted (join a b)" "distinct (join a b)" "sorted (meet a b)"
      "distinct (meet a b)" "sorted (minus a b)" "distinct (minus a b)"
begin

lemma meet_commute: "meet a b = meet b a"
  by (rule sorted_distinct_set_unique) (auto simp: listing set_meet)

lemma meet_assoc: "meet (meet a b) c = meet a (meet b c)"
  by (rule sorted_distinct_set_unique) (auto simp: listing set_meet)

lemma join_commute: "join a b = join b a"
  by (rule sorted_distinct_set_unique) (auto simp: listing set_join)

lemma join_idem: "join (join a b) b = join a b"
  by (rule sorted_distinct_set_unique) (auto simp: listing set_join)

text \<open>Splitting a request by an authority loses nothing and duplicates nothing.\<close>

lemma split_by: "join (meet a b) (minus a b) = join a []"
  by (rule sorted_distinct_set_unique) (auto simp: listing set_join set_meet set_minus)

text \<open>An empty difference is the coverage test of the callers.\<close>

lemma minus_empty_iff: "minus a b = [] \<longleftrightarrow> {s \<in> set a. ok s} \<subseteq> set b"
proof -
  have "minus a b = [] \<longleftrightarrow> set (minus a b) = {}" by simp
  then show ?thesis by (auto simp: set_minus)
qed

lemma minus_empty_covers: "list_all ok a \<Longrightarrow> minus a b = [] \<longleftrightarrow> set a \<subseteq> set b"
  by (auto simp: minus_empty_iff list_all_iff)

end

interpretation scope: scope_algebra scope_supported Union Intersection Difference
  by unfold_locales (auto simp: Union_def Intersection_def Difference_def sortedSet_def)

lemmas scope_sets = scope.set_join scope.set_meet scope.set_minus
lemmas scope_listing = scope.listing

lemma canonical_Union:
  assumes "canonical_scopes a" "canonical_scopes b"
  shows "canonical_scopes (Union a b)" "set (Union a b) = set a \<union> set b"
  using assms by (auto simp: canonical_scopes_def scope_sets scope_listing list_all_iff)

lemma canonical_Intersection:
  assumes "canonical_scopes a" "''openid'' \<in> set b"
  shows "canonical_scopes (Intersection a b)" "set (Intersection a b) = set a \<inter> set b"
  using assms by (auto simp: canonical_scopes_def scope_sets scope_listing list_all_iff)

lemma scope_subset_iff: "scope_subset a b \<longleftrightarrow> set a \<subseteq> set b"
  by (auto simp: scope_subset_def list_all_iff)

section \<open>Properties\<close>

text \<open>
  C10 (equivalence). \<^verbatim>\<open>CanonicalScopes\<close> accepts exactly the duplicate-free lists of supported
  scopes that contain \<^verbatim>\<open>openid\<close> and returns them sorted: the length window 1 to 4, the
  adjacent-duplicate scan and the binary search of the source decide just that set.
\<close>

theorem CanonicalScopes_reference:
  "CanonicalScopes s =
     (if list_all scope_supported s \<and> distinct s \<and> ''openid'' \<in> set s then Some (sort s) else None)"
  using CanonicalScopes_Some_iff[of s] by (cases "CanonicalScopes s") auto

text \<open>
  C11 (refinement). On canonical scope lists \<^verbatim>\<open>Union\<close>, \<^verbatim>\<open>Intersection\<close> and \<^verbatim>\<open>Difference\<close>
  implement union, intersection and difference of the scope sets; the results are listed
  in the canonical order, union and intersection are again canonical, an empty difference
  is coverage, and splitting a request by a grant loses no scope.
\<close>

theorem scope_algebra_refines_sets:
  assumes "canonical_scopes a" "canonical_scopes b"
  shows "canonical_scopes (Union a b) \<and> set (Union a b) = set a \<union> set b \<and>
    canonical_scopes (Intersection a b) \<and> set (Intersection a b) = set a \<inter> set b \<and>
    sorted (Difference a b) \<and> distinct (Difference a b) \<and> set (Difference a b) = set a - set b \<and>
    (Difference a b = [] \<longleftrightarrow> scope_subset a b) \<and>
    Union (Intersection a b) (Difference a b) = a"
proof -
  have "openid": "''openid'' \<in> set b" and ok: "list_all scope_supported a"
    using assms by (simp_all add: canonical_scopes_def)
  have "Union a [] = a"
    using assms(1) by (intro sorted_distinct_set_unique)
      (auto simp: scope_listing scope_sets canonical_scopes_def list_all_iff)
  then show ?thesis
    using canonical_Union[OF assms] canonical_Intersection[OF assms(1) "openid"] ok
    by (auto simp: scope_listing scope_sets scope.minus_empty_covers scope_subset_iff
        scope.split_by list_all_iff)
qed

theorem scope_algebra_refines_sets_witness:
  "canonical_scopes [''email'', ''openid''] \<and> canonical_scopes [''openid'', ''profile''] \<and>
   set (Difference [''email'', ''openid''] [''openid'', ''profile'']) = {''email''} \<and>
   Union (Intersection [''email'', ''openid''] [''openid'', ''profile''])
     (Difference [''email'', ''openid''] [''openid'', ''profile'']) = [''email'', ''openid'']"
proof -
  have c: "canonical_scopes [''email'', ''openid'']" "canonical_scopes [''openid'', ''profile'']"
    by (simp_all add: canonical_scopes_def scope_supported_def)
  show ?thesis using c scope_algebra_refines_sets[OF c] by auto
qed

end
