(* ===== verification/Transaction.thy ===== *)
theory Transaction
  imports Prelude
begin

text \<open>
  The failure model and the transaction boundary of \<^verbatim>\<open>internal/storage/postgres\<close>:
  \<^verbatim>\<open>errors.go\<close> (driver failures and their stable classification) and \<^verbatim>\<open>inTx\<close> of
  \<^verbatim>\<open>domain_helpers.go\<close> (one transaction, at most one retry, an ambiguous commit is never
  retried).

  A transaction body is a function of a state holding the database as the transaction
  sees it, the faults the database will inject into its statements (one entry per
  statement, \<open>None\<close> for a statement that is executed) and the supply of the random
  identifiers \<^verbatim>\<open>uuid.New\<close> draws for audit events. It either fails with an error or returns
  a value and the new state; the commit replaces the database, a failure leaves it alone.
\<close>

named_theorems tx_simps \<open>evaluation of transaction bodies\<close>

section \<open>Errors\<close>

text \<open>
  What the driver can report: a server error with its SQLSTATE, a cancelled or expired
  context, a network error, or anything else.
\<close>

datatype pg_error = PgError string | ContextCanceled | DeadlineExceeded | NetError | OtherError string

datatype ErrorKind =
    ErrorKindCanceled | ErrorKindConfig | ErrorKindAuth | ErrorKindUnavailable | ErrorKindQuery
  | ErrorKindUnknown

text \<open>
  Every error value of the modelled packages: the sentinels of each package, the wrapped
  driver error \<^verbatim>\<open>postgres.Error\<close>, \<^verbatim>\<open>auditAppendError\<close>, and \<^verbatim>\<open>errors.New\<close> texts.
\<close>

datatype go_error =
    Token_ErrInvalid | Token_ErrInvalidGrant | Token_ErrInvalidToken | Token_ErrInvalidScope
  | Consent_ErrInvalid | Consent_ErrNotFound
  | Authorization_ErrInvalid | Authorization_ErrNotFound | Authorization_ErrExpired
  | Authorization_ErrConsumed | Authorization_ErrConsentRequired | Authorization_ErrInactive
  | Authflow_ErrInvalid | Authflow_ErrNotFound | Authflow_ErrExpired | Authflow_ErrConsumed
  | Client_ErrInvalid | Client_ErrNotFound | Client_ErrConflict | Client_ErrPublicSecret
  | Session_ErrUnauthenticated | Session_ErrInvalidCSRF | Session_ErrNotFound | Session_ErrConsumed
  | Logout_ErrInvalid | Logout_ErrNotFound | Logout_ErrCapacity | Logout_ErrCSRF
  | Pagination_ErrInvalidCursor | Audit_ErrInvalidEvent
  | Postgres_Error string ErrorKind pg_error
  | Audit_AppendError string go_error
  | Errors_New string

definition classify :: "pg_error \<Rightarrow> ErrorKind \<Rightarrow> ErrorKind" where
  "classify err fallback = (case err of
     ContextCanceled \<Rightarrow> ErrorKindCanceled
   | DeadlineExceeded \<Rightarrow> ErrorKindCanceled
   | PgError code \<Rightarrow>
       if length code \<ge> 2 \<and> take 2 code = ''28'' then ErrorKindAuth
       else if code \<in> set [''57P01'', ''57P02'', ''57P03'', ''08000'', ''08001'', ''08003'',
                           ''08004'', ''08006'', ''08007'', ''08P01''] then ErrorKindUnavailable
       else fallback
   | NetError \<Rightarrow> ErrorKindUnavailable
   | OtherError _ \<Rightarrow> fallback)"

definition wrapError :: "string \<Rightarrow> ErrorKind \<Rightarrow> pg_error \<Rightarrow> go_error" where
  "wrapError operation fallback err = Postgres_Error operation (classify err fallback) err"

text \<open>The driver error an error wraps, as \<^verbatim>\<open>errors.Is\<close> and \<^verbatim>\<open>errors.As\<close> unwrap it.\<close>

fun error_cause :: "go_error \<Rightarrow> pg_error option" where
  "error_cause (Postgres_Error _ _ cause) = Some cause"
| "error_cause (Audit_AppendError _ err) = error_cause err"
| "error_cause _ = None"

definition isRetryableTransactionError :: "go_error \<Rightarrow> bool" where
  "isRetryableTransactionError err =
     (case error_cause err of Some (PgError code) \<Rightarrow> code = ''40001'' \<or> code = ''40P01'' | _ \<Rightarrow> False)"

text \<open>\<^verbatim>\<open>errors.Is(err, target)\<close> for a sentinel target.\<close>

fun errors_Is :: "go_error \<Rightarrow> go_error \<Rightarrow> bool" where
  "errors_Is (Audit_AppendError ev err) target \<longleftrightarrow>
     Audit_AppendError ev err = target \<or> errors_Is err target"
| "errors_Is err target \<longleftrightarrow> err = target"

section \<open>Transaction bodies\<close>

record 'db txst =
  st_db :: 'db
  st_faults :: "pg_error option list"
  st_ids :: "nat \<Rightarrow> uuid"
  st_drawn :: nat

type_synonym ('db, 'a) tx = "'db txst \<Rightarrow> go_error + 'a \<times> 'db txst"

definition treturn :: "'a \<Rightarrow> ('db, 'a) tx" where
  "treturn x st = Inr (x, st)"

definition tfail :: "go_error \<Rightarrow> ('db, 'a) tx" where
  "tfail e st = Inl e"

definition tbind :: "('db, 'a) tx \<Rightarrow> ('a \<Rightarrow> ('db, 'b) tx) \<Rightarrow> ('db, 'b) tx" where
  "tbind m f st = (case m st of Inl e \<Rightarrow> Inl e | Inr (x, st') \<Rightarrow> f x st')"

text \<open>A caller that translates the error of a step before it returns it.\<close>

definition tmap_error :: "(go_error \<Rightarrow> go_error) \<Rightarrow> ('db, 'a) tx \<Rightarrow> ('db, 'a) tx" where
  "tmap_error f m st = (case m st of Inl e \<Rightarrow> Inl (f e) | Inr r \<Rightarrow> Inr r)"

text \<open>\<^verbatim>\<open>uuid.New()\<close>.\<close>

definition uuid_New :: "('db, uuid) tx" where
  "uuid_New st = Inr (st_ids st (st_drawn st), st\<lparr>st_drawn := Suc (st_drawn st)\<rparr>)"

text \<open>
  One statement: the database may inject a fault; otherwise the statement is executed and
  may itself be refused, for example by a constraint. \<open>wrap\<close> is what the caller makes of
  the driver error.
\<close>

definition run_statement ::
  "(pg_error \<Rightarrow> go_error) \<Rightarrow> ('db \<Rightarrow> pg_error + 'a \<times> 'db) \<Rightarrow> ('db, 'a) tx" where
  "run_statement wrap stmt st =
     (case st_faults st of
        Some e # fs \<Rightarrow> Inl (wrap e)
      | _ \<Rightarrow>
        (case stmt (st_db st) of
           Inl e \<Rightarrow> Inl (wrap e)
         | Inr (x, d) \<Rightarrow> Inr (x, st\<lparr>st_db := d, st_faults := drop 1 (st_faults st)\<rparr>)))"

definition exec_query :: "string \<Rightarrow> ('db \<Rightarrow> pg_error + 'a \<times> 'db) \<Rightarrow> ('db, 'a) tx" where
  "exec_query op = run_statement (wrapError op ErrorKindQuery)"

definition read_query :: "string \<Rightarrow> ('db \<Rightarrow> 'a) \<Rightarrow> ('db, 'a) tx" where
  "read_query op q = exec_query op (\<lambda>d. Inr (q d, d))"

text \<open>
  A read on the pool, outside every transaction: it sees whatever was committed when it
  ran (\<open>view\<close>), which need not be what a later transaction sees.
\<close>

definition pool_read :: "'db \<times> pg_error option \<Rightarrow> string \<Rightarrow> ('db \<Rightarrow> 'a) \<Rightarrow> go_error + 'a" where
  "pool_read view op q = (case view of
     (d, Some e) \<Rightarrow> Inl (wrapError op ErrorKindQuery e)
   | (d, None) \<Rightarrow> Inr (q d))"

lemma pool_read_Inr: "pool_read view op q = Inr x \<longleftrightarrow> snd view = None \<and> x = q (fst view)"
  by (cases view) (auto simp: pool_read_def split: option.split)

text \<open>A \<^verbatim>\<open>:one\<close> statement whose missing row the caller does not treat specially.\<close>

definition no_rows :: "string \<Rightarrow> go_error" where
  "no_rows operation = wrapError operation ErrorKindQuery (OtherError ''no rows in result set'')"

section \<open>The transaction runner\<close>

text \<open>
  A commit is acknowledged, or its acknowledgement is lost; in the second case the flag
  says whether the server had applied it.
\<close>

datatype commit_outcome = Committed | Commit_error pg_error bool

text \<open>
  A statement on the pool is a transaction of its own: it is executed and acknowledged, or
  it fails, and then the flag says whether the server had applied it.
\<close>

definition pool_exec ::
  "commit_outcome \<Rightarrow> string \<Rightarrow> ('db \<Rightarrow> pg_error + 'a \<times> 'db) \<Rightarrow> 'db \<Rightarrow> (go_error + 'a) \<times> 'db" where
  "pool_exec outcome operation statement d =
     (case statement d of
        Inl e \<Rightarrow> (Inl (wrapError operation ErrorKindQuery e), d)
      | Inr (x, d') \<Rightarrow>
        (case outcome of
           Committed \<Rightarrow> (Inr x, d')
         | Commit_error e applied \<Rightarrow> (Inl (wrapError operation ErrorKindQuery e), if applied then d' else d)))"

lemma pool_exec_Inr: "pool_exec outcome op statement d = (Inr x, d') \<Longrightarrow> statement d = Inr (x, d')"
  by (auto simp: pool_exec_def split: sum.splits commit_outcome.splits)

lemma pool_exec_effect:
  "pool_exec outcome op statement d = (r, d') \<Longrightarrow> d' = d \<or> (\<exists>x. statement d = Inr (x, d'))"
  by (auto simp: pool_exec_def split: sum.splits commit_outcome.splits if_splits)

record attempt =
  at_begin :: "pg_error option"
  at_faults :: "pg_error option list"
  at_ids :: "nat \<Rightarrow> uuid"
  at_commit :: commit_outcome

definition start_tx :: "attempt \<Rightarrow> 'db \<Rightarrow> 'db txst" where
  "start_tx a d = \<lparr>st_db = d, st_faults = at_faults a, st_ids = at_ids a, st_drawn = 0\<rparr>"

definition maxTransactionAttempts :: nat where "maxTransactionAttempts = 2"

text \<open>
  The loop of \<^verbatim>\<open>inTx\<close>. The closure variables a body sets (response, audit events,
  counters) are its result; \<^verbatim>\<open>reset\<close> is that a failed attempt returns none of them.
\<close>

fun inTx_loop :: "nat \<Rightarrow> nat \<Rightarrow> (nat \<Rightarrow> attempt) \<Rightarrow> (nat \<Rightarrow> ('db, 'a) tx) \<Rightarrow> 'db \<Rightarrow> (go_error + 'a) \<times> 'db"
where
  "inTx_loop 0 n env operation d =
     (Inl (wrapError ''transaction retry exhausted'' ErrorKindQuery
             (OtherError ''transaction retry exhausted'')), d)"
| "inTx_loop (Suc left) n env operation d =
     (case at_begin (env n) of
        Some e \<Rightarrow> (Inl (wrapError ''begin transaction'' ErrorKindQuery e), d)
      | None \<Rightarrow>
        (case operation n (start_tx (env n) d) of
           Inl operationErr \<Rightarrow>
             if n = 0 \<and> isRetryableTransactionError operationErr
             then inTx_loop left (Suc n) env operation d
             else (Inl operationErr, d)
         | Inr (x, st) \<Rightarrow>
             (case at_commit (env n) of
                Committed \<Rightarrow> (Inr x, st_db st)
              | Commit_error e applied \<Rightarrow>
                  (Inl (wrapError ''commit transaction'' ErrorKindQuery e),
                   if applied then st_db st else d))))"

definition inTx :: "(nat \<Rightarrow> attempt) \<Rightarrow> (nat \<Rightarrow> ('db, 'a) tx) \<Rightarrow> 'db \<Rightarrow> (go_error + 'a) \<times> 'db" where
  "inTx env operation d = inTx_loop maxTransactionAttempts 0 env operation d"

text \<open>An undisturbed attempt, for evaluating an operation on a concrete database.\<close>

definition quiet :: "(nat \<Rightarrow> uuid) \<Rightarrow> nat \<Rightarrow> attempt" where
  "quiet ids n = \<lparr>at_begin = None, at_faults = [], at_ids = ids, at_commit = Committed\<rparr>"

section \<open>Reasoning about bodies\<close>

lemma treturn_Inr [tx_simps]: "treturn x st = Inr r \<longleftrightarrow> r = (x, st)"
  by (auto simp: treturn_def)

lemma tfail_Inr [tx_simps]: "tfail e st = Inr r \<longleftrightarrow> False"
  by (simp add: tfail_def)

lemma tbind_Inr [tx_simps]:
  "tbind m f st = Inr r \<longleftrightarrow> (\<exists>x st'. m st = Inr (x, st') \<and> f x st' = Inr r)"
  by (auto simp: tbind_def split: sum.split)

lemma tbind_Inl [tx_simps]:
  "tbind m f st = Inl e \<longleftrightarrow> m st = Inl e \<or> (\<exists>x st'. m st = Inr (x, st') \<and> f x st' = Inl e)"
  by (auto simp: tbind_def split: sum.split)

lemma run_statement_Inr [tx_simps]:
  "run_statement wrap stmt st = Inr (x, st') \<longleftrightarrow>
     (st_faults st = [] \<or> hd (st_faults st) = None) \<and>
     (\<exists>d. stmt (st_db st) = Inr (x, d) \<and> st' = st\<lparr>st_db := d, st_faults := drop 1 (st_faults st)\<rparr>)"
  by (cases "st_faults st") (auto simp: run_statement_def split: sum.split option.split)

text \<open>
  The database-level view of a body: \<open>tx_run m d x d'\<close> says that some run of \<open>m\<close> from the
  database \<open>d\<close> succeeds with the value \<open>x\<close> and leaves \<open>d'\<close>. Faults can only prevent success,
  so they do not appear. The elimination rules invert a successful run step by step.
\<close>

definition tx_run :: "('db, 'a) tx \<Rightarrow> 'db \<Rightarrow> 'a \<Rightarrow> 'db \<Rightarrow> bool" where
  "tx_run m d x d' \<longleftrightarrow> (\<exists>st st'. m st = Inr (x, st') \<and> st_db st = d \<and> st_db st' = d')"

lemma tx_runI: "m st = Inr (x, st') \<Longrightarrow> tx_run m (st_db st) x (st_db st')"
  by (auto simp: tx_run_def)

lemma tx_run_return [elim!]: "tx_run (treturn x) d y d' \<Longrightarrow> (y = x \<Longrightarrow> d' = d \<Longrightarrow> R) \<Longrightarrow> R"
  by (auto simp: tx_run_def tx_simps)

lemma tx_run_fail [elim!]: "tx_run (tfail e) d y d' \<Longrightarrow> R"
  by (auto simp: tx_run_def tx_simps)

lemma tx_run_bind [elim!]:
  assumes "tx_run (tbind m f) d y d''"
  obtains x d' where "tx_run m d x d'" "tx_run (f x) d' y d''"
  using assms unfolding tx_run_def tx_simps by blast

lemma tmap_error_Inr [tx_simps]: "tmap_error f m st = Inr r \<longleftrightarrow> m st = Inr r"
  by (simp add: tmap_error_def split: sum.split)

lemma tx_run_map_error [elim!]: "tx_run (tmap_error f m) d x d' \<Longrightarrow> (tx_run m d x d' \<Longrightarrow> R) \<Longrightarrow> R"
  by (simp add: tx_run_def tx_simps)

lemma tx_run_uuid_New [elim!]: "tx_run uuid_New d x d' \<Longrightarrow> (d' = d \<Longrightarrow> R) \<Longrightarrow> R"
  by (auto simp: tx_run_def uuid_New_def)

lemma tx_run_statement [elim!]: "tx_run (run_statement w s) d x d' \<Longrightarrow> (s d = Inr (x, d') \<Longrightarrow> R) \<Longrightarrow> R"
  by (auto simp: tx_run_def tx_simps)

lemma tx_run_exec_query [elim!]: "tx_run (exec_query op s) d x d' \<Longrightarrow> (s d = Inr (x, d') \<Longrightarrow> R) \<Longrightarrow> R"
  by (auto simp: exec_query_def)

lemma tx_run_read_query [elim!]: "tx_run (read_query op q) d x d' \<Longrightarrow> (x = q d \<Longrightarrow> d' = d \<Longrightarrow> R) \<Longrightarrow> R"
  by (auto simp: read_query_def)

lemma tx_run_if [elim!]:
  assumes "tx_run (if b then m else n) d x d'"
  obtains "b" "tx_run m d x d'" | "\<not> b" "tx_run n d x d'"
  using assms by (cases b) auto

lemma tx_run_case_option [elim!]:
  assumes "tx_run (case y of None \<Rightarrow> m | Some z \<Rightarrow> n z) d x d'"
  obtains "y = None" "tx_run m d x d'" | z where "y = Some z" "tx_run (n z) d x d'"
  using assms by (cases y) auto

lemma tx_run_case_sum [elim!]:
  assumes "tx_run (case y of Inl e \<Rightarrow> m e | Inr z \<Rightarrow> n z) d x d'"
  obtains e where "y = Inl e" "tx_run (m e) d x d'" | z where "y = Inr z" "tx_run (n z) d x d'"
  using assms by (cases y) auto

text \<open>The inversion of a whole body: \<^verbatim>\<open>elim tx_elims\<close> leaves the statements it executed.\<close>

lemmas tx_elims = tx_run_return tx_run_fail tx_run_bind tx_run_map_error tx_run_uuid_New tx_run_exec_query tx_run_read_query
  tx_run_if tx_run_case_option tx_run_case_sum

section \<open>Reasoning about the runner\<close>

text \<open>
  The outcomes of \<^verbatim>\<open>inTx\<close>: a success is a committed run of the body on the database the
  call started from; an error leaves the database alone, except for a commit whose
  acknowledgement was lost.
\<close>

lemma inTx_cases:
  assumes "inTx env operation d = (r, d')"
  obtains (committed) n x st where "n < 2" "operation n (start_tx (env n) d) = Inr (x, st)"
      "at_commit (env n) = Committed" "r = Inr x" "d' = st_db st"
    | (ambiguous) n x st e where "n < 2" "operation n (start_tx (env n) d) = Inr (x, st)"
      "at_commit (env n) = Commit_error e True"
      "r = Inl (wrapError ''commit transaction'' ErrorKindQuery e)" "d' = st_db st"
    | (failed) e where "r = Inl e" "d' = d"
  using assms unfolding inTx_def maxTransactionAttempts_def numeral_2_eq_2 inTx_loop.simps
  by (auto split: option.splits sum.splits commit_outcome.splits if_splits prod.splits) blast+

lemma inTx_committed:
  assumes "inTx env operation d = (Inr x, d')"
  obtains n where "n < 2" "tx_run (operation n) d x d'"
proof (rule inTx_cases[OF assms])
  fix n y st
  assume a: "n < 2" "operation n (start_tx (env n) d) = Inr (y, st)" "Inr x = Inr y" "d' = st_db st"
  then have "tx_run (operation n) d x d'" using tx_runI[of "operation n", OF a(2)] by (simp add: start_tx_def)
  then show thesis using that a(1) by blast
qed auto

text \<open>Whatever the outcome, the new database is the old one or that of a successful run.\<close>

lemma inTx_effect:
  assumes "inTx env operation d = (r, d')"
  shows "d' = d \<or> (\<exists>n x. tx_run (operation n) d x d')"
proof (rule inTx_cases[OF assms])
  fix n y st assume a: "operation n (start_tx (env n) d) = Inr (y, st)" "d' = st_db st"
  then show ?thesis using tx_runI[of "operation n", OF a(1)] by (auto simp: start_tx_def)
next
  fix n y st assume a: "operation n (start_tx (env n) d) = Inr (y, st)" "d' = st_db st"
  then show ?thesis using tx_runI[of "operation n", OF a(1)] by (auto simp: start_tx_def)
qed auto

lemma inTx_preserves:
  assumes "\<And>n x d'. tx_run (operation n) d x d' \<Longrightarrow> I d'" "I d" "inTx env operation d = (r, d')"
  shows "I d'"
  using inTx_effect[OF assms(3)] assms(1,2) by auto

text \<open>A body that cannot succeed changes nothing.\<close>

lemma inTx_never:
  assumes "\<And>n x d'. \<not> tx_run (operation n) d x d'"
  shows "\<exists>err. inTx env operation d = (Inl err, d)"
proof -
  obtain r d' where run: "inTx env operation d = (r, d')" by fastforce
  have "d' = d" using inTx_effect[OF run] assms by blast
  moreover obtain err where "r = Inl err" using run assms by (cases r) (auto elim: inTx_committed)
  ultimately show ?thesis using run by blast
qed

section \<open>Evaluating a body\<close>

lemmas tx_eval = tbind_def treturn_def tfail_def uuid_New_def run_statement_def exec_query_def
  read_query_def start_tx_def quiet_def

lemma run_statement_ok:
  "st_faults st = [] \<Longrightarrow> stmt (st_db st) = Inr (x, d) \<Longrightarrow>
   run_statement wrap stmt st = Inr (x, st\<lparr>st_db := d\<rparr>)"
  by (cases st) (simp add: run_statement_def)

lemma exec_query_ok:
  "st_faults st = [] \<Longrightarrow> stmt (st_db st) = Inr (x, d) \<Longrightarrow> exec_query op stmt st = Inr (x, st\<lparr>st_db := d\<rparr>)"
  by (simp add: exec_query_def run_statement_ok)

lemma read_query_ok: "st_faults st = [] \<Longrightarrow> read_query op q st = Inr (q (st_db st), st)"
  by (simp add: read_query_def exec_query_ok)

lemma tbind_exec_ok:
  "st_faults st = [] \<Longrightarrow> stmt (st_db st) = Inr (x, d) \<Longrightarrow> tbind (exec_query op stmt) f st = f x (st\<lparr>st_db := d\<rparr>)"
  by (simp add: tbind_def exec_query_ok)

lemma tbind_treturn: "tbind (treturn x) f = f x"
  by (simp add: tbind_def treturn_def fun_eq_iff)

lemma tbind_ok: "m st = Inr (x, st') \<Longrightarrow> tbind m f st = f x st'"
  by (simp add: tbind_def)

text \<open>An attempt whose transaction begins, runs without faults and is committed.\<close>

definition clean_attempt :: "attempt \<Rightarrow> bool" where
  "clean_attempt a \<longleftrightarrow> at_begin a = None \<and> at_faults a = [] \<and> at_commit a = Committed"

lemma inTx_clean:
  assumes "clean_attempt (env 0)" "operation 0 (start_tx (env 0) d) = Inr (x, st)"
  shows "inTx env operation d = (Inr x, st_db st)"
  using assms by (simp add: inTx_def maxTransactionAttempts_def numeral_2_eq_2 clean_attempt_def)

lemma clean_quiet [simp]: "clean_attempt (quiet ids n)"
  by (simp add: clean_attempt_def quiet_def)

lemma inTx_quiet:
  assumes "\<exists>st. m (start_tx (quiet ids 0) d) = Inr (x, st)"
  obtains d' where "inTx (quiet ids) (\<lambda>_. m) d = (Inr x, d')"
proof -
  obtain st where "m (start_tx (quiet ids 0) d) = Inr (x, st)" using assms by blast
  then have "inTx (quiet ids) (\<lambda>_. m) d = (Inr x, st_db st)" by (intro inTx_clean) simp_all
  then show thesis by (rule that)
qed

lemma inTx_lost_commit:
  "\<exists>st'. operation 0 (start_tx (quiet ids 0) d) = Inr (x, st') \<Longrightarrow>
   \<exists>d'. inTx (\<lambda>n. (quiet ids n)\<lparr>at_commit := Commit_error e True\<rparr>) operation d =
     (Inl (wrapError ''commit transaction'' ErrorKindQuery e), d')"
  by (auto simp: inTx_def maxTransactionAttempts_def numeral_2_eq_2 quiet_def start_tx_def)

end
