(* ===== verification/Database.thy ===== *)
theory Database
  imports Go_Stdlib Scopes Transaction Sha256 "HOL-Library.Product_Lexorder"
begin

text \<open>
  The relational state of the service: the row types of \<^verbatim>\<open>sqlcgen/models.go\<close>, the tables
  the modelled components read or write, and the declarative part of the schema under
  \<^verbatim>\<open>migrations/\<close> (CHECK constraints, unique indexes, foreign keys and the authority
  triggers), as the violation an insert or update would raise.

  A domain struct whose fields are those of a row (\<^verbatim>\<open>identity.User\<close>, \<^verbatim>\<open>consent.Grant\<close>,
  \<^verbatim>\<open>token.RefreshFamily\<close>, \<^verbatim>\<open>token.RefreshGeneration\<close>, \<^verbatim>\<open>token.AccessMetadata\<close>) is that
  row: the \<^verbatim>\<open>map...\<close> functions of the storage package copy field by field. A nullable
  column is an \<open>option\<close>; \<^verbatim>\<open>pgtype.Timestamptz.Valid\<close> is being \<open>Some\<close>.
\<close>

section \<open>Rows\<close>

record User =
  usr_ID :: uuid
  usr_Subject :: string
  usr_Username :: string
  usr_UsernameNormalized :: string
  usr_DisplayName :: string
  usr_Email :: string
  usr_EmailNormalized :: string
  usr_EmailVerified :: bool
  usr_Status :: string
  usr_Role :: string
  usr_CreatedAt :: time
  usr_UpdatedAt :: time
  usr_LastLoginAt :: "time option"
  usr_Version :: int

record OidcClient =
  cl_ID :: uuid
  cl_ClientID :: string
  cl_Type :: string
  cl_AuthMethod :: string
  cl_Name :: string
  cl_Description :: string
  cl_LogoURI :: "string option"
  cl_Status :: string
  cl_RegistrationEnabled :: bool
  cl_CreatedAt :: time
  cl_UpdatedAt :: time
  cl_Version :: int

text \<open>\<^verbatim>\<open>client.Client\<close>: the row with its three child collections.\<close>

record Client = OidcClient +
  cl_RedirectURIs :: "string list"
  cl_LogoutURIs :: "string list"
  cl_Scopes :: "string list"

text \<open>A row of one of the three child tables of a client: a URI or a scope name.\<close>

record OidcClientChild =
  ch_ClientID :: uuid
  ch_Value :: string
  ch_CreatedAt :: time

record OidcClientSecret =
  sec_ID :: uuid
  sec_ClientID :: uuid
  sec_SecretHash :: string
  sec_Version :: int
  sec_CreatedAt :: time
  sec_RevokedAt :: "time option"

record Credential =
  cred_UserID :: uuid
  cred_CredentialType :: string
  cred_PasswordHash :: string
  cred_CreatedAt :: time
  cred_UpdatedAt :: time

record LoginSession =
  ses_ID :: uuid
  ses_UserID :: uuid
  ses_TokenHash :: string
  ses_CsrfHash :: string
  ses_CsrfExpiresAt :: time
  ses_CreatedAt :: time
  ses_LastSeenAt :: time
  ses_AuthenticatedAt :: time
  ses_ExpiresAt :: time
  ses_IdleExpiresAt :: time
  ses_RevokedAt :: "time option"
  ses_RevokeReason :: "string option"
  ses_UserAgentHash :: "string option"
  ses_IpPrefix :: "string option"
  ses_SessionBindingID :: uuid

record PreauthSession =
  pre_ID :: uuid
  pre_TokenHash :: string
  pre_CsrfHash :: string
  pre_AuthTransactionID :: uuid
  pre_CreatedAt :: time
  pre_ExpiresAt :: time
  pre_ConsumedAt :: "time option"
  pre_AttemptCount :: int

record LogoutTransaction =
  lo_ID :: uuid
  lo_LookupHash :: string
  lo_Stage :: string
  lo_CsrfHash :: "string option"
  lo_VerifiedClientID :: "uuid option"
  lo_PostLogoutRedirectUri :: "string option"
  lo_StateValue :: "string option"
  lo_HintSubject :: "string option"
  lo_UserID :: "uuid option"
  lo_SessionID :: "uuid option"
  lo_SessionBindingID :: "uuid option"
  lo_CreatedAt :: time
  lo_ExpiresAt :: time
  lo_BoundAt :: "time option"
  lo_ConsumedAt :: "time option"
  lo_AttemptCount :: int

record AuthTransaction =
  tr_ID :: uuid
  tr_TokenHash :: string
  tr_Kind :: string
  tr_ClientID :: "uuid option"
  tr_RedirectUri :: "string option"
  tr_Scopes :: "string list"
  tr_PkceChallenge :: "string option"
  tr_PkceMethod :: "string option"
  tr_StateValue :: "string option"
  tr_NonceValue :: "string option"
  tr_PromptCreate :: bool
  tr_CreatedAt :: time
  tr_ExpiresAt :: time
  tr_ConsumedAt :: "time option"
  tr_FailureReason :: "string option"
  tr_ResponseType :: "string option"
  tr_ResponseMode :: "string option"
  tr_PromptValues :: "string list"
  tr_MaxAgeSeconds :: "int option"

record ConsentGrant =
  grant_ID :: uuid
  grant_UserID :: uuid
  grant_ClientID :: uuid
  grant_Scopes :: "string list"
  grant_CreatedAt :: time
  grant_UpdatedAt :: time
  grant_RevokedAt :: "time option"
  grant_Version :: int

record AuthorizationCode =
  code_ID :: uuid
  code_CodeHash :: string
  code_AuthTransactionID :: uuid
  code_ConsentGrantID :: uuid
  code_UserID :: uuid
  code_ClientID :: uuid
  code_RedirectUri :: string
  code_Scopes :: "string list"
  code_PkceChallenge :: string
  code_PkceMethod :: string
  code_NonceValue :: "string option"
  code_AuthTime :: time
  code_CreatedAt :: time
  code_ExpiresAt :: time
  code_ConsumedAt :: "time option"
  code_ConsentGrantVersion :: int
  code_OriginSessionID :: "uuid option"
  code_SessionBindingID :: "uuid option"

record RefreshTokenFamily =
  fam_ID :: uuid
  fam_OriginAuthorizationCodeID :: "uuid option"
  fam_ConsentGrantID :: uuid
  fam_UserID :: uuid
  fam_ClientID :: uuid
  fam_OriginSessionID :: "uuid option"
  fam_SessionBindingID :: uuid
  fam_Scopes :: "string list"
  fam_CreatedAt :: time
  fam_AbsoluteExpiresAt :: time
  fam_RevokedAt :: "time option"
  fam_RevokeReason :: "string option"

record RefreshToken =
  gen_ID :: uuid
  gen_FamilyID :: uuid
  gen_TokenHash :: string
  gen_Generation :: int
  gen_IssuedAt :: time
  gen_ExpiresAt :: time
  gen_ConsumedAt :: "time option"

record AccessToken =
  acc_ID :: uuid
  acc_JtiHash :: string
  acc_AuthorizationCodeID :: "uuid option"
  acc_ConsentGrantID :: uuid
  acc_UserID :: uuid
  acc_ClientID :: uuid
  acc_Scopes :: "string list"
  acc_IssuedAt :: time
  acc_ExpiresAt :: time
  acc_IssuanceSource :: string
  acc_SourceRefreshTokenID :: "uuid option"
  acc_RefreshFamilyID :: "uuid option"
  acc_OriginSessionID :: "uuid option"
  acc_SessionBindingID :: "uuid option"
  acc_RevokedAt :: "time option"
  acc_RevokeReason :: "string option"

record AuditEvent =
  ev_ID :: uuid
  ev_EventType :: string
  ev_Result :: string
  ev_ActorUserID :: "uuid option"
  ev_TargetType :: "string option"
  ev_TargetID :: "uuid option"
  ev_RequestID :: "string option"
  ev_ChangedFields :: "string list"
  ev_OccurredAt :: time

section \<open>The database\<close>

record db =
  users :: "User table"
  credentials :: "Credential table"
  oidc_clients :: "OidcClient table"
  client_redirect_uris :: "OidcClientChild table"
  client_logout_uris :: "OidcClientChild table"
  client_scopes :: "OidcClientChild table"
  client_secrets :: "OidcClientSecret table"
  login_sessions :: "LoginSession table"
  preauth_sessions :: "PreauthSession table"
  logout_transactions :: "LogoutTransaction table"
  auth_transactions :: "AuthTransaction table"
  consent_grants :: "ConsentGrant table"
  authorization_codes :: "AuthorizationCode table"
  refresh_token_families :: "RefreshTokenFamily table"
  refresh_tokens :: "RefreshToken table"
  access_tokens :: "AccessToken table"
  audit_events :: "AuditEvent table"

definition empty_db :: db where
  "empty_db = \<lparr>users = [], credentials = [], oidc_clients = [], client_redirect_uris = [],
     client_logout_uris = [], client_scopes = [], client_secrets = [], login_sessions = [],
     preauth_sessions = [], logout_transactions = [], auth_transactions = [], consent_grants = [],
     authorization_codes = [], refresh_token_families = [], refresh_tokens = [],
     access_tokens = [], audit_events = []\<rparr>"

type_synonym 'a dbtx = "(db, 'a) tx"

section \<open>Constraints\<close>

text \<open>
  A violation is the SQLSTATE PostgreSQL reports: 23514 for a CHECK or an authority
  trigger, 23505 for a unique index, 23503 for a foreign key, 22003 for an integer that
  leaves \<^verbatim>\<open>bigint\<close>. A CHECK is refused when it is false, not when it is NULL: a comparison
  with a NULL column does not refuse a row.
\<close>

fun first_violation :: "(string \<times> bool) list \<Rightarrow> string option" where
  "first_violation [] = None"
| "first_violation ((state, holds) # rest) = (if holds then first_violation rest else Some state)"

lemma first_violation_None: "first_violation cs = None \<longleftrightarrow> (\<forall>(state, holds)\<in>set cs. holds)"
  by (induction cs rule: first_violation.induct) auto

text \<open>The sorted, duplicate-free scope arrays of migrations 12 and 13.\<close>

definition scopes_valid :: "nat \<Rightarrow> string list \<Rightarrow> bool" where
  "scopes_valid n s \<longleftrightarrow> n \<le> length s \<and> length s \<le> 4 \<and> list_all scope_supported s \<and>
     ''openid'' \<in> set s \<and> sorted s \<and> distinct s"

lemma scopes_valid_canonical: "scopes_valid n s \<longleftrightarrow> n \<le> length s \<and> canonical_scopes s"
  using canonical_scopes_length by (auto simp: scopes_valid_def canonical_scopes_def)

definition none_or :: "('a \<Rightarrow> bool) \<Rightarrow> 'a option \<Rightarrow> bool" where
  "none_or p x = (case x of None \<Rightarrow> True | Some v \<Rightarrow> p v)"

lemma none_or_simps [simp]: "none_or p None" "none_or p (Some v) = p v"
  by (simp_all add: none_or_def)

definition revocation_valid :: "string list \<Rightarrow> time option \<Rightarrow> string option \<Rightarrow> bool" where
  "revocation_valid reasons at reason =
     (case at of None \<Rightarrow> reason = None | Some _ \<Rightarrow> none_or (\<lambda>r. r \<in> set reasons) reason)"

definition consent_grants_check :: "ConsentGrant \<Rightarrow> bool" where
  "consent_grants_check g \<longleftrightarrow> scopes_valid 1 (grant_Scopes g) \<and> grant_Version g > 0 \<and>
     grant_UpdatedAt g \<ge> grant_CreatedAt g \<and> none_or (\<lambda>t. t \<ge> grant_CreatedAt g) (grant_RevokedAt g)"

definition pkce_challenge_format :: "string \<Rightarrow> bool" where
  "pkce_challenge_format c \<longleftrightarrow> length c = 43 \<and> list_all (\<lambda>x. b64_value x \<noteq> None) c"

lemma pkce_challenge_format_digest: "length x = 32 \<Longrightarrow> pkce_challenge_format (b64_encode x)"
  using b64_encode_alphabet[of x] by (simp add: pkce_challenge_format_def length_b64_encode)

definition authorization_codes_check :: "AuthorizationCode \<Rightarrow> bool" where
  "authorization_codes_check c \<longleftrightarrow>
     length (code_CodeHash c) = 32 \<and>
     1 \<le> length (code_RedirectUri c) \<and> length (code_RedirectUri c) \<le> 2048 \<and>
     scopes_valid 1 (code_Scopes c) \<and>
     pkce_challenge_format (code_PkceChallenge c) \<and> code_PkceMethod c = ''S256'' \<and>
     none_or (\<lambda>n. 1 \<le> length n \<and> length n \<le> 1024) (code_NonceValue c) \<and>
     code_AuthTime c \<le> code_CreatedAt c \<and> code_ExpiresAt c > code_CreatedAt c \<and>
     code_ExpiresAt c \<le> code_CreatedAt c + 5 * Minute \<and>
     none_or (\<lambda>t. t \<ge> code_CreatedAt c) (code_ConsumedAt c) \<and>
     code_ConsentGrantVersion c > 0 \<and>
     (''offline_access'' \<in> set (code_Scopes c) \<longrightarrow> code_SessionBindingID c \<noteq> None)"

definition family_revoke_reasons :: "string list" where
  "family_revoke_reasons = [''reuse'', ''client_revocation'', ''grant_revoked'', ''session_revoked'',
     ''user_disabled'', ''client_disabled'', ''offline_scope_removed'', ''account_switch'']"

definition access_revoke_reasons :: "string list" where
  "access_revoke_reasons = [''client_revocation'', ''family_revoked'', ''grant_revoked'', ''session_revoked'',
     ''user_disabled'', ''client_disabled'', ''offline_scope_removed'', ''account_switch'']"

definition refresh_token_families_check :: "RefreshTokenFamily \<Rightarrow> bool" where
  "refresh_token_families_check f \<longleftrightarrow>
     scopes_valid 2 (fam_Scopes f) \<and> ''offline_access'' \<in> set (fam_Scopes f) \<and>
     fam_AbsoluteExpiresAt f > fam_CreatedAt f \<and>
     fam_AbsoluteExpiresAt f \<le> fam_CreatedAt f + 365 * 24 * Hour \<and>
     none_or (\<lambda>t. t \<ge> fam_CreatedAt f) (fam_RevokedAt f) \<and>
     revocation_valid family_revoke_reasons (fam_RevokedAt f) (fam_RevokeReason f)"

definition refresh_tokens_check :: "RefreshToken \<Rightarrow> bool" where
  "refresh_tokens_check g \<longleftrightarrow>
     length (gen_TokenHash g) = 32 \<and> gen_Generation g \<ge> 0 \<and>
     gen_ExpiresAt g > gen_IssuedAt g \<and> gen_ExpiresAt g \<le> gen_IssuedAt g + 30 * 24 * Hour \<and>
     none_or (\<lambda>t. t \<ge> gen_IssuedAt g) (gen_ConsumedAt g)"

definition access_tokens_check :: "AccessToken \<Rightarrow> bool" where
  "access_tokens_check a \<longleftrightarrow>
     length (acc_JtiHash a) = 32 \<and>
     (acc_IssuanceSource a = ''authorization_code'' \<and> acc_SourceRefreshTokenID a = None \<or>
      acc_IssuanceSource a = ''refresh_token'' \<and> acc_AuthorizationCodeID a = None \<and>
        acc_SourceRefreshTokenID a \<noteq> None \<and> acc_RefreshFamilyID a \<noteq> None \<and>
        acc_SessionBindingID a \<noteq> None) \<and>
     (''offline_access'' \<in> set (acc_Scopes a) \<longrightarrow>
        acc_RefreshFamilyID a \<noteq> None \<and> acc_SessionBindingID a \<noteq> None) \<and>
     scopes_valid 1 (acc_Scopes a) \<and>
     acc_ExpiresAt a > acc_IssuedAt a \<and> acc_ExpiresAt a \<le> acc_IssuedAt a + 30 * Minute \<and>
     none_or (\<lambda>t. t \<ge> acc_IssuedAt a) (acc_RevokedAt a) \<and>
     revocation_valid access_revoke_reasons (acc_RevokedAt a) (acc_RevokeReason a)"


definition audit_event_type_constraint :: "string list" where
  "audit_event_type_constraint =
    [''admin_bootstrap_succeeded'', ''admin_bootstrap_rejected'', ''user_registered'',
     ''user_registration_rejected'', ''user_created'', ''user_updated'', ''user_status_changed'',
     ''user_role_changed'', ''login_succeeded'', ''login_failed'', ''login_disabled_user'',
     ''session_created'', ''session_revoked'', ''sessions_revoked_all'', ''client_created'',
     ''client_updated'', ''client_disabled'', ''client_secret_rotated'',
     ''authorization_transaction_created'', ''authorization_transaction_consumed'',
     ''authorization_transaction_expired'', ''authorization_transaction_rejected'',
     ''authorization_granted'', ''authorization_denied'', ''authorization_code_issued'',
     ''authorization_code_exchange_succeeded'', ''authorization_code_exchange_rejected'',
     ''consent_grant_created'', ''consent_grant_expanded'', ''access_token_issued'',
     ''signing_key_loaded'', ''refresh_token_issued'', ''refresh_token_rotated'',
     ''refresh_token_exchange_rejected'', ''refresh_token_reuse_detected'',
     ''refresh_token_family_revoked'', ''access_token_revoked'', ''consent_grant_revoked'',
     ''consent_grant_reactivated'', ''rp_logout_completed'', ''logout_transaction_rejected'']"

text \<open>The class \<^verbatim>\<open>[A-Za-z0-9._:-]\<close> of request identifiers.\<close>

definition request_id_char :: "char \<Rightarrow> bool" where
  "request_id_char c = (let n = of_char c :: nat in
     65 \<le> n \<and> n \<le> 90 \<or> 97 \<le> n \<and> n \<le> 122 \<or> 48 \<le> n \<and> n \<le> 57 \<or> n = 46 \<or> n = 95 \<or> n = 58 \<or> n = 45)"

definition audit_events_check :: "AuditEvent \<Rightarrow> bool" where
  "audit_events_check e \<longleftrightarrow>
     ev_EventType e \<in> set audit_event_type_constraint \<and>
     ev_Result e \<in> set [''success'', ''rejected'', ''failure''] \<and>
     none_or (\<lambda>target. target \<in> set [''user'', ''client'', ''session'', ''auth_transaction'',
        ''consent_grant'', ''authorization_code'', ''access_token'', ''refresh_token'',
        ''refresh_token_family'', ''logout_transaction''] \<and> ev_TargetID e \<noteq> None) (ev_TargetType e) \<and>
     none_or (\<lambda>r. 1 \<le> length r \<and> length r \<le> 128 \<and> list_all request_id_char r) (ev_RequestID e) \<and>
     set (ev_ChangedFields e) \<subseteq> set [''status'', ''role'', ''username'', ''display_name'', ''email'',
       ''name'', ''description'', ''logo_uri'', ''registration_enabled'', ''redirect_uris'',
       ''logout_uris'', ''scopes'', ''secret'', ''revoked'', ''created'', ''expanded'', ''issued'',
       ''consumed'', ''rotated'', ''reused'', ''reactivated'']"

definition auth_failure_reasons :: "string list" where
  "auth_failure_reasons = [''expired'', ''consumed'', ''invalid'', ''client_disabled'',
     ''registration_disabled'', ''canceled'', ''login_required'', ''consent_required'',
     ''interaction_required'', ''access_denied'', ''server_error'']"

definition auth_transactions_check :: "AuthTransaction \<Rightarrow> bool" where
  "auth_transactions_check t \<longleftrightarrow>
     length (tr_TokenHash t) = 32 \<and> tr_Kind t \<in> set [''local'', ''authorization''] \<and>
     tr_ExpiresAt t > tr_CreatedAt t \<and> none_or (\<lambda>c. c \<ge> tr_CreatedAt t) (tr_ConsumedAt t) \<and>
     length (tr_Scopes t) \<le> 32 \<and>
     none_or (\<lambda>u. 1 \<le> length u \<and> length u \<le> 2048) (tr_RedirectUri t) \<and>
     none_or (\<lambda>c. length c = 43) (tr_PkceChallenge t) \<and>
     none_or (\<lambda>v. 1 \<le> length v \<and> length v \<le> 1024) (tr_StateValue t) \<and>
     none_or (\<lambda>v. 1 \<le> length v \<and> length v \<le> 1024) (tr_NonceValue t) \<and>
     length (tr_PromptValues t) \<le> 4 \<and>
     none_or (\<lambda>m. 0 \<le> m \<and> m \<le> 2592000) (tr_MaxAgeSeconds t) \<and>
     none_or pkce_challenge_format (tr_PkceChallenge t) \<and> none_or (\<lambda>m. m = ''S256'') (tr_PkceMethod t) \<and>
     sorted (tr_PromptValues t) \<and> distinct (tr_PromptValues t) \<and>
     set (tr_PromptValues t) \<subseteq> {''consent'', ''create'', ''login'', ''none''} \<and>
     (''none'' \<in> set (tr_PromptValues t) \<longrightarrow> length (tr_PromptValues t) = 1) \<and>
     \<not> (''create'' \<in> set (tr_PromptValues t) \<and> ''login'' \<in> set (tr_PromptValues t)) \<and>
     (tr_PromptCreate t \<longleftrightarrow> ''create'' \<in> set (tr_PromptValues t)) \<and>
     (tr_Kind t = ''local'' \<longrightarrow>
        tr_ClientID t = None \<and> tr_RedirectUri t = None \<and> tr_Scopes t = [] \<and>
        tr_PkceChallenge t = None \<and> tr_PkceMethod t = None \<and> tr_StateValue t = None \<and>
        tr_NonceValue t = None \<and> \<not> tr_PromptCreate t \<and> tr_ResponseType t = None \<and>
        tr_ResponseMode t = None \<and> tr_PromptValues t = [] \<and> tr_MaxAgeSeconds t = None) \<and>
     (tr_Kind t = ''authorization'' \<longrightarrow>
        tr_ClientID t \<noteq> None \<and> tr_RedirectUri t \<noteq> None \<and> none_or (\<lambda>r. r = ''code'') (tr_ResponseType t) \<and>
        none_or (\<lambda>r. r = ''query'') (tr_ResponseMode t) \<and> scopes_valid 1 (tr_Scopes t)) \<and>
     none_or (\<lambda>r. r \<in> set auth_failure_reasons) (tr_FailureReason t)"

definition session_revoke_reasons :: "string list" where
  "session_revoke_reasons = [''logout'', ''user'', ''others'', ''admin'', ''user_disabled'',
     ''role_changed'', ''rotation'', ''expired'', ''account_switch'']"

text \<open>
  \<^verbatim>\<open>length\<close> of a \<^verbatim>\<open>text\<close> value counts characters: the bytes of its UTF-8 encoding that do
  not continue a character.
\<close>

definition char_length :: "string \<Rightarrow> nat" where
  "char_length s = length (filter (\<lambda>c. (of_char c :: nat) div 64 \<noteq> 2) s)"

definition login_sessions_check :: "LoginSession \<Rightarrow> bool" where
  "login_sessions_check s \<longleftrightarrow>
     length (ses_TokenHash s) = 32 \<and> length (ses_CsrfHash s) = 32 \<and>
     none_or (\<lambda>h. length h = 32) (ses_UserAgentHash s) \<and>
     none_or (\<lambda>p. 3 \<le> char_length p \<and> char_length p \<le> 64) (ses_IpPrefix s) \<and>
     ses_LastSeenAt s \<ge> ses_CreatedAt s \<and> ses_AuthenticatedAt s \<ge> ses_CreatedAt s \<and>
     ses_ExpiresAt s > ses_CreatedAt s \<and> ses_IdleExpiresAt s > ses_CreatedAt s \<and>
     ses_IdleExpiresAt s \<le> ses_ExpiresAt s \<and> ses_CsrfExpiresAt s > ses_CreatedAt s \<and>
     none_or (\<lambda>t. t \<ge> ses_CreatedAt s) (ses_RevokedAt s) \<and>
     revocation_valid session_revoke_reasons (ses_RevokedAt s) (ses_RevokeReason s)"

text \<open>\<^verbatim>\<open>btrim\<close>, and \<^verbatim>\<open>LIKE\<close> with its two wildcards.\<close>

definition btrim :: "string \<Rightarrow> string" where
  "btrim s = rev (dropWhile (\<lambda>c. c = CHR '' '') (rev (dropWhile (\<lambda>c. c = CHR '' '') s)))"

fun sql_like :: "string \<Rightarrow> string \<Rightarrow> bool" where
  "sql_like [] s \<longleftrightarrow> s = []"
| "sql_like (p # ps) [] \<longleftrightarrow> p = CHR ''%'' \<and> sql_like ps []"
| "sql_like (p # ps) (c # cs) \<longleftrightarrow>
     (if p = CHR ''%'' then sql_like ps (c # cs) \<or> sql_like (p # ps) cs
      else (p = CHR ''_'' \<or> p = c) \<and> sql_like ps cs)"

definition users_check :: "User \<Rightarrow> bool" where
  "users_check u \<longleftrightarrow>
     20 \<le> char_length (usr_Subject u) \<and> char_length (usr_Subject u) \<le> 255 \<and>
     usr_Subject u = btrim (usr_Subject u) \<and>
     1 \<le> char_length (usr_Username u) \<and> char_length (usr_Username u) \<le> 128 \<and>
     1 \<le> char_length (usr_UsernameNormalized u) \<and> char_length (usr_UsernameNormalized u) \<le> 256 \<and>
     1 \<le> char_length (usr_DisplayName u) \<and> char_length (usr_DisplayName u) \<le> 256 \<and>
     3 \<le> char_length (usr_Email u) \<and> char_length (usr_Email u) \<le> 320 \<and>
     3 \<le> char_length (usr_EmailNormalized u) \<and> char_length (usr_EmailNormalized u) \<le> 320 \<and>
     usr_Status u \<in> set [''active'', ''disabled''] \<and> usr_Role u \<in> set [''user'', ''admin''] \<and>
     usr_UpdatedAt u \<ge> usr_CreatedAt u \<and> none_or (\<lambda>t. t \<ge> usr_CreatedAt u) (usr_LastLoginAt u) \<and>
     usr_Version u > 0"

definition credentials_check :: "Credential \<Rightarrow> bool" where
  "credentials_check c \<longleftrightarrow>
     cred_CredentialType c = ''password'' \<and>
     sql_like ''$argon2id$v=%$m=%,t=%,p=%$%$%'' (cred_PasswordHash c) \<and>
     80 \<le> char_length (cred_PasswordHash c) \<and> char_length (cred_PasswordHash c) \<le> 512 \<and>
     cred_UpdatedAt c \<ge> cred_CreatedAt c"

definition oidc_clients_check :: "OidcClient \<Rightarrow> bool" where
  "oidc_clients_check c \<longleftrightarrow>
     sql_like ''ois_cli_%'' (cl_ClientID c) \<and>
     40 \<le> char_length (cl_ClientID c) \<and> char_length (cl_ClientID c) \<le> 128 \<and>
     (cl_Type c = ''public'' \<and> cl_AuthMethod c = ''none'' \<or>
      cl_Type c = ''confidential'' \<and> cl_AuthMethod c = ''client_secret_basic'') \<and>
     1 \<le> char_length (cl_Name c) \<and> char_length (cl_Name c) \<le> 256 \<and>
     char_length (cl_Description c) \<le> 2048 \<and> none_or (\<lambda>u. char_length u \<le> 2048) (cl_LogoURI c) \<and>
     cl_Status c \<in> set [''active'', ''disabled''] \<and> cl_UpdatedAt c \<ge> cl_CreatedAt c \<and> cl_Version c > 0"

definition client_uris_check :: "OidcClientChild \<Rightarrow> bool" where
  "client_uris_check r \<longleftrightarrow> 8 \<le> char_length (ch_Value r) \<and> char_length (ch_Value r) \<le> 2048"

text \<open>\<^verbatim>\<open>^[a-z][a-z0-9:_-]{0,63}$\<close>.\<close>

definition client_scopes_check :: "OidcClientChild \<Rightarrow> bool" where
  "client_scopes_check r =
     (let lower = (\<lambda>c. 97 \<le> (of_char c :: nat) \<and> (of_char c :: nat) \<le> 122)
      in case ch_Value r of
           [] \<Rightarrow> False
         | c # cs \<Rightarrow> lower c \<and> length cs \<le> 63 \<and>
             list_all (\<lambda>c. lower c \<or> 48 \<le> (of_char c :: nat) \<and> (of_char c :: nat) \<le> 57 \<or> c \<in> set '':_-'') cs)"

definition client_secrets_check :: "OidcClientSecret \<Rightarrow> bool" where
  "client_secrets_check s \<longleftrightarrow> length (sec_SecretHash s) = 32 \<and> sec_Version s = 1 \<and>
     none_or (\<lambda>t. t \<ge> sec_CreatedAt s) (sec_RevokedAt s)"

definition preauth_sessions_check :: "PreauthSession \<Rightarrow> bool" where
  "preauth_sessions_check p \<longleftrightarrow>
     length (pre_TokenHash p) = 32 \<and> length (pre_CsrfHash p) = 32 \<and>
     pre_ExpiresAt p > pre_CreatedAt p \<and> none_or (\<lambda>t. t \<ge> pre_CreatedAt p) (pre_ConsumedAt p) \<and>
     0 \<le> pre_AttemptCount p \<and> pre_AttemptCount p \<le> 10"

text \<open>The authority columns of a logout transaction are tied to its stage.\<close>

definition logout_stage_valid :: "LogoutTransaction \<Rightarrow> bool" where
  "logout_stage_valid t \<longleftrightarrow>
     (let bound = lo_UserID t \<noteq> None \<and> lo_SessionID t \<noteq> None \<and> lo_SessionBindingID t \<noteq> None \<and> lo_BoundAt t \<noteq> None
      in lo_Stage t = ''pre_confirm'' \<and> lo_CsrfHash t = None \<and> lo_UserID t = None \<and> lo_SessionID t = None \<and>
           lo_SessionBindingID t = None \<and> lo_BoundAt t = None \<and> lo_ConsumedAt t = None \<or>
         lo_Stage t = ''bound_confirmable'' \<and> lo_CsrfHash t \<noteq> None \<and> bound \<and> lo_ConsumedAt t = None \<or>
         lo_Stage t \<in> set [''confirmed'', ''canceled''] \<and> lo_CsrfHash t = None \<and> bound \<and> lo_ConsumedAt t \<noteq> None)"

definition logout_transactions_check :: "LogoutTransaction \<Rightarrow> bool" where
  "logout_transactions_check t \<longleftrightarrow>
     length (lo_LookupHash t) = 32 \<and> none_or (\<lambda>h. length h = 32) (lo_CsrfHash t) \<and>
     lo_Stage t \<in> set [''pre_confirm'', ''bound_confirmable'', ''confirmed'', ''canceled''] \<and>
     none_or (\<lambda>u. lo_VerifiedClientID t \<noteq> None \<and> 8 \<le> length u \<and> length u \<le> 2048) (lo_PostLogoutRedirectUri t) \<and>
     none_or (\<lambda>s. lo_PostLogoutRedirectUri t \<noteq> None \<and> 1 \<le> length s \<and> length s \<le> 1024) (lo_StateValue t) \<and>
     none_or (\<lambda>h. 1 \<le> length h \<and> length h \<le> 255) (lo_HintSubject t) \<and>
     logout_stage_valid t \<and>
     lo_ExpiresAt t > lo_CreatedAt t \<and> lo_ExpiresAt t \<le> lo_CreatedAt t + 15 * Minute \<and>
     none_or (\<lambda>b. b \<ge> lo_CreatedAt t) (lo_BoundAt t) \<and>
     none_or (\<lambda>c. c \<ge> (case lo_BoundAt t of Some b \<Rightarrow> b | None \<Rightarrow> lo_CreatedAt t)) (lo_ConsumedAt t) \<and>
     0 \<le> lo_AttemptCount t \<and> lo_AttemptCount t \<le> 10"

section \<open>Cross-row rules\<close>

definition unique_among :: "('r \<Rightarrow> 'k) \<Rightarrow> 'r table \<Rightarrow> 'r \<Rightarrow> bool" where
  "unique_among k t r = list_all (\<lambda>r'. k r' \<noteq> k r) t"

text \<open>A unique index on a nullable column ignores the rows where it is NULL.\<close>

definition unique_among_nonnull :: "('r \<Rightarrow> 'k option) \<Rightarrow> 'r table \<Rightarrow> 'r \<Rightarrow> bool" where
  "unique_among_nonnull k t r = (k r \<noteq> None \<longrightarrow> unique_among k t r)"

definition refers :: "('r \<Rightarrow> uuid) \<Rightarrow> 'r table \<Rightarrow> uuid \<Rightarrow> bool" where
  "refers k t x = list_ex (\<lambda>r. k r = x) t"

text \<open>Trigger \<^verbatim>\<open>oneissuer_validate_refresh_family_origin\<close>.\<close>

definition refresh_family_origin_ok :: "db \<Rightarrow> RefreshTokenFamily \<Rightarrow> bool" where
  "refresh_family_origin_ok d f = none_or (\<lambda>cid.
     case select_one (\<lambda>c. code_ID c = cid) (authorization_codes d) of
       None \<Rightarrow> False
     | Some c \<Rightarrow> code_UserID c = fam_UserID f \<and> code_ClientID c = fam_ClientID f \<and>
         code_ConsentGrantID c = fam_ConsentGrantID f \<and>
         ''offline_access'' \<in> set (code_Scopes c) \<and>
         code_SessionBindingID c = Some (fam_SessionBindingID f)) (fam_OriginAuthorizationCodeID f)"

text \<open>Trigger \<^verbatim>\<open>oneissuer_validate_refresh_token_lifetime\<close>.\<close>

definition refresh_token_lifetime_ok :: "db \<Rightarrow> RefreshToken \<Rightarrow> bool" where
  "refresh_token_lifetime_ok d g =
     (case select_one (\<lambda>f. fam_ID f = gen_FamilyID g) (refresh_token_families d) of
        None \<Rightarrow> False
      | Some f \<Rightarrow> gen_IssuedAt g \<ge> fam_CreatedAt f \<and> gen_ExpiresAt g \<le> fam_AbsoluteExpiresAt f)"

text \<open>Trigger \<^verbatim>\<open>oneissuer_validate_access_token_authority\<close>, for an inserted row.\<close>

definition access_token_authority_ok :: "db \<Rightarrow> AccessToken \<Rightarrow> bool" where
  "access_token_authority_ok d a =
     (if acc_IssuanceSource a = ''authorization_code'' then
        (case acc_AuthorizationCodeID a of
           None \<Rightarrow> False
         | Some cid \<Rightarrow>
           (case select_one (\<lambda>c. code_ID c = cid) (authorization_codes d) of
              None \<Rightarrow> False
            | Some c \<Rightarrow>
              code_ConsentGrantID c = acc_ConsentGrantID a \<and> code_UserID c = acc_UserID a \<and>
              code_ClientID c = acc_ClientID a \<and> code_Scopes c = acc_Scopes a \<and>
              code_OriginSessionID c = acc_OriginSessionID a \<and>
              code_SessionBindingID c = acc_SessionBindingID a \<and> acc_SourceRefreshTokenID a = None \<and>
              none_or (\<lambda>fid.
                case select_one (\<lambda>f. fam_ID f = fid) (refresh_token_families d) of
                  None \<Rightarrow> False
                | Some f \<Rightarrow>
                  fam_OriginAuthorizationCodeID f = acc_AuthorizationCodeID a \<and>
                  fam_ConsentGrantID f = acc_ConsentGrantID a \<and> fam_UserID f = acc_UserID a \<and>
                  fam_ClientID f = acc_ClientID a \<and> fam_OriginSessionID f = acc_OriginSessionID a \<and>
                  Some (fam_SessionBindingID f) = acc_SessionBindingID a \<and>
                  fam_Scopes f = code_Scopes c \<and> acc_Scopes a = code_Scopes c \<and>
                  ''offline_access'' \<in> set (acc_Scopes a)) (acc_RefreshFamilyID a)))
      else
        (case (acc_SourceRefreshTokenID a, acc_RefreshFamilyID a) of
           (Some gid, Some fid) \<Rightarrow>
             (case (select_one (\<lambda>g. gen_ID g = gid) (refresh_tokens d),
                    select_one (\<lambda>f. fam_ID f = fid) (refresh_token_families d)) of
                (Some g, Some f) \<Rightarrow>
                  gen_FamilyID g = fid \<and> fam_ConsentGrantID f = acc_ConsentGrantID a \<and>
                  fam_UserID f = acc_UserID a \<and> fam_ClientID f = acc_ClientID a \<and>
                  fam_OriginSessionID f = acc_OriginSessionID a \<and>
                  Some (fam_SessionBindingID f) = acc_SessionBindingID a \<and>
                  set (acc_Scopes a) \<subseteq> set (fam_Scopes f) \<and> acc_AuthorizationCodeID a = None
              | _ \<Rightarrow> False)
         | _ \<Rightarrow> False))"

section \<open>What an insert may violate\<close>

definition users_violation :: "db \<Rightarrow> User \<Rightarrow> string option" where
  "users_violation d u = first_violation
     [(''23514'', users_check u),
      (''23505'', unique_among usr_ID (users d) u),
      (''23505'', unique_among usr_Subject (users d) u),
      (''23505'', unique_among usr_UsernameNormalized (users d) u),
      (''23505'', unique_among usr_EmailNormalized (users d) u)]"

definition credentials_violation :: "db \<Rightarrow> Credential \<Rightarrow> string option" where
  "credentials_violation d c = first_violation
     [(''23514'', credentials_check c),
      (''23505'', unique_among cred_UserID (credentials d) c),
      (''23503'', refers usr_ID (users d) (cred_UserID c))]"

definition oidc_clients_violation :: "db \<Rightarrow> OidcClient \<Rightarrow> string option" where
  "oidc_clients_violation d c = first_violation
     [(''23514'', oidc_clients_check c),
      (''23505'', unique_among cl_ID (oidc_clients d) c),
      (''23505'', unique_among cl_ClientID (oidc_clients d) c)]"

text \<open>The primary key of the three child tables is the client with the value.\<close>

definition client_child_violation ::
  "(OidcClientChild \<Rightarrow> bool) \<Rightarrow> OidcClientChild table \<Rightarrow> db \<Rightarrow> OidcClientChild \<Rightarrow> string option" where
  "client_child_violation check t d r = first_violation
     [(''23514'', check r),
      (''23505'', unique_among (\<lambda>r. (ch_ClientID r, ch_Value r)) t r),
      (''23503'', refers cl_ID (oidc_clients d) (ch_ClientID r))]"

text \<open>Trigger \<^verbatim>\<open>oneissuer_enforce_confidential_secret\<close> and the constraints of the secrets.\<close>

definition client_secrets_violation :: "db \<Rightarrow> OidcClientSecret \<Rightarrow> string option" where
  "client_secrets_violation d s = first_violation
     [(''23514'', list_ex (\<lambda>c. cl_ID c = sec_ClientID s \<and> cl_Type c = ''confidential'' \<and>
                               cl_AuthMethod c = ''client_secret_basic'') (oidc_clients d)),
      (''23514'', client_secrets_check s),
      (''23505'', unique_among sec_ID (client_secrets d) s),
      (''23505'', unique_among sec_SecretHash (client_secrets d) s),
      (''23503'', refers cl_ID (oidc_clients d) (sec_ClientID s))]"

definition login_sessions_violation :: "db \<Rightarrow> LoginSession \<Rightarrow> string option" where
  "login_sessions_violation d s = first_violation
     [(''23514'', login_sessions_check s),
      (''23505'', unique_among ses_ID (login_sessions d) s),
      (''23505'', unique_among ses_TokenHash (login_sessions d) s),
      (''23503'', refers usr_ID (users d) (ses_UserID s))]"

definition preauth_sessions_violation :: "db \<Rightarrow> PreauthSession \<Rightarrow> string option" where
  "preauth_sessions_violation d p = first_violation
     [(''23514'', preauth_sessions_check p),
      (''23505'', unique_among pre_ID (preauth_sessions d) p),
      (''23505'', unique_among pre_TokenHash (preauth_sessions d) p),
      (''23503'', refers tr_ID (auth_transactions d) (pre_AuthTransactionID p))]"

definition logout_transactions_violation :: "db \<Rightarrow> LogoutTransaction \<Rightarrow> string option" where
  "logout_transactions_violation d t = first_violation
     [(''23514'', logout_transactions_check t),
      (''23505'', unique_among lo_ID (logout_transactions d) t),
      (''23505'', unique_among lo_LookupHash (logout_transactions d) t),
      (''23503'', none_or (refers cl_ID (oidc_clients d)) (lo_VerifiedClientID t)),
      (''23503'', none_or (refers usr_ID (users d)) (lo_UserID t)),
      (''23503'', none_or (refers ses_ID (login_sessions d)) (lo_SessionID t))]"

definition auth_transactions_violation :: "db \<Rightarrow> AuthTransaction \<Rightarrow> string option" where
  "auth_transactions_violation d t = first_violation
     [(''23514'', auth_transactions_check t),
      (''23505'', unique_among tr_ID (auth_transactions d) t),
      (''23505'', unique_among tr_TokenHash (auth_transactions d) t),
      (''23503'', none_or (refers cl_ID (oidc_clients d)) (tr_ClientID t))]"

definition consent_grants_violation :: "db \<Rightarrow> ConsentGrant \<Rightarrow> string option" where
  "consent_grants_violation d g = first_violation
     [(''23514'', consent_grants_check g),
      (''23505'', unique_among grant_ID (consent_grants d) g),
      (''23505'', unique_among (\<lambda>g. (grant_UserID g, grant_ClientID g)) (consent_grants d) g),
      (''23503'', refers usr_ID (users d) (grant_UserID g)),
      (''23503'', refers cl_ID (oidc_clients d) (grant_ClientID g))]"

definition authorization_codes_violation :: "db \<Rightarrow> AuthorizationCode \<Rightarrow> string option" where
  "authorization_codes_violation d c = first_violation
     [(''23514'', authorization_codes_check c),
      (''23505'', unique_among code_ID (authorization_codes d) c),
      (''23505'', unique_among code_CodeHash (authorization_codes d) c),
      (''23505'', unique_among code_AuthTransactionID (authorization_codes d) c),
      (''23503'', refers tr_ID (auth_transactions d) (code_AuthTransactionID c)),
      (''23503'', refers grant_ID (consent_grants d) (code_ConsentGrantID c)),
      (''23503'', refers usr_ID (users d) (code_UserID c)),
      (''23503'', refers cl_ID (oidc_clients d) (code_ClientID c)),
      (''23503'', none_or (refers ses_ID (login_sessions d)) (code_OriginSessionID c))]"

definition refresh_token_families_violation :: "db \<Rightarrow> RefreshTokenFamily \<Rightarrow> string option" where
  "refresh_token_families_violation d f = first_violation
     [(''23514'', refresh_family_origin_ok d f),
      (''23514'', refresh_token_families_check f),
      (''23505'', unique_among fam_ID (refresh_token_families d) f),
      (''23505'', unique_among_nonnull fam_OriginAuthorizationCodeID (refresh_token_families d) f),
      (''23503'', refers grant_ID (consent_grants d) (fam_ConsentGrantID f)),
      (''23503'', refers usr_ID (users d) (fam_UserID f)),
      (''23503'', refers cl_ID (oidc_clients d) (fam_ClientID f)),
      (''23503'', none_or (refers ses_ID (login_sessions d)) (fam_OriginSessionID f))]"

definition refresh_tokens_violation :: "db \<Rightarrow> RefreshToken \<Rightarrow> string option" where
  "refresh_tokens_violation d g = first_violation
     [(''23514'', refresh_token_lifetime_ok d g),
      (''23514'', refresh_tokens_check g),
      (''23505'', unique_among gen_ID (refresh_tokens d) g),
      (''23505'', unique_among gen_TokenHash (refresh_tokens d) g),
      (''23505'', unique_among (\<lambda>g. (gen_FamilyID g, gen_Generation g)) (refresh_tokens d) g)]"

definition access_tokens_violation :: "db \<Rightarrow> AccessToken \<Rightarrow> string option" where
  "access_tokens_violation d a = first_violation
     [(''23514'', access_token_authority_ok d a),
      (''23514'', access_tokens_check a),
      (''23505'', unique_among acc_ID (access_tokens d) a),
      (''23505'', unique_among acc_JtiHash (access_tokens d) a),
      (''23505'', unique_among_nonnull acc_SourceRefreshTokenID (access_tokens d) a),
      (''23505'', unique_among_nonnull acc_AuthorizationCodeID (access_tokens d) a),
      (''23503'', refers grant_ID (consent_grants d) (acc_ConsentGrantID a)),
      (''23503'', refers usr_ID (users d) (acc_UserID a)),
      (''23503'', refers cl_ID (oidc_clients d) (acc_ClientID a)),
      (''23503'', none_or (refers ses_ID (login_sessions d)) (acc_OriginSessionID a))]"

text \<open>
  The three partial unique indexes of migrations 11 and 14 allow one rejection or reuse
  event per target.
\<close>

definition audit_once :: "string \<Rightarrow> string \<Rightarrow> AuditEvent table \<Rightarrow> AuditEvent \<Rightarrow> bool" where
  "audit_once type target t e =
     (ev_EventType e = type \<and> ev_TargetType e = Some target \<longrightarrow>
        list_all (\<lambda>e'. \<not> (ev_EventType e' = type \<and> ev_TargetType e' = Some target \<and>
                          ev_TargetID e' = ev_TargetID e)) t)"

definition audit_events_violation :: "db \<Rightarrow> AuditEvent \<Rightarrow> string option" where
  "audit_events_violation d e = first_violation
     [(''23514'', audit_events_check e),
      (''23505'', unique_among ev_ID (audit_events d) e),
      (''23505'', audit_once ''authorization_code_exchange_rejected'' ''authorization_code'' (audit_events d) e),
      (''23505'', audit_once ''refresh_token_exchange_rejected'' ''refresh_token'' (audit_events d) e),
      (''23505'', audit_once ''refresh_token_reuse_detected'' ''refresh_token'' (audit_events d) e),
      (''23503'', none_or (refers usr_ID (users d)) (ev_ActorUserID e))]"

section \<open>Checked statements\<close>

definition insert_checked :: "string option \<Rightarrow> 'r \<Rightarrow> 'r table \<Rightarrow> pg_error + 'r table" where
  "insert_checked violation r t =
     (case violation of Some state \<Rightarrow> Inl (PgError state) | None \<Rightarrow> Inr (insert_row r t))"

definition update_checked ::
  "('r \<Rightarrow> bool) \<Rightarrow> ('r \<Rightarrow> bool) \<Rightarrow> ('r \<Rightarrow> 'r) \<Rightarrow> 'r table \<Rightarrow> pg_error + 'r table" where
  "update_checked check p f t =
     (if list_all (\<lambda>r. p r \<longrightarrow> check (f r)) t then Inr (update_where p f t)
      else Inl (PgError ''23514''))"

text \<open>
  \<^verbatim>\<open>WITH candidates AS (SELECT id ... ORDER BY ... LIMIT n FOR UPDATE SKIP LOCKED)\<close>: the
  keys of the first \<open>n\<close> rows of the predicate in the given order, which a \<^verbatim>\<open>DELETE\<close> or an
  \<^verbatim>\<open>UPDATE\<close> then addresses.
\<close>

definition batch_keys ::
  "('r \<Rightarrow> bool) \<Rightarrow> ('r \<Rightarrow> 'o::linorder) \<Rightarrow> ('r \<Rightarrow> uuid) \<Rightarrow> nat \<Rightarrow> 'r table \<Rightarrow> uuid list" where
  "batch_keys p order k n t = map k (take n (sort_key order (select_where p t)))"

definition delete_batch ::
  "('r \<Rightarrow> bool) \<Rightarrow> ('r \<Rightarrow> 'o::linorder) \<Rightarrow> ('r \<Rightarrow> uuid) \<Rightarrow> nat \<Rightarrow> 'r table \<Rightarrow> uuid list \<times> 'r table" where
  "delete_batch p order k n t =
     (let ids = batch_keys p order k n t in (ids, delete_where (\<lambda>r. k r \<in> set ids) t))"

lemma insert_checked_Inr [tx_simps]:
  "insert_checked v r t = Inr t' \<longleftrightarrow> v = None \<and> t' = insert_row r t"
  by (auto simp: insert_checked_def split: option.split)

lemma update_checked_Inr [tx_simps]:
  "update_checked check p f t = Inr t' \<longleftrightarrow>
     (\<forall>r\<in>set t. p r \<longrightarrow> check (f r)) \<and> t' = update_where p f t"
  by (auto simp: update_checked_def list_all_iff)

lemma first_violation_eval: "first_violation cs = None \<longleftrightarrow> list_all snd cs"
  by (auto simp: first_violation_None list_all_iff)

lemmas row_eval = first_violation_eval select_one_def scopes_valid_def scope_supported_def
  duration_defs revocation_valid_def unique_among_def unique_among_nonnull_def refers_def insert_row_def

end
