(* ===== verification/Queries.thy ===== *)
theory Queries
  imports Database
begin

text \<open>
  The generated queries of \<^verbatim>\<open>internal/storage/postgres/sqlcgen\<close>, one definition per
  statement. A \<^verbatim>\<open>:one\<close> query returns an \<open>option\<close> (\<open>None\<close> is \<^verbatim>\<open>pgx.ErrNoRows\<close>), a \<^verbatim>\<open>:many\<close>
  query a list, \<^verbatim>\<open>:execrows\<close> the number of rows. A reading query is a function of the
  database; a writing one may be refused by a constraint. \<^verbatim>\<open>FOR UPDATE\<close> does not change
  what is read: a transaction is executed against one database state.
\<close>

definition stmt :: "('t \<Rightarrow> 'a \<times> db) \<Rightarrow> pg_error + 't \<Rightarrow> pg_error + 'a \<times> db" where
  "stmt f r = (case r of Inl e \<Rightarrow> Inl e | Inr t \<Rightarrow> Inr (f t))"

lemma stmt_Inr [tx_simps]: "stmt f r = Inr y \<longleftrightarrow> (\<exists>t. r = Inr t \<and> y = f t)"
  by (auto simp: stmt_def split: sum.split)

text \<open>Optional text columns: \<^verbatim>\<open>pointerString\<close> and \<^verbatim>\<open>valueString\<close>.\<close>

definition pointerString :: "string \<Rightarrow> string option" where
  "pointerString value = (if value = '''' then None else Some value)"

definition valueString :: "string option \<Rightarrow> string" where
  "valueString value = (case value of None \<Rightarrow> '''' | Some s \<Rightarrow> s)"

lemma valueString_pointerString [simp]: "valueString (pointerString s) = s"
  by (simp add: valueString_def pointerString_def)

section \<open>identity.sql.go and client.sql.go\<close>

definition GetUserByID :: "uuid \<Rightarrow> db \<Rightarrow> User option" where
  "GetUserByID i d = select_one (\<lambda>u. usr_ID u = i) (users d)"

definition LockUserByID :: "uuid \<Rightarrow> db \<Rightarrow> User option" where
  "LockUserByID i d = select_one (\<lambda>u. usr_ID u = i) (users d)"

definition GetOIDCClientByID :: "uuid \<Rightarrow> db \<Rightarrow> OidcClient option" where
  "GetOIDCClientByID i d = select_one (\<lambda>c. cl_ID c = i) (oidc_clients d)"

definition LockOIDCClientByID :: "uuid \<Rightarrow> db \<Rightarrow> OidcClient option" where
  "LockOIDCClientByID i d = select_one (\<lambda>c. cl_ID c = i) (oidc_clients d)"

definition LockOIDCClientByClientID :: "string \<Rightarrow> db \<Rightarrow> OidcClient option" where
  "LockOIDCClientByClientID i d = select_one (\<lambda>c. cl_ClientID c = i) (oidc_clients d)"

definition client_children :: "uuid \<Rightarrow> OidcClientChild table \<Rightarrow> string list" where
  "client_children i t = sort (map ch_Value (select_where (\<lambda>r. ch_ClientID r = i) t))"

definition ListOIDCClientRedirectURIs :: "uuid \<Rightarrow> db \<Rightarrow> string list" where
  "ListOIDCClientRedirectURIs i d = client_children i (client_redirect_uris d)"

definition ListOIDCClientLogoutURIs :: "uuid \<Rightarrow> db \<Rightarrow> string list" where
  "ListOIDCClientLogoutURIs i d = client_children i (client_logout_uris d)"

definition ListOIDCClientScopes :: "uuid \<Rightarrow> db \<Rightarrow> string list" where
  "ListOIDCClientScopes i d = client_children i (client_scopes d)"

section \<open>audit.sql.go\<close>

definition CreateAuditEvent :: "AuditEvent \<Rightarrow> db \<Rightarrow> pg_error + unit \<times> db" where
  "CreateAuditEvent e d = stmt (\<lambda>t. ((), d\<lparr>audit_events := t\<rparr>))
     (insert_checked (audit_events_violation d e) e (audit_events d))"

section \<open>authflow.sql.go\<close>

definition LockAuthTransactionByID :: "uuid \<Rightarrow> db \<Rightarrow> AuthTransaction option" where
  "LockAuthTransactionByID i d = select_one (\<lambda>t. tr_ID t = i) (auth_transactions d)"

definition ConsumeAuthTransaction :: "time \<Rightarrow> uuid \<Rightarrow> db \<Rightarrow> pg_error + AuthTransaction option \<times> db" where
  "ConsumeAuthTransaction now i d =
     (let p = (\<lambda>t. tr_ID t = i \<and> tr_ConsumedAt t = None \<and> tr_ExpiresAt t > now);
          f = (\<lambda>t. t\<lparr>tr_ConsumedAt := Some now\<rparr>)
      in stmt (\<lambda>ts. (map_option f (select_one p (auth_transactions d)), d\<lparr>auth_transactions := ts\<rparr>))
           (update_checked auth_transactions_check p f (auth_transactions d)))"

definition RejectAuthTransaction ::
  "time \<Rightarrow> string option \<Rightarrow> uuid \<Rightarrow> db \<Rightarrow> pg_error + AuthTransaction option \<times> db" where
  "RejectAuthTransaction now reason i d =
     (let p = (\<lambda>t. tr_ID t = i \<and> tr_ConsumedAt t = None \<and> tr_ExpiresAt t > now);
          f = (\<lambda>t. t\<lparr>tr_ConsumedAt := Some now, tr_FailureReason := reason\<rparr>)
      in stmt (\<lambda>ts. (map_option f (select_one p (auth_transactions d)), d\<lparr>auth_transactions := ts\<rparr>))
           (update_checked auth_transactions_check p f (auth_transactions d)))"

section \<open>consent.sql.go\<close>

definition GetConsentGrantByUserClient :: "uuid \<Rightarrow> uuid \<Rightarrow> db \<Rightarrow> ConsentGrant option" where
  "GetConsentGrantByUserClient u c d =
     select_one (\<lambda>g. grant_UserID g = u \<and> grant_ClientID g = c) (consent_grants d)"

definition LockConsentGrantByUserClient :: "uuid \<Rightarrow> uuid \<Rightarrow> db \<Rightarrow> ConsentGrant option" where
  "LockConsentGrantByUserClient u c d =
     select_one (\<lambda>g. grant_UserID g = u \<and> grant_ClientID g = c) (consent_grants d)"

definition CreateConsentGrant ::
  "uuid \<Rightarrow> uuid \<Rightarrow> uuid \<Rightarrow> string list \<Rightarrow> time \<Rightarrow> time \<Rightarrow> db \<Rightarrow> pg_error + ConsentGrant \<times> db" where
  "CreateConsentGrant i u c scopes created updated d =
     (let g = \<lparr>grant_ID = i, grant_UserID = u, grant_ClientID = c, grant_Scopes = scopes,
               grant_CreatedAt = created, grant_UpdatedAt = updated, grant_RevokedAt = None,
               grant_Version = 1\<rparr>
      in stmt (\<lambda>t. (g, d\<lparr>consent_grants := t\<rparr>))
           (insert_checked (consent_grants_violation d g) g (consent_grants d)))"

text \<open>\<^verbatim>\<open>version = version + 1\<close> on a \<^verbatim>\<open>bigint\<close> column is refused when it would overflow.\<close>

definition bump_grant ::
  "(ConsentGrant \<Rightarrow> bool) \<Rightarrow> (ConsentGrant \<Rightarrow> ConsentGrant) \<Rightarrow> db \<Rightarrow> pg_error + ConsentGrant option \<times> db" where
  "bump_grant p f d =
     (let f' = (\<lambda>g. f (g\<lparr>grant_Version := grant_Version g + 1\<rparr>))
      in if list_ex (\<lambda>g. p g \<and> grant_Version g \<ge> MaxInt64) (consent_grants d)
         then Inl (PgError ''22003'')
         else stmt (\<lambda>t. (map_option f' (select_one p (consent_grants d)), d\<lparr>consent_grants := t\<rparr>))
                (update_checked consent_grants_check p f' (consent_grants d)))"

definition ReactivateConsentGrant ::
  "string list \<Rightarrow> time \<Rightarrow> uuid \<Rightarrow> db \<Rightarrow> pg_error + ConsentGrant option \<times> db" where
  "ReactivateConsentGrant scopes updated i =
     bump_grant (\<lambda>g. grant_ID g = i \<and> grant_RevokedAt g \<noteq> None)
       (\<lambda>g. g\<lparr>grant_Scopes := scopes, grant_RevokedAt := None, grant_UpdatedAt := updated\<rparr>)"

definition RevokeConsentGrant :: "time \<Rightarrow> uuid \<Rightarrow> db \<Rightarrow> pg_error + ConsentGrant option \<times> db" where
  "RevokeConsentGrant now i =
     bump_grant (\<lambda>g. grant_ID g = i \<and> grant_RevokedAt g = None)
       (\<lambda>g. g\<lparr>grant_RevokedAt := Some now, grant_UpdatedAt := now\<rparr>)"

definition UpdateConsentGrantScopes ::
  "string list \<Rightarrow> time \<Rightarrow> uuid \<Rightarrow> db \<Rightarrow> pg_error + ConsentGrant option \<times> db" where
  "UpdateConsentGrantScopes scopes updated i =
     bump_grant (\<lambda>g. grant_ID g = i \<and> grant_RevokedAt g = None)
       (\<lambda>g. g\<lparr>grant_Scopes := scopes, grant_UpdatedAt := updated\<rparr>)"

section \<open>authorization.sql.go\<close>

definition LockAuthorizationCodeByHash :: "string \<Rightarrow> db \<Rightarrow> AuthorizationCode option" where
  "LockAuthorizationCodeByHash h d = select_one (\<lambda>c. code_CodeHash c = h) (authorization_codes d)"

text \<open>The columns the statement does not list take their defaults.\<close>

definition CreateAuthorizationCode :: "AuthorizationCode \<Rightarrow> db \<Rightarrow> pg_error + unit \<times> db" where
  "CreateAuthorizationCode params d =
     (let c = params\<lparr>code_ConsumedAt := None\<rparr>
      in stmt (\<lambda>t. ((), d\<lparr>authorization_codes := t\<rparr>))
           (insert_checked (authorization_codes_violation d c) c (authorization_codes d)))"

definition ConsumeAuthorizationCode :: "time \<Rightarrow> uuid \<Rightarrow> db \<Rightarrow> pg_error + AuthorizationCode option \<times> db" where
  "ConsumeAuthorizationCode now i d =
     (let p = (\<lambda>c. code_ID c = i \<and> code_ConsumedAt c = None \<and> code_ExpiresAt c > now);
          f = (\<lambda>c. c\<lparr>code_ConsumedAt := Some now\<rparr>)
      in stmt (\<lambda>t. (map_option f (select_one p (authorization_codes d)), d\<lparr>authorization_codes := t\<rparr>))
           (update_checked authorization_codes_check p f (authorization_codes d)))"

section \<open>token.sql.go: reads\<close>

definition GetAccessTokenByJTIHash :: "string \<Rightarrow> db \<Rightarrow> AccessToken option" where
  "GetAccessTokenByJTIHash h d = select_one (\<lambda>a. acc_JtiHash a = h) (access_tokens d)"

definition LockAccessTokenByID :: "uuid \<Rightarrow> db \<Rightarrow> AccessToken option" where
  "LockAccessTokenByID i d = select_one (\<lambda>a. acc_ID a = i) (access_tokens d)"

definition GetRefreshTokenByHash :: "string \<Rightarrow> db \<Rightarrow> RefreshToken option" where
  "GetRefreshTokenByHash h d = select_one (\<lambda>g. gen_TokenHash g = h) (refresh_tokens d)"

definition LockRefreshTokenByID :: "uuid \<Rightarrow> db \<Rightarrow> RefreshToken option" where
  "LockRefreshTokenByID i d = select_one (\<lambda>g. gen_ID g = i) (refresh_tokens d)"

definition GetRefreshTokenFamilyByID :: "uuid \<Rightarrow> db \<Rightarrow> RefreshTokenFamily option" where
  "GetRefreshTokenFamilyByID i d = select_one (\<lambda>f. fam_ID f = i) (refresh_token_families d)"

definition LockRefreshTokenFamilyByID :: "uuid \<Rightarrow> db \<Rightarrow> RefreshTokenFamily option" where
  "LockRefreshTokenFamilyByID i d = select_one (\<lambda>f. fam_ID f = i) (refresh_token_families d)"

definition HasAuthorizationCodeExchangeRejection :: "uuid \<Rightarrow> db \<Rightarrow> bool" where
  "HasAuthorizationCodeExchangeRejection i d =
     list_ex (\<lambda>e. ev_EventType e = ''authorization_code_exchange_rejected'' \<and>
                  ev_TargetType e = Some ''authorization_code'' \<and> ev_TargetID e = Some i) (audit_events d)"

text \<open>The rows the lifecycle statements address: unrevoked families, live access tokens.\<close>

definition unrevoked_family :: "(RefreshTokenFamily \<Rightarrow> bool) \<Rightarrow> RefreshTokenFamily \<Rightarrow> bool" where
  "unrevoked_family p f \<longleftrightarrow> p f \<and> fam_RevokedAt f = None"

definition live_access :: "(AccessToken \<Rightarrow> bool) \<Rightarrow> time \<Rightarrow> AccessToken \<Rightarrow> bool" where
  "live_access p now a \<longleftrightarrow> p a \<and> acc_RevokedAt a = None \<and> acc_ExpiresAt a > now"

definition lock_families :: "(RefreshTokenFamily \<Rightarrow> bool) \<Rightarrow> db \<Rightarrow> uuid list" where
  "lock_families p d = sort (map fam_ID (select_where (unrevoked_family p) (refresh_token_families d)))"

definition lock_live_access :: "(AccessToken \<Rightarrow> bool) \<Rightarrow> time \<Rightarrow> db \<Rightarrow> uuid list" where
  "lock_live_access p now d = sort (map acc_ID (select_where (live_access p now) (access_tokens d)))"

definition LockUnrevokedRefreshTokenFamiliesByGrant :: "uuid \<Rightarrow> db \<Rightarrow> uuid list" where
  "LockUnrevokedRefreshTokenFamiliesByGrant g = lock_families (\<lambda>f. fam_ConsentGrantID f = g)"

definition LockUnrevokedRefreshTokenFamiliesByBindings :: "uuid list \<Rightarrow> db \<Rightarrow> uuid list" where
  "LockUnrevokedRefreshTokenFamiliesByBindings bs = lock_families (\<lambda>f. fam_SessionBindingID f \<in> set bs)"

definition LockUnrevokedRefreshTokenFamiliesByClient :: "uuid \<Rightarrow> db \<Rightarrow> uuid list" where
  "LockUnrevokedRefreshTokenFamiliesByClient c = lock_families (\<lambda>f. fam_ClientID f = c)"

definition LockUnrevokedRefreshTokenFamiliesByUser :: "uuid \<Rightarrow> db \<Rightarrow> uuid list" where
  "LockUnrevokedRefreshTokenFamiliesByUser u = lock_families (\<lambda>f. fam_UserID f = u)"

definition LockLiveAccessTokensByGrant :: "uuid \<Rightarrow> time \<Rightarrow> db \<Rightarrow> uuid list" where
  "LockLiveAccessTokensByGrant g = lock_live_access (\<lambda>a. acc_ConsentGrantID a = g)"

definition LockLiveAccessTokensByClient :: "uuid \<Rightarrow> time \<Rightarrow> db \<Rightarrow> uuid list" where
  "LockLiveAccessTokensByClient c = lock_live_access (\<lambda>a. acc_ClientID a = c)"

definition LockLiveRefreshAccessTokensByClient :: "uuid \<Rightarrow> time \<Rightarrow> db \<Rightarrow> uuid list" where
  "LockLiveRefreshAccessTokensByClient c =
     lock_live_access (\<lambda>a. acc_ClientID a = c \<and> acc_RefreshFamilyID a \<noteq> None)"

definition LockLiveAccessTokensByUser :: "uuid \<Rightarrow> time \<Rightarrow> db \<Rightarrow> uuid list" where
  "LockLiveAccessTokensByUser u = lock_live_access (\<lambda>a. acc_UserID a = u)"

definition LockLiveAccessTokensByBindings :: "uuid list \<Rightarrow> time \<Rightarrow> db \<Rightarrow> uuid list" where
  "LockLiveAccessTokensByBindings bs =
     lock_live_access (\<lambda>a. case acc_SessionBindingID a of Some b \<Rightarrow> b \<in> set bs | None \<Rightarrow> False)"

section \<open>token.sql.go: issuance\<close>

definition CreateRefreshTokenFamily :: "RefreshTokenFamily \<Rightarrow> db \<Rightarrow> pg_error + RefreshTokenFamily \<times> db" where
  "CreateRefreshTokenFamily params d =
     (let f = params\<lparr>fam_RevokedAt := None, fam_RevokeReason := None\<rparr>
      in stmt (\<lambda>t. (f, d\<lparr>refresh_token_families := t\<rparr>))
           (insert_checked (refresh_token_families_violation d f) f (refresh_token_families d)))"

definition CreateRefreshToken :: "RefreshToken \<Rightarrow> db \<Rightarrow> pg_error + RefreshToken \<times> db" where
  "CreateRefreshToken params d =
     (let g = params\<lparr>gen_ConsumedAt := None\<rparr>
      in stmt (\<lambda>t. (g, d\<lparr>refresh_tokens := t\<rparr>))
           (insert_checked (refresh_tokens_violation d g) g (refresh_tokens d)))"

definition CreateAccessToken :: "AccessToken \<Rightarrow> db \<Rightarrow> pg_error + unit \<times> db" where
  "CreateAccessToken params d =
     (let a = params\<lparr>acc_IssuanceSource := ''authorization_code'', acc_SourceRefreshTokenID := None,
                     acc_RevokedAt := None, acc_RevokeReason := None\<rparr>
      in stmt (\<lambda>t. ((), d\<lparr>access_tokens := t\<rparr>))
           (insert_checked (access_tokens_violation d a) a (access_tokens d)))"

definition CreateRefreshAccessToken :: "AccessToken \<Rightarrow> db \<Rightarrow> pg_error + unit \<times> db" where
  "CreateRefreshAccessToken params d =
     (let a = params\<lparr>acc_IssuanceSource := ''refresh_token'', acc_AuthorizationCodeID := None,
                     acc_RevokedAt := None, acc_RevokeReason := None\<rparr>
      in stmt (\<lambda>t. ((), d\<lparr>access_tokens := t\<rparr>))
           (insert_checked (access_tokens_violation d a) a (access_tokens d)))"

definition ConsumeRefreshToken :: "time \<Rightarrow> uuid \<Rightarrow> db \<Rightarrow> pg_error + RefreshToken option \<times> db" where
  "ConsumeRefreshToken now i d =
     (let p = (\<lambda>g. gen_ID g = i \<and> gen_ConsumedAt g = None);
          f = (\<lambda>g. g\<lparr>gen_ConsumedAt := Some now\<rparr>)
      in stmt (\<lambda>t. (map_option f (select_one p (refresh_tokens d)), d\<lparr>refresh_tokens := t\<rparr>))
           (update_checked refresh_tokens_check p f (refresh_tokens d)))"

section \<open>token.sql.go and logout.sql.go: revocation\<close>

definition revoke_families ::
  "(RefreshTokenFamily \<Rightarrow> bool) \<Rightarrow> time \<Rightarrow> string option \<Rightarrow> db \<Rightarrow> pg_error + uuid list \<times> db" where
  "revoke_families p now reason d =
     stmt (\<lambda>t. (map fam_ID (select_where (unrevoked_family p) (refresh_token_families d)),
                d\<lparr>refresh_token_families := t\<rparr>))
       (update_checked refresh_token_families_check (unrevoked_family p)
          (\<lambda>f. f\<lparr>fam_RevokedAt := Some now, fam_RevokeReason := reason\<rparr>) (refresh_token_families d))"

definition revoke_live_access ::
  "(AccessToken \<Rightarrow> bool) \<Rightarrow> time \<Rightarrow> string option \<Rightarrow> db \<Rightarrow> pg_error + nat \<times> db" where
  "revoke_live_access p now reason d =
     stmt (\<lambda>t. (length (select_where (live_access p now) (access_tokens d)), d\<lparr>access_tokens := t\<rparr>))
       (update_checked access_tokens_check (live_access p now)
          (\<lambda>a. a\<lparr>acc_RevokedAt := Some now, acc_RevokeReason := reason\<rparr>) (access_tokens d))"

definition RevokeRefreshTokenFamily ::
  "time \<Rightarrow> string option \<Rightarrow> uuid \<Rightarrow> db \<Rightarrow> pg_error + RefreshTokenFamily option \<times> db" where
  "RevokeRefreshTokenFamily now reason i d =
     (let p = (\<lambda>f. fam_ID f = i);
          f = (\<lambda>f. f\<lparr>fam_RevokedAt := Some now, fam_RevokeReason := reason\<rparr>)
      in stmt (\<lambda>(ids, d'). (map_option f (select_one (unrevoked_family p) (refresh_token_families d)), d'))
           (revoke_families p now reason d))"

definition RevokeRefreshTokenFamiliesByGrant :: "time \<Rightarrow> uuid \<Rightarrow> db \<Rightarrow> pg_error + uuid list \<times> db" where
  "RevokeRefreshTokenFamiliesByGrant now g =
     revoke_families (\<lambda>f. fam_ConsentGrantID f = g) now (Some ''grant_revoked'')"

definition RevokeRefreshTokenFamiliesByClient ::
  "time \<Rightarrow> string option \<Rightarrow> uuid \<Rightarrow> db \<Rightarrow> pg_error + nat \<times> db" where
  "RevokeRefreshTokenFamiliesByClient now reason c d =
     stmt (\<lambda>(ids, d'). (length ids, d')) (revoke_families (\<lambda>f. fam_ClientID f = c) now reason d)"

definition RevokeRefreshTokenFamiliesByUser ::
  "time \<Rightarrow> string option \<Rightarrow> uuid \<Rightarrow> db \<Rightarrow> pg_error + nat \<times> db" where
  "RevokeRefreshTokenFamiliesByUser now reason u d =
     stmt (\<lambda>(ids, d'). (length ids, d')) (revoke_families (\<lambda>f. fam_UserID f = u) now reason d)"

definition RevokeRefreshTokenFamiliesByBindings ::
  "time \<Rightarrow> string option \<Rightarrow> uuid list \<Rightarrow> db \<Rightarrow> pg_error + nat \<times> db" where
  "RevokeRefreshTokenFamiliesByBindings now reason bs d =
     stmt (\<lambda>(ids, d'). (length ids, d')) (revoke_families (\<lambda>f. fam_SessionBindingID f \<in> set bs) now reason d)"

definition RevokeLiveAccessTokensByFamily :: "time \<Rightarrow> uuid \<Rightarrow> db \<Rightarrow> pg_error + nat \<times> db" where
  "RevokeLiveAccessTokensByFamily now f =
     revoke_live_access (\<lambda>a. acc_RefreshFamilyID a = Some f) now (Some ''family_revoked'')"

definition RevokeLiveAccessTokensByGrant :: "time \<Rightarrow> uuid \<Rightarrow> db \<Rightarrow> pg_error + nat \<times> db" where
  "RevokeLiveAccessTokensByGrant now g =
     revoke_live_access (\<lambda>a. acc_ConsentGrantID a = g) now (Some ''grant_revoked'')"

definition RevokeLiveAccessTokensByClient ::
  "time \<Rightarrow> string option \<Rightarrow> uuid \<Rightarrow> db \<Rightarrow> pg_error + nat \<times> db" where
  "RevokeLiveAccessTokensByClient now reason c = revoke_live_access (\<lambda>a. acc_ClientID a = c) now reason"

definition RevokeLiveRefreshAccessTokensByClient ::
  "time \<Rightarrow> string option \<Rightarrow> uuid \<Rightarrow> db \<Rightarrow> pg_error + nat \<times> db" where
  "RevokeLiveRefreshAccessTokensByClient now reason c =
     revoke_live_access (\<lambda>a. acc_ClientID a = c \<and> acc_RefreshFamilyID a \<noteq> None) now reason"

definition RevokeLiveAccessTokensByUser ::
  "time \<Rightarrow> string option \<Rightarrow> uuid \<Rightarrow> db \<Rightarrow> pg_error + nat \<times> db" where
  "RevokeLiveAccessTokensByUser now reason u = revoke_live_access (\<lambda>a. acc_UserID a = u) now reason"

definition RevokeLiveAccessTokensByBindings ::
  "time \<Rightarrow> string option \<Rightarrow> uuid list \<Rightarrow> db \<Rightarrow> pg_error + nat \<times> db" where
  "RevokeLiveAccessTokensByBindings now reason bs =
     revoke_live_access (\<lambda>a. case acc_SessionBindingID a of Some b \<Rightarrow> b \<in> set bs | None \<Rightarrow> False) now reason"

text \<open>\<^verbatim>\<open>RevokeAccessToken\<close> does not look at the expiry, unlike the bulk statements.\<close>

definition RevokeAccessToken ::
  "time \<Rightarrow> string option \<Rightarrow> uuid \<Rightarrow> db \<Rightarrow> pg_error + AccessToken option \<times> db" where
  "RevokeAccessToken now reason i d =
     (let p = (\<lambda>a. acc_ID a = i \<and> acc_RevokedAt a = None);
          f = (\<lambda>a. a\<lparr>acc_RevokedAt := Some now, acc_RevokeReason := reason\<rparr>)
      in stmt (\<lambda>t. (map_option f (select_one p (access_tokens d)), d\<lparr>access_tokens := t\<rparr>))
           (update_checked access_tokens_check p f (access_tokens d)))"

section \<open>Session rows\<close>

definition LockLoginSessionByID :: "uuid \<Rightarrow> db \<Rightarrow> LoginSession option" where
  "LockLoginSessionByID i d = select_one (\<lambda>s. ses_ID s = i) (login_sessions d)"

definition LockLoginSessionByTokenHash :: "string \<Rightarrow> db \<Rightarrow> LoginSession option" where
  "LockLoginSessionByTokenHash h d = select_one (\<lambda>s. ses_TokenHash s = h) (login_sessions d)"

definition RevokeLoginSessionBindingByID ::
  "time \<Rightarrow> string option \<Rightarrow> uuid \<Rightarrow> db \<Rightarrow> pg_error + LoginSession option \<times> db" where
  "RevokeLoginSessionBindingByID now reason i d =
     (let p = (\<lambda>s. ses_ID s = i \<and> ses_RevokedAt s = None);
          f = (\<lambda>s. s\<lparr>ses_RevokedAt := Some now, ses_RevokeReason := reason\<rparr>)
      in stmt (\<lambda>t. (map_option f (select_one p (login_sessions d)), d\<lparr>login_sessions := t\<rparr>))
           (update_checked login_sessions_check p f (login_sessions d)))"

lemmas read_query_defs =
  GetUserByID_def LockUserByID_def GetOIDCClientByID_def LockOIDCClientByID_def
  LockOIDCClientByClientID_def GetConsentGrantByUserClient_def LockConsentGrantByUserClient_def
  LockAuthTransactionByID_def LockAuthorizationCodeByHash_def GetAccessTokenByJTIHash_def
  LockAccessTokenByID_def GetRefreshTokenByHash_def LockRefreshTokenByID_def
  GetRefreshTokenFamilyByID_def LockRefreshTokenFamilyByID_def LockLoginSessionByID_def
  LockLoginSessionByTokenHash_def


section \<open>What a successful statement did\<close>

lemma CreateRefreshTokenFamily_Inr [tx_simps]:
  "CreateRefreshTokenFamily p d = Inr (f, d') \<longleftrightarrow>
     f = p\<lparr>fam_RevokedAt := None, fam_RevokeReason := None\<rparr> \<and> refresh_token_families_violation d f = None \<and>
     d' = d\<lparr>refresh_token_families := insert_row f (refresh_token_families d)\<rparr>"
  by (auto simp: CreateRefreshTokenFamily_def Let_def tx_simps)

lemma CreateRefreshToken_Inr [tx_simps]:
  "CreateRefreshToken p d = Inr (g, d') \<longleftrightarrow>
     g = p\<lparr>gen_ConsumedAt := None\<rparr> \<and> refresh_tokens_violation d g = None \<and>
     d' = d\<lparr>refresh_tokens := insert_row g (refresh_tokens d)\<rparr>"
  by (auto simp: CreateRefreshToken_def Let_def tx_simps)

lemma CreateAccessToken_Inr [tx_simps]:
  "CreateAccessToken p d = Inr (u, d') \<longleftrightarrow>
     (\<exists>a. a = p\<lparr>acc_IssuanceSource := ''authorization_code'', acc_SourceRefreshTokenID := None,
              acc_RevokedAt := None, acc_RevokeReason := None\<rparr> \<and> access_tokens_violation d a = None \<and>
     d' = d\<lparr>access_tokens := insert_row a (access_tokens d)\<rparr>)"
  by (auto simp: CreateAccessToken_def Let_def tx_simps)

lemma CreateRefreshAccessToken_Inr [tx_simps]:
  "CreateRefreshAccessToken p d = Inr (u, d') \<longleftrightarrow>
     (\<exists>a. a = p\<lparr>acc_IssuanceSource := ''refresh_token'', acc_AuthorizationCodeID := None,
              acc_RevokedAt := None, acc_RevokeReason := None\<rparr> \<and> access_tokens_violation d a = None \<and>
     d' = d\<lparr>access_tokens := insert_row a (access_tokens d)\<rparr>)"
  by (auto simp: CreateRefreshAccessToken_def Let_def tx_simps)

definition consume_code :: "time \<Rightarrow> uuid \<Rightarrow> AuthorizationCode table \<Rightarrow> AuthorizationCode table" where
  "consume_code now i = update_where
     (\<lambda>c. code_ID c = i \<and> code_ConsumedAt c = None \<and> code_ExpiresAt c > now) (\<lambda>c. c\<lparr>code_ConsumedAt := Some now\<rparr>)"

lemma ConsumeAuthorizationCode_Inr:
  "ConsumeAuthorizationCode now i d = Inr (r, d') \<Longrightarrow>
     (r \<noteq> None \<longrightarrow> (\<exists>c \<in> set (authorization_codes d). code_ID c = i \<and> code_ConsumedAt c = None \<and> code_ExpiresAt c > now)) \<and>
     d' = d\<lparr>authorization_codes := consume_code now i (authorization_codes d)\<rparr>"
  by (auto simp: ConsumeAuthorizationCode_def Let_def tx_simps consume_code_def)

definition consume_generation :: "time \<Rightarrow> uuid \<Rightarrow> RefreshToken table \<Rightarrow> RefreshToken table" where
  "consume_generation now i =
     update_where (\<lambda>g. gen_ID g = i \<and> gen_ConsumedAt g = None) (\<lambda>g. g\<lparr>gen_ConsumedAt := Some now\<rparr>)"

lemma ConsumeRefreshToken_Inr:
  "ConsumeRefreshToken now i d = Inr (r, d') \<Longrightarrow>
     d' = d\<lparr>refresh_tokens := consume_generation now i (refresh_tokens d)\<rparr>"
  by (auto simp: ConsumeRefreshToken_def Let_def tx_simps consume_generation_def)

definition mark_families ::
  "(RefreshTokenFamily \<Rightarrow> bool) \<Rightarrow> time \<Rightarrow> string option \<Rightarrow> RefreshTokenFamily table \<Rightarrow> RefreshTokenFamily table" where
  "mark_families p now reason = update_where (unrevoked_family p)
     (\<lambda>f. f\<lparr>fam_RevokedAt := Some now, fam_RevokeReason := reason\<rparr>)"

definition mark_access ::
  "(AccessToken \<Rightarrow> bool) \<Rightarrow> time \<Rightarrow> string option \<Rightarrow> AccessToken table \<Rightarrow> AccessToken table" where
  "mark_access p now reason = update_where (live_access p now)
     (\<lambda>a. a\<lparr>acc_RevokedAt := Some now, acc_RevokeReason := reason\<rparr>)"

lemma revoke_families_Inr:
  "revoke_families p now reason d = Inr (ids, d') \<Longrightarrow>
     ids = map fam_ID (select_where (unrevoked_family p) (refresh_token_families d)) \<and>
     d' = d\<lparr>refresh_token_families := mark_families p now reason (refresh_token_families d)\<rparr>"
  by (auto simp: revoke_families_def mark_families_def tx_simps)

lemma revoke_live_access_Inr:
  "revoke_live_access p now reason d = Inr (n, d') \<Longrightarrow>
     n = length (select_where (live_access p now) (access_tokens d)) \<and>
     d' = d\<lparr>access_tokens := mark_access p now reason (access_tokens d)\<rparr>"
  by (auto simp: revoke_live_access_def mark_access_def tx_simps)

lemma RevokeRefreshTokenFamily_Inr:
  "RevokeRefreshTokenFamily now reason i d = Inr (r, d') \<Longrightarrow>
     d' = d\<lparr>refresh_token_families := mark_families (\<lambda>f. fam_ID f = i) now reason (refresh_token_families d)\<rparr>"
  by (auto simp: RevokeRefreshTokenFamily_def Let_def tx_simps dest!: revoke_families_Inr)

definition revoke_access_id :: "time \<Rightarrow> string option \<Rightarrow> uuid \<Rightarrow> AccessToken table \<Rightarrow> AccessToken table" where
  "revoke_access_id now reason i = update_where (\<lambda>a. acc_ID a = i \<and> acc_RevokedAt a = None)
     (\<lambda>a. a\<lparr>acc_RevokedAt := Some now, acc_RevokeReason := reason\<rparr>)"

lemma RevokeAccessToken_Inr:
  "RevokeAccessToken now reason i d = Inr (r, d') \<Longrightarrow>
     d' = d\<lparr>access_tokens := revoke_access_id now reason i (access_tokens d)\<rparr>"
  by (auto simp: RevokeAccessToken_def Let_def tx_simps revoke_access_id_def)

lemmas bulk_revocation_defs =
  RevokeRefreshTokenFamiliesByGrant_def RevokeRefreshTokenFamiliesByClient_def
  RevokeRefreshTokenFamiliesByUser_def RevokeRefreshTokenFamiliesByBindings_def
  RevokeLiveAccessTokensByFamily_def RevokeLiveAccessTokensByGrant_def
  RevokeLiveAccessTokensByClient_def RevokeLiveRefreshAccessTokensByClient_def
  RevokeLiveAccessTokensByUser_def RevokeLiveAccessTokensByBindings_def

lemma lock_by_id:
  "LockUserByID i d = Some u \<Longrightarrow> usr_ID u = i"
  "LockOIDCClientByID i d = Some c \<Longrightarrow> cl_ID c = i"
  "LockRefreshTokenFamilyByID i d = Some f \<Longrightarrow> fam_ID f = i"
  "LockRefreshTokenByID i d = Some g \<Longrightarrow> gen_ID g = i"
  by (auto simp: read_query_defs)

lemma lock_access_by_id: "LockAccessTokenByID i d = Some a \<Longrightarrow> acc_ID a = i"
  by (auto simp: read_query_defs)

lemma select_one_mark_families:
  "select_one (\<lambda>f. fam_ID f = i) (mark_families p now reason t) =
     map_option (\<lambda>f. if unrevoked_family p f then f\<lparr>fam_RevokedAt := Some now, fam_RevokeReason := reason\<rparr> else f)
       (select_one (\<lambda>f. fam_ID f = i) t)"
  by (simp add: mark_families_def table_simps)

lemma mark_access_no_live:
  "select_where (live_access p now) (mark_access p now reason t) = []"
  by (auto simp: mark_access_def select_where_def update_where_def filter_empty_conv live_access_def)

section \<open>Revocations that succeed\<close>

text \<open>The rows satisfy their constraints and are not younger than the instant of the revocation.\<close>

definition families_predate :: "time \<Rightarrow> db \<Rightarrow> bool" where
  "families_predate now d =
     list_all (\<lambda>f. refresh_token_families_check f \<and> fam_CreatedAt f \<le> now) (refresh_token_families d)"

definition access_predate :: "time \<Rightarrow> db \<Rightarrow> bool" where
  "access_predate now d = list_all (\<lambda>a. access_tokens_check a \<and> acc_IssuedAt a \<le> now) (access_tokens d)"

lemma revoke_reasons [simp]:
  "''reuse'' \<in> set family_revoke_reasons" "''client_revocation'' \<in> set family_revoke_reasons"
  "''grant_revoked'' \<in> set family_revoke_reasons" "''session_revoked'' \<in> set family_revoke_reasons"
  "''user_disabled'' \<in> set family_revoke_reasons" "''client_disabled'' \<in> set family_revoke_reasons"
  "''offline_scope_removed'' \<in> set family_revoke_reasons" "''account_switch'' \<in> set family_revoke_reasons"
  "''client_revocation'' \<in> set access_revoke_reasons" "''family_revoked'' \<in> set access_revoke_reasons"
  "''grant_revoked'' \<in> set access_revoke_reasons" "''session_revoked'' \<in> set access_revoke_reasons"
  "''user_disabled'' \<in> set access_revoke_reasons" "''client_disabled'' \<in> set access_revoke_reasons"
  "''offline_scope_removed'' \<in> set access_revoke_reasons" "''account_switch'' \<in> set access_revoke_reasons"
  by (simp_all add: family_revoke_reasons_def access_revoke_reasons_def)

lemma revoke_families_ok:
  assumes "families_predate now d" "reason \<in> set family_revoke_reasons"
  shows "revoke_families p now (Some reason) d =
    Inr (map fam_ID (select_where (unrevoked_family p) (refresh_token_families d)),
      d\<lparr>refresh_token_families := mark_families p now (Some reason) (refresh_token_families d)\<rparr>)"
proof -
  have "update_checked refresh_token_families_check (unrevoked_family p)
      (\<lambda>r. r\<lparr>fam_RevokedAt := Some now, fam_RevokeReason := Some reason\<rparr>) (refresh_token_families d) =
      Inr (mark_families p now (Some reason) (refresh_token_families d))"
    using assms
    by (auto simp: update_checked_def list_all_iff refresh_token_families_check_def mark_families_def families_predate_def
        revocation_valid_def unrevoked_family_def)
  then show ?thesis by (simp add: revoke_families_def stmt_def)
qed

lemma revoke_live_access_ok:
  assumes "access_predate now d" "reason \<in> set access_revoke_reasons"
  shows "revoke_live_access p now (Some reason) d =
    Inr (length (select_where (live_access p now) (access_tokens d)),
      d\<lparr>access_tokens := mark_access p now (Some reason) (access_tokens d)\<rparr>)"
proof -
  have "update_checked access_tokens_check (live_access p now)
      (\<lambda>a. a\<lparr>acc_RevokedAt := Some now, acc_RevokeReason := Some reason\<rparr>) (access_tokens d) =
      Inr (mark_access p now (Some reason) (access_tokens d))"
    using assms
    by (auto simp: update_checked_def list_all_iff access_tokens_check_def mark_access_def access_predate_def
        revocation_valid_def live_access_def)
  then show ?thesis by (simp add: revoke_live_access_def stmt_def)
qed

lemma RevokeRefreshTokenFamily_ok:
  assumes "families_predate now d" "reason \<in> set family_revoke_reasons"
    "f \<in> set (refresh_token_families d)" "fam_RevokedAt f = None"
  obtains row where "RevokeRefreshTokenFamily now (Some reason) (fam_ID f) d = Inr (Some row,
    d\<lparr>refresh_token_families := mark_families (\<lambda>r. fam_ID r = fam_ID f) now (Some reason) (refresh_token_families d)\<rparr>)"
proof -
  obtain row where "select_one (unrevoked_family (\<lambda>r. fam_ID r = fam_ID f)) (refresh_token_families d) = Some row"
    using select_one_ex[OF assms(3), of "unrevoked_family (\<lambda>r. fam_ID r = fam_ID f)"] assms(4)
    by (auto simp: unrevoked_family_def)
  then show thesis
    using revoke_families_ok[OF assms(1,2)] by (intro that) (simp add: RevokeRefreshTokenFamily_def Let_def stmt_def)
qed

end
