(* ===== verification/Audit_Trail.thy ===== *)
theory Audit_Trail
  imports Queries
begin

text \<open>
  The audit trail: \<^verbatim>\<open>internal/audit/audit.go\<close> (the fixed event vocabulary, construction and
  validation) and the append helpers \<^verbatim>\<open>insertAudit\<close> and \<^verbatim>\<open>insertProtocolAudit\<close> of the
  storage package. The application whitelist and the table constraints are two lists in
  two languages; the theory shows that no event the application accepts is refused by the
  constraints.
\<close>

section \<open>Events\<close>

record Event =
  ae_ID :: uuid
  ae_Type :: string
  ae_Result :: string
  ae_ActorUserID :: "uuid option"
  ae_TargetType :: "string option"
  ae_TargetID :: "uuid option"
  ae_RequestID :: string
  ae_ChangedFields :: "string list"
  ae_OccurredAt :: time

definition validEvents :: "string list" where
  "validEvents =
    [''admin_bootstrap_succeeded'', ''admin_bootstrap_rejected'', ''user_registered'',
     ''user_registration_rejected'', ''user_created'', ''user_updated'', ''user_status_changed'',
     ''user_role_changed'', ''login_succeeded'', ''login_failed'', ''login_disabled_user'',
     ''session_created'', ''session_revoked'', ''sessions_revoked_all'', ''client_created'',
     ''client_updated'', ''client_disabled'', ''client_secret_rotated'',
     ''authorization_transaction_created'', ''authorization_transaction_consumed'',
     ''authorization_transaction_expired'', ''authorization_transaction_rejected'',
     ''authorization_granted'', ''authorization_denied'', ''authorization_code_issued'',
     ''authorization_code_exchange_succeeded'', ''authorization_code_exchange_rejected'',
     ''consent_grant_created'', ''consent_grant_expanded'', ''access_token_issued'',
     ''signing_key_loaded'', ''refresh_token_issued'', ''refresh_token_rotated'',
     ''refresh_token_exchange_rejected'', ''refresh_token_reuse_detected'',
     ''refresh_token_family_revoked'', ''access_token_revoked'', ''consent_grant_revoked'',
     ''consent_grant_reactivated'', ''rp_logout_completed'', ''logout_transaction_rejected'']"

definition validResults :: "string list" where
  "validResults = [''success'', ''rejected'', ''failure'']"

definition validTargets :: "string list" where
  "validTargets = [''user'', ''client'', ''session'', ''auth_transaction'', ''consent_grant'',
     ''authorization_code'', ''access_token'', ''refresh_token'', ''refresh_token_family'',
     ''logout_transaction'']"

definition validChangedFields :: "string list" where
  "validChangedFields = [''status'', ''role'', ''username'', ''display_name'', ''email'', ''name'',
     ''description'', ''logo_uri'', ''registration_enabled'', ''redirect_uris'', ''logout_uris'',
     ''scopes'', ''secret'', ''revoked'', ''created'', ''expanded'', ''issued'', ''consumed'',
     ''rotated'', ''reused'', ''reactivated'']"

text \<open>\<^verbatim>\<open>^[A-Za-z0-9._:-]{1,128}$\<close>.\<close>

definition requestIDPattern :: "string \<Rightarrow> bool" where
  "requestIDPattern s \<longleftrightarrow> 1 \<le> length s \<and> length s \<le> 128 \<and> list_all request_id_char s"

text \<open>\<^verbatim>\<open>Event.Validate\<close>; \<open>False\<close> is \<^verbatim>\<open>ErrInvalidEvent\<close>.\<close>

definition Event_Validate :: "Event \<Rightarrow> bool" where
  "Event_Validate e \<longleftrightarrow>
     \<not> (ae_ID e = uuid_Nil \<or> ae_Type e \<notin> set validEvents \<or> ae_Result e \<notin> set validResults \<or>
        IsZero (ae_OccurredAt e)) \<and>
     \<not> (ae_RequestID e \<noteq> '''' \<and> \<not> requestIDPattern (ae_RequestID e)) \<and>
     (ae_TargetType e = None \<longleftrightarrow> ae_TargetID e = None) \<and>
     \<not> (case ae_TargetType e of
          None \<Rightarrow> False
        | Some target \<Rightarrow> target \<notin> set validTargets \<or> ae_TargetID e = Some uuid_Nil) \<and>
     list_all (\<lambda>field. field \<in> set validChangedFields) (ae_ChangedFields e)"

text \<open>\<^verbatim>\<open>compact\<close> removes adjacent duplicates.\<close>

definition compact :: "string list \<Rightarrow> string list" where
  "compact values = remdups_adj values"

text \<open>\<^verbatim>\<open>audit.New\<close>; the identifier is the value \<^verbatim>\<open>uuid.New\<close> returned.\<close>

definition audit_New ::
  "uuid \<Rightarrow> string \<Rightarrow> string \<Rightarrow> uuid option \<Rightarrow> string \<Rightarrow> uuid option \<Rightarrow> string \<Rightarrow> string list \<Rightarrow> time \<Rightarrow> Event option"
where
  "audit_New newID type result actor targetType target requestID changed at =
     (let hasTarget = targetType \<noteq> '''' \<or> target \<noteq> None;
          event = \<lparr>ae_ID = newID, ae_Type = type, ae_Result = result, ae_ActorUserID = actor,
            ae_TargetType = (if hasTarget then Some targetType else None),
            ae_TargetID = (if hasTarget then target else None), ae_RequestID = requestID,
            ae_ChangedFields = compact (sort changed), ae_OccurredAt = at\<rparr>
      in if Event_Validate event then Some event else None)"

section \<open>Appending\<close>

definition event_row :: "Event \<Rightarrow> AuditEvent" where
  "event_row e = \<lparr>ev_ID = ae_ID e, ev_EventType = ae_Type e, ev_Result = ae_Result e,
     ev_ActorUserID = ae_ActorUserID e, ev_TargetType = ae_TargetType e, ev_TargetID = ae_TargetID e,
     ev_RequestID = (if ae_RequestID e \<noteq> '''' then Some (ae_RequestID e) else None),
     ev_ChangedFields = ae_ChangedFields e, ev_OccurredAt = ae_OccurredAt e\<rparr>"

definition insertAudit :: "Event \<Rightarrow> unit dbtx" where
  "insertAudit e =
     (if \<not> Event_Validate e then tfail (Audit_AppendError (ae_Type e) Audit_ErrInvalidEvent)
      else run_statement
        (\<lambda>err. Audit_AppendError (ae_Type e) (wrapError ''append audit event'' ErrorKindQuery err))
        (CreateAuditEvent (event_row e)))"

definition insertProtocolAudit ::
  "string \<Rightarrow> string \<Rightarrow> uuid \<Rightarrow> string \<Rightarrow> uuid \<Rightarrow> string \<Rightarrow> string list \<Rightarrow> time \<Rightarrow> Event dbtx" where
  "insertProtocolAudit type result actor targetType target requestID changed now =
     tbind uuid_New (\<lambda>newID.
     case audit_New newID type result (Some actor) targetType (Some target) requestID changed now of
       None \<Rightarrow> tfail Audit_ErrInvalidEvent
     | Some event \<Rightarrow> tbind (insertAudit event) (\<lambda>_. treturn event))"

section \<open>Lemmas\<close>

text \<open>An append adds one row at the end of the trail and touches nothing else.\<close>

lemma insertAudit_run [elim!]:
  assumes "tx_run (insertAudit e) d u d'"
  obtains "Event_Validate e" "d' = d\<lparr>audit_events := audit_events d @ [event_row e]\<rparr>"
  using assms by (auto simp: insertAudit_def CreateAuditEvent_def tx_simps insert_row_def)

definition audit_appended :: "string \<Rightarrow> string \<Rightarrow> uuid \<Rightarrow> string \<Rightarrow> uuid \<Rightarrow> time \<Rightarrow> AuditEvent \<Rightarrow> bool" where
  "audit_appended type result actor targetType target now e \<longleftrightarrow>
     ev_EventType e = type \<and> ev_Result e = result \<and> ev_ActorUserID e = Some actor \<and>
     ev_TargetType e = Some targetType \<and> ev_TargetID e = Some target \<and> ev_OccurredAt e = now"

lemma insertProtocolAudit_run [elim!]:
  assumes "tx_run (insertProtocolAudit type result actor targetType target requestID changed now) d e d'"
  obtains row where "audit_appended type result actor targetType target now row"
    "d' = d\<lparr>audit_events := audit_events d @ [row]\<rparr>"
proof -
  have "audit_appended type result actor targetType target now (event_row e)"
    if "audit_New i type result (Some actor) targetType (Some target) requestID changed now = Some e" for i e
    using that by (auto simp: audit_New_def Let_def audit_appended_def event_row_def split: if_splits)
  with assms that show thesis by (auto simp: insertProtocolAudit_def)
qed

text \<open>Evaluation of an append on a concrete state.\<close>

lemmas audit_eval = insertProtocolAudit_def tx_eval audit_New_def Let_def insertAudit_def CreateAuditEvent_def stmt_def
  insert_checked_def event_row_def compact_def audit_events_violation_def first_violation_eval
  unique_among_def audit_once_def refers_def audit_events_check_def Event_Validate_def

lemma Event_Validate_check:
  assumes "Event_Validate e"
  shows "audit_events_check (event_row e)"
proof -
  have lists: "validEvents = audit_event_type_constraint"
    by (simp add: validEvents_def audit_event_type_constraint_def)
  note valid = assms[unfolded Event_Validate_def lists list_all_iff requestIDPattern_def]
  have target: "none_or (\<lambda>target. target \<in> set validTargets \<and> ae_TargetID e \<noteq> None) (ae_TargetType e)"
    using valid by (auto split: option.splits)
  show ?thesis
    unfolding audit_events_check_def event_row_def
    using valid target[unfolded validTargets_def]
    by (simp add: validResults_def[symmetric] validChangedFields_def[symmetric] list_all_iff subset_iff)
      blast
qed

section \<open>Appends that succeed\<close>

text \<open>
  A state in which \<open>k\<close> protocol events of \<open>actor\<close> can be appended: no fault is pending, the
  actor exists, and the next \<open>k\<close> identifiers are fresh.
\<close>

definition audit_ready :: "nat \<Rightarrow> uuid \<Rightarrow> string \<Rightarrow> time \<Rightarrow> db txst \<Rightarrow> bool" where
  "audit_ready k actor requestID now st \<longleftrightarrow>
     st_faults st = [] \<and> refers usr_ID (users (st_db st)) actor \<and> \<not> IsZero now \<and>
     (requestID = [] \<or> requestIDPattern requestID) \<and>
     inj_on (st_ids st) {st_drawn st ..< st_drawn st + k} \<and>
     (\<forall>j \<in> {st_drawn st ..< st_drawn st + k}.
        st_ids st j \<noteq> uuid_Nil \<and> st_ids st j \<notin> ev_ID ` set (audit_events (st_db st)))"

text \<open>The event is not one of the three that the trail holds at most once per target.\<close>

definition audit_unrecorded :: "string \<Rightarrow> uuid \<Rightarrow> db \<Rightarrow> bool" where
  "audit_unrecorded type target d \<longleftrightarrow>
     (type \<in> set [''authorization_code_exchange_rejected'', ''refresh_token_exchange_rejected'',
                  ''refresh_token_reuse_detected''] \<longrightarrow>
      list_all (\<lambda>e. \<not> (ev_EventType e = type \<and> ev_TargetID e = Some target)) (audit_events d))"

definition audit_known :: "string \<Rightarrow> string \<Rightarrow> string \<Rightarrow> string list \<Rightarrow> bool" where
  "audit_known type result targetType changed \<longleftrightarrow> type \<in> set validEvents \<and> result \<in> set validResults \<and>
     targetType \<in> set validTargets \<and> set changed \<subseteq> set validChangedFields"

lemmas audit_known_eval = audit_known_def validEvents_def validResults_def validTargets_def validChangedFields_def

lemma insertProtocolAudit_succeeds:
  assumes ready: "audit_ready (Suc k) actor requestID now st"
    and known: "audit_known type result targetType changed"
    and target: "target \<noteq> uuid_Nil" "audit_unrecorded type target (st_db st)"
  obtains e row where
    "insertProtocolAudit type result actor targetType target requestID changed now st =
       Inr (e, st\<lparr>st_db := (st_db st)\<lparr>audit_events := audit_events (st_db st) @ [row]\<rparr>,
                  st_drawn := Suc (st_drawn st)\<rparr>)"
    "ev_EventType row = type"
    "audit_ready k actor requestID now (st\<lparr>st_db := (st_db st)\<lparr>audit_events := audit_events (st_db st) @ [row]\<rparr>,
       st_drawn := Suc (st_drawn st)\<rparr>)"
proof -
  define e where "e = \<lparr>ae_ID = st_ids st (st_drawn st), ae_Type = type, ae_Result = result,
    ae_ActorUserID = Some actor, ae_TargetType = Some targetType, ae_TargetID = Some target,
    ae_RequestID = requestID, ae_ChangedFields = compact (sort changed), ae_OccurredAt = now\<rparr>"
  note event = known[unfolded audit_known_def]
  have new: "targetType \<noteq> []" using event by (auto simp: validTargets_def)
  have fresh: "st_ids st (st_drawn st) \<noteq> uuid_Nil" "unique_among ev_ID (audit_events (st_db st)) (event_row e)"
    using ready by (auto simp: audit_ready_def unique_among_def list_all_iff event_row_def e_def image_iff
        dest!: bspec[of _ _ "st_drawn st"] bspec[of "set (audit_events (st_db st))"])
  have once: "audit_once rejection target' (audit_events (st_db st)) (event_row e)"
    if "rejection \<in> set [''authorization_code_exchange_rejected'', ''refresh_token_exchange_rejected'',
                  ''refresh_token_reuse_detected'']" for rejection target'
    using target(2) that
    by (auto simp: audit_once_def audit_unrecorded_def event_row_def e_def list_all_iff simp del: list.set)
  have actor: "ev_ActorUserID (event_row e) = Some actor" by (simp add: event_row_def e_def)
  have valid: "Event_Validate e"
    using ready event target(1) fresh(1)
    by (auto simp: Event_Validate_def e_def audit_ready_def compact_def list_all_iff)
  moreover have "audit_events_violation (st_db st) (event_row e) = None"
    unfolding audit_events_violation_def first_violation_eval
    using ready fresh(2) once Event_Validate_check[OF valid] actor by (simp add: audit_ready_def)
  ultimately have "insertProtocolAudit type result actor targetType target requestID changed now st =
       Inr (e, st\<lparr>st_db := (st_db st)\<lparr>audit_events := audit_events (st_db st) @ [event_row e]\<rparr>,
                  st_drawn := Suc (st_drawn st)\<rparr>)"
    using ready new
    by (simp add: insertProtocolAudit_def audit_New_def Let_def e_def[symmetric] insertAudit_def CreateAuditEvent_def
        tx_eval stmt_def insert_checked_def insert_row_def audit_ready_def)
  moreover have "audit_ready k actor requestID now
      (st\<lparr>st_db := (st_db st)\<lparr>audit_events := audit_events (st_db st) @ [event_row e]\<rparr>, st_drawn := Suc (st_drawn st)\<rparr>)"
    using ready by (auto simp: audit_ready_def event_row_def e_def intro: inj_on_subset dest: inj_onD)
  ultimately show thesis by (intro that) (simp_all add: event_row_def e_def)
qed

text \<open>The continuation rule: append one event and go on in a state ready for one less.\<close>

lemma insertProtocolAudit_then:
  assumes "audit_ready (Suc k) actor requestID now st" "audit_known type result targetType changed"
    "target \<noteq> uuid_Nil" "audit_unrecorded type target (st_db st)"
    and rest: "\<And>e row st'. audit_ready k actor requestID now st' \<Longrightarrow> ev_EventType row = type \<Longrightarrow>
      st_db st' = (st_db st)\<lparr>audit_events := audit_events (st_db st) @ [row]\<rparr> \<Longrightarrow> \<exists>st''. f e st' = Inr (x, st'')"
  shows "\<exists>st''. tbind (insertProtocolAudit type result actor targetType target requestID changed now) f st = Inr (x, st'')"
proof (rule insertProtocolAudit_succeeds[OF assms(1-4)])
  fix e row
  let ?st = "st\<lparr>st_db := (st_db st)\<lparr>audit_events := audit_events (st_db st) @ [row]\<rparr>, st_drawn := Suc (st_drawn st)\<rparr>"
  assume run: "insertProtocolAudit type result actor targetType target requestID changed now st = Inr (e, ?st)"
    and "ev_EventType row = type" "audit_ready k actor requestID now ?st"
  then have "\<exists>st''. f e ?st = Inr (x, st'')" by (intro rest) simp_all
  then show ?thesis using run by (simp add: tbind_def)
qed

text \<open>The first event of a trail is accepted when it is valid and its actor exists.\<close>

lemma insertAudit_first:
  assumes "st_faults st = []" "Event_Validate e" "audit_events (st_db st) = []"
    "none_or (refers usr_ID (users (st_db st))) (ae_ActorUserID e)"
  shows "insertAudit e st = Inr ((), st\<lparr>st_db := (st_db st)\<lparr>audit_events := [event_row e]\<rparr>\<rparr>)"
proof -
  have "audit_events_violation (st_db st) (event_row e) = None"
    unfolding audit_events_violation_def first_violation_eval
    using Event_Validate_check[OF assms(2)] assms(3,4)
    by (simp add: unique_among_def audit_once_def) (simp add: event_row_def)
  then have "CreateAuditEvent (event_row e) (st_db st) = Inr ((), (st_db st)\<lparr>audit_events := [event_row e]\<rparr>)"
    using assms(3) by (simp add: CreateAuditEvent_def stmt_def insert_checked_def insert_row_def)
  then show ?thesis using assms(1,2) by (simp add: insertAudit_def run_statement_ok)
qed

section \<open>Properties\<close>

text \<open>
  C16 (invariant). The application whitelist and the table constraints agree: every event
  that passes \<^verbatim>\<open>Event.Validate\<close> is stored as a row that satisfies the CHECK constraints of
  \<^verbatim>\<open>audit_events\<close>, so an accepted event is never refused for its content.
\<close>

theorem validated_event_satisfies_constraints:
  assumes "Event_Validate e"
  shows "audit_events_check (event_row e)"
  using assms by (rule Event_Validate_check)

theorem validated_event_satisfies_constraints_witness:
  "\<exists>e. audit_New 7 ''access_token_issued'' ''success'' (Some 1) ''access_token'' (Some 2) ''req-1''
         [''issued'', ''issued''] 5 = Some e \<and> ae_ChangedFields e = [''issued''] \<and>
       audit_events_check (event_row e)"
proof -
  obtain e where e: "audit_New 7 ''access_token_issued'' ''success'' (Some 1) ''access_token'' (Some 2)
      ''req-1'' [''issued'', ''issued''] 5 = Some e" "ae_ChangedFields e = [''issued'']"
    by (simp add: audit_New_def Event_Validate_def Let_def validEvents_def validResults_def
        validTargets_def validChangedFields_def requestIDPattern_def request_id_char_def IsZero_def
        compact_def)
  then have "Event_Validate e" by (auto simp: audit_New_def Let_def split: if_splits)
  with e show ?thesis using validated_event_satisfies_constraints by blast
qed

end
