(* ===== verification/Token_Service.thy ===== *)
theory Token_Service
  imports Opaque_Tokens Audit_Trail
begin

text \<open>
  The pure part of \<^verbatim>\<open>internal/token\<close>: the exchange structs, refresh lifetimes and scope
  selection (\<^verbatim>\<open>refresh.go\<close>), and the mint callbacks that run inside the storage transaction
  (\<^verbatim>\<open>token.go\<close>). Signing, JSON encoding and the derivation of a UUID from 16 random bytes
  belong to libraries: they are the fields of the record \<open>token_env\<close>, and every definition
  that uses them takes it as an argument.
\<close>

section \<open>Structs\<close>

record ExchangeInput =
  xi_CodeHash :: string
  xi_Client :: Client
  xi_RedirectURI :: string
  xi_CodeVerifier :: string
  xi_RequestID :: string
  xi_Now :: time

record Authority =
  au_CodeID :: uuid
  au_GrantID :: uuid
  au_OriginSessionID :: "uuid option"
  au_SessionBindingID :: "uuid option"
  au_User :: User
  au_Client :: Client
  au_Scopes :: "string list"
  au_Nonce :: string
  au_AuthenticatedAt :: time
  au_IssuedAt :: time

record InitialRefresh =
  ir_FamilyID :: uuid
  ir_TokenID :: uuid
  ir_TokenHash :: string
  ir_ClearToken :: string
  ir_ExpiresAt :: time
  ir_AbsoluteExpiresAt :: time

record Minted =
  mi_AccessTokenID :: uuid
  mi_JTIHash :: string
  mi_AccessToken :: string
  mi_IDToken :: string
  mi_IssuedAt :: time
  mi_AccessExpiresAt :: time
  mi_IDExpiresAt :: time
  mi_InitialRefresh :: "InitialRefresh option"

record Response =
  rs_AccessToken :: string
  rs_TokenType :: string
  rs_ExpiresIn :: int
  rs_IDToken :: string
  rs_RefreshToken :: string
  rs_Scope :: string

text \<open>A nil \<^verbatim>\<open>RequestedScopes\<close> is \<open>None\<close>.\<close>

record RefreshInput =
  ri_TokenHash :: string
  ri_Client :: Client
  ri_RequestedScopes :: "string list option"
  ri_RequestID :: string
  ri_Now :: time

record RefreshAuthority =
  ra_Presented :: RefreshToken
  ra_Family :: RefreshTokenFamily
  ra_Grant :: ConsentGrant
  ra_User :: User
  ra_Client :: Client
  ra_AccessScopes :: "string list"
  ra_IssuedAt :: time

record RefreshMinted =
  rm_AccessTokenID :: uuid
  rm_JTIHash :: string
  rm_AccessToken :: string
  rm_IssuedAt :: time
  rm_AccessExpiresAt :: time
  rm_ReplacementTokenID :: uuid
  rm_ReplacementTokenHash :: string
  rm_ReplacementClearToken :: string
  rm_ReplacementExpiresAt :: time

record IDTokenClaims =
  id_Issuer :: string
  id_Subject :: string
  id_Audience :: string
  id_AuthorizedParty :: string
  id_ExpiresAt :: int
  id_IssuedAt :: int
  id_AuthTime :: int
  id_Nonce :: string
  id_Name :: "string option"
  id_PreferredUsername :: "string option"
  id_Email :: "string option"
  id_EmailVerified :: "bool option"

record AccessTokenClaims =
  ac_Issuer :: string
  ac_Subject :: string
  ac_Audience :: string
  ac_ClientID :: string
  ac_Scope :: string
  ac_IssuedAt :: int
  ac_ExpiresAt :: int
  ac_JWTID :: string

record TokenService =
  ts_issuer :: string
  ts_userinfoAudience :: string
  ts_idTokenTTL :: duration
  ts_accessTokenTTL :: duration
  ts_clockSkew :: duration
  ts_refreshTokenTTL :: duration
  ts_refreshAbsoluteTTL :: duration

text \<open>
  The library functions: \<^verbatim>\<open>json.Marshal\<close> of the two claim structs, \<^verbatim>\<open>KeyStore.Sign\<close>, and the
  UUID made of 16 random bytes by \<^verbatim>\<open>uuid.NewRandomFromReader\<close>.
\<close>

record token_env =
  te_marshalID :: "IDTokenClaims \<Rightarrow> string"
  te_marshalAccess :: "AccessTokenClaims \<Rightarrow> string"
  te_Sign :: "string \<Rightarrow> string \<Rightarrow> string option"
  te_uuid :: "string \<Rightarrow> uuid"

section \<open>refresh.go\<close>

definition maxRefreshRolling :: duration where "maxRefreshRolling = 30 * 24 * Hour"
definition maxRefreshAbsolute :: duration where "maxRefreshAbsolute = 365 * 24 * Hour"
definition defaultRefreshTTL :: duration where "defaultRefreshTTL = 30 * 24 * Hour"
definition defaultAbsoluteTTL :: duration where "defaultAbsoluteTTL = 90 * 24 * Hour"

definition RefreshDeadlines :: "time \<Rightarrow> duration \<Rightarrow> duration \<Rightarrow> go_error + time \<times> time" where
  "RefreshDeadlines issuedAt rollingTTL absoluteTTL =
     (if IsZero issuedAt \<or> rollingTTL < Hour \<or> rollingTTL > maxRefreshRolling \<or>
         absoluteTTL < 24 * Hour \<or> absoluteTTL > maxRefreshAbsolute \<or> absoluteTTL < rollingTTL
      then Inl Token_ErrInvalid
      else let absolute = issuedAt + absoluteTTL; rolling = issuedAt + rollingTTL
           in Inr (if rolling > absolute then absolute else rolling, absolute))"

definition ReplacementRefreshExpiry :: "time \<Rightarrow> duration \<Rightarrow> time \<Rightarrow> go_error + time" where
  "ReplacementRefreshExpiry issuedAt rollingTTL absolute =
     (if IsZero issuedAt \<or> IsZero absolute \<or> \<not> issuedAt < absolute \<or> rollingTTL < Hour \<or>
         rollingTTL > maxRefreshRolling
      then Inl Token_ErrInvalidGrant
      else let expires = issuedAt + rollingTTL in Inr (if expires > absolute then absolute else expires))"

definition CanonicalRefreshScopes :: "string list \<Rightarrow> go_error + string list" where
  "CanonicalRefreshScopes scopes = (case CanonicalScopes scopes of
     None \<Rightarrow> Inl Token_ErrInvalidGrant
   | Some canonical \<Rightarrow>
       if ''openid'' \<notin> set canonical \<or> ''offline_access'' \<notin> set canonical
       then Inl Token_ErrInvalidGrant else Inr canonical)"

definition SelectRefreshAccessScopes ::
  "string list option \<Rightarrow> string list \<Rightarrow> string list \<Rightarrow> string list \<Rightarrow> go_error + string list" where
  "SelectRefreshAccessScopes requested familyScopes grantScopes clientScopes =
     (case CanonicalRefreshScopes familyScopes of
        Inl _ \<Rightarrow> Inl Token_ErrInvalidGrant
      | Inr family \<Rightarrow>
        let effective = Intersection (Intersection family grantScopes) clientScopes in
        if ''openid'' \<notin> set effective \<or> ''offline_access'' \<notin> set effective
        then Inl Token_ErrInvalidGrant
        else (case requested of
            None \<Rightarrow> Inr effective
          | Some req \<Rightarrow>
            (case CanonicalScopes req of
               None \<Rightarrow> Inl Token_ErrInvalidScope
             | Some canonical \<Rightarrow>
                 if canonical \<noteq> req \<or> \<not> scope_subset canonical effective
                 then Inl Token_ErrInvalidScope else Inr canonical)))"

section \<open>token.go: construction\<close>

text \<open>
  The option \<^verbatim>\<open>WithRefreshLifetimes\<close>; the probe instant \<^verbatim>\<open>time.Unix(1, 0)\<close> is 62135596801
  seconds after Go's zero time.
\<close>

definition WithRefreshLifetimes :: "duration \<Rightarrow> duration \<Rightarrow> TokenService \<Rightarrow> go_error + TokenService" where
  "WithRefreshLifetimes rollingTTL absoluteTTL service =
     rbind (RefreshDeadlines (62135596801 * Second) rollingTTL absoluteTTL) (\<lambda>_.
     Inr (service\<lparr>ts_refreshTokenTTL := rollingTTL, ts_refreshAbsoluteTTL := absoluteTTL\<rparr>))"

text \<open>The loop over the options.\<close>

fun apply_options :: "(TokenService \<Rightarrow> go_error + TokenService) list \<Rightarrow> TokenService \<Rightarrow> go_error + TokenService" where
  "apply_options [] service = Inr service"
| "apply_options (option # options) service =
     (case option service of Inl _ \<Rightarrow> Inl Token_ErrInvalid | Inr service' \<Rightarrow> apply_options options service')"

text \<open>\<^verbatim>\<open>NewService\<close>: the issuer is a bare origin and the lifetimes are within their bounds.\<close>

definition issuer_is_origin :: "(string \<Rightarrow> URL option) \<Rightarrow> string \<Rightarrow> bool" where
  "issuer_is_origin url_Parse issuer = (case url_Parse issuer of
     None \<Rightarrow> False
   | Some parsed \<Rightarrow> IsAbs parsed \<and> url_Host parsed \<noteq> '''' \<and> url_Path parsed = '''' \<and>
       url_RawQuery parsed = '''' \<and> url_Fragment parsed = '''' \<and> url_User parsed = None)"

definition token_NewService ::
  "(string \<Rightarrow> URL option) \<Rightarrow> string \<Rightarrow> duration \<Rightarrow> duration \<Rightarrow> duration \<Rightarrow>
   (TokenService \<Rightarrow> go_error + TokenService) list \<Rightarrow> go_error + TokenService" where
  "token_NewService url_Parse issuer idTokenTTL accessTokenTTL clockSkew options =
     (if \<not> issuer_is_origin url_Parse issuer \<or> idTokenTTL < Minute \<or> idTokenTTL > 15 * Minute \<or>
         accessTokenTTL < Minute \<or> accessTokenTTL > 30 * Minute \<or> clockSkew < 0 \<or> clockSkew > 2 * Minute
      then Inl Token_ErrInvalid
      else apply_options options
        \<lparr>ts_issuer = issuer, ts_userinfoAudience = issuer @ ''/oauth2/userinfo'',
         ts_idTokenTTL = idTokenTTL, ts_accessTokenTTL = accessTokenTTL, ts_clockSkew = clockSkew,
         ts_refreshTokenTTL = defaultRefreshTTL, ts_refreshAbsoluteTTL = defaultAbsoluteTTL\<rparr>)"

definition activeClient :: "Client \<Rightarrow> bool" where
  "activeClient c \<longleftrightarrow> cl_ID c \<noteq> uuid_Nil \<and> cl_ClientID c \<noteq> '''' \<and> cl_Status c = ''active'' \<and>
     (cl_Type c = ''public'' \<and> cl_AuthMethod c = ''none'' \<or>
      cl_Type c = ''confidential'' \<and> cl_AuthMethod c = ''client_secret_basic'')"

definition applyProfileClaims :: "string list \<Rightarrow> User \<Rightarrow> IDTokenClaims \<Rightarrow> IDTokenClaims" where
  "applyProfileClaims scopes user claims =
     (let claims = (if ''profile'' \<in> set scopes
                    then claims\<lparr>id_Name := Some (usr_DisplayName user),
                                id_PreferredUsername := Some (usr_Username user)\<rparr> else claims)
      in if ''email'' \<in> set scopes
         then claims\<lparr>id_Email := Some (usr_Email user), id_EmailVerified := Some (usr_EmailVerified user)\<rparr>
         else claims)"

section \<open>token.go: mint callbacks\<close>

definition access_claims :: "TokenService \<Rightarrow> User \<Rightarrow> Client \<Rightarrow> string list \<Rightarrow> time \<Rightarrow> string \<Rightarrow> AccessTokenClaims" where
  "access_claims svc user client scopes issuedAt jti =
     \<lparr>ac_Issuer = ts_issuer svc, ac_Subject = usr_Subject user, ac_Audience = ts_userinfoAudience svc,
      ac_ClientID = cl_ClientID client, ac_Scope = strings_Join scopes '' '',
      ac_IssuedAt = Unix issuedAt, ac_ExpiresAt = Unix (issuedAt + ts_accessTokenTTL svc), ac_JWTID = jti\<rparr>"

definition id_claims :: "TokenService \<Rightarrow> Authority \<Rightarrow> string list \<Rightarrow> IDTokenClaims" where
  "id_claims svc au scopes = applyProfileClaims scopes (au_User au)
     \<lparr>id_Issuer = ts_issuer svc, id_Subject = usr_Subject (au_User au),
      id_Audience = cl_ClientID (au_Client au), id_AuthorizedParty = cl_ClientID (au_Client au),
      id_ExpiresAt = Unix (au_IssuedAt au + ts_idTokenTTL svc), id_IssuedAt = Unix (au_IssuedAt au),
      id_AuthTime = Unix (au_AuthenticatedAt au), id_Nonce = au_Nonce au, id_Name = None,
      id_PreferredUsername = None, id_Email = None, id_EmailVerified = None\<rparr>"

text \<open>The initial refresh token of an offline exchange.\<close>

definition mint_initial :: "token_env \<Rightarrow> TokenService \<Rightarrow> Authority \<Rightarrow> string \<Rightarrow> go_error + InitialRefresh" where
  "mint_initial env svc au random =
     (if au_OriginSessionID au = None \<or> au_OriginSessionID au = Some uuid_Nil \<or>
         au_SessionBindingID au = None \<or> au_SessionBindingID au = Some uuid_Nil
      then Inl Token_ErrInvalidGrant
      else
        rbind (or_error (GenerateRefreshToken random) (Errors_New ''secure refresh token generation failed''))
          (\<lambda>((clearRefresh, refreshHash), random).
        rbind (or_error (NewRandomFromReader (te_uuid env) random)
                 (Errors_New ''refresh token family identifier generation failed''))
          (\<lambda>(familyID, random).
        rbind (or_error (NewRandomFromReader (te_uuid env) random)
                 (Errors_New ''refresh token identifier generation failed''))
          (\<lambda>(refreshID, random).
        rbind (RefreshDeadlines (au_IssuedAt au) (ts_refreshTokenTTL svc) (ts_refreshAbsoluteTTL svc))
          (\<lambda>(rolling, absolute).
        Inr \<lparr>ir_FamilyID = familyID, ir_TokenID = refreshID, ir_TokenHash = refreshHash,
             ir_ClearToken = clearRefresh, ir_ExpiresAt = rolling, ir_AbsoluteExpiresAt = absolute\<rparr>)))))"

definition mint :: "token_env \<Rightarrow> TokenService \<Rightarrow> string \<Rightarrow> Authority \<Rightarrow> go_error + Minted" where
  "mint env svc random au =
     (case CanonicalScopes (au_Scopes au) of
        None \<Rightarrow> Inl Token_ErrInvalidGrant
      | Some scopes \<Rightarrow>
        if au_CodeID au = uuid_Nil \<or> au_GrantID au = uuid_Nil \<or> usr_ID (au_User au) = uuid_Nil \<or>
           usr_Status (au_User au) \<noteq> ''active'' \<or> \<not> activeClient (au_Client au) \<or>
           IsZero (au_AuthenticatedAt au) \<or> au_AuthenticatedAt au > au_IssuedAt au \<or>
           \<not> scope_subset scopes (cl_Scopes (au_Client au))
        then Inl Token_ErrInvalidGrant
        else
          rbind (or_error (newJTI random) (Errors_New ''secure access token identifier generation failed''))
            (\<lambda>(jti, random).
          rbind (or_error (NewRandomFromReader (te_uuid env) random)
                   (Errors_New ''access token identifier generation failed''))
            (\<lambda>(accessTokenID, random).
          rbind (or_error (te_Sign env (te_marshalID env (id_claims svc au scopes)) ''JWT'')
                   (Errors_New ''ID token signing failed''))
            (\<lambda>idToken.
          rbind (or_error (te_Sign env (te_marshalAccess env
                     (access_claims svc (au_User au) (au_Client au) scopes (au_IssuedAt au) jti)) ''at+jwt'')
                   (Errors_New ''access token signing failed''))
            (\<lambda>accessToken.
          let minted = \<lparr>mi_AccessTokenID = accessTokenID, mi_JTIHash = HashJTI jti,
                mi_AccessToken = accessToken, mi_IDToken = idToken, mi_IssuedAt = au_IssuedAt au,
                mi_AccessExpiresAt = au_IssuedAt au + ts_accessTokenTTL svc,
                mi_IDExpiresAt = au_IssuedAt au + ts_idTokenTTL svc, mi_InitialRefresh = None\<rparr>
          in if ''offline_access'' \<in> set scopes
             then rbind (mint_initial env svc au random)
                    (\<lambda>initial. Inr (minted\<lparr>mi_InitialRefresh := Some initial\<rparr>))
             else Inr minted)))))"

definition mintRefresh :: "token_env \<Rightarrow> TokenService \<Rightarrow> string \<Rightarrow> RefreshAuthority \<Rightarrow> go_error + RefreshMinted" where
  "mintRefresh env svc random ra =
     (case CanonicalScopes (ra_AccessScopes ra) of
        None \<Rightarrow> Inl Token_ErrInvalidGrant
      | Some scopes \<Rightarrow>
        if gen_ID (ra_Presented ra) = uuid_Nil \<or> fam_ID (ra_Family ra) = uuid_Nil \<or>
           gen_FamilyID (ra_Presented ra) \<noteq> fam_ID (ra_Family ra) \<or>
           usr_ID (ra_User ra) \<noteq> fam_UserID (ra_Family ra) \<or>
           cl_ID (ra_Client ra) \<noteq> fam_ClientID (ra_Family ra) \<or>
           grant_ID (ra_Grant ra) \<noteq> fam_ConsentGrantID (ra_Family ra) \<or>
           usr_Status (ra_User ra) \<noteq> ''active'' \<or> \<not> activeClient (ra_Client ra) \<or>
           IsZero (ra_IssuedAt ra) \<or> fam_RevokedAt (ra_Family ra) \<noteq> None \<or>
           \<not> ra_IssuedAt ra < fam_AbsoluteExpiresAt (ra_Family ra) \<or>
           \<not> scope_subset scopes (fam_Scopes (ra_Family ra)) \<or>
           \<not> scope_subset scopes (cl_Scopes (ra_Client ra))
        then Inl Token_ErrInvalidGrant
        else
          rbind (or_error (GenerateRefreshToken random) (Errors_New ''secure refresh token generation failed''))
            (\<lambda>((replacementClear, replacementHash), random).
          rbind (or_error (NewRandomFromReader (te_uuid env) random)
                   (Errors_New ''replacement refresh token identifier generation failed''))
            (\<lambda>(replacementID, random).
          rbind (ReplacementRefreshExpiry (ra_IssuedAt ra) (ts_refreshTokenTTL svc)
                   (fam_AbsoluteExpiresAt (ra_Family ra)))
            (\<lambda>replacementExpires.
          rbind (or_error (newJTI random) (Errors_New ''secure access token identifier generation failed''))
            (\<lambda>(jti, random).
          rbind (or_error (NewRandomFromReader (te_uuid env) random)
                   (Errors_New ''access token identifier generation failed''))
            (\<lambda>(accessID, random).
          rbind (or_error (te_Sign env (te_marshalAccess env
                     (access_claims svc (ra_User ra) (ra_Client ra) scopes (ra_IssuedAt ra) jti)) ''at+jwt'')
                   (Errors_New ''access token signing failed''))
            (\<lambda>accessToken.
          Inr \<lparr>rm_AccessTokenID = accessID, rm_JTIHash = HashJTI jti, rm_AccessToken = accessToken,
               rm_IssuedAt = ra_IssuedAt ra, rm_AccessExpiresAt = ra_IssuedAt ra + ts_accessTokenTTL svc,
               rm_ReplacementTokenID = replacementID, rm_ReplacementTokenHash = replacementHash,
               rm_ReplacementClearToken = replacementClear,
               rm_ReplacementExpiresAt = replacementExpires\<rparr>)))))))"

section \<open>Scope selection\<close>

lemma SelectRefreshAccessScopes_Inr:
  assumes "SelectRefreshAccessScopes requested familyScopes grantScopes clientScopes = Inr scopes"
  shows "canonical_scopes scopes"
    "set scopes \<subseteq> set familyScopes \<inter> set grantScopes \<inter> set clientScopes"
    "requested = Some req \<Longrightarrow> scopes = req"
proof -
  obtain family where fam: "CanonicalScopes familyScopes = Some family"
    using assms by (cases "CanonicalScopes familyScopes") (simp_all add: SelectRefreshAccessScopes_def CanonicalRefreshScopes_def)
  let ?effective = "Intersection (Intersection family grantScopes) clientScopes"
  have eff: "''openid'' \<in> set ?effective"
    using assms by (auto simp: SelectRefreshAccessScopes_def CanonicalRefreshScopes_def fam Let_def split: if_splits)
  have sel: "scopes = ?effective \<and> requested = None \<or>
      requested = Some scopes \<and> CanonicalScopes scopes = Some scopes \<and> set scopes \<subseteq> set ?effective"
    using assms
    by (cases requested) (auto simp: SelectRefreshAccessScopes_def CanonicalRefreshScopes_def fam Let_def scope_subset_iff
        split: if_splits option.splits)
  have family: "canonical_scopes family" "set family = set familyScopes"
    using CanonicalScopes_canonical[OF fam] by auto
  have canonical: "canonical_scopes ?effective"
    using eff by (simp add: canonical_scopes_def scope_listing scope_sets list_all_iff)
  have narrow: "set ?effective \<subseteq> set familyScopes \<inter> set grantScopes \<inter> set clientScopes"
    using family(2) by (auto simp: scope_sets)
  show "canonical_scopes scopes" using sel canonical CanonicalScopes_canonical[of scopes scopes] by blast
  show "set scopes \<subseteq> set familyScopes \<inter> set grantScopes \<inter> set clientScopes" using sel narrow by blast
  show "scopes = req" if "requested = Some req" using sel that by simp
qed

end
