(* ===== verification/Samples.thy ===== *)
theory Samples
  imports Token_Service
begin

text \<open>
  A small concrete installation, on which the witnesses of the properties evaluate the
  model: one active user with one login session, one public client, one live grant, one
  unused authorization code and one refresh-token family with its current generation.
\<close>

definition sample_now :: time where "sample_now = 63000000000 * Second"

definition sample_ids :: "nat \<Rightarrow> uuid" where "sample_ids n = word_of_nat (100 + n)"

definition sample_scopes :: "string list" where "sample_scopes = [''offline_access'', ''openid'']"

definition sample_user :: User where
  "sample_user = \<lparr>usr_ID = 1, usr_Subject = ''s1'', usr_Username = ''u'', usr_UsernameNormalized = ''u'',
     usr_DisplayName = ''U'', usr_Email = ''u@e'', usr_EmailNormalized = ''u@e'', usr_EmailVerified = True,
     usr_Status = ''active'', usr_Role = ''user'', usr_CreatedAt = 1, usr_UpdatedAt = 1,
     usr_LastLoginAt = None, usr_Version = 1\<rparr>"

definition sample_client_row :: OidcClient where
  "sample_client_row = \<lparr>cl_ID = 2, cl_ClientID = ''c2'', cl_Type = ''public'', cl_AuthMethod = ''none'',
     cl_Name = ''C'', cl_Description = '''', cl_LogoURI = None, cl_Status = ''active'',
     cl_RegistrationEnabled = False, cl_CreatedAt = 1, cl_UpdatedAt = 1, cl_Version = 1\<rparr>"

definition sample_client :: Client where
  "sample_client = \<lparr>cl_ID = 2, cl_ClientID = ''c2'', cl_Type = ''public'', cl_AuthMethod = ''none'',
     cl_Name = ''C'', cl_Description = '''', cl_LogoURI = None, cl_Status = ''active'',
     cl_RegistrationEnabled = False, cl_CreatedAt = 1, cl_UpdatedAt = 1, cl_Version = 1,
     cl_RedirectURIs = [''r''], cl_LogoutURIs = [], cl_Scopes = sample_scopes\<rparr>"

definition sample_session :: LoginSession where
  "sample_session = \<lparr>ses_ID = 3, ses_UserID = 1, ses_TokenHash = replicate 32 CHR ''s'',
     ses_CsrfHash = replicate 32 CHR ''c'', ses_CsrfExpiresAt = sample_now + Hour,
     ses_CreatedAt = sample_now - Minute, ses_LastSeenAt = sample_now - Minute,
     ses_AuthenticatedAt = sample_now - Minute, ses_ExpiresAt = sample_now + 8 * Hour,
     ses_IdleExpiresAt = sample_now + Hour, ses_RevokedAt = None, ses_RevokeReason = None,
     ses_UserAgentHash = None, ses_IpPrefix = None, ses_SessionBindingID = 30\<rparr>"

definition sample_grant :: ConsentGrant where
  "sample_grant = \<lparr>grant_ID = 5, grant_UserID = 1, grant_ClientID = 2, grant_Scopes = sample_scopes,
     grant_CreatedAt = 1, grant_UpdatedAt = 1, grant_RevokedAt = None, grant_Version = 1\<rparr>"

definition sample_verifier :: string where "sample_verifier = replicate 43 CHR ''A''"

definition sample_code_hash :: string where "sample_code_hash = replicate 32 CHR ''h''"

definition sample_code :: AuthorizationCode where
  "sample_code = \<lparr>code_ID = 6, code_CodeHash = sample_code_hash, code_AuthTransactionID = 4,
     code_ConsentGrantID = 5, code_UserID = 1, code_ClientID = 2, code_RedirectUri = ''r'',
     code_Scopes = sample_scopes, code_PkceChallenge = b64_encode (sha256_Sum256 sample_verifier),
     code_PkceMethod = ''S256'', code_NonceValue = None, code_AuthTime = sample_now - Minute,
     code_CreatedAt = sample_now - Second, code_ExpiresAt = sample_now + Minute, code_ConsumedAt = None,
     code_ConsentGrantVersion = 1, code_OriginSessionID = Some 3, code_SessionBindingID = Some 30\<rparr>"

text \<open>The refresh token that is minted, and a stored digest that differs from its digest.\<close>

definition sample_refresh_token :: string where
  "sample_refresh_token = ''r1_'' @ b64_encode (replicate 32 CHR ''b'')"

definition sample_presented_hash :: string where
  "sample_presented_hash =
     (if HashRefreshToken sample_refresh_token = replicate 32 CHR ''g'' then replicate 32 CHR ''h''
      else replicate 32 CHR ''g'')"

definition sample_family :: RefreshTokenFamily where
  "sample_family = \<lparr>fam_ID = 7, fam_OriginAuthorizationCodeID = None, fam_ConsentGrantID = 5,
     fam_UserID = 1, fam_ClientID = 2, fam_OriginSessionID = Some 3, fam_SessionBindingID = 30,
     fam_Scopes = sample_scopes, fam_CreatedAt = sample_now - Hour,
     fam_AbsoluteExpiresAt = sample_now + 24 * Hour, fam_RevokedAt = None, fam_RevokeReason = None\<rparr>"

definition sample_generation :: RefreshToken where
  "sample_generation = \<lparr>gen_ID = 8, gen_FamilyID = 7, gen_TokenHash = sample_presented_hash,
     gen_Generation = 0, gen_IssuedAt = sample_now - Hour, gen_ExpiresAt = sample_now + 24 * Hour,
     gen_ConsumedAt = None\<rparr>"

definition sample_db :: db where
  "sample_db = empty_db\<lparr>users := [sample_user], oidc_clients := [sample_client_row],
     client_redirect_uris := [\<lparr>ch_ClientID = 2, ch_Value = ''r'', ch_CreatedAt = 1\<rparr>],
     client_scopes := map (\<lambda>s. \<lparr>ch_ClientID = 2, ch_Value = s, ch_CreatedAt = 1\<rparr>) sample_scopes,
     login_sessions := [sample_session], consent_grants := [sample_grant],
     authorization_codes := [sample_code], refresh_token_families := [sample_family],
     refresh_tokens := [sample_generation]\<rparr>"

section \<open>Inputs\<close>

definition sample_exchange :: ExchangeInput where
  "sample_exchange = \<lparr>xi_CodeHash = sample_code_hash, xi_Client = sample_client, xi_RedirectURI = ''r'',
     xi_CodeVerifier = sample_verifier, xi_RequestID = '''', xi_Now = sample_now\<rparr>"

text \<open>A URL parser that knows origins and paths under \<^verbatim>\<open>https\<close>.\<close>

definition sample_url_Parse :: "string \<Rightarrow> URL option" where
  "sample_url_Parse raw =
     (if HasPrefix raw ''https://''
      then Some \<lparr>url_Scheme = ''https'', url_User = None,
        url_Host = takeWhile (\<lambda>c. c \<noteq> CHR ''/'') (drop 8 raw),
        url_Path = dropWhile (\<lambda>c. c \<noteq> CHR ''/'') (drop 8 raw), url_RawQuery = '''', url_Fragment = ''''\<rparr>
      else None)"

text \<open>
  A token service with its libraries: encodings and a signer that single out the access
  claims of the sample, a constant identifier, and the random bytes for one exchange and one
  rotation.
\<close>

definition sample_service :: TokenService where
  "sample_service = \<lparr>ts_issuer = ''https://id'', ts_userinfoAudience = ''https://id/oauth2/userinfo'',
     ts_idTokenTTL = 5 * Minute, ts_accessTokenTTL = 5 * Minute, ts_clockSkew = 0,
     ts_refreshTokenTTL = Hour, ts_refreshAbsoluteTTL = 24 * Hour\<rparr>"

definition sample_jti :: string where "sample_jti = ''jti_'' @ b64_encode (replicate 16 CHR ''a'')"

definition sample_claims :: AccessTokenClaims where
  "sample_claims = access_claims sample_service sample_user sample_client sample_scopes sample_now sample_jti"

definition sample_env :: token_env where
  "sample_env = \<lparr>te_marshalID = (\<lambda>_. ''{}''),
     te_marshalAccess = (\<lambda>claims. if claims = sample_claims then ''{access}'' else ''{}''),
     te_Sign = (\<lambda>payload _. Some (if payload = ''{access}'' then ''e.f.g'' else ''at'')), te_uuid = (\<lambda>_. 22)\<rparr>"

definition sample_code_random :: string where
  "sample_code_random = replicate 16 CHR ''a'' @ replicate 16 CHR ''i'' @ replicate 32 CHR ''b'' @ replicate 32 CHR ''i''"

definition sample_refresh_random :: string where
  "sample_refresh_random = replicate 32 CHR ''b'' @ replicate 16 CHR ''i'' @ replicate 16 CHR ''a'' @ replicate 16 CHR ''i''"

definition sample_initial :: InitialRefresh where
  "sample_initial = \<lparr>ir_FamilyID = 22, ir_TokenID = 22,
     ir_TokenHash = HashRefreshToken sample_refresh_token,
     ir_ClearToken = sample_refresh_token, ir_ExpiresAt = sample_now + Hour,
     ir_AbsoluteExpiresAt = sample_now + 24 * Hour\<rparr>"

definition sample_minted :: Minted where
  "sample_minted = \<lparr>mi_AccessTokenID = 22, mi_JTIHash = HashJTI sample_jti, mi_AccessToken = ''e.f.g'',
     mi_IDToken = ''at'', mi_IssuedAt = sample_now, mi_AccessExpiresAt = sample_now + 5 * Minute,
     mi_IDExpiresAt = sample_now + 5 * Minute, mi_InitialRefresh = Some sample_initial\<rparr>"

definition sample_refresh :: RefreshInput where
  "sample_refresh = \<lparr>ri_TokenHash = sample_presented_hash,
     ri_Client = sample_client, ri_RequestedScopes = None, ri_RequestID = '''', ri_Now = sample_now\<rparr>"

definition sample_refresh_minted :: RefreshMinted where
  "sample_refresh_minted = \<lparr>rm_AccessTokenID = 22, rm_JTIHash = HashJTI sample_jti, rm_AccessToken = ''e.f.g'',
     rm_IssuedAt = sample_now, rm_AccessExpiresAt = sample_now + 5 * Minute, rm_ReplacementTokenID = 22,
     rm_ReplacementTokenHash = HashRefreshToken sample_refresh_token,
     rm_ReplacementClearToken = sample_refresh_token, rm_ReplacementExpiresAt = sample_now + Hour\<rparr>"

lemmas sample_rows = sample_user_def sample_client_row_def sample_client_def sample_session_def
  sample_grant_def sample_code_def sample_family_def sample_generation_def sample_db_def empty_db_def

lemmas sample_inputs = sample_exchange_def sample_initial_def sample_minted_def sample_refresh_def
  sample_refresh_minted_def

section \<open>Evaluation\<close>

lemma sample_presented_hash_simps [simp]:
  "sample_presented_hash \<noteq> HashRefreshToken sample_refresh_token"
  "HashRefreshToken sample_refresh_token \<noteq> sample_presented_hash"
  "length sample_presented_hash = 32"
  by (auto simp: sample_presented_hash_def)

lemma sample_verifies: "VerifyS256 sample_verifier (b64_encode (sha256_Sum256 sample_verifier))"
  by (rule VerifyS256_challenge) (simp add: sample_verifier_def ValidateVerifier_def list_all_iff isVerifierCharacter_def)

lemma sample_refresh_digest:
  "DigestPresentedRefreshToken sample_refresh_token = Some (HashRefreshToken sample_refresh_token)"
  by (subst DigestPresentedRefreshToken_iff) (auto simp: sample_refresh_token_def intro!: exI[of _ "replicate 32 CHR ''b''"])

lemma sample_refresh_token_nonempty [simp]: "sample_refresh_token \<noteq> []"
  by (simp add: sample_refresh_token_def)

lemma sample_scopes_canonical: "CanonicalScopes sample_scopes = Some sample_scopes"
  by (rule CanonicalScopes_fixed) (simp add: canonical_scopes_def sample_scopes_def scope_supported_def)


lemma sample_locks [simp]:
  "LockAuthorizationCodeByHash sample_code_hash sample_db = Some sample_code"
  "LockUserByID 1 sample_db = Some sample_user"
  "LockOIDCClientByID 2 sample_db = Some sample_client_row"
  "LockConsentGrantByUserClient 1 2 sample_db = Some sample_grant"
  by (simp_all add: read_query_defs select_one_def sample_rows)

lemma sample_fields [simp]:
  "usr_Status sample_user = ''active''" "code_UserID sample_code = 1" "code_ClientID sample_code = 2"
  "code_Scopes sample_code = sample_scopes" "cl_Scopes sample_client = sample_scopes"
  "grant_Scopes sample_grant = sample_scopes"
  by (simp_all add: sample_rows)

lemma sample_more_fields [simp]:
  "code_OriginSessionID sample_code = Some 3" "code_SessionBindingID sample_code = Some 30"
  "mi_InitialRefresh sample_minted = Some sample_initial" "ir_FamilyID sample_initial = 22"
  "refresh_token_families sample_db = [sample_family]" "xi_Now sample_exchange = sample_now"
  "xi_CodeHash sample_exchange = sample_code_hash"
  "users sample_db = [sample_user]" "audit_events sample_db = []" "authorization_codes sample_db = [sample_code]"
  "access_tokens sample_db = []" "code_ID sample_code = 6" "code_ConsumedAt sample_code = None"
  "sample_now < code_ExpiresAt sample_code"
  by (simp_all add: sample_rows sample_inputs duration_defs)

lemma sample_audit_ready:
  assumes "users d = [sample_user]" "audit_events d = []" "k \<le> 100"
  shows "audit_ready k 1 [] sample_now (start_tx (quiet sample_ids n) d)"
proof -
  have unat: "unat (sample_ids j) = 100 + j" if "j < 100" for j
    using that unfolding sample_ids_def unat_of_nat by simp
  have "sample_ids j \<noteq> uuid_Nil" if "j < 100" for j
    using unat[OF that] by auto
  moreover have "inj_on sample_ids {0..<k}"
    using assms(3) unat by (intro inj_onI) (metis add_left_imp_eq atLeastLessThan_iff less_le_trans)
  ultimately show ?thesis
    using assms
    by (simp add: audit_ready_def start_tx_def quiet_def refers_def sample_user_def IsZero_def sample_now_def duration_defs)
qed

lemma sample_refresh_locks [simp]:
  "LockRefreshTokenFamilyByID 7 sample_db = Some sample_family"
  "LockRefreshTokenByID 8 sample_db = Some sample_generation"
  "GetRefreshTokenByHash sample_presented_hash sample_db = Some sample_generation"
  "GetRefreshTokenFamilyByID 7 sample_db = Some sample_family"
  by (simp_all add: read_query_defs select_one_def sample_rows)

lemma sample_refresh_fields [simp]:
  "gen_FamilyID sample_generation = 7" "gen_ID sample_generation = 8" "fam_UserID sample_family = 1"
  "fam_ClientID sample_family = 2" "ri_Now sample_refresh = sample_now"
  "ri_TokenHash sample_refresh = sample_presented_hash" "gen_ConsumedAt sample_generation = None"
  "ri_RequestedScopes sample_refresh = None" "fam_Scopes sample_family = sample_scopes"
  "sample_now < gen_ExpiresAt sample_generation" "sample_now < fam_AbsoluteExpiresAt sample_family"
  "refresh_tokens sample_db = [sample_generation]"
  by (simp_all add: sample_rows sample_inputs duration_defs)

lemma sample_predate:
  "families_predate sample_now sample_db" "access_predate sample_now sample_db"
  by (simp_all add: families_predate_def access_predate_def)
    (simp add: refresh_token_families_check_def sample_family_def row_eval sample_scopes_def)

end
