(* ===== verification/Code_Exchange.thy ===== *)
theory Code_Exchange
  imports Samples
begin

text \<open>
  The exchange of an authorization code, \<^verbatim>\<open>Store.ExchangeAuthorizationCode\<close> of
  \<^verbatim>\<open>internal/storage/postgres/token.go\<close>: one transaction that locks the code, re-validates
  user, client, redirect URI, scopes and grant, calls the mint callback, writes the token
  rows, consumes the code and appends the audit events. A second presentation of the code
  is recorded once and answered with the same error as any other invalid grant.
\<close>

section \<open>Loading a client\<close>

definition mapClient :: "OidcClient \<Rightarrow> Client" where
  "mapClient row = \<lparr>cl_ID = cl_ID row, cl_ClientID = cl_ClientID row, cl_Type = cl_Type row,
     cl_AuthMethod = cl_AuthMethod row, cl_Name = cl_Name row, cl_Description = cl_Description row,
     cl_LogoURI = cl_LogoURI row, cl_Status = cl_Status row,
     cl_RegistrationEnabled = cl_RegistrationEnabled row, cl_CreatedAt = cl_CreatedAt row,
     cl_UpdatedAt = cl_UpdatedAt row, cl_Version = cl_Version row,
     cl_RedirectURIs = [], cl_LogoutURIs = [], cl_Scopes = []\<rparr>"

definition loadClientChildren :: "Client \<Rightarrow> Client dbtx" where
  "loadClientChildren value =
     tbind (read_query ''list client redirect URIs'' (ListOIDCClientRedirectURIs (cl_ID value))) (\<lambda>redirects.
     tbind (read_query ''list client logout URIs'' (ListOIDCClientLogoutURIs (cl_ID value))) (\<lambda>logouts.
     tbind (read_query ''list client scopes'' (ListOIDCClientScopes (cl_ID value))) (\<lambda>scopes.
     treturn (value\<lparr>cl_RedirectURIs := redirects, cl_LogoutURIs := logouts, cl_Scopes := scopes\<rparr>))))"

definition loadClient :: "uuid \<Rightarrow> Client dbtx" where
  "loadClient i =
     tbind (read_query ''get client'' (GetOIDCClientByID i)) (\<lambda>row.
     case row of
       None \<Rightarrow> tfail Client_ErrNotFound
     | Some row \<Rightarrow> loadClientChildren (mapClient row))"

text \<open>The client value a transaction sees.\<close>

definition client_value :: "db \<Rightarrow> OidcClient \<Rightarrow> Client" where
  "client_value d row = (mapClient row)\<lparr>
     cl_RedirectURIs := ListOIDCClientRedirectURIs (cl_ID row) d,
     cl_LogoutURIs := ListOIDCClientLogoutURIs (cl_ID row) d,
     cl_Scopes := ListOIDCClientScopes (cl_ID row) d\<rparr>"

definition sameAuthenticatedClient :: "Client \<Rightarrow> Client \<Rightarrow> bool" where
  "sameAuthenticatedClient current authenticated \<longleftrightarrow>
     cl_ID current = cl_ID authenticated \<and> cl_ClientID current = cl_ClientID authenticated \<and>
     cl_Status current = ''active'' \<and> cl_Type current = cl_Type authenticated \<and>
     cl_AuthMethod current = cl_AuthMethod authenticated \<and>
     (cl_Type current = ''public'' \<and> cl_AuthMethod current = ''none'' \<or>
      cl_Type current = ''confidential'' \<and> cl_AuthMethod current = ''client_secret_basic'')"

section \<open>Checks on what a mint callback returned\<close>

definition validMintedTokens :: "Minted \<Rightarrow> time \<Rightarrow> bool \<Rightarrow> bool" where
  "validMintedTokens value now offline =
     (if mi_AccessTokenID value = uuid_Nil \<or> length (mi_JTIHash value) \<noteq> sha256_Size \<or>
         mi_AccessToken value = '''' \<or> mi_IDToken value = '''' \<or> mi_IssuedAt value \<noteq> now \<or>
         \<not> mi_AccessExpiresAt value > mi_IssuedAt value \<or> \<not> mi_IDExpiresAt value > mi_IssuedAt value \<or>
         mi_AccessExpiresAt value > mi_IssuedAt value + 30 * Minute \<or>
         mi_IDExpiresAt value > mi_IssuedAt value + 15 * Minute
      then False
      else if \<not> offline then mi_InitialRefresh value = None
      else case mi_InitialRefresh value of
        None \<Rightarrow> False
      | Some initial \<Rightarrow>
        if ir_FamilyID initial = uuid_Nil \<or> ir_TokenID initial = uuid_Nil \<or>
           length (ir_TokenHash initial) \<noteq> sha256_Size \<or> ir_ClearToken initial = '''' \<or>
           \<not> ir_ExpiresAt initial > mi_IssuedAt value \<or>
           ir_ExpiresAt initial > ir_AbsoluteExpiresAt initial \<or>
           \<not> ir_AbsoluteExpiresAt initial > mi_IssuedAt value \<or>
           ir_ExpiresAt initial > mi_IssuedAt value + 30 * 24 * Hour \<or>
           ir_AbsoluteExpiresAt initial > mi_IssuedAt value + 365 * 24 * Hour
        then False
        else DigestPresentedRefreshToken (ir_ClearToken initial) = Some (ir_TokenHash initial))"

definition validRefreshMinted :: "RefreshMinted \<Rightarrow> RefreshToken \<Rightarrow> RefreshTokenFamily \<Rightarrow> time \<Rightarrow> bool" where
  "validRefreshMinted value presented family now =
     (if rm_AccessTokenID value = uuid_Nil \<or> rm_ReplacementTokenID value = uuid_Nil \<or>
         rm_ReplacementTokenID value = gen_ID presented \<or> length (rm_JTIHash value) \<noteq> sha256_Size \<or>
         length (rm_ReplacementTokenHash value) \<noteq> sha256_Size \<or> rm_AccessToken value = '''' \<or>
         rm_ReplacementClearToken value = '''' \<or> rm_IssuedAt value \<noteq> now \<or>
         \<not> rm_AccessExpiresAt value > rm_IssuedAt value \<or>
         rm_AccessExpiresAt value > rm_IssuedAt value + 30 * Minute \<or>
         \<not> rm_ReplacementExpiresAt value > rm_IssuedAt value \<or>
         rm_ReplacementExpiresAt value > rm_IssuedAt value + 30 * 24 * Hour \<or>
         rm_ReplacementExpiresAt value > fam_AbsoluteExpiresAt family \<or>
         gen_Generation presented = MaxInt64
      then False
      else DigestPresentedRefreshToken (rm_ReplacementClearToken value) = Some (rm_ReplacementTokenHash value))"

section \<open>Exchanging an authorization code\<close>

text \<open>
  A consumed code: the rejection is audited once, and the transaction commits; \<open>None\<close> tells
  the caller to answer \<^verbatim>\<open>ErrInvalidGrant\<close> (\<^verbatim>\<open>replayRejected\<close>).
\<close>

definition exchange_code_replay :: "ExchangeInput \<Rightarrow> AuthorizationCode \<Rightarrow> Response option dbtx" where
  "exchange_code_replay input codeRow =
     tbind (read_query ''check authorization code replay audit''
              (HasAuthorizationCodeExchangeRejection (code_ID codeRow))) (\<lambda>alreadyRecorded.
     if \<not> alreadyRecorded then
       tbind (insertProtocolAudit ''authorization_code_exchange_rejected'' ''rejected'' (code_UserID codeRow)
                ''authorization_code'' (code_ID codeRow) (xi_RequestID input) [] (xi_Now input))
         (\<lambda>_. treturn None)
     else treturn None)"

text \<open>Locking and re-validating user, client and grant.\<close>

definition exchange_code_authority ::
  "ExchangeInput \<Rightarrow> AuthorizationCode \<Rightarrow> (User \<times> Client \<times> string list \<times> ConsentGrant) dbtx" where
  "exchange_code_authority input codeRow =
     tbind (read_query ''lock code exchange user'' (LockUserByID (code_UserID codeRow))) (\<lambda>userRow.
     case userRow of
       None \<Rightarrow> tfail Token_ErrInvalidGrant
     | Some userRow \<Rightarrow>
     if usr_Status userRow \<noteq> ''active'' then tfail Token_ErrInvalidGrant else
     tbind (read_query ''lock code exchange client'' (LockOIDCClientByID (code_ClientID codeRow))) (\<lambda>clientRow.
     case clientRow of
       None \<Rightarrow> tfail Token_ErrInvalidGrant
     | Some clientRow \<Rightarrow>
     tbind (loadClientChildren (mapClient clientRow)) (\<lambda>clientValue.
     if \<not> sameAuthenticatedClient clientValue (xi_Client input) \<or>
        code_RedirectUri codeRow \<notin> set (cl_RedirectURIs clientValue)
     then tfail Token_ErrInvalidGrant else
     case CanonicalScopes (code_Scopes codeRow) of
       None \<Rightarrow> tfail Token_ErrInvalidGrant
     | Some scopes \<Rightarrow>
     if \<not> scope_subset scopes (cl_Scopes clientValue) then tfail Token_ErrInvalidGrant else
     tbind (read_query ''lock code exchange consent grant''
              (LockConsentGrantByUserClient (code_UserID codeRow) (code_ClientID codeRow))) (\<lambda>grantRow.
     case grantRow of
       None \<Rightarrow> tfail Token_ErrInvalidGrant
     | Some grant \<Rightarrow>
     if grant_ID grant \<noteq> code_ConsentGrantID codeRow \<or>
        grant_Version grant \<noteq> code_ConsentGrantVersion codeRow \<or> grant_RevokedAt grant \<noteq> None \<or>
        Difference scopes (Intersection (grant_Scopes grant) (cl_Scopes clientValue)) \<noteq> []
     then tfail Token_ErrInvalidGrant
     else treturn (userRow, clientValue, scopes, grant)))))"

definition code_authority ::
  "ExchangeInput \<Rightarrow> AuthorizationCode \<Rightarrow> User \<Rightarrow> Client \<Rightarrow> string list \<Rightarrow> ConsentGrant \<Rightarrow> Authority" where
  "code_authority input codeRow userRow clientValue scopes grant =
     \<lparr>au_CodeID = code_ID codeRow, au_GrantID = grant_ID grant,
      au_OriginSessionID = code_OriginSessionID codeRow, au_SessionBindingID = code_SessionBindingID codeRow,
      au_User = userRow, au_Client = clientValue, au_Scopes = scopes,
      au_Nonce = (case code_NonceValue codeRow of None \<Rightarrow> '''' | Some n \<Rightarrow> n),
      au_AuthenticatedAt = code_AuthTime codeRow, au_IssuedAt = xi_Now input\<rparr>"

text \<open>The rows an exchange inserts.\<close>

definition code_family_row ::
  "AuthorizationCode \<Rightarrow> string list \<Rightarrow> ConsentGrant \<Rightarrow> Minted \<Rightarrow> InitialRefresh \<Rightarrow> uuid \<Rightarrow> RefreshTokenFamily" where
  "code_family_row codeRow scopes grant minted initial binding =
     \<lparr>fam_ID = ir_FamilyID initial, fam_OriginAuthorizationCodeID = Some (code_ID codeRow),
      fam_ConsentGrantID = grant_ID grant, fam_UserID = code_UserID codeRow,
      fam_ClientID = code_ClientID codeRow, fam_OriginSessionID = code_OriginSessionID codeRow,
      fam_SessionBindingID = binding, fam_Scopes = scopes, fam_CreatedAt = mi_IssuedAt minted,
      fam_AbsoluteExpiresAt = ir_AbsoluteExpiresAt initial, fam_RevokedAt = None,
      fam_RevokeReason = None\<rparr>"

definition code_generation_row :: "Minted \<Rightarrow> InitialRefresh \<Rightarrow> RefreshToken" where
  "code_generation_row minted initial =
     \<lparr>gen_ID = ir_TokenID initial, gen_FamilyID = ir_FamilyID initial,
      gen_TokenHash = ir_TokenHash initial, gen_Generation = 0,
      gen_IssuedAt = mi_IssuedAt minted, gen_ExpiresAt = ir_ExpiresAt initial, gen_ConsumedAt = None\<rparr>"

definition code_access_row ::
  "AuthorizationCode \<Rightarrow> string list \<Rightarrow> ConsentGrant \<Rightarrow> Minted \<Rightarrow> uuid option \<Rightarrow> AccessToken" where
  "code_access_row codeRow scopes grant minted refreshFamilyID =
     \<lparr>acc_ID = mi_AccessTokenID minted, acc_JtiHash = mi_JTIHash minted,
      acc_AuthorizationCodeID = Some (code_ID codeRow), acc_ConsentGrantID = grant_ID grant,
      acc_UserID = code_UserID codeRow, acc_ClientID = code_ClientID codeRow, acc_Scopes = scopes,
      acc_IssuedAt = mi_IssuedAt minted, acc_ExpiresAt = mi_AccessExpiresAt minted,
      acc_IssuanceSource = ''authorization_code'', acc_SourceRefreshTokenID = None,
      acc_RefreshFamilyID = refreshFamilyID, acc_OriginSessionID = code_OriginSessionID codeRow,
      acc_SessionBindingID = code_SessionBindingID codeRow, acc_RevokedAt = None,
      acc_RevokeReason = None\<rparr>"

text \<open>The family and generation zero of an offline exchange; the result is the family's id.\<close>

definition exchange_code_family ::
  "AuthorizationCode \<Rightarrow> string list \<Rightarrow> ConsentGrant \<Rightarrow> Minted \<Rightarrow> uuid option dbtx" where
  "exchange_code_family codeRow scopes grant minted =
     (case mi_InitialRefresh minted of
        None \<Rightarrow> treturn None
      | Some initial \<Rightarrow>
        (case (code_OriginSessionID codeRow, code_SessionBindingID codeRow) of
           (Some _, Some binding) \<Rightarrow>
             tbind (exec_query ''create refresh token family''
               (CreateRefreshTokenFamily (code_family_row codeRow scopes grant minted initial binding))) (\<lambda>_.
             tbind (exec_query ''create initial refresh token''
               (CreateRefreshToken (code_generation_row minted initial))) (\<lambda>_.
             treturn (Some (ir_FamilyID initial))))
         | _ \<Rightarrow> tfail Token_ErrInvalidGrant))"

definition exchange_code_response :: "Minted \<Rightarrow> string list \<Rightarrow> Response" where
  "exchange_code_response minted scopes =
     \<lparr>rs_AccessToken = mi_AccessToken minted, rs_TokenType = ''Bearer'',
      rs_ExpiresIn = (mi_AccessExpiresAt minted - mi_IssuedAt minted) div Second,
      rs_IDToken = mi_IDToken minted,
      rs_RefreshToken = (case mi_InitialRefresh minted of None \<Rightarrow> '''' | Some i \<Rightarrow> ir_ClearToken i),
      rs_Scope = strings_Join scopes '' ''\<rparr>"

definition exchange_code_events :: "ExchangeInput \<Rightarrow> AuthorizationCode \<Rightarrow> Minted \<Rightarrow> unit dbtx" where
  "exchange_code_events input codeRow minted =
     tbind (insertProtocolAudit ''authorization_code_exchange_succeeded'' ''success'' (code_UserID codeRow)
              ''authorization_code'' (code_ID codeRow) (xi_RequestID input) [''consumed''] (xi_Now input)) (\<lambda>_.
     tbind (insertProtocolAudit ''access_token_issued'' ''success'' (code_UserID codeRow)
              ''access_token'' (mi_AccessTokenID minted) (xi_RequestID input) [''issued''] (xi_Now input)) (\<lambda>_.
     case mi_InitialRefresh minted of
       None \<Rightarrow> treturn ()
     | Some initial \<Rightarrow>
         tbind (insertProtocolAudit ''refresh_token_issued'' ''success'' (code_UserID codeRow)
           ''refresh_token'' (ir_TokenID initial) (xi_RequestID input) [''issued''] (xi_Now input))
           (\<lambda>_. treturn ())))"

text \<open>Minting, the inserts, the consumption of the code and the audit events.\<close>

definition exchange_code_issue ::
  "ExchangeInput \<Rightarrow> (Authority \<Rightarrow> go_error + Minted) \<Rightarrow> AuthorizationCode \<Rightarrow>
   User \<times> Client \<times> string list \<times> ConsentGrant \<Rightarrow> Response option dbtx" where
  "exchange_code_issue input mintf codeRow authority =
     (case authority of (userRow, clientValue, scopes, grant) \<Rightarrow>
      (case mintf (code_authority input codeRow userRow clientValue scopes grant) of
         Inl e \<Rightarrow> tfail e
       | Inr minted \<Rightarrow>
       if \<not> validMintedTokens minted (xi_Now input) (''offline_access'' \<in> set scopes)
       then tfail Token_ErrInvalid else
       tbind (exchange_code_family codeRow scopes grant minted) (\<lambda>refreshFamilyID.
       tbind (exec_query ''create access token metadata''
                (CreateAccessToken (code_access_row codeRow scopes grant minted refreshFamilyID))) (\<lambda>_.
       tbind (exec_query ''consume authorization code''
                (ConsumeAuthorizationCode (xi_Now input) (code_ID codeRow))) (\<lambda>consumed.
       case consumed of
         None \<Rightarrow> tfail Token_ErrInvalidGrant
       | Some _ \<Rightarrow>
           tbind (exchange_code_events input codeRow minted) (\<lambda>_.
           treturn (Some (exchange_code_response minted scopes))))))))"

definition exchange_code_tx ::
  "ExchangeInput \<Rightarrow> (Authority \<Rightarrow> go_error + Minted) \<Rightarrow> Response option dbtx" where
  "exchange_code_tx input mintf =
     tbind (read_query ''lock authorization code for exchange''
              (LockAuthorizationCodeByHash (xi_CodeHash input))) (\<lambda>codeRow.
     case codeRow of
       None \<Rightarrow> tfail Token_ErrInvalidGrant
     | Some codeRow \<Rightarrow>
       if code_ConsumedAt codeRow \<noteq> None then exchange_code_replay input codeRow
       else if \<not> code_ExpiresAt codeRow > xi_Now input then tfail Token_ErrInvalidGrant
       else if code_ClientID codeRow \<noteq> cl_ID (xi_Client input) \<or>
               code_RedirectUri codeRow \<noteq> xi_RedirectURI input \<or> code_PkceMethod codeRow \<noteq> ''S256'' \<or>
               \<not> VerifyS256 (xi_CodeVerifier input) (code_PkceChallenge codeRow)
       then tfail Token_ErrInvalidGrant
       else tbind (exchange_code_authority input codeRow) (exchange_code_issue input mintf codeRow))"

text \<open>
  \<^verbatim>\<open>Store.ExchangeAuthorizationCode\<close>. The callback of attempt \<open>n\<close> is \<open>mintf n\<close>: it draws fresh
  randomness each time.
\<close>

definition ExchangeAuthorizationCode ::
  "(nat \<Rightarrow> attempt) \<Rightarrow> ExchangeInput \<Rightarrow> (nat \<Rightarrow> Authority \<Rightarrow> go_error + Minted) \<Rightarrow> db \<Rightarrow>
   (go_error + Response) \<times> db" where
  "ExchangeAuthorizationCode env input mintf d =
     (if length (xi_CodeHash input) \<noteq> sha256_Size \<or> cl_ID (xi_Client input) = uuid_Nil \<or>
         xi_RedirectURI input = '''' \<or> xi_CodeVerifier input = '''' \<or> IsZero (xi_Now input)
      then (Inl Token_ErrInvalidGrant, d)
      else case inTx env (\<lambda>n. exchange_code_tx input (mintf n)) d of
        (Inl err, d') \<Rightarrow> (Inl err, d')
      | (Inr None, d') \<Rightarrow> (Inl Token_ErrInvalidGrant, d')
      | (Inr (Some response), d') \<Rightarrow> (Inr response, d'))"


section \<open>Successful runs\<close>

lemma loadClientChildren_run [elim!]:
  assumes "tx_run (loadClientChildren (mapClient row)) d c d'"
  obtains "c = client_value d row" "d' = d"
  using assms by (auto simp: loadClientChildren_def client_value_def mapClient_def)

lemma client_value_ID [simp]: "cl_ID (client_value d row) = cl_ID row"
  by (simp add: client_value_def mapClient_def)

text \<open>
  What a presented code must satisfy, and the principals a successful exchange has locked
  and re-validated when it calls the mint callback.
\<close>

definition code_presented :: "db \<Rightarrow> ExchangeInput \<Rightarrow> AuthorizationCode \<Rightarrow> bool" where
  "code_presented d input codeRow \<longleftrightarrow>
     LockAuthorizationCodeByHash (xi_CodeHash input) d = Some codeRow \<and>
     code_ConsumedAt codeRow = None \<and> code_ExpiresAt codeRow > xi_Now input \<and>
     code_ClientID codeRow = cl_ID (xi_Client input) \<and> code_RedirectUri codeRow = xi_RedirectURI input \<and>
     code_PkceMethod codeRow = ''S256'' \<and> VerifyS256 (xi_CodeVerifier input) (code_PkceChallenge codeRow)"

definition code_principals ::
  "db \<Rightarrow> ExchangeInput \<Rightarrow> AuthorizationCode \<Rightarrow> User \<times> Client \<times> string list \<times> ConsentGrant \<Rightarrow> bool" where
  "code_principals d input codeRow p \<longleftrightarrow>
     (case p of (userRow, clientValue, scopes, grant) \<Rightarrow>
       LockUserByID (code_UserID codeRow) d = Some userRow \<and> usr_Status userRow = ''active'' \<and>
       map_option (client_value d) (LockOIDCClientByID (code_ClientID codeRow) d) = Some clientValue \<and>
       sameAuthenticatedClient clientValue (xi_Client input) \<and>
       code_RedirectUri codeRow \<in> set (cl_RedirectURIs clientValue) \<and>
       CanonicalScopes (code_Scopes codeRow) = Some scopes \<and>
       LockConsentGrantByUserClient (code_UserID codeRow) (code_ClientID codeRow) d = Some grant \<and>
       grant_ID grant = code_ConsentGrantID codeRow \<and>
       grant_Version grant = code_ConsentGrantVersion codeRow \<and> grant_RevokedAt grant = None \<and>
       set scopes \<subseteq> set (grant_Scopes grant) \<inter> set (cl_Scopes clientValue))"

lemma covered_by_grant:
  assumes "CanonicalScopes s = Some scopes"
  shows "Difference scopes (Intersection a b) = [] \<longleftrightarrow> set scopes \<subseteq> set a \<inter> set b"
proof -
  have "list_all scope_supported scopes"
    using CanonicalScopes_canonical[OF assms] by (simp add: canonical_scopes_def)
  then show ?thesis
    by (auto simp: scope.minus_empty_covers scope_sets list_all_iff)
qed

lemma exchange_code_authority_run [elim!]:
  assumes "tx_run (exchange_code_authority input codeRow) d r d'"
  obtains "d' = d" "code_principals d input codeRow r"
  using assms unfolding exchange_code_authority_def
  by (elim tx_elims loadClientChildren_run) (simp_all add: code_principals_def, metis covered_by_grant le_inf_iff)

definition initial_rows :: "AuthorizationCode \<Rightarrow> string list \<Rightarrow> ConsentGrant \<Rightarrow> Minted \<Rightarrow> db \<Rightarrow> db" where
  "initial_rows codeRow scopes grant minted d =
     (case (mi_InitialRefresh minted, code_SessionBindingID codeRow) of
        (Some initial, Some binding) \<Rightarrow> d\<lparr>
          refresh_token_families := insert_row (code_family_row codeRow scopes grant minted initial binding)
            (refresh_token_families d),
          refresh_tokens := insert_row (code_generation_row minted initial) (refresh_tokens d)\<rparr>
      | _ \<Rightarrow> d)"

definition initial_rows_ok :: "AuthorizationCode \<Rightarrow> string list \<Rightarrow> ConsentGrant \<Rightarrow> Minted \<Rightarrow> db \<Rightarrow> bool" where
  "initial_rows_ok codeRow scopes grant minted d =
     (case mi_InitialRefresh minted of
        None \<Rightarrow> True
      | Some initial \<Rightarrow>
        (case code_SessionBindingID codeRow of
           None \<Rightarrow> False
         | Some binding \<Rightarrow>
           (let f = code_family_row codeRow scopes grant minted initial binding in
            refresh_token_families_violation d f = None \<and>
            refresh_tokens_violation (d\<lparr>refresh_token_families := insert_row f (refresh_token_families d)\<rparr>)
              (code_generation_row minted initial) = None)))"

lemma exchange_code_family_run [elim!]:
  assumes "tx_run (exchange_code_family codeRow scopes grant minted) d r d'"
  obtains "r = map_option ir_FamilyID (mi_InitialRefresh minted)"
    "d' = initial_rows codeRow scopes grant minted d" "initial_rows_ok codeRow scopes grant minted d"
  using assms(1) that unfolding exchange_code_family_def initial_rows_def initial_rows_ok_def
  by (cases "mi_InitialRefresh minted"; cases "code_OriginSessionID codeRow"; cases "code_SessionBindingID codeRow")
    (auto simp: tx_simps code_family_row_def code_generation_row_def)

text \<open>The database after a successful exchange, given the audit rows it appended.\<close>

definition code_exchanged ::
  "ExchangeInput \<Rightarrow> AuthorizationCode \<Rightarrow> string list \<Rightarrow> ConsentGrant \<Rightarrow> Minted \<Rightarrow> AuditEvent list \<Rightarrow> db \<Rightarrow> db" where
  "code_exchanged input codeRow scopes grant minted events d =
     (initial_rows codeRow scopes grant minted d)\<lparr>
       access_tokens := insert_row (code_access_row codeRow scopes grant minted
          (map_option ir_FamilyID (mi_InitialRefresh minted))) (access_tokens d),
       authorization_codes := consume_code (xi_Now input) (code_ID codeRow) (authorization_codes d),
       audit_events := audit_events d @ events\<rparr>"

definition code_exchange_audit :: "ExchangeInput \<Rightarrow> AuthorizationCode \<Rightarrow> Minted \<Rightarrow> AuditEvent list \<Rightarrow> bool" where
  "code_exchange_audit input codeRow minted events \<longleftrightarrow>
     list_all2 (\<lambda>p e. p e)
       ([audit_appended ''authorization_code_exchange_succeeded'' ''success'' (code_UserID codeRow)
           ''authorization_code'' (code_ID codeRow) (xi_Now input),
         audit_appended ''access_token_issued'' ''success'' (code_UserID codeRow)
           ''access_token'' (mi_AccessTokenID minted) (xi_Now input)] @
        (case mi_InitialRefresh minted of
           None \<Rightarrow> []
         | Some i \<Rightarrow> [audit_appended ''refresh_token_issued'' ''success'' (code_UserID codeRow)
             ''refresh_token'' (ir_TokenID i) (xi_Now input)])) events"

lemma exchange_code_events_run [elim!]:
  assumes "tx_run (exchange_code_events input codeRow minted) d u d'"
  obtains events where "code_exchange_audit input codeRow minted events"
    "d' = d\<lparr>audit_events := audit_events d @ events\<rparr>"
proof (cases "mi_InitialRefresh minted")
  case None
  from assms show thesis
    unfolding exchange_code_events_def None option.case
    by (elim tx_elims insertProtocolAudit_run)
      (auto simp: code_exchange_audit_def None intro!: that[of "[x, y]" for x y])
next
  case (Some initial)
  from assms show thesis
    unfolding exchange_code_events_def Some option.case
    by (elim tx_elims insertProtocolAudit_run)
      (auto simp: code_exchange_audit_def Some intro!: that[of "[x, y, z]" for x y z])
qed

lemma initial_rows_frame [simp]:
  "authorization_codes (initial_rows c s g m d) = authorization_codes d"
  "access_tokens (initial_rows c s g m d) = access_tokens d"
  "audit_events (initial_rows c s g m d) = audit_events d"
  by (simp_all add: initial_rows_def split: option.splits)

lemma code_access_row_defaults [simp]:
  "(code_access_row c s g m f)\<lparr>acc_IssuanceSource := ''authorization_code'', acc_SourceRefreshTokenID := None,
     acc_RevokedAt := None, acc_RevokeReason := None\<rparr> = code_access_row c s g m f"
  by (simp add: code_access_row_def)

definition code_issued ::
  "(Authority \<Rightarrow> go_error + Minted) \<Rightarrow> ExchangeInput \<Rightarrow> AuthorizationCode \<Rightarrow>
   User \<times> Client \<times> string list \<times> ConsentGrant \<Rightarrow> db \<Rightarrow> Response option \<Rightarrow> db \<Rightarrow> bool" where
  "code_issued mintf input codeRow p d r d' \<longleftrightarrow>
     (case p of (userRow, clientValue, scopes, grant) \<Rightarrow>
      (\<exists>minted events.
        mintf (code_authority input codeRow userRow clientValue scopes grant) = Inr minted \<and>
        validMintedTokens minted (xi_Now input) (''offline_access'' \<in> set scopes) \<and>
        initial_rows_ok codeRow scopes grant minted d \<and>
        access_tokens_violation (initial_rows codeRow scopes grant minted d)
          (code_access_row codeRow scopes grant minted (map_option ir_FamilyID (mi_InitialRefresh minted))) = None \<and>
        code_exchange_audit input codeRow minted events \<and>
        r = Some (exchange_code_response minted scopes) \<and>
        d' = code_exchanged input codeRow scopes grant minted events d))"

lemma exchange_code_issue_run [elim!]:
  assumes "tx_run (exchange_code_issue input mintf codeRow p) d r d'"
  obtains "code_issued mintf input codeRow p d r d'"
proof -
  obtain userRow clientValue scopes grant where p: "p = (userRow, clientValue, scopes, grant)"
    by (cases p)
  have "code_issued mintf input codeRow p d r d'"
    using assms unfolding p exchange_code_issue_def
      prod.case
    by (elim tx_elims exchange_code_family_run exchange_code_events_run)
      (auto simp: tx_simps code_issued_def code_exchanged_def dest!: ConsumeAuthorizationCode_Inr)
  then show thesis by (rule that)
qed

lemma exchange_code_tx_run:
  assumes "tx_run (exchange_code_tx input mintf) d r d'"
  obtains (replay) codeRow where "LockAuthorizationCodeByHash (xi_CodeHash input) d = Some codeRow"
      "code_ConsumedAt codeRow \<noteq> None" "tx_run (exchange_code_replay input codeRow) d r d'"
    | (issue) codeRow p where "code_presented d input codeRow" "code_principals d input codeRow p"
      "code_issued mintf input codeRow p d r d'"
proof -
  have "(\<exists>c. LockAuthorizationCodeByHash (xi_CodeHash input) d = Some c \<and> code_ConsumedAt c \<noteq> None \<and>
           tx_run (exchange_code_replay input c) d r d') \<or>
        (\<exists>c p. code_presented d input c \<and> code_principals d input c p \<and> code_issued mintf input c p d r d')"
    using assms unfolding exchange_code_tx_def
    by (elim tx_elims exchange_code_authority_run exchange_code_issue_run)
      (auto simp: code_presented_def simp del: not_None_eq)
  then show thesis using replay issue by blast
qed

lemma exchange_code_replay_run:
  assumes "tx_run (exchange_code_replay input codeRow) d r d'"
  obtains (recorded) "r = None" "d' = d" "HasAuthorizationCodeExchangeRejection (code_ID codeRow) d"
    | (recording) row where "r = None" "\<not> HasAuthorizationCodeExchangeRejection (code_ID codeRow) d"
      "audit_appended ''authorization_code_exchange_rejected'' ''rejected'' (code_UserID codeRow)
         ''authorization_code'' (code_ID codeRow) (xi_Now input) row"
      "d' = d\<lparr>audit_events := audit_events d @ [row]\<rparr>"
  using assms(1) unfolding exchange_code_replay_def
  by (elim tx_elims insertProtocolAudit_run) (blast intro: recording, blast intro: recorded)

section \<open>Outcomes of a call\<close>

text \<open>A run of the whole operation: nothing, a completed exchange, or a recorded replay.\<close>

lemma ExchangeAuthorizationCode_Inr:
  assumes "ExchangeAuthorizationCode env input mintf d = (Inr r, d')"
  obtains n codeRow p where "code_presented d input codeRow" "code_principals d input codeRow p"
    "code_issued (mintf n) input codeRow p d (Some r) d'"
proof -
  from assms obtain n where "tx_run (exchange_code_tx input (mintf n)) d (Some r) d'"
    by (auto simp: ExchangeAuthorizationCode_def split: if_splits prod.splits sum.splits option.splits
        elim: inTx_committed)
  then show thesis
    by (cases rule: exchange_code_tx_run) (auto elim!: exchange_code_replay_run intro: that)
qed

lemma ExchangeAuthorizationCode_effect:
  assumes "ExchangeAuthorizationCode env input mintf d = (r, d')"
  shows "d' = d \<or> (\<exists>n x. tx_run (exchange_code_tx input (mintf n)) d x d')"
  using assms inTx_effect[of env "\<lambda>n. exchange_code_tx input (mintf n)" d]
  by (auto simp: ExchangeAuthorizationCode_def split: if_splits prod.splits sum.splits option.splits)

definition code_spent :: "string \<Rightarrow> AuthorizationCode \<Rightarrow> db \<Rightarrow> bool" where
  "code_spent h codeRow d \<longleftrightarrow>
     LockAuthorizationCodeByHash h d = Some codeRow \<and> code_ConsumedAt codeRow \<noteq> None"

lemma code_issued_spent:
  assumes "code_presented d input codeRow" "code_issued mintf input codeRow p d r d'"
  shows "code_spent (xi_CodeHash input) (codeRow\<lparr>code_ConsumedAt := Some (xi_Now input)\<rparr>) d'"
  using assms
  by (auto simp: code_spent_def code_issued_def code_presented_def code_exchanged_def consume_code_def
      LockAuthorizationCodeByHash_def table_simps split: prod.splits)

lemma code_spent_step:
  assumes "code_spent (xi_CodeHash input) codeRow d" "ExchangeAuthorizationCode env input mintf d = (r, d')"
  shows "\<exists>e. r = Inl e" "code_spent (xi_CodeHash input) codeRow d'"
    "d' = d \<or> \<not> HasAuthorizationCodeExchangeRejection (code_ID codeRow) d \<and>
       HasAuthorizationCodeExchangeRejection (code_ID codeRow) d' \<and>
       (\<exists>row. d' = d\<lparr>audit_events := audit_events d @ [row]\<rparr>)"
proof -
  have "\<not> code_presented d input c" for c
    using assms(1) by (auto simp: code_presented_def code_spent_def)
  then show "\<exists>e. r = Inl e"
    using ExchangeAuthorizationCode_Inr[of env input mintf d] assms(2) by (cases r) blast+
  have run: "d' = d \<or> \<not> HasAuthorizationCodeExchangeRejection (code_ID codeRow) d \<and>
       HasAuthorizationCodeExchangeRejection (code_ID codeRow) d' \<and>
       (\<exists>row. d' = d\<lparr>audit_events := audit_events d @ [row]\<rparr>)"
    if "tx_run (exchange_code_tx input m) d x d'" for m x
    using that assms(1) \<open>\<And>c. \<not> code_presented d input c\<close>
    by (cases rule: exchange_code_tx_run)
      (auto simp: code_spent_def HasAuthorizationCodeExchangeRejection_def audit_appended_def
        elim!: exchange_code_replay_run)
  then show effect: "d' = d \<or> \<not> HasAuthorizationCodeExchangeRejection (code_ID codeRow) d \<and>
       HasAuthorizationCodeExchangeRejection (code_ID codeRow) d' \<and>
       (\<exists>row. d' = d\<lparr>audit_events := audit_events d @ [row]\<rparr>)"
    using ExchangeAuthorizationCode_effect[OF assms(2)] by blast
  then show "code_spent (xi_CodeHash input) codeRow d'"
    using assms(1) by (auto simp: code_spent_def LockAuthorizationCodeByHash_def)
qed

definition code_replay_recorded :: "ExchangeInput \<Rightarrow> db \<Rightarrow> db \<Rightarrow> bool" where
  "code_replay_recorded input d d' \<longleftrightarrow>
     (\<exists>codeRow row. code_spent (xi_CodeHash input) codeRow d \<and>
       audit_appended ''authorization_code_exchange_rejected'' ''rejected'' (code_UserID codeRow)
         ''authorization_code'' (code_ID codeRow) (xi_Now input) row \<and>
       d' = d\<lparr>audit_events := audit_events d @ [row]\<rparr>)"

definition code_exchange_applied ::
  "ExchangeInput \<Rightarrow> (Authority \<Rightarrow> go_error + Minted) \<Rightarrow> db \<Rightarrow> db \<Rightarrow> bool" where
  "code_exchange_applied input mintf d d' \<longleftrightarrow>
     (\<exists>codeRow p r. code_presented d input codeRow \<and> code_principals d input codeRow p \<and>
       code_issued mintf input codeRow p d r d')"

text \<open>A sequence of calls, each with its own faults, input and mint callbacks.\<close>

type_synonym exchange_call = "(nat \<Rightarrow> attempt) \<times> ExchangeInput \<times> (nat \<Rightarrow> Authority \<Rightarrow> go_error + Minted)"

fun exchange_calls :: "exchange_call list \<Rightarrow> db \<Rightarrow> (go_error + Response) list \<times> db" where
  "exchange_calls [] d = ([], d)"
| "exchange_calls ((env, input, mintf) # calls) d =
     (let (r, d') = ExchangeAuthorizationCode env input mintf d; (rs, d'') = exchange_calls calls d'
      in (r # rs, d''))"

lemma spent_code_replays:
  assumes "code_spent h codeRow d" "\<forall>(env, i, m) \<in> set calls. xi_CodeHash i = h"
    "exchange_calls calls d = (rs, d')"
  shows "list_all (\<lambda>r. \<exists>e. r = Inl e) rs \<and>
    (\<exists>events. d' = d\<lparr>audit_events := audit_events d @ events\<rparr> \<and> length events \<le> 1 \<and>
      (HasAuthorizationCodeExchangeRejection (code_ID codeRow) d \<longrightarrow> events = []))"
  using assms
proof (induction calls arbitrary: d rs)
  case Nil
  have "d = d\<lparr>audit_events := audit_events d @ []\<rparr>" by simp
  with Nil show ?case by (intro conjI exI[of _ "[]"]) simp_all
next
  case (Cons call calls)
  obtain env i m where call: "call = (env, i, m)" by (cases call)
  obtain r d1 rs' where step: "ExchangeAuthorizationCode env i m d = (r, d1)"
    and rest: "exchange_calls calls d1 = (rs', d')" and rs: "rs = r # rs'"
    using Cons.prems(3) by (auto simp: call Let_def split: prod.splits)
  have hash: "xi_CodeHash i = h" using Cons.prems(2) by (simp add: call)
  note one = code_spent_step[OF Cons.prems(1)[folded hash] step]
  have "\<forall>(env, i, m) \<in> set calls. xi_CodeHash i = h" using Cons.prems(2) by simp
  note IH = Cons.IH[OF one(2)[unfolded hash] this rest]
  have errors: "list_all (\<lambda>r. \<exists>e. r = Inl e) rs"
    unfolding rs using conjunct1[OF IH] one(1) by simp
  obtain events where d': "d' = d1\<lparr>audit_events := audit_events d1 @ events\<rparr>" "length events \<le> 1"
      "HasAuthorizationCodeExchangeRejection (code_ID codeRow) d1 \<longrightarrow> events = []"
    using conjunct2[OF IH] by blast
  from one(3) show ?case
  proof (elim disjE conjE exE)
    assume "d1 = d"
    with errors d' show ?thesis by blast
  next
    fix row
    assume "\<not> HasAuthorizationCodeExchangeRejection (code_ID codeRow) d"
      "HasAuthorizationCodeExchangeRejection (code_ID codeRow) d1" "d1 = d\<lparr>audit_events := audit_events d @ [row]\<rparr>"
    with errors d' show ?thesis by (intro conjI exI[of _ "[row]"]) simp_all
  qed
qed

section \<open>Exchanges that succeed\<close>

lemma loadClientChildren_ok:
  "st_faults st = [] \<Longrightarrow> loadClientChildren (mapClient row) st = Inr (client_value (st_db st) row, st)"
  by (simp add: loadClientChildren_def client_value_def mapClient_def tbind_ok read_query_ok treturn_def)

lemma exchange_code_authority_ok:
  assumes "st_faults st = []" "code_principals (st_db st) input codeRow p"
  shows "exchange_code_authority input codeRow st = Inr (p, st)"
proof -
  obtain userRow clientValue scopes grant where p: "p = (userRow, clientValue, scopes, grant)" by (cases p)
  note ok = assms(2)[unfolded p code_principals_def prod.case]
  then obtain clientRow where client: "LockOIDCClientByID (code_ClientID codeRow) (st_db st) = Some clientRow"
    "client_value (st_db st) clientRow = clientValue" by auto
  have covered: "Difference scopes (Intersection (grant_Scopes grant) (cl_Scopes clientValue)) = []"
    "scope_subset scopes (cl_Scopes clientValue)"
    using ok covered_by_grant[of "code_Scopes codeRow" scopes] by (auto simp: scope_subset_iff)
  show ?thesis
    unfolding p exchange_code_authority_def
    using assms(1) ok covered client by (simp add: tbind_ok read_query_ok loadClientChildren_ok treturn_def)
qed

text \<open>The rows of an exchange violate no constraint.\<close>

definition code_rows_insertable ::
  "db \<Rightarrow> AuthorizationCode \<Rightarrow> string list \<Rightarrow> ConsentGrant \<Rightarrow> Minted \<Rightarrow> bool" where
  "code_rows_insertable d codeRow scopes grant minted \<longleftrightarrow>
     (case mi_InitialRefresh minted of
        None \<Rightarrow> True
      | Some initial \<Rightarrow>
        (case (code_OriginSessionID codeRow, code_SessionBindingID codeRow) of
           (Some _, Some binding) \<Rightarrow>
             refresh_token_families_violation d (code_family_row codeRow scopes grant minted initial binding) = None \<and>
             refresh_tokens_violation
               (d\<lparr>refresh_token_families := insert_row (code_family_row codeRow scopes grant minted initial binding)
                   (refresh_token_families d)\<rparr>)
               (code_generation_row minted initial) = None
         | _ \<Rightarrow> False)) \<and>
     access_tokens_violation (initial_rows codeRow scopes grant minted d)
       (code_access_row codeRow scopes grant minted (map_option ir_FamilyID (mi_InitialRefresh minted))) = None"

lemma row_defaults [simp]:
  "(code_family_row c s g m i b)\<lparr>fam_RevokedAt := None, fam_RevokeReason := None\<rparr> = code_family_row c s g m i b"
  "(code_generation_row m i)\<lparr>gen_ConsumedAt := None\<rparr> = code_generation_row m i"
  by (simp_all add: code_family_row_def code_generation_row_def)

lemma exchange_code_family_ok:
  assumes "st_faults st = []" "code_rows_insertable (st_db st) codeRow scopes grant minted"
  shows "exchange_code_family codeRow scopes grant minted st =
    Inr (map_option ir_FamilyID (mi_InitialRefresh minted), st\<lparr>st_db := initial_rows codeRow scopes grant minted (st_db st)\<rparr>)"
proof (cases "mi_InitialRefresh minted")
  case None
  then show ?thesis by (simp add: exchange_code_family_def initial_rows_def treturn_def)
next
  case (Some initial)
  with assms obtain session binding where ids: "code_OriginSessionID codeRow = Some session"
      "code_SessionBindingID codeRow = Some binding"
    by (auto simp: code_rows_insertable_def split: option.splits)
  let ?f = "code_family_row codeRow scopes grant minted initial binding"
  let ?g = "code_generation_row minted initial"
  note ok = assms(2)[unfolded code_rows_insertable_def Some ids option.case prod.case]
  let ?d1 = "(st_db st)\<lparr>refresh_token_families := insert_row ?f (refresh_token_families (st_db st))\<rparr>"
  have family: "CreateRefreshTokenFamily ?f (st_db st) = Inr (?f, ?d1)"
    using ok by (simp add: CreateRefreshTokenFamily_Inr)
  have generation: "CreateRefreshToken ?g ?d1 =
      Inr (?g, ?d1\<lparr>refresh_tokens := insert_row ?g (refresh_tokens (st_db st))\<rparr>)"
    using ok by (simp add: CreateRefreshToken_Inr)
  show ?thesis
    using assms(1)
    by (simp add: exchange_code_family_def Some ids initial_rows_def tbind_exec_ok family generation treturn_def)
qed

lemma initial_rows_users [simp]: "users (initial_rows c s g m d) = users d"
  by (simp add: initial_rows_def split: option.split)

lemma exchange_code_events_ok:
  assumes ready: "audit_ready 3 (code_UserID codeRow) (xi_RequestID input) (xi_Now input) st"
    and ids: "code_ID codeRow \<noteq> uuid_Nil" "mi_AccessTokenID minted \<noteq> uuid_Nil"
      "\<And>i. mi_InitialRefresh minted = Some i \<Longrightarrow> ir_TokenID i \<noteq> uuid_Nil"
  shows "\<exists>st'. exchange_code_events input codeRow minted st = Inr ((), st')"
  unfolding exchange_code_events_def
proof (rule insertProtocolAudit_then[OF ready[unfolded numeral_3_eq_3]])
  fix st1
  assume ready1: "audit_ready (Suc (Suc 0)) (code_UserID codeRow) (xi_RequestID input) (xi_Now input) st1"
  show "\<exists>st'. tbind (insertProtocolAudit ''access_token_issued'' ''success'' (code_UserID codeRow) ''access_token''
      (mi_AccessTokenID minted) (xi_RequestID input) [''issued''] (xi_Now input)) (\<lambda>_.
    case mi_InitialRefresh minted of None \<Rightarrow> treturn ()
    | Some initial \<Rightarrow> tbind (insertProtocolAudit ''refresh_token_issued'' ''success'' (code_UserID codeRow)
        ''refresh_token'' (ir_TokenID initial) (xi_RequestID input) [''issued''] (xi_Now input)) (\<lambda>_. treturn ())) st1 = Inr ((), st')"
  proof (rule insertProtocolAudit_then[OF ready1])
    fix st2
    assume ready2: "audit_ready (Suc 0) (code_UserID codeRow) (xi_RequestID input) (xi_Now input) st2"
    show "\<exists>st'. (case mi_InitialRefresh minted of None \<Rightarrow> treturn ()
      | Some initial \<Rightarrow> tbind (insertProtocolAudit ''refresh_token_issued'' ''success'' (code_UserID codeRow)
        ''refresh_token'' (ir_TokenID initial) (xi_RequestID input) [''issued''] (xi_Now input)) (\<lambda>_. treturn ())) st2 = Inr ((), st')"
    proof (cases "mi_InitialRefresh minted")
      case (Some i)
      show ?thesis unfolding Some option.case
        by (rule insertProtocolAudit_then[OF ready2]) (simp_all add: ids(3)[OF Some] audit_known_eval audit_unrecorded_def treturn_def)
    qed (simp add: treturn_def)
  qed (simp_all add: ids audit_known_eval audit_unrecorded_def)
qed (simp_all add: ids audit_known_eval audit_unrecorded_def)

text \<open>
  What a completed exchange needs of the database: the stored codes satisfy their CHECK
  constraints and were created before, the new rows violate none, and the audit trail
  accepts three events.
\<close>

definition code_exchange_enabled ::
  "db txst \<Rightarrow> ExchangeInput \<Rightarrow> AuthorizationCode \<Rightarrow> string list \<Rightarrow> ConsentGrant \<Rightarrow> Minted \<Rightarrow> bool" where
  "code_exchange_enabled st input codeRow scopes grant minted \<longleftrightarrow>
     list_all (\<lambda>c. authorization_codes_check c \<and> code_CreatedAt c \<le> xi_Now input) (authorization_codes (st_db st)) \<and>
     code_rows_insertable (st_db st) codeRow scopes grant minted \<and> code_ID codeRow \<noteq> uuid_Nil \<and>
     audit_ready 3 (code_UserID codeRow) (xi_RequestID input) (xi_Now input) st"

lemma ConsumeAuthorizationCode_ok:
  assumes "list_all (\<lambda>c. authorization_codes_check c \<and> code_CreatedAt c \<le> now) (authorization_codes d)"
    "c \<in> set (authorization_codes d)" "code_ConsumedAt c = None" "code_ExpiresAt c > now"
  obtains row where "ConsumeAuthorizationCode now (code_ID c) d =
    Inr (Some row, d\<lparr>authorization_codes := consume_code now (code_ID c) (authorization_codes d)\<rparr>)"
proof -
  have "update_checked authorization_codes_check
      (\<lambda>r. code_ID r = code_ID c \<and> code_ConsumedAt r = None \<and> code_ExpiresAt r > now)
      (\<lambda>r. r\<lparr>code_ConsumedAt := Some now\<rparr>) (authorization_codes d) =
      Inr (consume_code now (code_ID c) (authorization_codes d))"
    using assms(1) by (auto simp: update_checked_def list_all_iff authorization_codes_check_def consume_code_def)
  moreover obtain row where "select_one (\<lambda>r. code_ID r = code_ID c \<and> code_ConsumedAt r = None \<and> code_ExpiresAt r > now)
      (authorization_codes d) = Some row"
    using select_one_ex[OF assms(2), of "\<lambda>r. code_ID r = code_ID c \<and> code_ConsumedAt r = None \<and> code_ExpiresAt r > now"]
      assms(3,4) by blast
  ultimately show thesis by (intro that) (simp add: ConsumeAuthorizationCode_def Let_def stmt_def)
qed

lemma exchange_code_tx_ok:
  assumes clean: "st_faults st = []" and present: "code_presented (st_db st) input codeRow"
    and princ: "code_principals (st_db st) input codeRow (userRow, clientValue, scopes, grant)"
    and minted: "mintf (code_authority input codeRow userRow clientValue scopes grant) = Inr minted"
      "validMintedTokens minted (xi_Now input) (''offline_access'' \<in> set scopes)"
    and enabled: "code_exchange_enabled st input codeRow scopes grant minted"
  shows "\<exists>st'. exchange_code_tx input mintf st = Inr (Some (exchange_code_response minted scopes), st')"
proof -
  note en = enabled[unfolded code_exchange_enabled_def]
  have ids: "mi_AccessTokenID minted \<noteq> uuid_Nil" "\<And>i. mi_InitialRefresh minted = Some i \<Longrightarrow> ir_TokenID i \<noteq> uuid_Nil"
    using minted(2) by (auto simp: validMintedTokens_def split: if_splits option.splits)
  let ?fam = "map_option ir_FamilyID (mi_InitialRefresh minted)"
  let ?acc = "code_access_row codeRow scopes grant minted ?fam"
  let ?d1 = "initial_rows codeRow scopes grant minted (st_db st)"
  let ?d2 = "?d1\<lparr>access_tokens := insert_row ?acc (access_tokens (st_db st))\<rparr>"
  have access: "CreateAccessToken ?acc ?d1 = Inr ((), ?d2)"
    using en by (simp add: CreateAccessToken_Inr code_rows_insertable_def)
  have family: "exchange_code_family codeRow scopes grant minted st = Inr (?fam, st\<lparr>st_db := ?d1\<rparr>)"
    using en by (intro exchange_code_family_ok[OF clean]) simp
  have row: "codeRow \<in> set (authorization_codes ?d2)" "code_ConsumedAt codeRow = None" "code_ExpiresAt codeRow > xi_Now input"
    using present by (auto simp: code_presented_def LockAuthorizationCodeByHash_def)
  obtain row where consume: "ConsumeAuthorizationCode (xi_Now input) (code_ID codeRow) ?d2 = Inr (Some row,
      ?d2\<lparr>authorization_codes := consume_code (xi_Now input) (code_ID codeRow) (authorization_codes ?d2)\<rparr>)"
    by (rule ConsumeAuthorizationCode_ok[OF _ row]) (use en in simp_all)
  let ?st3 = "st\<lparr>st_db := ?d2\<lparr>authorization_codes := consume_code (xi_Now input) (code_ID codeRow) (authorization_codes ?d2)\<rparr>\<rparr>"
  obtain st4 where events: "exchange_code_events input codeRow minted ?st3 = Inr ((), st4)"
    using exchange_code_events_ok[of codeRow input ?st3 minted] en ids by (auto simp: audit_ready_def)
  have issue: "exchange_code_issue input mintf codeRow (userRow, clientValue, scopes, grant) st =
      Inr (Some (exchange_code_response minted scopes), st4)"
    using clean minted events by (simp add: exchange_code_issue_def family tbind_exec_ok access consume tbind_ok treturn_def)
  show ?thesis
    using present clean exchange_code_authority_ok[OF clean princ]
    by (simp add: exchange_code_tx_def read_query_ok code_presented_def tbind_ok issue)
qed

section \<open>Evaluation on the sample installation\<close>

lemma sample_client_value: "client_value sample_db sample_client_row = sample_client"
  by (simp add: client_value_def mapClient_def sample_rows sample_scopes_def ListOIDCClientRedirectURIs_def
     ListOIDCClientLogoutURIs_def ListOIDCClientScopes_def client_children_def select_where_def)

lemma sample_valid_minted: "validMintedTokens sample_minted sample_now True"
  by (simp add: validMintedTokens_def sample_inputs sample_refresh_digest duration_defs sha256_Size_def)

lemma sample_family_ok:
  "refresh_token_families_violation sample_db (code_family_row sample_code sample_scopes sample_grant sample_minted sample_initial 30) = None"
  by (simp add: refresh_token_families_violation_def code_family_row_def refresh_family_origin_ok_def row_eval
     refresh_token_families_check_def sample_rows sample_inputs sample_scopes_def)

lemma sample_generation_ok:
  "refresh_tokens_violation (sample_db\<lparr>refresh_token_families := insert_row
     (code_family_row sample_code sample_scopes sample_grant sample_minted sample_initial 30) [sample_family]\<rparr>)
     (code_generation_row sample_minted sample_initial) = None"
  by (simp add: refresh_tokens_violation_def refresh_token_lifetime_ok_def row_eval code_family_row_def code_generation_row_def
     refresh_tokens_check_def sample_rows sample_inputs)

lemma sample_access_ok:
  "access_tokens_violation (initial_rows sample_code sample_scopes sample_grant sample_minted sample_db)
     (code_access_row sample_code sample_scopes sample_grant sample_minted (Some 22)) = None"
  by (simp add: access_tokens_violation_def access_token_authority_ok_def access_tokens_check_def row_eval
     code_family_row_def code_generation_row_def code_access_row_def initial_rows_def sample_rows sample_inputs sample_scopes_def)


lemma sample_presented: "code_presented sample_db sample_exchange sample_code"
  using sample_verifies by (simp add: code_presented_def) (simp add: sample_code_def sample_exchange_def sample_client_def)

lemma sample_principals:
  "code_principals sample_db sample_exchange sample_code (sample_user, sample_client, sample_scopes, sample_grant)"
  by (simp add: code_principals_def sample_client_value sample_scopes_canonical)
    (simp add: sample_code_def sample_grant_def sample_client_def sample_exchange_def sameAuthenticatedClient_def)

lemma sample_enabled:
  "code_exchange_enabled (start_tx (quiet sample_ids 0) sample_db) sample_exchange sample_code sample_scopes sample_grant sample_minted"
proof -
  have "authorization_codes_check sample_code \<and> code_CreatedAt sample_code \<le> sample_now"
    by (simp add: authorization_codes_check_def row_eval sample_code_def sample_code_hash_def sample_scopes_def
        pkce_challenge_format_digest sha256_Size_def)
  moreover have "code_rows_insertable sample_db sample_code sample_scopes sample_grant sample_minted"
    using sample_family_ok sample_generation_ok sample_access_ok by (simp add: code_rows_insertable_def)
  moreover have "audit_ready 3 1 [] sample_now (start_tx (quiet sample_ids 0) sample_db)"
    by (rule sample_audit_ready) simp_all
  ultimately show ?thesis
    by (simp add: code_exchange_enabled_def start_tx_def quiet_def) (simp add: sample_exchange_def)
qed

lemma sample_exchange_tx:
  "\<exists>st'. exchange_code_tx sample_exchange (\<lambda>_. Inr sample_minted) (start_tx (quiet sample_ids 0) sample_db) =
     Inr (Some (exchange_code_response sample_minted sample_scopes), st')"
  using sample_presented sample_principals sample_enabled sample_valid_minted
  by (intro exchange_code_tx_ok) (simp_all add: start_tx_def quiet_def sample_scopes_def)

lemma sample_guards:
  "length sample_code_hash = sha256_Size" "cl_ID (xi_Client sample_exchange) \<noteq> uuid_Nil"
  "xi_RedirectURI sample_exchange \<noteq> []" "xi_CodeVerifier sample_exchange \<noteq> []"
  "\<not> IsZero sample_now"
  by (simp_all add: sample_inputs sample_rows sample_code_hash_def sample_verifier_def sha256_Size_def
      IsZero_def sample_now_def duration_defs)

lemma sample_exchange_succeeds:
  "\<exists>d'. ExchangeAuthorizationCode (quiet sample_ids) sample_exchange (\<lambda>_ _. Inr sample_minted) sample_db =
     (Inr (exchange_code_response sample_minted sample_scopes), d')"
  using sample_exchange_tx
    inTx_clean[of "quiet sample_ids" "\<lambda>_. exchange_code_tx sample_exchange (\<lambda>_. Inr sample_minted)" sample_db]
  by (auto simp: ExchangeAuthorizationCode_def sample_guards)

section \<open>Calls that complete\<close>

lemma ExchangeAuthorizationCode_ok:
  assumes "clean_attempt (env 0)"
    and "length (xi_CodeHash input) = sha256_Size" "cl_ID (xi_Client input) \<noteq> uuid_Nil"
      "xi_RedirectURI input \<noteq> []" "xi_CodeVerifier input \<noteq> []" "\<not> IsZero (xi_Now input)"
    and "code_presented d input codeRow"
    and "code_principals d input codeRow (userRow, clientValue, scopes, grant)"
    and "mintf 0 (code_authority input codeRow userRow clientValue scopes grant) = Inr minted"
      "validMintedTokens minted (xi_Now input) (''offline_access'' \<in> set scopes)"
    and "code_exchange_enabled (start_tx (env 0) d) input codeRow scopes grant minted"
  shows "\<exists>d'. ExchangeAuthorizationCode env input mintf d = (Inr (exchange_code_response minted scopes), d')"
proof -
  have st: "st_faults (start_tx (env 0) d) = []" "st_db (start_tx (env 0) d) = d"
    using assms(1) by (simp_all add: start_tx_def clean_attempt_def)
  obtain st' where "exchange_code_tx input (mintf 0) (start_tx (env 0) d) =
      Inr (Some (exchange_code_response minted scopes), st')"
    using exchange_code_tx_ok[of "start_tx (env 0) d" input codeRow userRow clientValue scopes grant "mintf 0" minted]
      st assms(7-11) by auto
  then show ?thesis
    using inTx_clean[of env "\<lambda>n. exchange_code_tx input (mintf n)" d] assms(1-6)
    by (simp add: ExchangeAuthorizationCode_def)
qed

section \<open>Properties\<close>

text \<open>
  C1 (safety). A successful exchange was authorized: the presented code exists, is unused
  and unexpired, belongs to the authenticated client and the redirect URI, and its PKCE
  challenge is met by the verifier; its user is active, its client is still the
  authenticated one and registers the redirect URI, its grant is the unrevoked one of the
  version the code was issued under, and every scope is granted and registered. The
  response is that of the minted tokens and the new database is the old one with the token
  rows inserted, the code consumed and the audit events appended, nothing else.
\<close>

theorem exchange_code_authorized:
  assumes "ExchangeAuthorizationCode env input mintf d = (Inr r, d')"
  shows "\<exists>n codeRow p. code_presented d input codeRow \<and> code_principals d input codeRow p \<and>
           code_issued (mintf n) input codeRow p d (Some r) d'"
  using ExchangeAuthorizationCode_Inr[OF assms] by metis

theorem exchange_code_authorized_witness:
  "\<exists>r d' n codeRow p. ExchangeAuthorizationCode (quiet sample_ids) sample_exchange (\<lambda>_ _. Inr sample_minted) sample_db = (Inr r, d') \<and>
     code_presented sample_db sample_exchange codeRow \<and> code_principals sample_db sample_exchange codeRow p \<and>
     code_issued (\<lambda>_. Inr sample_minted) sample_exchange codeRow p sample_db (Some r) d'"
  using sample_exchange_succeeds exchange_code_authorized by blast

text \<open>
  C2 (safety). An authorization code is single-use: after one successful exchange, every
  later call with the same code, however many and with whatever client, verifier, minted
  tokens or database faults, is answered with an error, and all of them together change
  nothing but the audit trail, which gains at most one event.
\<close>

theorem exchange_code_single_use:
  assumes "ExchangeAuthorizationCode env input mintf d = (Inr r, d1)"
    and "\<forall>(e, i, m) \<in> set calls. xi_CodeHash i = xi_CodeHash input"
    and "exchange_calls calls d1 = (rs, d2)"
  shows "list_all (\<lambda>r. \<exists>e. r = Inl e) rs \<and>
    (\<exists>events. d2 = d1\<lparr>audit_events := audit_events d1 @ events\<rparr> \<and> length events \<le> 1)"
proof -
  from ExchangeAuthorizationCode_Inr[OF assms(1)] obtain n codeRow p
    where "code_presented d input codeRow" "code_issued (mintf n) input codeRow p d (Some r) d1" by metis
  from spent_code_replays[OF code_issued_spent[OF this] assms(2,3)] show ?thesis by auto
qed

theorem exchange_code_single_use_witness:
  "\<exists>r d1 rs d2. ExchangeAuthorizationCode (quiet sample_ids) sample_exchange (\<lambda>_ _. Inr sample_minted) sample_db = (Inr r, d1) \<and>
     exchange_calls [(quiet sample_ids, sample_exchange, \<lambda>_ _. Inr sample_minted)] d1 = (rs, d2) \<and>
     list_all (\<lambda>r. \<exists>e. r = Inl e) rs \<and>
     (\<exists>events. d2 = d1\<lparr>audit_events := audit_events d1 @ events\<rparr> \<and> length events \<le> 1)"
proof -
  obtain r d1 where first: "ExchangeAuthorizationCode (quiet sample_ids) sample_exchange (\<lambda>_ _. Inr sample_minted) sample_db = (Inr r, d1)"
    using sample_exchange_succeeds by blast
  obtain rs d2 where rest: "exchange_calls [(quiet sample_ids, sample_exchange, \<lambda>_ _. Inr sample_minted)] d1 = (rs, d2)"
    by (cases "exchange_calls [(quiet sample_ids, sample_exchange, \<lambda>_ _. Inr sample_minted)] d1")
  show ?thesis using first rest exchange_code_single_use[OF first _ rest] by auto
qed



text \<open>
  C4 (liveness). A legitimate exchange is answered with tokens: if the code is presented
  correctly, its user, client and grant are valid, the mint callback returns acceptable
  tokens, the new rows violate no constraint and the first attempt meets no fault, the call
  returns the response of those tokens.
\<close>

theorem exchange_code_completes:
  assumes "clean_attempt (env 0)"
    and "length (xi_CodeHash input) = sha256_Size" "cl_ID (xi_Client input) \<noteq> uuid_Nil"
      "xi_RedirectURI input \<noteq> []" "xi_CodeVerifier input \<noteq> []" "\<not> IsZero (xi_Now input)"
    and "code_presented d input codeRow"
    and "code_principals d input codeRow (userRow, clientValue, scopes, grant)"
    and "mintf 0 (code_authority input codeRow userRow clientValue scopes grant) = Inr minted"
      "validMintedTokens minted (xi_Now input) (''offline_access'' \<in> set scopes)"
    and "code_exchange_enabled (start_tx (env 0) d) input codeRow scopes grant minted"
  shows "\<exists>d'. ExchangeAuthorizationCode env input mintf d = (Inr (exchange_code_response minted scopes), d')"
  using assms by (rule ExchangeAuthorizationCode_ok)

theorem exchange_code_completes_witness:
  "\<exists>d'. ExchangeAuthorizationCode (quiet sample_ids) sample_exchange (\<lambda>_ _. Inr sample_minted) sample_db =
     (Inr (exchange_code_response sample_minted sample_scopes), d')"
  using sample_presented sample_principals sample_enabled sample_valid_minted sample_guards
  by (intro exchange_code_completes) (simp_all add: sample_scopes_def)

end
