(* ===== verification/Refresh_Rotation.thy ===== *)
theory Refresh_Rotation
  imports Code_Exchange
begin

text \<open>
  The rotation of a refresh token, \<^verbatim>\<open>Store.ExchangeRefreshToken\<close> of
  \<^verbatim>\<open>internal/storage/postgres/token.go\<close>. The presented token is looked up on the pool; one
  transaction then locks user, client, grant, family and generation in this order,
  re-validates all of them, and either rotates (consumes the generation, inserts its
  successor and a new access token) or, for a generation that was consumed before, revokes
  the whole family and its live access tokens.
\<close>

section \<open>Locking and re-validation\<close>

type_synonym refresh_principals = "User \<times> Client \<times> ConsentGrant \<times> RefreshTokenFamily \<times> RefreshToken"

text \<open>Generation and family, locked after user, client and grant.\<close>

definition lock_refresh_generation ::
  "RefreshInput \<Rightarrow> RefreshToken \<Rightarrow> RefreshTokenFamily \<Rightarrow> User \<Rightarrow> Client \<Rightarrow> ConsentGrant \<Rightarrow> refresh_principals dbtx" where
  "lock_refresh_generation input candidate candidateFamily userRow clientValue grant =
     tbind (read_query ''lock refresh token family'' (LockRefreshTokenFamilyByID (gen_FamilyID candidate))) (\<lambda>familyRow.
     case familyRow of
       None \<Rightarrow> tfail Token_ErrInvalidGrant
     | Some family \<Rightarrow>
     if fam_ID family \<noteq> fam_ID candidateFamily \<or> fam_UserID family \<noteq> usr_ID userRow \<or>
        fam_ClientID family \<noteq> cl_ID clientValue \<or> fam_ConsentGrantID family \<noteq> grant_ID grant \<or>
        fam_RevokedAt family \<noteq> None \<or> \<not> ri_Now input < fam_AbsoluteExpiresAt family
     then tfail Token_ErrInvalidGrant else
     tbind (read_query ''lock refresh token generation'' (LockRefreshTokenByID (gen_ID candidate))) (\<lambda>presentedRow.
     case presentedRow of
       None \<Rightarrow> tfail Token_ErrInvalidGrant
     | Some presented \<Rightarrow>
     if gen_FamilyID presented \<noteq> fam_ID family \<or> gen_TokenHash presented \<noteq> ri_TokenHash input
     then tfail Token_ErrInvalidGrant
     else treturn (userRow, clientValue, grant, family, presented)))"

definition exchange_refresh_authority ::
  "RefreshInput \<Rightarrow> RefreshToken \<Rightarrow> RefreshTokenFamily \<Rightarrow> refresh_principals dbtx" where
  "exchange_refresh_authority input candidate candidateFamily =
     tbind (read_query ''lock refresh user'' (LockUserByID (fam_UserID candidateFamily))) (\<lambda>userRow.
     case userRow of
       None \<Rightarrow> tfail Token_ErrInvalidGrant
     | Some userRow \<Rightarrow>
     if usr_Status userRow \<noteq> ''active'' then tfail Token_ErrInvalidGrant else
     tbind (read_query ''lock refresh client'' (LockOIDCClientByID (fam_ClientID candidateFamily))) (\<lambda>clientRow.
     case clientRow of
       None \<Rightarrow> tfail Token_ErrInvalidGrant
     | Some clientRow \<Rightarrow>
     tbind (loadClientChildren (mapClient clientRow)) (\<lambda>clientValue.
     if \<not> sameAuthenticatedClient clientValue (ri_Client input) then tfail Token_ErrInvalidGrant else
     tbind (read_query ''lock refresh consent grant''
              (LockConsentGrantByUserClient (fam_UserID candidateFamily) (fam_ClientID candidateFamily))) (\<lambda>grantRow.
     case grantRow of
       None \<Rightarrow> tfail Token_ErrInvalidGrant
     | Some grant \<Rightarrow>
     if grant_ID grant \<noteq> fam_ConsentGrantID candidateFamily \<or> grant_RevokedAt grant \<noteq> None \<or>
        grant_Version grant < 1
     then tfail Token_ErrInvalidGrant
     else lock_refresh_generation input candidate candidateFamily userRow clientValue grant))))"

section \<open>Reuse of a consumed generation\<close>

text \<open>The family and its live access tokens are revoked and the transaction commits.\<close>

definition exchange_refresh_reuse :: "RefreshInput \<Rightarrow> RefreshTokenFamily \<Rightarrow> RefreshToken \<Rightarrow> Response option dbtx" where
  "exchange_refresh_reuse input family presented =
     tbind (exec_query ''revoke reused refresh token family''
              (RevokeRefreshTokenFamily (ri_Now input) (Some ''reuse'') (fam_ID family))) (\<lambda>revoked.
     case revoked of
       None \<Rightarrow> tfail (wrapError ''revoke reused refresh token family'' ErrorKindQuery (OtherError ''no rows in result set''))
     | Some _ \<Rightarrow>
     tbind (exec_query ''revoke access tokens after refresh reuse''
              (RevokeLiveAccessTokensByFamily (ri_Now input) (fam_ID family))) (\<lambda>_.
     tbind (insertProtocolAudit ''refresh_token_reuse_detected'' ''rejected'' (fam_UserID family)
              ''refresh_token'' (gen_ID presented) (ri_RequestID input) [''reused''] (ri_Now input)) (\<lambda>_.
     tbind (insertProtocolAudit ''refresh_token_family_revoked'' ''success'' (fam_UserID family)
              ''refresh_token_family'' (fam_ID family) (ri_RequestID input) [''revoked''] (ri_Now input)) (\<lambda>_.
     treturn None))))"

section \<open>Rotation\<close>

definition replacement_row :: "RefreshTokenFamily \<Rightarrow> RefreshToken \<Rightarrow> RefreshMinted \<Rightarrow> RefreshToken" where
  "replacement_row family presented minted =
     \<lparr>gen_ID = rm_ReplacementTokenID minted, gen_FamilyID = fam_ID family,
      gen_TokenHash = rm_ReplacementTokenHash minted, gen_Generation = gen_Generation presented + 1,
      gen_IssuedAt = rm_IssuedAt minted, gen_ExpiresAt = rm_ReplacementExpiresAt minted,
      gen_ConsumedAt = None\<rparr>"

definition refresh_access_row ::
  "RefreshTokenFamily \<Rightarrow> RefreshToken \<Rightarrow> ConsentGrant \<Rightarrow> string list \<Rightarrow> RefreshMinted \<Rightarrow> AccessToken" where
  "refresh_access_row family presented grant accessScopes minted =
     \<lparr>acc_ID = rm_AccessTokenID minted, acc_JtiHash = rm_JTIHash minted,
      acc_AuthorizationCodeID = None, acc_ConsentGrantID = grant_ID grant,
      acc_UserID = fam_UserID family, acc_ClientID = fam_ClientID family, acc_Scopes = accessScopes,
      acc_IssuedAt = rm_IssuedAt minted, acc_ExpiresAt = rm_AccessExpiresAt minted,
      acc_IssuanceSource = ''refresh_token'', acc_SourceRefreshTokenID = Some (gen_ID presented),
      acc_RefreshFamilyID = Some (fam_ID family), acc_OriginSessionID = fam_OriginSessionID family,
      acc_SessionBindingID = Some (fam_SessionBindingID family), acc_RevokedAt = None,
      acc_RevokeReason = None\<rparr>"

definition exchange_refresh_response :: "RefreshMinted \<Rightarrow> string list \<Rightarrow> Response" where
  "exchange_refresh_response minted accessScopes =
     \<lparr>rs_AccessToken = rm_AccessToken minted, rs_TokenType = ''Bearer'',
      rs_ExpiresIn = (rm_AccessExpiresAt minted - rm_IssuedAt minted) div Second,
      rs_IDToken = '''', rs_RefreshToken = rm_ReplacementClearToken minted,
      rs_Scope = strings_Join accessScopes '' ''\<rparr>"

text \<open>Consumption, successor, access token and audit events.\<close>

definition exchange_refresh_rotate ::
  "RefreshInput \<Rightarrow> RefreshTokenFamily \<Rightarrow> RefreshToken \<Rightarrow> ConsentGrant \<Rightarrow> string list \<Rightarrow> RefreshMinted \<Rightarrow>
   Response option dbtx" where
  "exchange_refresh_rotate input family presented grant accessScopes minted =
     tbind (exec_query ''consume refresh token generation''
              (ConsumeRefreshToken (ri_Now input) (gen_ID presented))) (\<lambda>consumed.
     case consumed of
       None \<Rightarrow> tfail Token_ErrInvalidGrant
     | Some _ \<Rightarrow>
     tbind (exec_query ''create replacement refresh token''
              (CreateRefreshToken (replacement_row family presented minted))) (\<lambda>_.
     tbind (exec_query ''create refresh-sourced access token''
              (CreateRefreshAccessToken (refresh_access_row family presented grant accessScopes minted))) (\<lambda>_.
     tbind (insertProtocolAudit ''refresh_token_rotated'' ''success'' (fam_UserID family)
              ''refresh_token'' (gen_ID presented) (ri_RequestID input) [''consumed'', ''rotated''] (ri_Now input)) (\<lambda>_.
     tbind (insertProtocolAudit ''access_token_issued'' ''success'' (fam_UserID family)
              ''access_token'' (rm_AccessTokenID minted) (ri_RequestID input) [''issued''] (ri_Now input)) (\<lambda>_.
     treturn (Some (exchange_refresh_response minted accessScopes)))))))"

definition exchange_refresh_issue ::
  "RefreshInput \<Rightarrow> (RefreshAuthority \<Rightarrow> go_error + RefreshMinted) \<Rightarrow> refresh_principals \<Rightarrow> Response option dbtx" where
  "exchange_refresh_issue input mintf principals =
     (case principals of (userRow, clientValue, grant, family, presented) \<Rightarrow>
      if gen_ConsumedAt presented \<noteq> None then exchange_refresh_reuse input family presented
      else if \<not> ri_Now input < gen_ExpiresAt presented then tfail Token_ErrInvalidGrant
      else (case SelectRefreshAccessScopes (ri_RequestedScopes input) (fam_Scopes family) (grant_Scopes grant)
                   (cl_Scopes clientValue) of
          Inl e \<Rightarrow> tfail e
        | Inr accessScopes \<Rightarrow>
          (case mintf \<lparr>ra_Presented = presented, ra_Family = family, ra_Grant = grant, ra_User = userRow,
                  ra_Client = clientValue, ra_AccessScopes = accessScopes, ra_IssuedAt = ri_Now input\<rparr> of
             Inl e \<Rightarrow> tfail e
           | Inr minted \<Rightarrow>
             if \<not> validRefreshMinted minted presented family (ri_Now input) then tfail Token_ErrInvalid
             else exchange_refresh_rotate input family presented grant accessScopes minted)))"

definition exchange_refresh_tx ::
  "RefreshInput \<Rightarrow> RefreshToken \<Rightarrow> RefreshTokenFamily \<Rightarrow> (RefreshAuthority \<Rightarrow> go_error + RefreshMinted) \<Rightarrow>
   Response option dbtx" where
  "exchange_refresh_tx input candidate candidateFamily mintf =
     tbind (exchange_refresh_authority input candidate candidateFamily) (exchange_refresh_issue input mintf)"

text \<open>
  \<^verbatim>\<open>Store.ExchangeRefreshToken\<close>. The two candidate reads see the databases \<open>pool 0\<close> and
  \<open>pool 1\<close>, which may be older than the one the transaction runs on.
\<close>

definition ExchangeRefreshToken ::
  "(nat \<Rightarrow> attempt) \<Rightarrow> (nat \<Rightarrow> db \<times> pg_error option) \<Rightarrow> RefreshInput \<Rightarrow>
   (nat \<Rightarrow> RefreshAuthority \<Rightarrow> go_error + RefreshMinted) \<Rightarrow> db \<Rightarrow> (go_error + Response) \<times> db" where
  "ExchangeRefreshToken env pool input mintf d =
     (if length (ri_TokenHash input) \<noteq> sha256_Size \<or> cl_ID (ri_Client input) = uuid_Nil \<or> IsZero (ri_Now input)
      then (Inl Token_ErrInvalidGrant, d)
      else case pool_read (pool 0) ''find refresh token candidate'' (GetRefreshTokenByHash (ri_TokenHash input)) of
        Inl err \<Rightarrow> (Inl err, d)
      | Inr None \<Rightarrow> (Inl Token_ErrInvalidGrant, d)
      | Inr (Some candidate) \<Rightarrow>
        (case pool_read (pool 1) ''find refresh token family candidate''
                (GetRefreshTokenFamilyByID (gen_FamilyID candidate)) of
          Inl err \<Rightarrow> (Inl err, d)
        | Inr None \<Rightarrow> (Inl Token_ErrInvalidGrant, d)
        | Inr (Some candidateFamily) \<Rightarrow>
          (case inTx env (\<lambda>n. exchange_refresh_tx input candidate candidateFamily (mintf n)) d of
             (Inl err, d') \<Rightarrow> (Inl err, d')
           | (Inr None, d') \<Rightarrow> (Inl Token_ErrInvalidGrant, d')
           | (Inr (Some response), d') \<Rightarrow> (Inr response, d'))))"

section \<open>Successful runs\<close>

definition refresh_principals_ok ::
  "db \<Rightarrow> RefreshInput \<Rightarrow> refresh_principals \<Rightarrow> bool" where
  "refresh_principals_ok d input p \<longleftrightarrow>
     (case p of (userRow, clientValue, grant, family, presented) \<Rightarrow>
       LockUserByID (fam_UserID family) d = Some userRow \<and> usr_Status userRow = ''active'' \<and>
       map_option (client_value d) (LockOIDCClientByID (fam_ClientID family) d) = Some clientValue \<and>
       sameAuthenticatedClient clientValue (ri_Client input) \<and>
       LockConsentGrantByUserClient (fam_UserID family) (fam_ClientID family) d = Some grant \<and>
       grant_ID grant = fam_ConsentGrantID family \<and> grant_RevokedAt grant = None \<and>
       LockRefreshTokenFamilyByID (gen_FamilyID presented) d = Some family \<and>
       fam_RevokedAt family = None \<and> ri_Now input < fam_AbsoluteExpiresAt family \<and>
       LockRefreshTokenByID (gen_ID presented) d = Some presented \<and>
       gen_FamilyID presented = fam_ID family \<and> gen_TokenHash presented = ri_TokenHash input)"

lemma exchange_refresh_authority_run [elim!]:
  assumes "tx_run (exchange_refresh_authority input candidate candidateFamily) d r d'"
  obtains "d' = d" "refresh_principals_ok d input r"
proof -
  have "d' = d \<and> refresh_principals_ok d input r"
    using assms unfolding exchange_refresh_authority_def lock_refresh_generation_def
    by (elim tx_elims loadClientChildren_run) (simp_all add: refresh_principals_ok_def, metis lock_by_id)
  then show thesis using that by blast
qed

definition refresh_reused :: "RefreshInput \<Rightarrow> RefreshTokenFamily \<Rightarrow> AuditEvent list \<Rightarrow> db \<Rightarrow> db" where
  "refresh_reused input family events d = d\<lparr>
     refresh_token_families := mark_families (\<lambda>f. fam_ID f = fam_ID family) (ri_Now input) (Some ''reuse'')
       (refresh_token_families d),
     access_tokens := mark_access (\<lambda>a. acc_RefreshFamilyID a = Some (fam_ID family)) (ri_Now input)
       (Some ''family_revoked'') (access_tokens d),
     audit_events := audit_events d @ events\<rparr>"

definition refresh_reuse_audit :: "RefreshInput \<Rightarrow> RefreshTokenFamily \<Rightarrow> RefreshToken \<Rightarrow> AuditEvent list \<Rightarrow> bool" where
  "refresh_reuse_audit input family presented events \<longleftrightarrow>
     list_all2 (\<lambda>p e. p e)
       [audit_appended ''refresh_token_reuse_detected'' ''rejected'' (fam_UserID family)
          ''refresh_token'' (gen_ID presented) (ri_Now input),
        audit_appended ''refresh_token_family_revoked'' ''success'' (fam_UserID family)
          ''refresh_token_family'' (fam_ID family) (ri_Now input)] events"

lemma exchange_refresh_reuse_run [elim!]:
  assumes "tx_run (exchange_refresh_reuse input family presented) d r d'"
  obtains events where "r = None" "refresh_reuse_audit input family presented events"
    "d' = refresh_reused input family events d"
  using assms(1) unfolding exchange_refresh_reuse_def
  by (elim tx_elims insertProtocolAudit_run)
    (auto simp: refresh_reuse_audit_def refresh_reused_def bulk_revocation_defs
      dest!: RevokeRefreshTokenFamily_Inr revoke_live_access_Inr intro!: that[of "[x, y]" for x y])

definition refresh_rotated ::
  "RefreshInput \<Rightarrow> RefreshTokenFamily \<Rightarrow> RefreshToken \<Rightarrow> ConsentGrant \<Rightarrow> string list \<Rightarrow> RefreshMinted \<Rightarrow>
   AuditEvent list \<Rightarrow> db \<Rightarrow> db" where
  "refresh_rotated input family presented grant scopes minted events d = d\<lparr>
     refresh_tokens := insert_row (replacement_row family presented minted)
       (consume_generation (ri_Now input) (gen_ID presented) (refresh_tokens d)),
     access_tokens := insert_row (refresh_access_row family presented grant scopes minted) (access_tokens d),
     audit_events := audit_events d @ events\<rparr>"

definition refresh_rotate_audit ::
  "RefreshInput \<Rightarrow> RefreshTokenFamily \<Rightarrow> RefreshToken \<Rightarrow> RefreshMinted \<Rightarrow> AuditEvent list \<Rightarrow> bool" where
  "refresh_rotate_audit input family presented minted events \<longleftrightarrow>
     list_all2 (\<lambda>p e. p e)
       [audit_appended ''refresh_token_rotated'' ''success'' (fam_UserID family)
          ''refresh_token'' (gen_ID presented) (ri_Now input),
        audit_appended ''access_token_issued'' ''success'' (fam_UserID family)
          ''access_token'' (rm_AccessTokenID minted) (ri_Now input)] events"

lemma exchange_refresh_rotate_run [elim!]:
  assumes "tx_run (exchange_refresh_rotate input family presented grant scopes minted) d r d'"
  obtains events where "r = Some (exchange_refresh_response minted scopes)"
    "refresh_rotate_audit input family presented minted events"
    "refresh_tokens_violation (d\<lparr>refresh_tokens := consume_generation (ri_Now input) (gen_ID presented) (refresh_tokens d)\<rparr>)
       (replacement_row family presented minted) = None"
    "d' = refresh_rotated input family presented grant scopes minted events d"
proof -
  have rows: "(replacement_row family presented minted)\<lparr>gen_ConsumedAt := None\<rparr> = replacement_row family presented minted"
    "(refresh_access_row family presented grant scopes minted)\<lparr>acc_IssuanceSource := ''refresh_token'',
       acc_AuthorizationCodeID := None, acc_RevokedAt := None, acc_RevokeReason := None\<rparr> =
     refresh_access_row family presented grant scopes minted"
    by (simp_all add: replacement_row_def refresh_access_row_def)
  from assms show thesis
    unfolding exchange_refresh_rotate_def
    by (elim tx_elims insertProtocolAudit_run)
      (auto simp: tx_simps rows refresh_rotate_audit_def refresh_rotated_def
        dest!: ConsumeRefreshToken_Inr intro!: that[of "[x, y]" for x y])
qed

definition refresh_issued ::
  "(RefreshAuthority \<Rightarrow> go_error + RefreshMinted) \<Rightarrow> RefreshInput \<Rightarrow> refresh_principals \<Rightarrow> db \<Rightarrow> Response \<Rightarrow> db \<Rightarrow> bool" where
  "refresh_issued mintf input p d r d' \<longleftrightarrow>
     (case p of (userRow, clientValue, grant, family, presented) \<Rightarrow>
      (\<exists>scopes minted events.
        gen_ConsumedAt presented = None \<and> ri_Now input < gen_ExpiresAt presented \<and>
        SelectRefreshAccessScopes (ri_RequestedScopes input) (fam_Scopes family) (grant_Scopes grant)
          (cl_Scopes clientValue) = Inr scopes \<and>
        mintf \<lparr>ra_Presented = presented, ra_Family = family, ra_Grant = grant, ra_User = userRow,
          ra_Client = clientValue, ra_AccessScopes = scopes, ra_IssuedAt = ri_Now input\<rparr> = Inr minted \<and>
        validRefreshMinted minted presented family (ri_Now input) \<and>
        refresh_tokens_violation (d\<lparr>refresh_tokens := consume_generation (ri_Now input) (gen_ID presented)
          (refresh_tokens d)\<rparr>) (replacement_row family presented minted) = None \<and>
        refresh_rotate_audit input family presented minted events \<and>
        r = exchange_refresh_response minted scopes \<and>
        d' = refresh_rotated input family presented grant scopes minted events d))"

lemma exchange_refresh_tx_success:
  assumes "tx_run (exchange_refresh_tx input candidate candidateFamily mintf) d (Some r) d'"
  obtains p where "refresh_principals_ok d input p" "refresh_issued mintf input p d r d'"
proof -
  from assms obtain p where ok: "refresh_principals_ok d input p"
    and run: "tx_run (exchange_refresh_issue input mintf p) d (Some r) d'"
    by (auto simp: exchange_refresh_tx_def)
  obtain u c g f t where p: "p = (u, c, g, f, t)" by (cases p)
  have "refresh_issued mintf input p d r d'"
    using run unfolding p exchange_refresh_issue_def prod.case
    by (elim tx_elims exchange_refresh_rotate_run exchange_refresh_reuse_run) (auto simp: refresh_issued_def)
  with ok show thesis by (rule that)
qed

lemma exchange_refresh_tx_reuse:
  assumes "tx_run (exchange_refresh_tx input candidate candidateFamily mintf) d None d'"
  obtains u c g f t events where "refresh_principals_ok d input (u, c, g, f, t)" "gen_ConsumedAt t \<noteq> None"
    "refresh_reuse_audit input f t events" "d' = refresh_reused input f events d"
proof -
  from assms obtain p where ok: "refresh_principals_ok d input p"
    and run: "tx_run (exchange_refresh_issue input mintf p) d None d'"
    by (auto simp: exchange_refresh_tx_def)
  obtain u c g f t where p: "p = (u, c, g, f, t)" by (cases p)
  show thesis
    using run unfolding p exchange_refresh_issue_def prod.case
    by (elim tx_elims exchange_refresh_rotate_run exchange_refresh_reuse_run)
      (auto intro!: that[OF ok[unfolded p]])
qed

section \<open>Outcomes of a call\<close>

lemma ExchangeRefreshToken_Inr:
  assumes "ExchangeRefreshToken env pool input mintf d = (Inr r, d')"
  obtains n p where "refresh_principals_ok d input p" "refresh_issued (mintf n) input p d r d'"
proof -
  from assms obtain n c f where "tx_run (exchange_refresh_tx input c f (mintf n)) d (Some r) d'"
    by (auto simp: ExchangeRefreshToken_def split: if_splits prod.splits sum.splits option.splits
        elim: inTx_committed)
  then show thesis by (rule exchange_refresh_tx_success) (rule that)
qed

definition refresh_reuse_recorded :: "RefreshInput \<Rightarrow> db \<Rightarrow> db \<Rightarrow> bool" where
  "refresh_reuse_recorded input d d' \<longleftrightarrow>
     (\<exists>u c g f t events. refresh_principals_ok d input (u, c, g, f, t) \<and> gen_ConsumedAt t \<noteq> None \<and>
       refresh_reuse_audit input f t events \<and> d' = refresh_reused input f events d)"

definition refresh_rotation_applied ::
  "RefreshInput \<Rightarrow> (RefreshAuthority \<Rightarrow> go_error + RefreshMinted) \<Rightarrow> db \<Rightarrow> db \<Rightarrow> bool" where
  "refresh_rotation_applied input mintf d d' \<longleftrightarrow>
     (\<exists>p r. refresh_principals_ok d input p \<and> refresh_issued mintf input p d r d')"

lemma exchange_refresh_tx_effect:
  assumes "tx_run (exchange_refresh_tx input c f mintf) d x d'"
  shows "refresh_reuse_recorded input d d' \<or> refresh_rotation_applied input mintf d d'"
proof (cases x)
  case None
  with assms show ?thesis unfolding refresh_reuse_recorded_def by (blast elim: exchange_refresh_tx_reuse)
next
  case (Some r)
  with assms show ?thesis unfolding refresh_rotation_applied_def by (blast elim: exchange_refresh_tx_success)
qed

lemma ExchangeRefreshToken_effect:
  assumes "ExchangeRefreshToken env pool input mintf d = (r, d')"
  shows "d' = d \<or> refresh_reuse_recorded input d d' \<or> (\<exists>n. refresh_rotation_applied input (mintf n) d d')"
proof -
  have "d' = d \<or> (\<exists>n c f x. tx_run (exchange_refresh_tx input c f (mintf n)) d x d')"
    using assms inTx_effect[of env "\<lambda>n. exchange_refresh_tx input c f (mintf n)" d for c f]
    by (auto simp: ExchangeRefreshToken_def split: if_splits prod.splits sum.splits option.splits) blast+
  then show ?thesis using exchange_refresh_tx_effect by blast
qed

section \<open>What a reuse leaves behind\<close>

lemma reused_family_dead:
  assumes "fam_ID f = fam_ID family"
  shows "\<not> refresh_principals_ok (refresh_reused input family events d) input' (u, c, g, f, t)"
proof
  assume ok: "refresh_principals_ok (refresh_reused input family events d) input' (u, c, g, f, t)"
  then have "LockRefreshTokenFamilyByID (fam_ID family) (refresh_reused input family events d) = Some f"
    "fam_RevokedAt f = None" using assms by (auto simp: refresh_principals_ok_def)
  then show False
    by (auto simp: refresh_reused_def LockRefreshTokenFamilyByID_def select_one_mark_families
        unrevoked_family_def split: if_splits dest!: arg_cong[of _ _ fam_RevokedAt])
qed

section \<open>Calls that succeed\<close>

lemma exchange_refresh_authority_ok:
  assumes "st_faults st = []" "refresh_principals_ok (st_db st) input (userRow, clientValue, grant, family, presented)"
    "grant_Version grant \<ge> 1"
  shows "exchange_refresh_authority input presented family st = Inr ((userRow, clientValue, grant, family, presented), st)"
proof -
  note ok = assms(2)[unfolded refresh_principals_ok_def prod.case]
  then obtain clientRow where client: "LockOIDCClientByID (fam_ClientID family) (st_db st) = Some clientRow"
    "client_value (st_db st) clientRow = clientValue" by auto
  have ids: "usr_ID userRow = fam_UserID family" "cl_ID clientValue = fam_ClientID family"
    using ok client lock_by_id(1)[of "fam_UserID family"] lock_by_id(2)[OF client(1)] by auto
  have fam: "LockRefreshTokenFamilyByID (fam_ID family) (st_db st) = Some family"
    using ok by (elim conjE) simp
  show ?thesis
    unfolding exchange_refresh_authority_def lock_refresh_generation_def
    using assms(1,3) ok ids client fam by (simp add: tbind_ok read_query_ok loadClientChildren_ok treturn_def)
qed

definition refresh_rotation_enabled ::
  "db txst \<Rightarrow> RefreshInput \<Rightarrow> RefreshTokenFamily \<Rightarrow> RefreshToken \<Rightarrow> ConsentGrant \<Rightarrow> string list \<Rightarrow> RefreshMinted \<Rightarrow> bool" where
  "refresh_rotation_enabled st input family presented grant scopes minted \<longleftrightarrow>
     (let consumed = (st_db st)\<lparr>refresh_tokens := consume_generation (ri_Now input) (gen_ID presented) (refresh_tokens (st_db st))\<rparr>;
          rotated = consumed\<lparr>refresh_tokens := insert_row (replacement_row family presented minted) (refresh_tokens consumed)\<rparr>
      in list_all (\<lambda>g. refresh_tokens_check g \<and> gen_IssuedAt g \<le> ri_Now input) (refresh_tokens (st_db st)) \<and>
         refresh_tokens_violation consumed (replacement_row family presented minted) = None \<and>
         access_tokens_violation rotated (refresh_access_row family presented grant scopes minted) = None \<and>
         gen_ID presented \<noteq> uuid_Nil \<and>
         audit_ready 2 (fam_UserID family) (ri_RequestID input) (ri_Now input) st)"

lemma ConsumeRefreshToken_ok:
  assumes "list_all (\<lambda>g. refresh_tokens_check g \<and> gen_IssuedAt g \<le> now) (refresh_tokens d)"
    "g \<in> set (refresh_tokens d)" "gen_ConsumedAt g = None"
  obtains row where "ConsumeRefreshToken now (gen_ID g) d =
    Inr (Some row, d\<lparr>refresh_tokens := consume_generation now (gen_ID g) (refresh_tokens d)\<rparr>)"
proof -
  have "update_checked refresh_tokens_check (\<lambda>r. gen_ID r = gen_ID g \<and> gen_ConsumedAt r = None)
      (\<lambda>r. r\<lparr>gen_ConsumedAt := Some now\<rparr>) (refresh_tokens d) =
      Inr (consume_generation now (gen_ID g) (refresh_tokens d))"
    using assms(1) by (auto simp: update_checked_def list_all_iff refresh_tokens_check_def consume_generation_def)
  moreover obtain row where "select_one (\<lambda>r. gen_ID r = gen_ID g \<and> gen_ConsumedAt r = None) (refresh_tokens d) = Some row"
    using select_one_ex[OF assms(2), of "\<lambda>r. gen_ID r = gen_ID g \<and> gen_ConsumedAt r = None"] assms(3) by blast
  ultimately show thesis by (intro that) (simp add: ConsumeRefreshToken_def Let_def stmt_def)
qed

lemma rotation_row_defaults [simp]:
  "(replacement_row f t m)\<lparr>gen_ConsumedAt := None\<rparr> = replacement_row f t m"
  "(refresh_access_row f t g s m)\<lparr>acc_IssuanceSource := ''refresh_token'', acc_AuthorizationCodeID := None,
     acc_RevokedAt := None, acc_RevokeReason := None\<rparr> = refresh_access_row f t g s m"
  by (simp_all add: replacement_row_def refresh_access_row_def)

lemma exchange_refresh_rotate_ok:
  assumes clean: "st_faults st = []" and present: "presented \<in> set (refresh_tokens (st_db st))" "gen_ConsumedAt presented = None"
    and enabled: "refresh_rotation_enabled st input family presented grant scopes minted" "rm_AccessTokenID minted \<noteq> uuid_Nil"
  shows "\<exists>st'. exchange_refresh_rotate input family presented grant scopes minted st =
    Inr (Some (exchange_refresh_response minted scopes), st')"
proof -
  note en = enabled(1)[unfolded refresh_rotation_enabled_def Let_def]
  let ?rep = "replacement_row family presented minted" and ?acc = "refresh_access_row family presented grant scopes minted"
  let ?d1 = "(st_db st)\<lparr>refresh_tokens := consume_generation (ri_Now input) (gen_ID presented) (refresh_tokens (st_db st))\<rparr>"
  let ?d2 = "(st_db st)\<lparr>refresh_tokens := insert_row ?rep
      (consume_generation (ri_Now input) (gen_ID presented) (refresh_tokens (st_db st)))\<rparr>"
  let ?d3 = "?d2\<lparr>access_tokens := insert_row ?acc (access_tokens (st_db st))\<rparr>"
  obtain row where consume: "ConsumeRefreshToken (ri_Now input) (gen_ID presented) (st_db st) = Inr (Some row, ?d1)"
    by (rule ConsumeRefreshToken_ok[OF conjunct1[OF en] present])
  have create: "CreateRefreshToken ?rep ?d1 = Inr (?rep, ?d2)"
    using en by (simp add: CreateRefreshToken_Inr)
  have access: "CreateRefreshAccessToken ?acc ?d2 = Inr ((), ?d3)"
    using en by (simp add: CreateRefreshAccessToken_Inr)
  have ready: "audit_ready (Suc (Suc 0)) (fam_UserID family) (ri_RequestID input) (ri_Now input) (st\<lparr>st_db := ?d3\<rparr>)"
    using en by (simp add: audit_ready_def numeral_2_eq_2)
  have "\<exists>st'. tbind (insertProtocolAudit ''refresh_token_rotated'' ''success'' (fam_UserID family) ''refresh_token''
        (gen_ID presented) (ri_RequestID input) [''consumed'', ''rotated''] (ri_Now input)) (\<lambda>_.
      tbind (insertProtocolAudit ''access_token_issued'' ''success'' (fam_UserID family) ''access_token''
        (rm_AccessTokenID minted) (ri_RequestID input) [''issued''] (ri_Now input)) (\<lambda>_.
      treturn (Some (exchange_refresh_response minted scopes)))) (st\<lparr>st_db := ?d3\<rparr>) =
      Inr (Some (exchange_refresh_response minted scopes), st')"
  proof (rule insertProtocolAudit_then[OF ready])
    fix st2
    assume ready2: "audit_ready (Suc 0) (fam_UserID family) (ri_RequestID input) (ri_Now input) st2"
    show "\<exists>st'. tbind (insertProtocolAudit ''access_token_issued'' ''success'' (fam_UserID family) ''access_token''
        (rm_AccessTokenID minted) (ri_RequestID input) [''issued''] (ri_Now input)) (\<lambda>_.
      treturn (Some (exchange_refresh_response minted scopes))) st2 = Inr (Some (exchange_refresh_response minted scopes), st')"
      by (rule insertProtocolAudit_then[OF ready2])
        (simp_all add: enabled(2) audit_known_eval audit_unrecorded_def treturn_def)
  qed (use en in \<open>simp_all add: audit_known_eval audit_unrecorded_def\<close>)
  then show ?thesis
    using clean by (simp add: exchange_refresh_rotate_def tbind_exec_ok consume create access)
qed

lemma refresh_principals_stored:
  "refresh_principals_ok d input (u, c, g, f, t) \<Longrightarrow> t \<in> set (refresh_tokens d) \<and> f \<in> set (refresh_token_families d)"
  by (auto simp: refresh_principals_ok_def LockRefreshTokenByID_def LockRefreshTokenFamilyByID_def)

lemma exchange_refresh_tx_ok:
  assumes clean: "st_faults st = []"
    and princ: "refresh_principals_ok (st_db st) input (userRow, clientValue, grant, family, presented)" "grant_Version grant \<ge> 1"
    and fresh: "gen_ConsumedAt presented = None" "ri_Now input < gen_ExpiresAt presented"
    and scopes: "SelectRefreshAccessScopes (ri_RequestedScopes input) (fam_Scopes family) (grant_Scopes grant)
      (cl_Scopes clientValue) = Inr scopes"
    and minted: "mintf \<lparr>ra_Presented = presented, ra_Family = family, ra_Grant = grant, ra_User = userRow,
        ra_Client = clientValue, ra_AccessScopes = scopes, ra_IssuedAt = ri_Now input\<rparr> = Inr minted"
      "validRefreshMinted minted presented family (ri_Now input)"
    and enabled: "refresh_rotation_enabled st input family presented grant scopes minted"
  shows "\<exists>st'. exchange_refresh_tx input presented family mintf st =
    Inr (Some (exchange_refresh_response minted scopes), st')"
proof -
  have "rm_AccessTokenID minted \<noteq> uuid_Nil" using minted(2) by (auto simp: validRefreshMinted_def split: if_splits)
  moreover have "presented \<in> set (refresh_tokens (st_db st))" using refresh_principals_stored[OF princ(1)] by simp
  ultimately have "\<exists>st'. exchange_refresh_rotate input family presented grant scopes minted st =
      Inr (Some (exchange_refresh_response minted scopes), st')"
    using exchange_refresh_rotate_ok[OF clean _ fresh(1) enabled] by blast
  then show ?thesis
    using exchange_refresh_authority_ok[OF clean princ] fresh scopes minted
    by (simp add: exchange_refresh_tx_def tbind_ok exchange_refresh_issue_def)
qed

text \<open>What recording a reuse needs of the database.\<close>

definition refresh_reuse_enabled :: "db txst \<Rightarrow> RefreshInput \<Rightarrow> RefreshTokenFamily \<Rightarrow> RefreshToken \<Rightarrow> bool" where
  "refresh_reuse_enabled st input family presented \<longleftrightarrow>
     families_predate (ri_Now input) (st_db st) \<and> access_predate (ri_Now input) (st_db st) \<and>
     gen_ID presented \<noteq> uuid_Nil \<and> fam_ID family \<noteq> uuid_Nil \<and>
     audit_unrecorded ''refresh_token_reuse_detected'' (gen_ID presented) (st_db st) \<and>
     audit_ready 2 (fam_UserID family) (ri_RequestID input) (ri_Now input) st"

lemma exchange_refresh_reuse_ok:
  assumes clean: "st_faults st = []" and stored: "family \<in> set (refresh_token_families (st_db st))" "fam_RevokedAt family = None"
    and enabled: "refresh_reuse_enabled st input family presented"
  shows "\<exists>st'. exchange_refresh_reuse input family presented st = Inr (None, st')"
proof -
  note en = enabled[unfolded refresh_reuse_enabled_def]
  let ?d1 = "(st_db st)\<lparr>refresh_token_families := mark_families (\<lambda>r. fam_ID r = fam_ID family) (ri_Now input) (Some ''reuse'')
    (refresh_token_families (st_db st))\<rparr>"
  let ?d2 = "?d1\<lparr>access_tokens := mark_access (\<lambda>a. acc_RefreshFamilyID a = Some (fam_ID family)) (ri_Now input)
    (Some ''family_revoked'') (access_tokens (st_db st))\<rparr>"
  obtain row where family: "RevokeRefreshTokenFamily (ri_Now input) (Some ''reuse'') (fam_ID family) (st_db st) = Inr (Some row, ?d1)"
    by (rule RevokeRefreshTokenFamily_ok[OF conjunct1[OF en] revoke_reasons(1) stored])
  obtain n where access: "RevokeLiveAccessTokensByFamily (ri_Now input) (fam_ID family) ?d1 = Inr (n, ?d2)"
    using revoke_live_access_ok[of "ri_Now input" ?d1 "''family_revoked''"] en
    by (simp add: RevokeLiveAccessTokensByFamily_def access_predate_def)
  have ready: "audit_ready (Suc (Suc 0)) (fam_UserID family) (ri_RequestID input) (ri_Now input) (st\<lparr>st_db := ?d2\<rparr>)"
    using en by (simp add: audit_ready_def numeral_2_eq_2)
  have "\<exists>st'. tbind (insertProtocolAudit ''refresh_token_reuse_detected'' ''rejected'' (fam_UserID family)
        ''refresh_token'' (gen_ID presented) (ri_RequestID input) [''reused''] (ri_Now input)) (\<lambda>_.
      tbind (insertProtocolAudit ''refresh_token_family_revoked'' ''success'' (fam_UserID family)
        ''refresh_token_family'' (fam_ID family) (ri_RequestID input) [''revoked''] (ri_Now input)) (\<lambda>_.
      treturn (None :: Response option))) (st\<lparr>st_db := ?d2\<rparr>) = Inr (None, st')"
  proof (rule insertProtocolAudit_then[OF ready])
    fix st2
    assume ready2: "audit_ready (Suc 0) (fam_UserID family) (ri_RequestID input) (ri_Now input) st2"
    show "\<exists>st'. tbind (insertProtocolAudit ''refresh_token_family_revoked'' ''success'' (fam_UserID family)
        ''refresh_token_family'' (fam_ID family) (ri_RequestID input) [''revoked''] (ri_Now input)) (\<lambda>_.
      treturn (None :: Response option)) st2 = Inr (None, st')"
      by (rule insertProtocolAudit_then[OF ready2])
        (use en in \<open>simp_all add: audit_known_eval audit_unrecorded_def treturn_def\<close>)
  qed (use en in \<open>simp_all add: audit_known_eval audit_unrecorded_def\<close>)
  then show ?thesis using clean by (simp add: exchange_refresh_reuse_def tbind_exec_ok family access)
qed

section \<open>Evaluation on the sample installation\<close>

lemma sample_refresh_scopes:
  "SelectRefreshAccessScopes None sample_scopes sample_scopes sample_scopes = Inr sample_scopes"
proof -
  have "Intersection sample_scopes sample_scopes = sample_scopes"
    by (rule sorted_distinct_set_unique) (auto simp: scope_listing scope_sets sample_scopes_def scope_supported_def)
  then show ?thesis
    by (simp add: SelectRefreshAccessScopes_def CanonicalRefreshScopes_def sample_scopes_canonical)
      (simp add: sample_scopes_def)
qed

lemma sample_valid_refresh_minted: "validRefreshMinted sample_refresh_minted sample_generation sample_family sample_now"
  by (simp add: validRefreshMinted_def sample_refresh_minted_def sample_refresh_digest duration_defs sha256_Size_def)
    (simp add: sample_rows duration_defs MaxInt64_def)

lemma sample_consume_generation:
  "ConsumeRefreshToken sample_now 8 sample_db = Inr (Some (sample_generation\<lparr>gen_ConsumedAt := Some sample_now\<rparr>),
     sample_db\<lparr>refresh_tokens := [sample_generation\<lparr>gen_ConsumedAt := Some sample_now\<rparr>]\<rparr>)"
  by (simp add: ConsumeRefreshToken_def Let_def stmt_def update_checked_def update_where_def refresh_tokens_check_def row_eval)
   (simp add: sample_rows duration_defs)

lemma sample_replacement_ok:
  "refresh_tokens_violation (sample_db\<lparr>refresh_tokens := [sample_generation\<lparr>gen_ConsumedAt := Some sample_now\<rparr>]\<rparr>)
     (replacement_row sample_family sample_generation sample_refresh_minted) = None"
  by (simp add: refresh_tokens_violation_def refresh_token_lifetime_ok_def row_eval replacement_row_def
     refresh_tokens_check_def sample_rows sample_inputs)

lemma sample_refresh_access_ok:
  "access_tokens_violation (sample_db\<lparr>refresh_tokens := [sample_generation\<lparr>gen_ConsumedAt := Some sample_now\<rparr>,
       replacement_row sample_family sample_generation sample_refresh_minted]\<rparr>)
     (refresh_access_row sample_family sample_generation sample_grant sample_scopes sample_refresh_minted) = None"
  by (simp add: access_tokens_violation_def access_token_authority_ok_def access_tokens_check_def row_eval
     replacement_row_def refresh_access_row_def sample_rows sample_inputs sample_scopes_def)




lemma sample_refresh_principals:
  "refresh_principals_ok sample_db sample_refresh (sample_user, sample_client, sample_grant, sample_family, sample_generation)"
  by (simp add: refresh_principals_ok_def sample_client_value)
    (simp add: sample_family_def sample_generation_def sample_grant_def sample_client_def sample_refresh_def sameAuthenticatedClient_def)

lemma sample_refresh_guards [simp]:
  "length sample_presented_hash = sha256_Size" "cl_ID (ri_Client sample_refresh) \<noteq> uuid_Nil" "\<not> IsZero sample_now"
  by (simp_all add: sample_inputs sample_client_def sha256_Size_def IsZero_def sample_now_def duration_defs)

lemma sample_refresh_enabled:
  "refresh_rotation_enabled (start_tx (quiet sample_ids 0) sample_db) sample_refresh sample_family sample_generation
     sample_grant sample_scopes sample_refresh_minted"
proof -
  have consumed: "consume_generation sample_now 8 [sample_generation] = [sample_generation\<lparr>gen_ConsumedAt := Some sample_now\<rparr>]"
    by (simp add: consume_generation_def update_where_def)
  have "refresh_tokens_check sample_generation \<and> gen_IssuedAt sample_generation \<le> sample_now"
    by (simp add: refresh_tokens_check_def sample_generation_def duration_defs)
  moreover have "audit_ready 2 1 [] sample_now (start_tx (quiet sample_ids 0) sample_db)"
    by (rule sample_audit_ready) simp_all
  ultimately show ?thesis
    using sample_replacement_ok sample_refresh_access_ok
    by (simp add: refresh_rotation_enabled_def start_tx_def quiet_def consumed insert_row_def) (simp add: sample_refresh_def)
qed

definition sample_reuse_db :: db where
  "sample_reuse_db = sample_db\<lparr>refresh_tokens := [sample_generation\<lparr>gen_ConsumedAt := Some sample_now\<rparr>]\<rparr>"

lemma sample_reuse_principals:
  "refresh_principals_ok sample_reuse_db sample_refresh (sample_user, sample_client, sample_grant, sample_family,
     sample_generation\<lparr>gen_ConsumedAt := Some sample_now\<rparr>)"
  using sample_refresh_principals
  by (auto simp: refresh_principals_ok_def sample_reuse_db_def read_query_defs client_value_def select_one_def
      ListOIDCClientRedirectURIs_def ListOIDCClientLogoutURIs_def ListOIDCClientScopes_def split: if_splits)

lemma sample_reuse_enabled:
  "refresh_reuse_enabled (start_tx (quiet sample_ids 0) sample_reuse_db) sample_refresh sample_family
     (sample_generation\<lparr>gen_ConsumedAt := Some sample_now\<rparr>)"
proof -
  have "refresh_token_families_check sample_family \<and> fam_CreatedAt sample_family \<le> sample_now"
    by (simp add: refresh_token_families_check_def sample_family_def row_eval sample_scopes_def)
  moreover have "audit_ready 2 1 [] sample_now (start_tx (quiet sample_ids 0) sample_reuse_db)"
    by (rule sample_audit_ready) (simp_all add: sample_reuse_db_def)
  ultimately show ?thesis
    by (simp add: refresh_reuse_enabled_def start_tx_def quiet_def sample_reuse_db_def audit_unrecorded_def
        families_predate_def access_predate_def)
      (simp add: sample_family_def sample_refresh_def)
qed

lemma sample_reuse_lookup:
  "GetRefreshTokenByHash sample_presented_hash sample_reuse_db = Some (sample_generation\<lparr>gen_ConsumedAt := Some sample_now\<rparr>)"
  "grant_Version sample_grant = 1"
  by (simp_all add: sample_reuse_db_def GetRefreshTokenByHash_def select_one_def sample_generation_def sample_grant_def)

lemma sample_rotation_tx:
  "\<exists>st'. exchange_refresh_tx sample_refresh sample_generation sample_family (\<lambda>_. Inr sample_refresh_minted)
     (start_tx (quiet sample_ids 0) sample_db) =
     Inr (Some (exchange_refresh_response sample_refresh_minted sample_scopes), st')"
  using sample_refresh_principals sample_refresh_enabled sample_valid_refresh_minted
  by (intro exchange_refresh_tx_ok[where grant = sample_grant and clientValue = sample_client])
    (simp_all add: start_tx_def quiet_def sample_refresh_scopes sample_reuse_lookup)

lemma sample_rotation_succeeds:
  "\<exists>d'. ExchangeRefreshToken (quiet sample_ids) (\<lambda>_. (sample_db, None)) sample_refresh
      (\<lambda>_ _. Inr sample_refresh_minted) sample_db = (Inr (exchange_refresh_response sample_refresh_minted sample_scopes), d')"
  using sample_rotation_tx
    inTx_clean[of "quiet sample_ids" "\<lambda>_. exchange_refresh_tx sample_refresh sample_generation sample_family (\<lambda>_. Inr sample_refresh_minted)" sample_db]
  by (auto simp: ExchangeRefreshToken_def pool_read_def sha256_Size_def)

section \<open>Calls that complete\<close>

lemma ExchangeRefreshToken_ok:
  assumes "clean_attempt (env 0)" "pool 0 = (d, None)" "pool 1 = (d, None)"
    and "length (ri_TokenHash input) = sha256_Size" "cl_ID (ri_Client input) \<noteq> uuid_Nil" "\<not> IsZero (ri_Now input)"
    and "GetRefreshTokenByHash (ri_TokenHash input) d = Some presented"
    and "refresh_principals_ok d input (userRow, clientValue, grant, family, presented)" "grant_Version grant \<ge> 1"
    and "gen_ConsumedAt presented = None" "ri_Now input < gen_ExpiresAt presented"
    and "SelectRefreshAccessScopes (ri_RequestedScopes input) (fam_Scopes family) (grant_Scopes grant)
      (cl_Scopes clientValue) = Inr scopes"
    and "mintf 0 \<lparr>ra_Presented = presented, ra_Family = family, ra_Grant = grant, ra_User = userRow,
        ra_Client = clientValue, ra_AccessScopes = scopes, ra_IssuedAt = ri_Now input\<rparr> = Inr minted"
      "validRefreshMinted minted presented family (ri_Now input)"
    and "refresh_rotation_enabled (start_tx (env 0) d) input family presented grant scopes minted"
  shows "\<exists>d'. ExchangeRefreshToken env pool input mintf d = (Inr (exchange_refresh_response minted scopes), d')"
proof -
  have st: "st_faults (start_tx (env 0) d) = []" "st_db (start_tx (env 0) d) = d"
    using assms(1) by (simp_all add: start_tx_def clean_attempt_def)
  have fam: "GetRefreshTokenFamilyByID (gen_FamilyID presented) d = Some family"
    using assms(8) by (auto simp: refresh_principals_ok_def GetRefreshTokenFamilyByID_def LockRefreshTokenFamilyByID_def)
  obtain st' where "exchange_refresh_tx input presented family (mintf 0) (start_tx (env 0) d) =
      Inr (Some (exchange_refresh_response minted scopes), st')"
    using exchange_refresh_tx_ok[of "start_tx (env 0) d" input userRow clientValue grant family presented scopes "mintf 0" minted]
      st assms(8-15) by auto
  then show ?thesis
    using inTx_clean[of env "\<lambda>n. exchange_refresh_tx input presented family (mintf n)" d] assms(1-7) fam
    by (simp add: ExchangeRefreshToken_def pool_read_def)
qed

section \<open>Properties\<close>

text \<open>
  C5 (safety). A successful rotation was authorized: the presented generation is stored
  under the presented digest, unconsumed and unexpired, its family is unrevoked and before
  its absolute deadline, user and client are active and the client is the authenticated
  one, and the grant is unrevoked. The new database is the old one with this generation
  consumed, its successor and one access token inserted and two audit events appended.
\<close>

theorem refresh_rotation_authorized:
  assumes "ExchangeRefreshToken env pool input mintf d = (Inr r, d')"
  shows "\<exists>n p. refresh_principals_ok d input p \<and> refresh_issued (mintf n) input p d r d'"
  using ExchangeRefreshToken_Inr[OF assms] by metis

theorem refresh_rotation_authorized_witness:
  "\<exists>r d' n p. ExchangeRefreshToken (quiet sample_ids) (\<lambda>_. (sample_db, None)) sample_refresh
      (\<lambda>_ _. Inr sample_refresh_minted) sample_db = (Inr r, d') \<and>
    refresh_principals_ok sample_db sample_refresh p \<and>
    refresh_issued (\<lambda>_. Inr sample_refresh_minted) sample_refresh p sample_db r d'"
  using sample_rotation_succeeds refresh_rotation_authorized by blast

text \<open>
  C6 (bounds). A rotation never widens what the family was granted: the new access token's
  scopes are canonical and lie in the family's, the grant's and the client's scopes, and
  are the requested ones if any were requested; it expires within 30 minutes, the successor
  within 30 days and never after the family's absolute deadline; and the successor's
  generation number is the next one, without overflow.
\<close>

theorem refresh_never_widens:
  assumes "ExchangeRefreshToken env pool input mintf d = (Inr r, d')"
  shows "\<exists>userRow clientValue grant family presented minted scopes.
    refresh_principals_ok d input (userRow, clientValue, grant, family, presented) \<and> replacement_row family presented minted \<in> set (refresh_tokens d') \<and>
    refresh_access_row family presented grant scopes minted \<in> set (access_tokens d') \<and>
    canonical_scopes scopes \<and>
    set scopes \<subseteq> set (fam_Scopes family) \<inter> set (grant_Scopes grant) \<inter> set (cl_Scopes clientValue) \<and>
    (\<forall>req. ri_RequestedScopes input = Some req \<longrightarrow> scopes = req) \<and>
    rm_AccessExpiresAt minted \<le> ri_Now input + 30 * Minute \<and>
    rm_ReplacementExpiresAt minted \<le> min (fam_AbsoluteExpiresAt family) (ri_Now input + 30 * 24 * Hour) \<and>
    gen_Generation (replacement_row family presented minted) = gen_Generation presented + 1 \<and>
    gen_Generation presented \<noteq> MaxInt64"
proof -
  obtain n userRow clientValue grant family presented
    where princ: "refresh_principals_ok d input (userRow, clientValue, grant, family, presented)"
      and "refresh_issued (mintf n) input (userRow, clientValue, grant, family, presented) d r d'"
    using ExchangeRefreshToken_Inr[OF assms] by (metis prod.exhaust)
  from this(2) obtain scopes minted events where sel: "SelectRefreshAccessScopes (ri_RequestedScopes input) (fam_Scopes family)
      (grant_Scopes grant) (cl_Scopes clientValue) = Inr scopes"
    and valid: "validRefreshMinted minted presented family (ri_Now input)"
    and d': "d' = refresh_rotated input family presented grant scopes minted events d"
    by (auto simp: refresh_issued_def)
  have "rm_AccessExpiresAt minted \<le> ri_Now input + 30 * Minute \<and>
      rm_ReplacementExpiresAt minted \<le> min (fam_AbsoluteExpiresAt family) (ri_Now input + 30 * 24 * Hour) \<and>
      gen_Generation presented \<noteq> MaxInt64"
    using valid by (auto simp: validRefreshMinted_def split: if_splits)
  moreover have "gen_Generation (replacement_row family presented minted) = gen_Generation presented + 1"
    by (simp add: replacement_row_def)
  moreover have "replacement_row family presented minted \<in> set (refresh_tokens d')"
    "refresh_access_row family presented grant scopes minted \<in> set (access_tokens d')"
    by (simp_all add: d' refresh_rotated_def table_simps)
  ultimately show ?thesis using princ SelectRefreshAccessScopes_Inr[OF sel] by blast
qed

theorem refresh_never_widens_witness:
  "\<exists>r d' family presented minted. ExchangeRefreshToken (quiet sample_ids) (\<lambda>_. (sample_db, None)) sample_refresh
      (\<lambda>_ _. Inr sample_refresh_minted) sample_db = (Inr r, d') \<and>
    replacement_row family presented minted \<in> set (refresh_tokens d') \<and>
    rm_ReplacementExpiresAt minted \<le> min (fam_AbsoluteExpiresAt family) (sample_now + 30 * 24 * Hour)"
proof -
  obtain r d' where run: "ExchangeRefreshToken (quiet sample_ids) (\<lambda>_. (sample_db, None)) sample_refresh
      (\<lambda>_ _. Inr sample_refresh_minted) sample_db = (Inr r, d')" using sample_rotation_succeeds by blast
  from refresh_never_widens[OF this] run show ?thesis by auto
qed

text \<open>
  C7 (safety). Replaying a rotated refresh token is detected: a call that presents a
  consumed generation of a live family is refused with the same error as any invalid grant,
  and when it is committed the family is revoked together with all its live access tokens,
  so that no generation of the family can be rotated again by any client.
\<close>

theorem refresh_reuse_revokes_family:
  assumes "clean_attempt (env 0)" "pool 0 = (d, None)" "pool 1 = (d, None)"
    and "length (ri_TokenHash input) = sha256_Size" "cl_ID (ri_Client input) \<noteq> uuid_Nil" "\<not> IsZero (ri_Now input)"
    and "GetRefreshTokenByHash (ri_TokenHash input) d = Some presented"
    and "refresh_principals_ok d input (userRow, clientValue, grant, family, presented)" "grant_Version grant \<ge> 1"
    and "gen_ConsumedAt presented \<noteq> None"
    and "refresh_reuse_enabled (start_tx (env 0) d) input family presented"
  shows "\<exists>d'. ExchangeRefreshToken env pool input mintf d = (Inl Token_ErrInvalidGrant, d') \<and>
    refresh_reuse_recorded input d d' \<and>
    select_where (live_access (\<lambda>a. acc_RefreshFamilyID a = Some (fam_ID family)) (ri_Now input)) (access_tokens d') = [] \<and>
    (\<forall>input' u c g f t. fam_ID f = fam_ID family \<longrightarrow> \<not> refresh_principals_ok d' input' (u, c, g, f, t))"
proof -
  let ?op = "\<lambda>n. exchange_refresh_tx input presented family (mintf n)"
  let ?st = "start_tx (env 0) d"
  have st: "st_faults ?st = []" "st_db ?st = d" using assms(1) by (simp_all add: start_tx_def clean_attempt_def)
  have fam: "GetRefreshTokenFamilyByID (gen_FamilyID presented) d = Some family" "fam_RevokedAt family = None"
    using assms(8) by (auto simp: refresh_principals_ok_def GetRefreshTokenFamilyByID_def LockRefreshTokenFamilyByID_def)
  obtain st' where reused: "exchange_refresh_reuse input family presented ?st = Inr (None, st')"
    using exchange_refresh_reuse_ok[of ?st family input presented] st fam refresh_principals_stored[OF assms(8)] assms(11) by auto
  then have run: "?op 0 ?st = Inr (None, st')"
    using exchange_refresh_authority_ok[of ?st input userRow clientValue grant family presented] st assms(8,9,10)
    by (simp add: exchange_refresh_tx_def tbind_ok exchange_refresh_issue_def)
  have result: "ExchangeRefreshToken env pool input mintf d = (Inl Token_ErrInvalidGrant, st_db st')"
    using inTx_clean[of env ?op d, OF assms(1) run] assms(2-7) fam
    by (simp add: ExchangeRefreshToken_def pool_read_def)
  obtain events where reuse: "refresh_reuse_audit input family presented events"
      "st_db st' = refresh_reused input family events d"
    using tx_runI[of "exchange_refresh_reuse input family presented", OF reused] st(2)
    by (auto elim: exchange_refresh_reuse_run)
  have "refresh_reuse_recorded input d (st_db st')"
    unfolding refresh_reuse_recorded_def using assms(8,10) reuse by blast
  moreover have "select_where (live_access (\<lambda>a. acc_RefreshFamilyID a = Some (fam_ID family)) (ri_Now input))
      (access_tokens (st_db st')) = []"
    unfolding reuse(2) refresh_reused_def by (simp add: mark_access_no_live)
  ultimately show ?thesis using result reused_family_dead unfolding reuse(2) by blast
qed

theorem refresh_reuse_revokes_family_witness:
  "\<exists>d'. ExchangeRefreshToken (quiet sample_ids) (\<lambda>_. (sample_reuse_db, None)) sample_refresh
      (\<lambda>_ _. Inr sample_refresh_minted) sample_reuse_db = (Inl Token_ErrInvalidGrant, d') \<and>
    refresh_reuse_recorded sample_refresh sample_reuse_db d'"
  using refresh_reuse_revokes_family[of "quiet sample_ids" "\<lambda>_. (sample_reuse_db, None)" sample_reuse_db sample_refresh
      "sample_generation\<lparr>gen_ConsumedAt := Some sample_now\<rparr>" sample_user sample_client sample_grant sample_family
      "\<lambda>_ _. Inr sample_refresh_minted"] sample_reuse_principals sample_reuse_enabled sample_reuse_lookup
  by (auto simp: sha256_Size_def)



text \<open>
  C9 (liveness). A legitimate refresh is answered with tokens: if the presented generation
  is current, its user, client, grant and family are valid, the scopes can be selected, the
  mint callback returns acceptable tokens, the new rows violate no constraint and the first
  attempt meets no fault, the call returns the response of those tokens.
\<close>

theorem refresh_completes:
  assumes "clean_attempt (env 0)" "pool 0 = (d, None)" "pool 1 = (d, None)"
    and "length (ri_TokenHash input) = sha256_Size" "cl_ID (ri_Client input) \<noteq> uuid_Nil" "\<not> IsZero (ri_Now input)"
    and "GetRefreshTokenByHash (ri_TokenHash input) d = Some presented"
    and "refresh_principals_ok d input (userRow, clientValue, grant, family, presented)" "grant_Version grant \<ge> 1"
    and "gen_ConsumedAt presented = None" "ri_Now input < gen_ExpiresAt presented"
    and "SelectRefreshAccessScopes (ri_RequestedScopes input) (fam_Scopes family) (grant_Scopes grant)
      (cl_Scopes clientValue) = Inr scopes"
    and "mintf 0 \<lparr>ra_Presented = presented, ra_Family = family, ra_Grant = grant, ra_User = userRow,
        ra_Client = clientValue, ra_AccessScopes = scopes, ra_IssuedAt = ri_Now input\<rparr> = Inr minted"
      "validRefreshMinted minted presented family (ri_Now input)"
    and "refresh_rotation_enabled (start_tx (env 0) d) input family presented grant scopes minted"
  shows "\<exists>d'. ExchangeRefreshToken env pool input mintf d = (Inr (exchange_refresh_response minted scopes), d')"
  using assms by (rule ExchangeRefreshToken_ok)

theorem refresh_completes_witness:
  "\<exists>d'. ExchangeRefreshToken (quiet sample_ids) (\<lambda>_. (sample_db, None)) sample_refresh
      (\<lambda>_ _. Inr sample_refresh_minted) sample_db = (Inr (exchange_refresh_response sample_refresh_minted sample_scopes), d')"
  using sample_refresh_principals sample_refresh_enabled sample_valid_refresh_minted
  by (intro refresh_completes[where grant = sample_grant and clientValue = sample_client and family = sample_family
        and presented = sample_generation and userRow = sample_user])
    (simp_all add: sample_refresh_scopes sample_reuse_lookup sha256_Size_def)

end
