(* ===== verification/Token_Endpoint.thy ===== *)
theory Token_Endpoint
  imports Refresh_Rotation
begin

text \<open>
  \<^verbatim>\<open>Service.Exchange\<close> and \<^verbatim>\<open>Service.Refresh\<close> of \<^verbatim>\<open>internal/token/token.go\<close>: the input checks in
  front of the storage transaction and the mint callbacks inside it, composed. The lemmas
  show that a service built by \<^verbatim>\<open>NewService\<close> always mints what the storage accepts, and that
  the returned tokens attest what the transaction stored.
\<close>

section \<open>Operations\<close>

text \<open>\<open>random n\<close> is what the random source delivers to the mint callback of attempt \<open>n\<close>.\<close>

definition Exchange ::
  "(nat \<Rightarrow> attempt) \<Rightarrow> token_env \<Rightarrow> TokenService \<Rightarrow> (nat \<Rightarrow> string) \<Rightarrow> ExchangeInput \<Rightarrow> db \<Rightarrow>
   (go_error + Response) \<times> db" where
  "Exchange env tenv svc random input d =
     (if length (xi_CodeHash input) \<noteq> sha256_Size \<or> xi_RedirectURI input = '''' \<or> IsZero (xi_Now input) \<or>
         \<not> activeClient (xi_Client input) \<or> \<not> ValidateVerifier (xi_CodeVerifier input)
      then (Inl Token_ErrInvalidGrant, d)
      else ExchangeAuthorizationCode env input (\<lambda>n. mint tenv svc (random n)) d)"

definition Refresh ::
  "(nat \<Rightarrow> attempt) \<Rightarrow> (nat \<Rightarrow> db \<times> pg_error option) \<Rightarrow> token_env \<Rightarrow> TokenService \<Rightarrow> (nat \<Rightarrow> string) \<Rightarrow>
   RefreshInput \<Rightarrow> db \<Rightarrow> (go_error + Response) \<times> db" where
  "Refresh env pool tenv svc random input d =
     (if length (ri_TokenHash input) \<noteq> sha256_Size \<or> IsZero (ri_Now input) \<or> \<not> activeClient (ri_Client input)
      then (Inl Token_ErrInvalidGrant, d)
      else if (case ri_RequestedScopes input of
                 None \<Rightarrow> False
               | Some requested \<Rightarrow> CanonicalScopes requested \<noteq> Some requested)
      then (Inl Token_ErrInvalidScope, d)
      else ExchangeRefreshToken env pool input (\<lambda>n. mintRefresh tenv svc (random n)) d)"

section \<open>Services and libraries\<close>

text \<open>The lifetimes of a constructed service.\<close>

definition service_ok :: "TokenService \<Rightarrow> bool" where
  "service_ok svc \<longleftrightarrow>
     Minute \<le> ts_idTokenTTL svc \<and> ts_idTokenTTL svc \<le> 15 * Minute \<and>
     Minute \<le> ts_accessTokenTTL svc \<and> ts_accessTokenTTL svc \<le> 30 * Minute \<and>
     0 \<le> ts_clockSkew svc \<and> ts_clockSkew svc \<le> 2 * Minute \<and>
     Hour \<le> ts_refreshTokenTTL svc \<and> ts_refreshTokenTTL svc \<le> maxRefreshRolling \<and>
     24 * Hour \<le> ts_refreshAbsoluteTTL svc \<and> ts_refreshAbsoluteTTL svc \<le> maxRefreshAbsolute \<and>
     ts_refreshTokenTTL svc \<le> ts_refreshAbsoluteTTL svc \<and>
     ts_userinfoAudience svc = ts_issuer svc @ ''/oauth2/userinfo''"

lemma WithRefreshLifetimes_ok:
  "service_ok svc \<Longrightarrow> WithRefreshLifetimes rolling absolute svc = Inr svc' \<Longrightarrow> service_ok svc'"
  unfolding WithRefreshLifetimes_def RefreshDeadlines_def by (elim result_elims) (auto simp: service_ok_def)

lemma apply_options_ok:
  assumes "\<And>opt svc svc'. opt \<in> set options \<Longrightarrow> service_ok svc \<Longrightarrow> opt svc = Inr svc' \<Longrightarrow> service_ok svc'"
    "service_ok svc" "apply_options options svc = Inr svc'"
  shows "service_ok svc'"
  using assms
proof (induction options arbitrary: svc)
  case (Cons opt options)
  then obtain svc1 where "opt svc = Inr svc1" "apply_options options svc1 = Inr svc'" by (auto split: sum.splits)
  with Cons show ?case by (meson list.set_intros)
qed simp

text \<open>The options a caller can pass: any number of \<^verbatim>\<open>WithRefreshLifetimes\<close>.\<close>

definition lifetime_options :: "(duration \<times> duration) list \<Rightarrow> (TokenService \<Rightarrow> go_error + TokenService) list" where
  "lifetime_options = map (\<lambda>(rolling, absolute). WithRefreshLifetimes rolling absolute)"

lemma token_NewService_ok:
  assumes "token_NewService url_Parse issuer idTTL accessTTL skew (lifetime_options ls) = Inr svc"
  shows "service_ok svc"
proof -
  let ?svc = "\<lparr>ts_issuer = issuer, ts_userinfoAudience = issuer @ ''/oauth2/userinfo'',
         ts_idTokenTTL = idTTL, ts_accessTokenTTL = accessTTL, ts_clockSkew = skew,
         ts_refreshTokenTTL = defaultRefreshTTL, ts_refreshAbsoluteTTL = defaultAbsoluteTTL\<rparr>"
  obtain cond: "\<not> (\<not> issuer_is_origin url_Parse issuer \<or> idTTL < Minute \<or> idTTL > 15 * Minute \<or> accessTTL < Minute \<or>
      accessTTL > 30 * Minute \<or> skew < 0 \<or> skew > 2 * Minute)"
    and run: "apply_options (lifetime_options ls) ?svc = Inr svc"
    using assms unfolding token_NewService_def by (elim if_InlE) simp
  from cond have "service_ok ?svc"
    by (auto simp: service_ok_def defaultRefreshTTL_def defaultAbsoluteTTL_def maxRefreshRolling_def
        maxRefreshAbsolute_def duration_defs)
  then show ?thesis
    using run by (rule apply_options_ok[rotated]) (auto simp: lifetime_options_def WithRefreshLifetimes_ok)
qed

text \<open>
  What the service relies on of its libraries: a version 4 UUID is never nil, and a
  signature is a non-empty compact serialization.
\<close>

definition libraries_ok :: "token_env \<Rightarrow> bool" where
  "libraries_ok tenv \<longleftrightarrow> (\<forall>raw. te_uuid tenv raw \<noteq> uuid_Nil) \<and>
     (\<forall>payload typ signed. te_Sign tenv payload typ = Some signed \<longrightarrow> signed \<noteq> '''')"

lemma NewRandomFromReader_nonnil:
  "libraries_ok tenv \<Longrightarrow> NewRandomFromReader (te_uuid tenv) source = Some (i, rest) \<Longrightarrow> i \<noteq> uuid_Nil"
  by (auto simp: NewRandomFromReader_def libraries_ok_def split: option.splits)

lemma GenerateRefreshToken_digest:
  assumes "GenerateRefreshToken source = Some ((clear, digest), rest)"
  shows "DigestPresentedRefreshToken clear = Some digest" "clear \<noteq> []" "length digest = 32"
  using assms by (auto simp: GenerateRefreshToken_cases Let_def DigestPresentedRefreshToken_iff split: if_splits)

section \<open>What the mint callbacks return\<close>

definition initial_minted :: "TokenService \<Rightarrow> time \<Rightarrow> InitialRefresh \<Rightarrow> bool" where
  "initial_minted svc now initial \<longleftrightarrow>
     ir_FamilyID initial \<noteq> uuid_Nil \<and> ir_TokenID initial \<noteq> uuid_Nil \<and>
     length (ir_TokenHash initial) = sha256_Size \<and> ir_ClearToken initial \<noteq> '''' \<and>
     DigestPresentedRefreshToken (ir_ClearToken initial) = Some (ir_TokenHash initial) \<and>
     ir_ExpiresAt initial = now + ts_refreshTokenTTL svc \<and>
     ir_AbsoluteExpiresAt initial = now + ts_refreshAbsoluteTTL svc"

lemma mint_initial_Inr:
  assumes "libraries_ok tenv" "service_ok svc" "mint_initial tenv svc au random = Inr initial"
  shows "initial_minted svc (au_IssuedAt au) initial"
proof -
  obtain clear digest r1 fid r2 tid r3 rolling absolute where
    gen: "GenerateRefreshToken random = Some ((clear, digest), r1)" and
    ids: "NewRandomFromReader (te_uuid tenv) r1 = Some (fid, r2)" "NewRandomFromReader (te_uuid tenv) r2 = Some (tid, r3)" and
    deadlines: "RefreshDeadlines (au_IssuedAt au) (ts_refreshTokenTTL svc) (ts_refreshAbsoluteTTL svc) = Inr (rolling, absolute)" and
    initial: "initial = \<lparr>ir_FamilyID = fid, ir_TokenID = tid, ir_TokenHash = digest, ir_ClearToken = clear,
      ir_ExpiresAt = rolling, ir_AbsoluteExpiresAt = absolute\<rparr>"
    using assms(3) unfolding mint_initial_def by (elim result_elims) blast
  have "rolling = au_IssuedAt au + ts_refreshTokenTTL svc \<and> absolute = au_IssuedAt au + ts_refreshAbsoluteTTL svc"
    using deadlines assms(2) by (auto simp: RefreshDeadlines_def Let_def service_ok_def split: if_splits)
  then show ?thesis
    using GenerateRefreshToken_digest[OF gen] ids[THEN NewRandomFromReader_nonnil[OF assms(1)]]
    by (simp add: initial_minted_def initial sha256_Size_def)
qed

text \<open>
  The access token of a mint is the signature over the claims of the authority, and its
  identifier is stored only as a digest.
\<close>

definition access_attested ::
  "token_env \<Rightarrow> TokenService \<Rightarrow> User \<Rightarrow> Client \<Rightarrow> string list \<Rightarrow> time \<Rightarrow> string \<Rightarrow> string \<Rightarrow> bool" where
  "access_attested tenv svc user client scopes now jtiHash accessToken \<longleftrightarrow>
     (\<exists>raw. length raw = 16 \<and> (let jti = ''jti_'' @ b64_encode raw in
        jtiHash = HashJTI jti \<and>
        te_Sign tenv (te_marshalAccess tenv (access_claims svc user client scopes now jti)) ''at+jwt'' = Some accessToken))"

lemma newJTI_Some: "newJTI source = Some (jti, rest) \<Longrightarrow> \<exists>raw. length raw = 16 \<and> jti = ''jti_'' @ b64_encode raw"
  by (auto simp: newJTI_def jtiPrefix_def dest!: io_ReadFull_Some split: option.splits)

lemma access_attestedI:
  assumes "newJTI random = Some (jti, rest)"
    "te_Sign tenv (te_marshalAccess tenv (access_claims svc user client scopes now jti)) ''at+jwt'' = Some accessToken"
  shows "access_attested tenv svc user client scopes now (HashJTI jti) accessToken"
  using newJTI_Some[OF assms(1)] assms(2) unfolding access_attested_def Let_def by blast

text \<open>A mint for a code: what it checked and what it returns.\<close>

definition mint_outcome :: "token_env \<Rightarrow> TokenService \<Rightarrow> Authority \<Rightarrow> string list \<Rightarrow> Minted \<Rightarrow> bool" where
  "mint_outcome tenv svc au scopes minted \<longleftrightarrow>
     CanonicalScopes (au_Scopes au) = Some scopes \<and> activeClient (au_Client au) \<and>
     usr_Status (au_User au) = ''active'' \<and> au_AuthenticatedAt au \<le> au_IssuedAt au \<and>
     mi_AccessTokenID minted \<noteq> uuid_Nil \<and> mi_IssuedAt minted = au_IssuedAt au \<and>
     mi_AccessExpiresAt minted = au_IssuedAt au + ts_accessTokenTTL svc \<and>
     mi_IDExpiresAt minted = au_IssuedAt au + ts_idTokenTTL svc \<and>
     te_Sign tenv (te_marshalID tenv (id_claims svc au scopes)) ''JWT'' = Some (mi_IDToken minted) \<and>
     access_attested tenv svc (au_User au) (au_Client au) scopes (au_IssuedAt au) (mi_JTIHash minted) (mi_AccessToken minted) \<and>
     (if ''offline_access'' \<in> set scopes
      then \<exists>initial. mi_InitialRefresh minted = Some initial \<and> initial_minted svc (au_IssuedAt au) initial
      else mi_InitialRefresh minted = None)"

lemma mint_Inr:
  assumes libs: "libraries_ok tenv" and svc: "service_ok svc" and run: "mint tenv svc random au = Inr minted"
  obtains scopes where "mint_outcome tenv svc au scopes minted"
proof -
  obtain scopes where scopes: "CanonicalScopes (au_Scopes au) = Some scopes"
    using run unfolding mint_def by (elim case_option_InrE)
  note body = run[unfolded mint_def scopes option.case Let_def]
  from body obtain jti r1 i r2 idToken accessToken where
    checks: "\<not> (au_CodeID au = uuid_Nil \<or> au_GrantID au = uuid_Nil \<or> usr_ID (au_User au) = uuid_Nil \<or>
           usr_Status (au_User au) \<noteq> ''active'' \<or> \<not> activeClient (au_Client au) \<or>
           IsZero (au_AuthenticatedAt au) \<or> au_AuthenticatedAt au > au_IssuedAt au \<or>
           \<not> scope_subset scopes (cl_Scopes (au_Client au)))" and
    jti: "newJTI random = Some (jti, r1)" and i: "NewRandomFromReader (te_uuid tenv) r1 = Some (i, r2)" and
    signed: "te_Sign tenv (te_marshalID tenv (id_claims svc au scopes)) ''JWT'' = Some idToken"
      "te_Sign tenv (te_marshalAccess tenv (access_claims svc (au_User au) (au_Client au) scopes (au_IssuedAt au) jti)) ''at+jwt''
         = Some accessToken" and
    minted: "(if ''offline_access'' \<in> set scopes
       then rbind (mint_initial tenv svc au r2) (\<lambda>initial. Inr (\<lparr>mi_AccessTokenID = i, mi_JTIHash = HashJTI jti,
                mi_AccessToken = accessToken, mi_IDToken = idToken, mi_IssuedAt = au_IssuedAt au,
                mi_AccessExpiresAt = au_IssuedAt au + ts_accessTokenTTL svc,
                mi_IDExpiresAt = au_IssuedAt au + ts_idTokenTTL svc, mi_InitialRefresh = None\<rparr>\<lparr>mi_InitialRefresh := Some initial\<rparr>))
       else Inr \<lparr>mi_AccessTokenID = i, mi_JTIHash = HashJTI jti,
                mi_AccessToken = accessToken, mi_IDToken = idToken, mi_IssuedAt = au_IssuedAt au,
                mi_AccessExpiresAt = au_IssuedAt au + ts_accessTokenTTL svc,
                mi_IDExpiresAt = au_IssuedAt au + ts_idTokenTTL svc, mi_InitialRefresh = None\<rparr>) = Inr minted"
    by (elim result_elims) (rule that, assumption+)
  note facts = scopes checks signed access_attestedI[OF jti signed(2)] NewRandomFromReader_nonnil[OF libs i]
  have "mint_outcome tenv svc au scopes minted"
  proof (cases "''offline_access'' \<in> set scopes")
    case True
    with minted obtain initial where "mint_initial tenv svc au r2 = Inr initial"
      "minted = \<lparr>mi_AccessTokenID = i, mi_JTIHash = HashJTI jti,
                mi_AccessToken = accessToken, mi_IDToken = idToken, mi_IssuedAt = au_IssuedAt au,
                mi_AccessExpiresAt = au_IssuedAt au + ts_accessTokenTTL svc,
                mi_IDExpiresAt = au_IssuedAt au + ts_idTokenTTL svc, mi_InitialRefresh = Some initial\<rparr>"
      by (auto simp: rbind_Inr)
    then show ?thesis using True facts mint_initial_Inr[OF libs svc] by (simp add: mint_outcome_def)
  next
    case False
    with minted facts show ?thesis by (auto simp: mint_outcome_def)
  qed
  then show thesis by (rule that)
qed

lemma mint_outcome_valid:
  assumes "libraries_ok tenv" "service_ok svc" "mint_outcome tenv svc au scopes minted"
  shows "validMintedTokens minted (au_IssuedAt au) (''offline_access'' \<in> set scopes)"
proof -
  have signed: "mi_AccessToken minted \<noteq> []" "mi_IDToken minted \<noteq> []" "length (mi_JTIHash minted) = sha256_Size"
    using assms(1,3) by (auto simp: mint_outcome_def access_attested_def Let_def libraries_ok_def sha256_Size_def)
  show ?thesis
    using assms(2,3) signed
    by (auto simp: validMintedTokens_def mint_outcome_def service_ok_def initial_minted_def maxRefreshRolling_def
        maxRefreshAbsolute_def duration_defs split: if_splits)
qed

definition mintRefresh_outcome :: "token_env \<Rightarrow> TokenService \<Rightarrow> RefreshAuthority \<Rightarrow> string list \<Rightarrow> RefreshMinted \<Rightarrow> bool" where
  "mintRefresh_outcome tenv svc ra scopes minted \<longleftrightarrow>
     CanonicalScopes (ra_AccessScopes ra) = Some scopes \<and> activeClient (ra_Client ra) \<and>
     ra_IssuedAt ra < fam_AbsoluteExpiresAt (ra_Family ra) \<and>
     rm_AccessTokenID minted \<noteq> uuid_Nil \<and> rm_ReplacementTokenID minted \<noteq> uuid_Nil \<and>
     rm_IssuedAt minted = ra_IssuedAt ra \<and>
     rm_AccessExpiresAt minted = ra_IssuedAt ra + ts_accessTokenTTL svc \<and>
     rm_ReplacementExpiresAt minted = min (ra_IssuedAt ra + ts_refreshTokenTTL svc) (fam_AbsoluteExpiresAt (ra_Family ra)) \<and>
     DigestPresentedRefreshToken (rm_ReplacementClearToken minted) = Some (rm_ReplacementTokenHash minted) \<and>
     access_attested tenv svc (ra_User ra) (ra_Client ra) scopes (ra_IssuedAt ra) (rm_JTIHash minted) (rm_AccessToken minted)"

lemma mintRefresh_Inr:
  assumes libs: "libraries_ok tenv" and run: "mintRefresh tenv svc random ra = Inr minted"
  obtains scopes where "mintRefresh_outcome tenv svc ra scopes minted"
proof -
  obtain scopes clear digest r1 i r2 expires jti r3 a r4 accessToken where
    scopes: "CanonicalScopes (ra_AccessScopes ra) = Some scopes" and
    checks: "activeClient (ra_Client ra)" "ra_IssuedAt ra < fam_AbsoluteExpiresAt (ra_Family ra)" and
    gen: "GenerateRefreshToken random = Some ((clear, digest), r1)" and
    i: "NewRandomFromReader (te_uuid tenv) r1 = Some (i, r2)" and
    expires: "ReplacementRefreshExpiry (ra_IssuedAt ra) (ts_refreshTokenTTL svc) (fam_AbsoluteExpiresAt (ra_Family ra)) = Inr expires" and
    jti: "newJTI r2 = Some (jti, r3)" and a: "NewRandomFromReader (te_uuid tenv) r3 = Some (a, r4)" and
    signed: "te_Sign tenv (te_marshalAccess tenv (access_claims svc (ra_User ra) (ra_Client ra) scopes (ra_IssuedAt ra) jti))
        ''at+jwt'' = Some accessToken" and
    minted: "minted = \<lparr>rm_AccessTokenID = a, rm_JTIHash = HashJTI jti, rm_AccessToken = accessToken,
               rm_IssuedAt = ra_IssuedAt ra, rm_AccessExpiresAt = ra_IssuedAt ra + ts_accessTokenTTL svc,
               rm_ReplacementTokenID = i, rm_ReplacementTokenHash = digest, rm_ReplacementClearToken = clear,
               rm_ReplacementExpiresAt = expires\<rparr>"
    using run unfolding mintRefresh_def by (elim result_elims) blast
  have "expires = min (ra_IssuedAt ra + ts_refreshTokenTTL svc) (fam_AbsoluteExpiresAt (ra_Family ra))"
    using expires by (auto simp: ReplacementRefreshExpiry_def Let_def split: if_splits)
  then have "mintRefresh_outcome tenv svc ra scopes minted"
    using scopes checks GenerateRefreshToken_digest[OF gen] access_attestedI[OF jti signed]
      NewRandomFromReader_nonnil[OF libs i] NewRandomFromReader_nonnil[OF libs a]
    by (simp add: mintRefresh_outcome_def minted)
  then show thesis by (rule that)
qed

lemma mintRefresh_outcome_valid:
  assumes "libraries_ok tenv" "service_ok svc" "mintRefresh_outcome tenv svc ra scopes minted"
    and fresh: "rm_ReplacementTokenID minted \<noteq> gen_ID presented" "gen_Generation presented \<noteq> MaxInt64"
  shows "validRefreshMinted minted presented (ra_Family ra) (ra_IssuedAt ra)"
proof -
  have signed: "rm_AccessToken minted \<noteq> []" "length (rm_JTIHash minted) = sha256_Size"
    using assms(1,3) by (auto simp: mintRefresh_outcome_def access_attested_def Let_def libraries_ok_def sha256_Size_def)
  have clear: "rm_ReplacementClearToken minted \<noteq> []" "length (rm_ReplacementTokenHash minted) = sha256_Size"
    using assms(3) by (auto simp: mintRefresh_outcome_def DigestPresentedRefreshToken_iff sha256_Size_def)
  show ?thesis
    using assms(2,3) signed clear fresh
    by (simp add: validRefreshMinted_def mintRefresh_outcome_def service_ok_def maxRefreshRolling_def duration_defs)
qed

section \<open>The refresh token that was returned is the one that was stored\<close>

lemma unique_among_select: "unique_among k t r \<Longrightarrow> select_one (\<lambda>x. k x = k r) t = None"
  by (auto simp: unique_among_def list_all_iff select_one_None_iff)

lemma refresh_tokens_violation_unique:
  "refresh_tokens_violation d g = None \<Longrightarrow> unique_among gen_TokenHash (refresh_tokens d) g"
  unfolding refresh_tokens_violation_def first_violation_eval by simp

lemma code_exchanged_lookup:
  assumes "mi_InitialRefresh minted = Some initial" "initial_rows_ok codeRow scopes grant minted d"
  shows "GetRefreshTokenByHash (ir_TokenHash initial) (code_exchanged input codeRow scopes grant minted events d) =
     Some (code_generation_row minted initial)"
proof -
  obtain binding where "code_SessionBindingID codeRow = Some binding"
    "unique_among gen_TokenHash (refresh_tokens d) (code_generation_row minted initial)"
    using assms by (auto simp: initial_rows_ok_def Let_def dest: refresh_tokens_violation_unique split: option.splits)
  then show ?thesis
    using assms(1) unique_among_select[of gen_TokenHash "refresh_tokens d" "code_generation_row minted initial"]
    by (simp add: GetRefreshTokenByHash_def code_exchanged_def initial_rows_def table_simps code_generation_row_def)
qed

lemma offline_exchange_lookup:
  assumes "mint_outcome tenv svc au scopes minted" "initial_rows_ok codeRow scopes grant minted d"
    and "d' = code_exchanged input codeRow scopes grant minted events d"
  shows "if ''offline_access'' \<in> set scopes
     then \<exists>h g. DigestPresentedRefreshToken (rs_RefreshToken (exchange_code_response minted scopes)) = Some h \<and>
       GetRefreshTokenByHash h d' = Some g \<and> gen_Generation g = 0 \<and> gen_ConsumedAt g = None
     else rs_RefreshToken (exchange_code_response minted scopes) = []"
proof (cases "''offline_access'' \<in> set scopes")
  case True
  then obtain initial where i: "mi_InitialRefresh minted = Some initial"
    and "DigestPresentedRefreshToken (ir_ClearToken initial) = Some (ir_TokenHash initial)"
    using assms(1) by (auto simp: mint_outcome_def initial_minted_def)
  then show ?thesis using True code_exchanged_lookup[OF i assms(2), of input events]
    by (simp add: exchange_code_response_def assms(3) code_generation_row_def)
next
  case False
  then show ?thesis using assms(1) by (simp add: mint_outcome_def exchange_code_response_def)
qed

lemma refresh_rotated_lookup:
  assumes "refresh_tokens_violation (d\<lparr>refresh_tokens := consume_generation now i (refresh_tokens d)\<rparr>)
      (replacement_row family presented minted) = None" "now = ri_Now input" "i = gen_ID presented"
  shows "GetRefreshTokenByHash (rm_ReplacementTokenHash minted) (refresh_rotated input family presented grant scopes minted events d) =
     Some (replacement_row family presented minted)"
  using unique_among_select[OF refresh_tokens_violation_unique[OF assms(1)]] assms(2,3)
  by (simp add: GetRefreshTokenByHash_def refresh_rotated_def table_simps replacement_row_def)

lemma code_principals_ids:
  assumes "code_principals d input codeRow (user, client, scopes, grant)"
  shows "code_UserID codeRow = usr_ID user" "code_ClientID codeRow = cl_ID client"
proof -
  obtain row where u: "LockUserByID (code_UserID codeRow) d = Some user"
    and c: "LockOIDCClientByID (code_ClientID codeRow) d = Some row" "client = client_value d row"
    using assms unfolding code_principals_def by (auto simp only: prod.case map_option_eq_Some)
  show "code_UserID codeRow = usr_ID user" "code_ClientID codeRow = cl_ID client"
    using lock_by_id(1)[OF u] lock_by_id(2)[OF c(1)] c(2) by simp_all
qed

section \<open>Evaluation on the sample installation\<close>

lemma sample_NewService:
  "token_NewService sample_url_Parse ''https://id'' (5 * Minute) (5 * Minute) 0 (lifetime_options [(Hour, 24 * Hour)]) = Inr sample_service"
  by (simp add: token_NewService_def issuer_is_origin_def sample_url_Parse_def IsAbs_def HasPrefix_def lifetime_options_def WithRefreshLifetimes_def RefreshDeadlines_def IsZero_def
      maxRefreshRolling_def maxRefreshAbsolute_def duration_defs sample_service_def Let_def)

lemma sample_libraries: "libraries_ok sample_env"
  by (simp add: libraries_ok_def sample_env_def)

lemma sample_active_client: "activeClient sample_client"
  by (simp add: activeClient_def sample_client_def)

lemma sample_draws:
  "newJTI (replicate 16 CHR ''a'' @ rest) = Some (sample_jti, rest)"
  "NewRandomFromReader (te_uuid sample_env) (replicate 16 CHR ''i'' @ rest) = Some (22, rest)"
  "GenerateRefreshToken (replicate 32 CHR ''b'' @ rest) =
     Some ((sample_refresh_token, HashRefreshToken sample_refresh_token), rest)"
  by (simp_all add: newJTI_def io_ReadFull_def jtiPrefix_def sample_jti_def NewRandomFromReader_def sample_env_def
      GenerateRefreshToken_cases sample_refresh_token_def Let_def)

lemma sample_draw_last: "NewRandomFromReader (te_uuid sample_env) (replicate 16 CHR ''i'') = Some (22, [])"
  using sample_draws(2)[of "[]"] by simp

lemma sample_two_ids: "replicate 32 CHR ''i'' = replicate 16 CHR ''i'' @ replicate 16 CHR ''i''"
  by (simp flip: replicate_add)

lemma sample_signs:
  "te_Sign sample_env (te_marshalID sample_env claims) typ = Some ''at''"
  "te_Sign sample_env (te_marshalAccess sample_env
     (access_claims sample_service sample_user sample_client sample_scopes sample_now sample_jti)) typ = Some ''e.f.g''"
  "''offline_access'' \<in> set sample_scopes"
  by (simp_all add: sample_env_def sample_scopes_def sample_claims_def)

lemma sample_mint:
  "mint sample_env sample_service sample_code_random
     (code_authority sample_exchange sample_code sample_user sample_client sample_scopes sample_grant) = Inr sample_minted"
proof -
  let ?au = "code_authority sample_exchange sample_code sample_user sample_client sample_scopes sample_grant"
  have au: "au_Scopes ?au = sample_scopes" "au_CodeID ?au = 6" "au_GrantID ?au = 5" "usr_ID sample_user = 1"
    "usr_Status sample_user = ''active''" "au_User ?au = sample_user" "au_Client ?au = sample_client" "au_IssuedAt ?au = sample_now"
    "au_AuthenticatedAt ?au = sample_now - Minute" "\<not> IsZero (sample_now - Minute)" "\<not> Minute < 0"
    "au_OriginSessionID ?au = Some 3" "au_SessionBindingID ?au = Some 30"
    by (simp_all add: code_authority_def sample_rows sample_inputs IsZero_def sample_now_def duration_defs)
  have sub: "scope_subset sample_scopes (cl_Scopes sample_client)" by (simp add: scope_subset_iff)
  have initial: "mint_initial sample_env sample_service ?au (replicate 32 CHR ''b'' @ replicate 32 CHR ''i'') = Inr sample_initial"
    unfolding mint_initial_def sample_draws
    by (simp add: au sample_draws sample_two_ids sample_draw_last)
      (simp add: RefreshDeadlines_def IsZero_def Let_def sample_initial_def sample_service_def sample_now_def duration_defs
        maxRefreshRolling_def maxRefreshAbsolute_def)
  show ?thesis
    using sub sample_active_client unfolding mint_def sample_code_random_def
    by (simp add: au sample_scopes_canonical sample_draws initial sample_signs)
      (simp add: sample_minted_def sample_service_def)
qed

lemma sample_mintRefresh:
  "mintRefresh sample_env sample_service sample_refresh_random
     \<lparr>ra_Presented = sample_generation, ra_Family = sample_family, ra_Grant = sample_grant, ra_User = sample_user,
      ra_Client = sample_client, ra_AccessScopes = sample_scopes, ra_IssuedAt = sample_now\<rparr> = Inr sample_refresh_minted"
proof -
  have ids: "fam_ID sample_family = 7" "usr_ID sample_user = 1" "cl_ID sample_client = 2" "grant_ID sample_grant = 5"
    "fam_ConsentGrantID sample_family = 5" "fam_RevokedAt sample_family = None" "\<not> IsZero sample_now"
    by (simp_all add: sample_rows IsZero_def sample_now_def duration_defs)
  have expiry: "ReplacementRefreshExpiry sample_now (ts_refreshTokenTTL sample_service) (fam_AbsoluteExpiresAt sample_family) =
      Inr (sample_now + Hour)"
    by (simp add: ReplacementRefreshExpiry_def Let_def IsZero_def sample_service_def sample_family_def sample_now_def
        duration_defs maxRefreshRolling_def)
  show ?thesis
    using sample_active_client unfolding mintRefresh_def sample_refresh_random_def
    by (simp add: ids sample_scopes_canonical sample_draws sample_draw_last sample_signs expiry scope_subset_iff)
      (simp add: sample_refresh_minted_def sample_service_def)
qed

lemma sample_exchange_call:
  "\<exists>d'. Exchange (quiet sample_ids) sample_env sample_service (\<lambda>_. sample_code_random) sample_exchange sample_db =
     (Inr (exchange_code_response sample_minted sample_scopes), d')"
proof -
  have "ValidateVerifier (xi_CodeVerifier sample_exchange)" "activeClient (xi_Client sample_exchange)"
    using sample_verifies sample_active_client by (auto simp: VerifyS256_def sample_exchange_def split: if_splits)
  moreover have "\<exists>d'. ExchangeAuthorizationCode (quiet sample_ids) sample_exchange
      (\<lambda>_. mint sample_env sample_service sample_code_random) sample_db = (Inr (exchange_code_response sample_minted sample_scopes), d')"
    using sample_presented sample_principals sample_enabled sample_valid_minted sample_guards sample_mint
    by (intro ExchangeAuthorizationCode_ok) (simp_all add: sample_scopes_def)
  ultimately show ?thesis using sample_guards by (simp add: Exchange_def)
qed

lemma sample_refresh_call:
  "\<exists>d'. Refresh (quiet sample_ids) (\<lambda>_. (sample_db, None)) sample_env sample_service (\<lambda>_. sample_refresh_random)
      sample_refresh sample_db = (Inr (exchange_refresh_response sample_refresh_minted sample_scopes), d')"
proof -
  have "\<exists>d'. ExchangeRefreshToken (quiet sample_ids) (\<lambda>_. (sample_db, None)) sample_refresh
      (\<lambda>_. mintRefresh sample_env sample_service sample_refresh_random) sample_db =
      (Inr (exchange_refresh_response sample_refresh_minted sample_scopes), d')"
    using sample_refresh_principals sample_refresh_enabled sample_valid_refresh_minted
    by (intro ExchangeRefreshToken_ok[where grant = sample_grant and clientValue = sample_client and family = sample_family
          and presented = sample_generation and userRow = sample_user])
      (simp_all add: sample_refresh_scopes sample_reuse_lookup sha256_Size_def sample_mintRefresh)
  moreover have "activeClient (ri_Client sample_refresh)"
    using sample_active_client by (simp add: sample_refresh_def)
  ultimately show ?thesis by (simp add: Refresh_def sha256_Size_def)
qed

section \<open>Properties\<close>

text \<open>
  C17 (type). A service that \<^verbatim>\<open>NewService\<close> constructs, with any refresh lifetimes it accepts,
  mints tokens that pass the checks of the storage layer: digest and clear token agree, the
  identifiers are set, a refresh token is minted exactly for an offline request, and every
  deadline is within the bounds of the schema. The branch that refuses a minted value is
  therefore never taken, unless a replacement identifier repeats the presented one or the
  generation counter is exhausted.
\<close>

theorem minted_tokens_accepted:
  assumes "token_NewService url_Parse issuer idTTL accessTTL skew (lifetime_options ls) = Inr svc"
    and "libraries_ok tenv"
  shows "(mint tenv svc random au = Inr minted \<longrightarrow>
      (\<exists>scopes. CanonicalScopes (au_Scopes au) = Some scopes \<and>
        validMintedTokens minted (au_IssuedAt au) (''offline_access'' \<in> set scopes))) \<and>
    (mintRefresh tenv svc random ra = Inr rminted \<longrightarrow>
      rm_ReplacementTokenID rminted \<noteq> gen_ID (ra_Presented ra) \<longrightarrow> gen_Generation (ra_Presented ra) \<noteq> MaxInt64 \<longrightarrow>
      validRefreshMinted rminted (ra_Presented ra) (ra_Family ra) (ra_IssuedAt ra))"
proof -
  note svc = token_NewService_ok[OF assms(1)]
  have "\<exists>scopes. CanonicalScopes (au_Scopes au) = Some scopes \<and>
      validMintedTokens minted (au_IssuedAt au) (''offline_access'' \<in> set scopes)"
    if "mint tenv svc random au = Inr minted"
  proof (rule mint_Inr[OF assms(2) svc that])
    fix scopes assume out: "mint_outcome tenv svc au scopes minted"
    then have "CanonicalScopes (au_Scopes au) = Some scopes" by (simp add: mint_outcome_def)
    with mint_outcome_valid[OF assms(2) svc out] show ?thesis by blast
  qed
  moreover have "validRefreshMinted rminted (ra_Presented ra) (ra_Family ra) (ra_IssuedAt ra)"
    if "mintRefresh tenv svc random ra = Inr rminted" "rm_ReplacementTokenID rminted \<noteq> gen_ID (ra_Presented ra)"
      "gen_Generation (ra_Presented ra) \<noteq> MaxInt64"
    using mintRefresh_Inr[OF assms(2) that(1)] mintRefresh_outcome_valid[OF assms(2) svc] that(2,3) by metis
  ultimately show ?thesis by blast
qed

theorem minted_tokens_accepted_witness:
  "token_NewService sample_url_Parse ''https://id'' (5 * Minute) (5 * Minute) 0 (lifetime_options [(Hour, 24 * Hour)]) = Inr sample_service \<and>
   mint sample_env sample_service sample_code_random
     (code_authority sample_exchange sample_code sample_user sample_client sample_scopes sample_grant) = Inr sample_minted \<and>
   (\<exists>offline. validMintedTokens sample_minted sample_now offline)"
  using minted_tokens_accepted[OF sample_NewService sample_libraries, of sample_code_random
      "code_authority sample_exchange sample_code sample_user sample_client sample_scopes sample_grant" sample_minted]
    sample_mint sample_NewService
  by (auto simp: code_authority_def)



text \<open>
  C19 (functional). The tokens a successful refresh returns attest what it stored: the access
  token is the signature over the claims of the family's user and client and the narrowed
  scopes, its identifier's digest is in the new access row, and looking up the returned
  refresh token finds the unconsumed successor generation of the same family.
\<close>

theorem refresh_tokens_attest:
  assumes "token_NewService url_Parse issuer idTTL accessTTL skew (lifetime_options ls) = Inr svc" "libraries_ok tenv"
    and "Refresh env pool tenv svc random input d = (Inr r, d')"
  shows "\<exists>user client grant family presented scopes a h g.
    refresh_principals_ok d input (user, client, grant, family, presented) \<and>
    a \<in> set (access_tokens d') \<and> acc_UserID a = fam_UserID family \<and> acc_ClientID a = fam_ClientID family \<and>
    acc_RefreshFamilyID a = Some (fam_ID family) \<and> acc_Scopes a = scopes \<and>
    acc_ExpiresAt a = ri_Now input + ts_accessTokenTTL svc \<and>
    access_attested tenv svc user client scopes (ri_Now input) (acc_JtiHash a) (rs_AccessToken r) \<and>
    DigestPresentedRefreshToken (rs_RefreshToken r) = Some h \<and> GetRefreshTokenByHash h d' = Some g \<and>
    gen_FamilyID g = fam_ID family \<and> gen_Generation g = gen_Generation presented + 1 \<and> gen_ConsumedAt g = None"
proof -
  have "ExchangeRefreshToken env pool input (\<lambda>n. mintRefresh tenv svc (random n)) d = (Inr r, d')"
    using assms(3) by (auto simp: Refresh_def split: if_splits)
  then obtain n user client grant family presented where
    principals: "refresh_principals_ok d input (user, client, grant, family, presented)"
    and issued: "refresh_issued (mintRefresh tenv svc (random n)) input (user, client, grant, family, presented) d r d'"
    by (rule ExchangeRefreshToken_Inr) (metis prod.exhaust)
  let ?ra = "\<lambda>scopes. \<lparr>ra_Presented = presented, ra_Family = family, ra_Grant = grant, ra_User = user,
          ra_Client = client, ra_AccessScopes = scopes, ra_IssuedAt = ri_Now input\<rparr>"
  obtain scopes minted events where sel: "SelectRefreshAccessScopes (ri_RequestedScopes input) (fam_Scopes family)
        (grant_Scopes grant) (cl_Scopes client) = Inr scopes"
    and run: "mintRefresh tenv svc (random n) (?ra scopes) = Inr minted"
    and ok: "refresh_tokens_violation (d\<lparr>refresh_tokens := consume_generation (ri_Now input) (gen_ID presented)
          (refresh_tokens d)\<rparr>) (replacement_row family presented minted) = None"
    and r: "r = exchange_refresh_response minted scopes"
    and d': "d' = refresh_rotated input family presented grant scopes minted events d"
    using issued by (auto simp: refresh_issued_def)
  obtain scopes' where out: "mintRefresh_outcome tenv svc (?ra scopes) scopes' minted"
    by (rule mintRefresh_Inr[OF assms(2) run])
  have same: "scopes' = scopes"
    using out CanonicalScopes_fixed[OF SelectRefreshAccessScopes_Inr(1)[OF sel]] by (simp add: mintRefresh_outcome_def)
  define a where "a = refresh_access_row family presented grant scopes minted"
  have row: "a \<in> set (access_tokens d')" "acc_UserID a = fam_UserID family" "acc_ClientID a = fam_ClientID family"
    "acc_RefreshFamilyID a = Some (fam_ID family)" "acc_Scopes a = scopes"
    by (simp_all add: a_def d' refresh_rotated_def table_simps refresh_access_row_def)
  have minted: "acc_ExpiresAt a = ri_Now input + ts_accessTokenTTL svc"
    "access_attested tenv svc user client scopes (ri_Now input) (acc_JtiHash a) (rs_AccessToken r)"
    "DigestPresentedRefreshToken (rs_RefreshToken r) = Some (rm_ReplacementTokenHash minted)"
    using out by (simp_all add: a_def mintRefresh_outcome_def refresh_access_row_def r exchange_refresh_response_def same)
  have "GetRefreshTokenByHash (rm_ReplacementTokenHash minted) d' = Some (replacement_row family presented minted)"
    unfolding d' by (rule refresh_rotated_lookup[OF ok]) simp_all
  moreover have "gen_FamilyID (replacement_row family presented minted) = fam_ID family"
    "gen_Generation (replacement_row family presented minted) = gen_Generation presented + 1"
    "gen_ConsumedAt (replacement_row family presented minted) = None" by (simp_all add: replacement_row_def)
  ultimately show ?thesis using principals row minted by blast
qed

theorem refresh_tokens_attest_witness:
  "\<exists>r d' h. Refresh (quiet sample_ids) (\<lambda>_. (sample_db, None)) sample_env sample_service (\<lambda>_. sample_refresh_random)
      sample_refresh sample_db = (Inr r, d') \<and>
     DigestPresentedRefreshToken (rs_RefreshToken r) = Some h \<and> GetRefreshTokenByHash h d' \<noteq> None"
proof -
  obtain r d' where run: "Refresh (quiet sample_ids) (\<lambda>_. (sample_db, None)) sample_env sample_service
      (\<lambda>_. sample_refresh_random) sample_refresh sample_db = (Inr r, d')"
    using sample_refresh_call by blast
  from refresh_tokens_attest[OF sample_NewService sample_libraries this] run show ?thesis
    by (metis option.distinct(1))
qed

end
