(* ===== verification/Token_Revocation.thy ===== *)
theory Token_Revocation
  imports Token_Endpoint
begin

text \<open>
  Token revocation and the authority snapshots of \<^verbatim>\<open>internal/storage/postgres/token.go\<close>:
  \<^verbatim>\<open>RevokeToken\<close> finds a candidate on the pool and revokes it in a transaction that locks and
  re-validates user, client, grant and family; a candidate that is unknown, inactive or
  owned by another client changes nothing and is answered like a success.
  \<^verbatim>\<open>GetAccessTokenAuthority\<close> and \<^verbatim>\<open>GetRefreshTokenAuthority\<close> are the read-only transactions
  behind UserInfo and introspection.
\<close>

section \<open>Structs\<close>

text \<open>An absent digest is the empty string.\<close>

record RevocationLookup =
  rl_Client :: Client
  rl_AccessJTIHash :: string
  rl_RefreshTokenHash :: string
  rl_RequestID :: string
  rl_Now :: time

record AccessAuthority =
  aa_Metadata :: AccessToken
  aa_Grant :: ConsentGrant
  aa_User :: User
  aa_Client :: Client
  aa_Family :: "RefreshTokenFamily option"

record RefreshTokenAuthority =
  rta_Generation :: RefreshToken
  rta_Family :: RefreshTokenFamily
  rta_Grant :: ConsentGrant
  rta_User :: User
  rta_Client :: Client

definition validLifecycleHash :: "string \<Rightarrow> bool" where
  "validLifecycleHash value \<longleftrightarrow> length value = sha256_Size"

section \<open>Revoking an access token\<close>

text \<open>The check on the refresh family of an access token that has one.\<close>

definition revoke_access_family :: "RevocationLookup \<Rightarrow> AccessToken \<Rightarrow> bool dbtx" where
  "revoke_access_family lookup candidate =
     (case acc_RefreshFamilyID candidate of
        None \<Rightarrow> treturn True
      | Some fid \<Rightarrow>
        tbind (read_query ''lock access revocation family'' (LockRefreshTokenFamilyByID fid)) (\<lambda>familyRow.
        case familyRow of
          None \<Rightarrow> treturn False
        | Some family \<Rightarrow>
          treturn (\<not> (fam_RevokedAt family \<noteq> None \<or> \<not> rl_Now lookup < fam_AbsoluteExpiresAt family \<or>
             fam_UserID family \<noteq> acc_UserID candidate \<or> fam_ClientID family \<noteq> acc_ClientID candidate \<or>
             fam_ConsentGrantID family \<noteq> acc_ConsentGrantID candidate \<or>
             Difference (acc_Scopes candidate) (fam_Scopes family) \<noteq> []))))"

text \<open>The locked token is revoked and the revocation audited.\<close>

definition revoke_access_row :: "RevocationLookup \<Rightarrow> AccessToken \<Rightarrow> unit dbtx" where
  "revoke_access_row lookup candidate =
     tbind (read_query ''lock access revocation token'' (LockAccessTokenByID (acc_ID candidate))) (\<lambda>locked.
     case locked of
       None \<Rightarrow> treturn ()
     | Some metadata \<Rightarrow>
     if acc_ClientID metadata \<noteq> cl_ID (rl_Client lookup) \<or> acc_RevokedAt metadata \<noteq> None \<or>
        \<not> rl_Now lookup < acc_ExpiresAt metadata \<or> acc_JtiHash metadata \<noteq> rl_AccessJTIHash lookup
     then treturn () else
     tbind (exec_query ''revoke access token''
              (RevokeAccessToken (rl_Now lookup) (Some ''client_revocation'') (acc_ID metadata))) (\<lambda>revoked.
     case revoked of
       None \<Rightarrow> tfail (wrapError ''revoke access token'' ErrorKindQuery (OtherError ''no rows in result set''))
     | Some _ \<Rightarrow>
     tbind (insertProtocolAudit ''access_token_revoked'' ''success'' (acc_UserID metadata) ''access_token''
              (acc_ID metadata) (rl_RequestID lookup) [''revoked''] (rl_Now lookup)) (\<lambda>_.
     treturn ())))"

definition revoke_access_tx :: "RevocationLookup \<Rightarrow> AccessToken \<Rightarrow> unit dbtx" where
  "revoke_access_tx lookup candidate =
     tbind (read_query ''lock access revocation user'' (LockUserByID (acc_UserID candidate))) (\<lambda>userRow.
     case userRow of
       None \<Rightarrow> treturn ()
     | Some userRow \<Rightarrow>
     if usr_Status userRow \<noteq> ''active'' then treturn () else
     tbind (read_query ''lock access revocation client'' (LockOIDCClientByID (acc_ClientID candidate))) (\<lambda>clientRow.
     case clientRow of
       None \<Rightarrow> treturn ()
     | Some clientRow \<Rightarrow>
     tbind (loadClientChildren (mapClient clientRow)) (\<lambda>clientValue.
     if \<not> sameAuthenticatedClient clientValue (rl_Client lookup) then treturn () else
     tbind (read_query ''lock access revocation grant''
              (LockConsentGrantByUserClient (acc_UserID candidate) (acc_ClientID candidate))) (\<lambda>grantRow.
     case grantRow of
       None \<Rightarrow> treturn ()
     | Some grant \<Rightarrow>
     if grant_ID grant \<noteq> acc_ConsentGrantID candidate \<or> grant_RevokedAt grant \<noteq> None \<or>
        Difference (acc_Scopes candidate) (Intersection (grant_Scopes grant) (cl_Scopes clientValue)) \<noteq> []
     then treturn () else
     tbind (revoke_access_family lookup candidate) (\<lambda>live.
     if \<not> live then treturn () else revoke_access_row lookup candidate)))))"

definition revokeAccessCandidate ::
  "(nat \<Rightarrow> attempt) \<Rightarrow> RevocationLookup \<Rightarrow> AccessToken \<Rightarrow> db \<Rightarrow> (go_error + unit) \<times> db" where
  "revokeAccessCandidate env lookup candidate d = inTx env (\<lambda>_. revoke_access_tx lookup candidate) d"

section \<open>Revoking a refresh token\<close>

text \<open>The family of the presented generation and its live access tokens are revoked.\<close>

definition revoke_family_rows :: "RevocationLookup \<Rightarrow> RefreshTokenFamily \<Rightarrow> unit dbtx" where
  "revoke_family_rows lookup family =
     tbind (exec_query ''revoke refresh token family by client''
              (RevokeRefreshTokenFamily (rl_Now lookup) (Some ''client_revocation'') (fam_ID family))) (\<lambda>revoked.
     case revoked of
       None \<Rightarrow> tfail (wrapError ''revoke refresh token family by client'' ErrorKindQuery (OtherError ''no rows in result set''))
     | Some _ \<Rightarrow>
     tbind (exec_query ''revoke family access tokens by client''
              (RevokeLiveAccessTokensByFamily (rl_Now lookup) (fam_ID family))) (\<lambda>_.
     tbind (insertProtocolAudit ''refresh_token_family_revoked'' ''success'' (fam_UserID family) ''refresh_token_family''
              (fam_ID family) (rl_RequestID lookup) [''revoked''] (rl_Now lookup)) (\<lambda>_.
     treturn ())))"

definition revoke_refresh_generation ::
  "RevocationLookup \<Rightarrow> RefreshToken \<Rightarrow> User \<Rightarrow> Client \<Rightarrow> ConsentGrant \<Rightarrow> unit dbtx" where
  "revoke_refresh_generation lookup candidate userRow clientValue grant =
     tbind (read_query ''lock refresh revocation family'' (LockRefreshTokenFamilyByID (gen_FamilyID candidate))) (\<lambda>familyRow.
     case familyRow of
       None \<Rightarrow> treturn ()
     | Some family \<Rightarrow>
     if fam_RevokedAt family \<noteq> None \<or> \<not> rl_Now lookup < fam_AbsoluteExpiresAt family \<or>
        fam_UserID family \<noteq> usr_ID userRow \<or> fam_ClientID family \<noteq> cl_ID clientValue \<or>
        fam_ConsentGrantID family \<noteq> grant_ID grant
     then treturn () else
     tbind (read_query ''lock refresh revocation generation'' (LockRefreshTokenByID (gen_ID candidate))) (\<lambda>presentedRow.
     case presentedRow of
       None \<Rightarrow> treturn ()
     | Some presented \<Rightarrow>
     if gen_FamilyID presented \<noteq> fam_ID family \<or> gen_TokenHash presented \<noteq> rl_RefreshTokenHash lookup
     then treturn () else revoke_family_rows lookup family))"

definition revoke_refresh_tx :: "RevocationLookup \<Rightarrow> RefreshToken \<Rightarrow> RefreshTokenFamily \<Rightarrow> unit dbtx" where
  "revoke_refresh_tx lookup candidate candidateFamily =
     tbind (read_query ''lock refresh revocation user'' (LockUserByID (fam_UserID candidateFamily))) (\<lambda>userRow.
     case userRow of
       None \<Rightarrow> treturn ()
     | Some userRow \<Rightarrow>
     if usr_Status userRow \<noteq> ''active'' then treturn () else
     tbind (read_query ''lock refresh revocation client'' (LockOIDCClientByID (fam_ClientID candidateFamily))) (\<lambda>clientRow.
     case clientRow of
       None \<Rightarrow> treturn ()
     | Some clientRow \<Rightarrow>
     tbind (loadClientChildren (mapClient clientRow)) (\<lambda>clientValue.
     if \<not> sameAuthenticatedClient clientValue (rl_Client lookup) then treturn () else
     tbind (read_query ''lock refresh revocation grant''
              (LockConsentGrantByUserClient (fam_UserID candidateFamily) (fam_ClientID candidateFamily))) (\<lambda>grantRow.
     case grantRow of
       None \<Rightarrow> treturn ()
     | Some grant \<Rightarrow>
     if grant_ID grant \<noteq> fam_ConsentGrantID candidateFamily \<or> grant_RevokedAt grant \<noteq> None
     then treturn ()
     else revoke_refresh_generation lookup candidate userRow clientValue grant))))"

definition revokeRefreshCandidate ::
  "(nat \<Rightarrow> attempt) \<Rightarrow> db \<times> pg_error option \<Rightarrow> RevocationLookup \<Rightarrow> RefreshToken \<Rightarrow> db \<Rightarrow> (go_error + unit) \<times> db" where
  "revokeRefreshCandidate env view lookup candidate d =
     (case pool_read view ''find refresh revocation family'' (GetRefreshTokenFamilyByID (gen_FamilyID candidate)) of
        Inl err \<Rightarrow> (Inl err, d)
      | Inr None \<Rightarrow> (Inr (), d)
      | Inr (Some candidateFamily) \<Rightarrow> inTx env (\<lambda>_. revoke_refresh_tx lookup candidate candidateFamily) d)"

text \<open>\<^verbatim>\<open>Store.RevokeToken\<close>; the pool reads see \<open>pool 0\<close>, \<open>pool 1\<close> and \<open>pool 2\<close>.\<close>

definition RevokeToken ::
  "(nat \<Rightarrow> attempt) \<Rightarrow> (nat \<Rightarrow> db \<times> pg_error option) \<Rightarrow> RevocationLookup \<Rightarrow> db \<Rightarrow> (go_error + unit) \<times> db" where
  "RevokeToken env pool lookup d =
     (if cl_ID (rl_Client lookup) = uuid_Nil \<or> IsZero (rl_Now lookup) then (Inr (), d)
      else
        case (if validLifecycleHash (rl_AccessJTIHash lookup)
              then pool_read (pool 0) ''find access revocation candidate'' (GetAccessTokenByJTIHash (rl_AccessJTIHash lookup))
              else Inr None) of
          Inl err \<Rightarrow> (Inl err, d)
        | Inr (Some candidate) \<Rightarrow> revokeAccessCandidate env lookup candidate d
        | Inr None \<Rightarrow>
          (case (if validLifecycleHash (rl_RefreshTokenHash lookup)
                 then pool_read (pool 1) ''find refresh revocation candidate'' (GetRefreshTokenByHash (rl_RefreshTokenHash lookup))
                 else Inr None) of
             Inl err \<Rightarrow> (Inl err, d)
           | Inr (Some candidate) \<Rightarrow> revokeRefreshCandidate env (pool 2) lookup candidate d
           | Inr None \<Rightarrow> (Inr (), d)))"

section \<open>Authority snapshots\<close>

definition client_not_found_as :: "go_error \<Rightarrow> go_error \<Rightarrow> go_error" where
  "client_not_found_as replacement err = (if errors_Is err Client_ErrNotFound then replacement else err)"

definition access_authority_family :: "AccessToken \<Rightarrow> RefreshTokenFamily option dbtx" where
  "access_authority_family metadata =
     (case acc_RefreshFamilyID metadata of
        None \<Rightarrow> treturn None
      | Some fid \<Rightarrow>
        tbind (read_query ''get access token refresh family'' (GetRefreshTokenFamilyByID fid)) (\<lambda>familyRow.
        case familyRow of None \<Rightarrow> tfail Token_ErrInvalidToken | Some family \<Rightarrow> treturn (Some family)))"

definition access_authority_tx :: "string \<Rightarrow> time \<Rightarrow> AccessAuthority dbtx" where
  "access_authority_tx jtiHash now =
     tbind (read_query ''get access token metadata'' (GetAccessTokenByJTIHash jtiHash)) (\<lambda>row.
     case row of
       None \<Rightarrow> tfail Token_ErrInvalidToken
     | Some metadata \<Rightarrow>
     if \<not> now < acc_ExpiresAt metadata \<or> acc_JtiHash metadata \<noteq> jtiHash then tfail Token_ErrInvalidToken else
     tbind (read_query ''get access token user'' (GetUserByID (acc_UserID metadata))) (\<lambda>userRow.
     case userRow of
       None \<Rightarrow> tfail Token_ErrInvalidToken
     | Some user \<Rightarrow>
     if usr_Status user \<noteq> ''active'' then tfail Token_ErrInvalidToken else
     tbind (tmap_error (client_not_found_as Token_ErrInvalidToken) (loadClient (acc_ClientID metadata))) (\<lambda>clientValue.
     if cl_Status clientValue \<noteq> ''active'' then tfail Token_ErrInvalidToken else
     tbind (read_query ''get access token consent grant''
              (GetConsentGrantByUserClient (acc_UserID metadata) (acc_ClientID metadata))) (\<lambda>grantRow.
     case grantRow of
       None \<Rightarrow> tfail Token_ErrInvalidToken
     | Some grant \<Rightarrow>
     if grant_ID grant \<noteq> acc_ConsentGrantID metadata then tfail Token_ErrInvalidToken else
     tbind (access_authority_family metadata) (\<lambda>family.
     treturn \<lparr>aa_Metadata = metadata, aa_Grant = grant, aa_User = user, aa_Client = clientValue, aa_Family = family\<rparr>)))))"

definition GetAccessTokenAuthority ::
  "(nat \<Rightarrow> attempt) \<Rightarrow> string \<Rightarrow> time \<Rightarrow> db \<Rightarrow> (go_error + AccessAuthority) \<times> db" where
  "GetAccessTokenAuthority env jtiHash now d =
     (if length jtiHash \<noteq> sha256_Size \<or> IsZero now then (Inl Token_ErrInvalidToken, d)
      else inTx env (\<lambda>_. access_authority_tx jtiHash now) d)"

definition refresh_authority_tx :: "string \<Rightarrow> RefreshTokenAuthority dbtx" where
  "refresh_authority_tx hash =
     tbind (read_query ''get refresh token for introspection'' (GetRefreshTokenByHash hash)) (\<lambda>generationRow.
     case generationRow of
       None \<Rightarrow> tfail Token_ErrInvalidGrant
     | Some generation \<Rightarrow>
     tbind (read_query ''get refresh family for introspection'' (GetRefreshTokenFamilyByID (gen_FamilyID generation))) (\<lambda>familyRow.
     case familyRow of
       None \<Rightarrow> tfail Token_ErrInvalidGrant
     | Some family \<Rightarrow>
     tbind (read_query ''get refresh user for introspection'' (GetUserByID (fam_UserID family))) (\<lambda>userRow.
     case userRow of
       None \<Rightarrow> tfail Token_ErrInvalidGrant
     | Some user \<Rightarrow>
     tbind (tmap_error (client_not_found_as Token_ErrInvalidGrant) (loadClient (fam_ClientID family))) (\<lambda>clientValue.
     tbind (read_query ''get refresh grant for introspection''
              (GetConsentGrantByUserClient (fam_UserID family) (fam_ClientID family))) (\<lambda>grantRow.
     case grantRow of
       None \<Rightarrow> tfail Token_ErrInvalidGrant
     | Some grant \<Rightarrow>
     if grant_ID grant \<noteq> fam_ConsentGrantID family then tfail Token_ErrInvalidGrant
     else treturn \<lparr>rta_Generation = generation, rta_Family = family, rta_Grant = grant, rta_User = user,
            rta_Client = clientValue\<rparr>)))))"

definition GetRefreshTokenAuthority :: "(nat \<Rightarrow> attempt) \<Rightarrow> string \<Rightarrow> db \<Rightarrow> (go_error + RefreshTokenAuthority) \<times> db" where
  "GetRefreshTokenAuthority env hash d =
     (if \<not> validLifecycleHash hash then (Inl Token_ErrInvalidGrant, d)
      else inTx env (\<lambda>_. refresh_authority_tx hash) d)"

section \<open>Successful runs\<close>

text \<open>What a revocation by the client changes, and on whose behalf.\<close>

definition access_token_revoked :: "RevocationLookup \<Rightarrow> db \<Rightarrow> db \<Rightarrow> bool" where
  "access_token_revoked lookup d d' \<longleftrightarrow>
     (\<exists>i a row. LockAccessTokenByID i d = Some a \<and> acc_ClientID a = cl_ID (rl_Client lookup) \<and>
       acc_JtiHash a = rl_AccessJTIHash lookup \<and> acc_RevokedAt a = None \<and> rl_Now lookup < acc_ExpiresAt a \<and>
       audit_appended ''access_token_revoked'' ''success'' (acc_UserID a) ''access_token'' (acc_ID a) (rl_Now lookup) row \<and>
       d' = d\<lparr>access_tokens := revoke_access_id (rl_Now lookup) (Some ''client_revocation'') (acc_ID a) (access_tokens d),
              audit_events := audit_events d @ [row]\<rparr>)"

definition family_revoked_by :: "RevocationLookup \<Rightarrow> RefreshTokenFamily \<Rightarrow> AuditEvent \<Rightarrow> db \<Rightarrow> db" where
  "family_revoked_by lookup family row d = d\<lparr>
     refresh_token_families := mark_families (\<lambda>f. fam_ID f = fam_ID family) (rl_Now lookup) (Some ''client_revocation'')
       (refresh_token_families d),
     access_tokens := mark_access (\<lambda>a. acc_RefreshFamilyID a = Some (fam_ID family)) (rl_Now lookup)
       (Some ''family_revoked'') (access_tokens d),
     audit_events := audit_events d @ [row]\<rparr>"

definition refresh_family_revoked :: "RevocationLookup \<Rightarrow> db \<Rightarrow> db \<Rightarrow> bool" where
  "refresh_family_revoked lookup d d' \<longleftrightarrow>
     (\<exists>i f j g row. LockRefreshTokenFamilyByID i d = Some f \<and> LockRefreshTokenByID j d = Some g \<and>
       gen_FamilyID g = fam_ID f \<and>
       gen_TokenHash g = rl_RefreshTokenHash lookup \<and> fam_ClientID f = cl_ID (rl_Client lookup) \<and>
       fam_RevokedAt f = None \<and> rl_Now lookup < fam_AbsoluteExpiresAt f \<and>
       audit_appended ''refresh_token_family_revoked'' ''success'' (fam_UserID f) ''refresh_token_family'' (fam_ID f)
         (rl_Now lookup) row \<and>
       d' = family_revoked_by lookup f row d)"

lemma revoke_access_family_run [elim!]:
  assumes "tx_run (revoke_access_family lookup candidate) d live d'"
  obtains "d' = d"
  using assms unfolding revoke_access_family_def by (elim tx_elims) blast+

lemma revoke_access_row_run:
  assumes "tx_run (revoke_access_row lookup candidate) d u d'"
  shows "d' = d \<or> access_token_revoked lookup d d'"
proof -
  from assms consider "d' = d" | a r d1 row where "LockAccessTokenByID (acc_ID candidate) d = Some a"
    "\<not> (acc_ClientID a \<noteq> cl_ID (rl_Client lookup) \<or> acc_RevokedAt a \<noteq> None \<or>
        \<not> rl_Now lookup < acc_ExpiresAt a \<or> acc_JtiHash a \<noteq> rl_AccessJTIHash lookup)"
    "RevokeAccessToken (rl_Now lookup) (Some ''client_revocation'') (acc_ID a) d = Inr (r, d1)"
    "audit_appended ''access_token_revoked'' ''success'' (acc_UserID a) ''access_token'' (acc_ID a) (rl_Now lookup) row"
    "d' = d1\<lparr>audit_events := audit_events d1 @ [row]\<rparr>"
    unfolding revoke_access_row_def by (elim tx_elims insertProtocolAudit_run) metis+
  then show ?thesis
  proof cases
    case 2
    from RevokeAccessToken_Inr[OF 2(3)] 2(5)
    have "d' = d\<lparr>access_tokens := revoke_access_id (rl_Now lookup) (Some ''client_revocation'') (acc_ID a) (access_tokens d),
       audit_events := audit_events d @ [row]\<rparr>" by simp
    with 2(1,2,4) show ?thesis unfolding access_token_revoked_def by metis
  qed simp
qed

lemma revoke_access_tx_run:
  assumes "tx_run (revoke_access_tx lookup candidate) d u d'"
  shows "d' = d \<or> access_token_revoked lookup d d'"
  using assms unfolding revoke_access_tx_def
  by (elim tx_elims loadClientChildren_run revoke_access_family_run) (simp_all add: revoke_access_row_run)

lemma revoke_family_rows_run [elim!]:
  assumes "tx_run (revoke_family_rows lookup family) d u d'"
  obtains row where "audit_appended ''refresh_token_family_revoked'' ''success'' (fam_UserID family)
      ''refresh_token_family'' (fam_ID family) (rl_Now lookup) row" "d' = family_revoked_by lookup family row d"
  using assms unfolding revoke_family_rows_def
  by (elim tx_elims insertProtocolAudit_run)
    (auto simp: family_revoked_by_def bulk_revocation_defs dest!: RevokeRefreshTokenFamily_Inr revoke_live_access_Inr intro!: that)

lemma revoke_refresh_generation_run:
  assumes "tx_run (revoke_refresh_generation lookup candidate userRow clientValue grant) d u d'"
    and "cl_ID clientValue = cl_ID (rl_Client lookup)"
  shows "d' = d \<or> refresh_family_revoked lookup d d'"
proof -
  from assms(1) consider "d' = d" | f g row where "LockRefreshTokenFamilyByID (gen_FamilyID candidate) d = Some f"
    "\<not> (fam_RevokedAt f \<noteq> None \<or> \<not> rl_Now lookup < fam_AbsoluteExpiresAt f \<or> fam_UserID f \<noteq> usr_ID userRow \<or>
        fam_ClientID f \<noteq> cl_ID clientValue \<or> fam_ConsentGrantID f \<noteq> grant_ID grant)"
    "LockRefreshTokenByID (gen_ID candidate) d = Some g"
    "\<not> (gen_FamilyID g \<noteq> fam_ID f \<or> gen_TokenHash g \<noteq> rl_RefreshTokenHash lookup)"
    "audit_appended ''refresh_token_family_revoked'' ''success'' (fam_UserID f) ''refresh_token_family'' (fam_ID f)
       (rl_Now lookup) row" "d' = family_revoked_by lookup f row d"
    unfolding revoke_refresh_generation_def by (elim tx_elims revoke_family_rows_run) metis+
  then show ?thesis
  proof cases
    case 2
    then show ?thesis unfolding refresh_family_revoked_def assms(2)[symmetric] by metis
  qed simp
qed

lemma sameAuthenticatedClient_ID: "sameAuthenticatedClient c a \<Longrightarrow> cl_ID c = cl_ID a"
  by (simp add: sameAuthenticatedClient_def)

lemma revoke_refresh_tx_run:
  assumes "tx_run (revoke_refresh_tx lookup candidate candidateFamily) d u d'"
  shows "d' = d \<or> refresh_family_revoked lookup d d'"
  using assms unfolding revoke_refresh_tx_def
  by (elim tx_elims loadClientChildren_run) (metis revoke_refresh_generation_run sameAuthenticatedClient_ID)+

lemma RevokeToken_effect:
  assumes "RevokeToken env pool lookup d = (r, d')"
  shows "d' = d \<or> access_token_revoked lookup d d' \<or> refresh_family_revoked lookup d d'"
proof -
  have "d' = d \<or> (\<exists>c u. tx_run (revoke_access_tx lookup c) d u d') \<or> (\<exists>c f u. tx_run (revoke_refresh_tx lookup c f) d u d')"
    using assms inTx_effect[of env "\<lambda>_. revoke_access_tx lookup c" d for c]
      inTx_effect[of env "\<lambda>_. revoke_refresh_tx lookup c f" d for c f]
    unfolding RevokeToken_def revokeAccessCandidate_def revokeRefreshCandidate_def
    by (auto split: if_splits sum.splits option.splits) metis+
  then show ?thesis using revoke_access_tx_run revoke_refresh_tx_run by blast
qed

section \<open>Calls that complete\<close>

text \<open>The presented token, as the refresh input that would rotate it.\<close>

definition as_refresh :: "RevocationLookup \<Rightarrow> RefreshInput" where
  "as_refresh lookup = \<lparr>ri_TokenHash = rl_RefreshTokenHash lookup, ri_Client = rl_Client lookup,
     ri_RequestedScopes = None, ri_RequestID = rl_RequestID lookup, ri_Now = rl_Now lookup\<rparr>"

lemma as_refresh_simps [simp]:
  "ri_TokenHash (as_refresh lookup) = rl_RefreshTokenHash lookup" "ri_Client (as_refresh lookup) = rl_Client lookup"
  "ri_Now (as_refresh lookup) = rl_Now lookup"
  by (simp_all add: as_refresh_def)

definition family_revocation_enabled :: "db txst \<Rightarrow> RevocationLookup \<Rightarrow> RefreshTokenFamily \<Rightarrow> bool" where
  "family_revocation_enabled st lookup family \<longleftrightarrow>
     families_predate (rl_Now lookup) (st_db st) \<and> access_predate (rl_Now lookup) (st_db st) \<and> fam_ID family \<noteq> uuid_Nil \<and>
     audit_ready 1 (fam_UserID family) (rl_RequestID lookup) (rl_Now lookup) st"

lemma revoke_family_rows_ok:
  assumes clean: "st_faults st = []" and stored: "family \<in> set (refresh_token_families (st_db st))" "fam_RevokedAt family = None"
    and enabled: "family_revocation_enabled st lookup family"
  shows "\<exists>st' row. revoke_family_rows lookup family st = Inr ((), st') \<and>
    st_db st' = family_revoked_by lookup family row (st_db st)"
proof -
  note en = enabled[unfolded family_revocation_enabled_def]
  let ?d1 = "(st_db st)\<lparr>refresh_token_families := mark_families (\<lambda>r. fam_ID r = fam_ID family) (rl_Now lookup)
    (Some ''client_revocation'') (refresh_token_families (st_db st))\<rparr>"
  let ?d2 = "?d1\<lparr>access_tokens := mark_access (\<lambda>a. acc_RefreshFamilyID a = Some (fam_ID family)) (rl_Now lookup)
    (Some ''family_revoked'') (access_tokens (st_db st))\<rparr>"
  obtain row where family: "RevokeRefreshTokenFamily (rl_Now lookup) (Some ''client_revocation'') (fam_ID family) (st_db st) =
      Inr (Some row, ?d1)"
    by (rule RevokeRefreshTokenFamily_ok[OF conjunct1[OF en] revoke_reasons(2) stored])
  obtain n where access: "RevokeLiveAccessTokensByFamily (rl_Now lookup) (fam_ID family) ?d1 = Inr (n, ?d2)"
    using revoke_live_access_ok[of "rl_Now lookup" ?d1 "''family_revoked''"] en
    by (simp add: RevokeLiveAccessTokensByFamily_def access_predate_def)
  have ready: "audit_ready (Suc 0) (fam_UserID family) (rl_RequestID lookup) (rl_Now lookup) (st\<lparr>st_db := ?d2\<rparr>)"
    using en by (simp add: audit_ready_def)
  have "\<exists>st'. tbind (insertProtocolAudit ''refresh_token_family_revoked'' ''success'' (fam_UserID family)
        ''refresh_token_family'' (fam_ID family) (rl_RequestID lookup) [''revoked''] (rl_Now lookup)) (\<lambda>_.
      treturn ()) (st\<lparr>st_db := ?d2\<rparr>) = Inr ((), st')"
    by (rule insertProtocolAudit_then[OF ready])
      (use en in \<open>simp_all add: audit_known_eval audit_unrecorded_def treturn_def\<close>)
  then obtain st' where run: "revoke_family_rows lookup family st = Inr ((), st')"
    using clean by (auto simp: revoke_family_rows_def tbind_exec_ok family access)
  then show ?thesis
    using tx_runI[of "revoke_family_rows lookup family", OF run] by (blast elim: revoke_family_rows_run)
qed

lemma revoke_refresh_tx_ok:
  assumes clean: "st_faults st = []"
    and principals: "refresh_principals_ok (st_db st) (as_refresh lookup) (userRow, clientValue, grant, family, presented)"
    and enabled: "family_revocation_enabled st lookup family"
  shows "\<exists>st' row. revoke_refresh_tx lookup presented family st = Inr ((), st') \<and>
    st_db st' = family_revoked_by lookup family row (st_db st)"
proof -
  note ok = principals[unfolded refresh_principals_ok_def prod.case]
  then obtain clientRow where client: "LockOIDCClientByID (fam_ClientID family) (st_db st) = Some clientRow"
    "client_value (st_db st) clientRow = clientValue" by auto
  have ids: "usr_ID userRow = fam_UserID family" "cl_ID clientValue = fam_ClientID family"
    using ok client lock_by_id(1)[of "fam_UserID family"] lock_by_id(2)[OF client(1)] by auto
  have fam: "LockRefreshTokenFamilyByID (fam_ID family) (st_db st) = Some family"
    using ok by (elim conjE) simp
  obtain st' row where rows: "revoke_family_rows lookup family st = Inr ((), st')"
    and "st_db st' = family_revoked_by lookup family row (st_db st)"
    using revoke_family_rows_ok[OF clean conjunct2[OF refresh_principals_stored[OF principals]] _ enabled] ok by metis
  moreover have "revoke_refresh_tx lookup presented family st = Inr ((), st')"
    unfolding revoke_refresh_tx_def revoke_refresh_generation_def
    using clean ok ids client fam rows by (simp add: tbind_ok read_query_ok loadClientChildren_ok)
  ultimately show ?thesis by blast
qed

lemma revoked_family_dead:
  assumes "fam_ID f = fam_ID family"
  shows "\<not> refresh_principals_ok (family_revoked_by lookup family row d) input (u, c, g, f, t)"
proof
  assume ok: "refresh_principals_ok (family_revoked_by lookup family row d) input (u, c, g, f, t)"
  then have "LockRefreshTokenFamilyByID (fam_ID family) (family_revoked_by lookup family row d) = Some f"
    "fam_RevokedAt f = None" using assms by (auto simp: refresh_principals_ok_def)
  then show False
    by (auto simp: family_revoked_by_def LockRefreshTokenFamilyByID_def select_one_mark_families
        unrevoked_family_def split: if_splits dest!: arg_cong[of _ _ fam_RevokedAt])
qed

section \<open>Evaluation on the sample installation\<close>

definition sample_lookup :: RevocationLookup where
  "sample_lookup = \<lparr>rl_Client = sample_client, rl_AccessJTIHash = [], rl_RefreshTokenHash = sample_presented_hash,
     rl_RequestID = [], rl_Now = sample_now\<rparr>"

lemma sample_lookup_simps [simp]:
  "rl_Client sample_lookup = sample_client" "rl_AccessJTIHash sample_lookup = []" "rl_RequestID sample_lookup = []"
  "rl_RefreshTokenHash sample_lookup = sample_presented_hash" "rl_Now sample_lookup = sample_now"
  by (simp_all add: sample_lookup_def)

lemma sample_as_refresh: "as_refresh sample_lookup = sample_refresh"
  by (simp add: as_refresh_def sample_refresh_def)

lemma sample_family_revocable: "family_revocation_enabled (start_tx (quiet sample_ids 0) sample_db) sample_lookup sample_family"
proof -
  have "refresh_token_families_check sample_family \<and> fam_CreatedAt sample_family \<le> sample_now"
    by (simp add: refresh_token_families_check_def sample_family_def row_eval sample_scopes_def)
  moreover have "audit_ready 1 1 [] sample_now (start_tx (quiet sample_ids 0) sample_db)"
    by (rule sample_audit_ready) simp_all
  ultimately show ?thesis
    by (simp add: family_revocation_enabled_def families_predate_def access_predate_def start_tx_def quiet_def)
      (simp add: sample_family_def)
qed

lemma sample_revocation:
  "\<exists>d'. RevokeToken (quiet sample_ids) (\<lambda>_. (sample_db, None)) sample_lookup sample_db = (Inr (), d') \<and> d' \<noteq> sample_db"
proof -
  let ?st = "start_tx (quiet sample_ids 0) sample_db"
  obtain st' row where run: "revoke_refresh_tx sample_lookup sample_generation sample_family ?st = Inr ((), st')"
    and d': "st_db st' = family_revoked_by sample_lookup sample_family row sample_db"
    using revoke_refresh_tx_ok[of ?st sample_lookup sample_user sample_client sample_grant sample_family sample_generation]
      sample_refresh_principals sample_family_revocable
    by (auto simp: sample_as_refresh start_tx_def quiet_def)
  have "st_db st' \<noteq> sample_db"
    by (auto simp: d' family_revoked_by_def dest: arg_cong[of _ _ audit_events])
  moreover have "cl_ID sample_client \<noteq> uuid_Nil" by (simp add: sample_client_def)
  ultimately show ?thesis
    using inTx_clean[of "quiet sample_ids" "\<lambda>_. revoke_refresh_tx sample_lookup sample_generation sample_family", OF _ run]
    by (simp add: RevokeToken_def revokeRefreshCandidate_def pool_read_def validLifecycleHash_def sha256_Size_def)
qed

section \<open>Properties\<close>

text \<open>
  C20 (safety). A revocation request can only affect what its authenticated client owns:
  whatever the candidate reads returned and whatever fails, the database afterwards is
  unchanged, or exactly one live access token of this client, the one with the presented
  identifier digest, is marked revoked, or exactly the live family of this client that the
  presented refresh token belongs to is marked revoked with its live access tokens; each
  time with one audit event, and nothing else changes.
\<close>

theorem revocation_confined_to_owner:
  assumes "RevokeToken env pool lookup d = (r, d')"
  shows "d' = d \<or> access_token_revoked lookup d d' \<or> refresh_family_revoked lookup d d'"
  using RevokeToken_effect[OF assms] .

theorem revocation_confined_to_owner_witness:
  "\<exists>d'. RevokeToken (quiet sample_ids) (\<lambda>_. (sample_db, None)) sample_lookup sample_db = (Inr (), d') \<and>
    refresh_family_revoked sample_lookup sample_db d'"
proof -
  obtain d' where run: "RevokeToken (quiet sample_ids) (\<lambda>_. (sample_db, None)) sample_lookup sample_db = (Inr (), d')"
    and changed: "d' \<noteq> sample_db" using sample_revocation by blast
  moreover have "\<not> access_token_revoked sample_lookup sample_db d'"
    by (auto simp: access_token_revoked_def LockAccessTokenByID_def select_one_def)
  ultimately show ?thesis using revocation_confined_to_owner[OF run] by blast
qed



end
