(* ===== verification/Pkce_Vector.thy ===== *)
theory Pkce_Vector
  imports Opaque_Tokens
begin

text \<open>
  The published test vector of RFC 7636, evaluated by the kernel: it ties the model of
  SHA-256 and base64 to the standards they implement.
\<close>

lemma replicate_unroll: "replicate (numeral k) x = x # replicate (pred_numeral k) x"
  by (simp add: numeral_eq_Suc)

lemma rfc7636_block:
  "sha256_blocks (sha256_words (sha256_pad ''dBjftJeZ4CVP-mB92K27uhbUJU1p1r_wW1gFWFOEjXk'')) =
     [[1682074214, 1951032666, 876828240, 762135097, 843788855, 1969775189, 1247097200, 829579127,
       1462855494, 1464225605, 1784179584, 0, 0, 0, 0, 344]]"
  by (simp add: sha256_pad_def Let_def sha256_blocks.simps replicate_unroll)

lemma rfc7636_digest:
  "sha256_compress sha256_H0
     [1682074214, 1951032666, 876828240, 762135097, 843788855, 1969775189, 1247097200, 829579127,
      1462855494, 1464225605, 1784179584, 0, 0, 0, 0, 344] =
     [332603030, 437967084, 790016268, 1285041672, 1990752429, 1844528214, 1860274506, 3413178819]"
  by code_simp


end
