(* ===== verification/Batches.thy ===== *)
theory Batches
  imports Audit_Trail
begin

text \<open>
  The batched maintenance loops of the storage package. Expiry and retention statements
  work on at most \<^verbatim>\<open>cleanupBatchSize\<close> rows and are repeated, each in a transaction of its
  own, until a round finds less than a full batch. The loop is written once, and so is the
  argument that it ends: the locale \<open>draining\<close> asks for a measure that every full round
  decreases.
\<close>

definition cleanupBatchSize :: nat where "cleanupBatchSize = 250"

text \<open>
  \<^verbatim>\<open>for { ... }\<close>: round \<open>k\<close> fails, which ends the loop with the total so far and the error,
  or handles \<open>count\<close> rows and says whether there may be more (\<open>again\<close>). A loop that never ended
  would be \<open>None\<close>.
\<close>

partial_function (option) batch_loop ::
  "(nat \<Rightarrow> 'db \<Rightarrow> (go_error + nat \<times> bool) \<times> 'db) \<Rightarrow> nat \<Rightarrow> nat \<Rightarrow> 'db \<Rightarrow> ((nat \<times> go_error option) \<times> 'db) option"
where
  "batch_loop step k tally d =
     (case step k d of
        (Inl err, d') \<Rightarrow> Some ((tally, Some err), d')
      | (Inr (count, again), d') \<Rightarrow>
          if again then batch_loop step (Suc k) (tally + count) d' else Some ((tally + count, None), d'))"

declare batch_loop.simps [code]

locale draining =
  fixes step :: "nat \<Rightarrow> 'db \<Rightarrow> (go_error + nat \<times> bool) \<times> 'db"
    and pending :: "'db \<Rightarrow> nat"
    and clean :: "'db \<Rightarrow> bool"
  assumes progress: "step k d = (Inr (count, True), d') \<Longrightarrow> pending d' < pending d"
    and finished: "step k d = (Inr (count, False), d') \<Longrightarrow> clean d'"
begin

lemma batch_loop_cases:
  "(\<exists>r d'. batch_loop step k tally d = Some (r, d') \<and> (snd r = None \<longrightarrow> clean d'))"
proof (induction "pending d" arbitrary: k tally d rule: less_induct)
  case less
  show ?case
  proof (cases "step k d")
    case (Pair r d')
    show ?thesis
    proof (cases r)
      case (Inl err)
      then show ?thesis using Pair by (simp add: batch_loop.simps)
    next
      case (Inr y)
      obtain count again where y: "y = (count, again)" by (cases y)
      show ?thesis
      proof (cases again)
        case True
        have "pending d' < pending d" using progress[of k d count] Pair Inr y True by simp
        from less[OF this] show ?thesis using Pair Inr y True by (simp add: batch_loop.simps[of step k])
      next
        case False
        then show ?thesis using Pair Inr y finished[of k d count d'] by (simp add: batch_loop.simps)
      qed
    qed
  qed
qed

lemma loop_returns: "\<exists>r d'. batch_loop step k tally d = Some (r, d')"
  using batch_loop_cases by blast

lemma loop_drained: "batch_loop step k tally d = Some ((n, None), d') \<Longrightarrow> clean d'"
  using batch_loop_cases[of k tally d] by auto

text \<open>What every round preserves, the loop preserves.\<close>

lemma loop_preserves:
  assumes "\<And>k d r d'. I d \<Longrightarrow> step k d = (r, d') \<Longrightarrow> I d'" "I d" "batch_loop step k tally d = Some (r, d')"
  shows "I d'"
  using assms(2,3)
proof (induction "pending d" arbitrary: k tally d rule: less_induct)
  case less
  obtain s d1 where s: "step k d = (s, d1)" by (cases "step k d")
  have I: "I d1" using assms(1) less(2) s by blast
  show ?case
  proof (cases s)
    case (Inl err)
    then show ?thesis using less(3) s I by (simp add: batch_loop.simps)
  next
    case (Inr y)
    obtain count again where y: "y = (count, again)" by (cases y)
    show ?thesis
    proof (cases again)
      case True
      then have "pending d1 < pending d" using progress[of k d count] s Inr y by simp
      from less(1)[OF this I] show ?thesis using less(3) s Inr y True by (simp add: batch_loop.simps[of step k])
    next
      case False
      then show ?thesis using less(3) s Inr y I by (simp add: batch_loop.simps)
    qed
  qed
qed

end

section \<open>Batches of a table\<close>

text \<open>
  A row of the predicate is left over by a batch only if the batch is full, and a full
  batch makes progress.
\<close>

lemma length_batch_keys: "length (batch_keys p order k n t) = min n (length (select_where p t))"
  by (simp add: batch_keys_def)

lemma batch_keys_all:
  assumes "length (batch_keys p order k n t) < n" "r \<in> set t" "p r"
  shows "k r \<in> set (batch_keys p order k n t)"
proof -
  have "length (select_where p t) < n" using assms(1) by (simp add: length_batch_keys)
  then have "set (batch_keys p order k n t) = k ` set (select_where p t)" by (simp add: batch_keys_def)
  then show ?thesis using assms(2,3) by (simp add: table_simps)
qed

lemma batch_keys_subset: "i \<in> set (batch_keys p order k n t) \<Longrightarrow> \<exists>r\<in>set t. p r \<and> k r = i"
  by (auto simp: batch_keys_def select_where_def dest!: in_set_takeD)

lemma batch_keys_nonempty:
  assumes "0 < length (batch_keys p order k n t)"
  obtains r where "r \<in> set t" "p r" "k r \<in> set (batch_keys p order k n t)"
proof -
  obtain i where i: "i \<in> set (batch_keys p order k n t)" using assms by (cases "batch_keys p order k n t") auto
  from batch_keys_subset[OF this] obtain r where "r \<in> set t" "p r" "k r = i" by blast
  with i that show thesis by blast
qed

lemma filter_length_less:
  assumes "\<And>r. r \<in> set t \<Longrightarrow> q r \<Longrightarrow> p r" "r \<in> set t" "p r" "\<not> q r"
  shows "length (filter q t) < length (filter p t)"
proof -
  have le: "length (filter q t) \<le> length (filter p t)" if "\<And>r. r \<in> set t \<Longrightarrow> q r \<Longrightarrow> p r" for t
    using that
  proof (induction t)
    case (Cons x xs)
    then have "length (filter q xs) \<le> length (filter p xs)" by simp
    then show ?case using Cons(2)[of x] by auto
  qed simp
  from split_list[OF assms(2)] obtain xs ys where t: "t = xs @ r # ys" by blast
  have "length (filter q xs) \<le> length (filter p xs)" "length (filter q ys) \<le> length (filter p ys)"
    using assms(1) t by (auto intro!: le)
  then show ?thesis using assms(3,4) t by simp
qed

lemma delete_where_progress:
  assumes "r \<in> set t" "p r" "g r"
  shows "length (select_where p (delete_where g t)) < length (select_where p t)"
  unfolding select_where_def delete_where_def filter_filter
  using assms by (intro filter_length_less) auto

lemma update_where_progress:
  assumes "\<And>r. g r \<Longrightarrow> \<not> p (f r)" "r \<in> set t" "p r" "g r"
  shows "length (select_where p (update_where g f t)) < length (select_where p t)"
proof -
  have eq: "filter (p \<circ> (\<lambda>r. if g r then f r else r)) t = filter (\<lambda>r. p r \<and> \<not> g r) t"
    using assms(1) by (intro filter_cong) auto
  have "length (select_where p (update_where g f t)) = length (filter (\<lambda>r. p r \<and> \<not> g r) t)"
    by (simp add: select_where_def update_where_def filter_map eq)
  also have "\<dots> < length (select_where p t)"
    unfolding select_where_def using assms(2-4) by (intro filter_length_less) auto
  finally show ?thesis .
qed

text \<open>Deleting a batch: progress when it is full, nothing left when it is not.\<close>

lemma delete_batch_progress:
  assumes "delete_batch p order k n t = (ids, t')" "0 < length ids"
  shows "length (select_where p t') < length (select_where p t)"
proof -
  have ids: "ids = batch_keys p order k n t" "t' = delete_where (\<lambda>r. k r \<in> set ids) t"
    using assms(1) by (auto simp: delete_batch_def Let_def)
  obtain r where "r \<in> set t" "p r" "k r \<in> set ids" using assms(2) batch_keys_nonempty ids(1) by metis
  then show ?thesis unfolding ids(2) by (rule delete_where_progress)
qed

lemma delete_batch_shrinks:
  assumes "delete_batch p order k n t = (ids, t')"
  shows "length (select_where q t') \<le> length (select_where q t)"
proof -
  have "t' = filter (\<lambda>r. k r \<notin> set ids) t" using assms by (auto simp: delete_batch_def Let_def delete_where_def)
  then have "select_where q t' = filter (\<lambda>r. k r \<notin> set ids) (select_where q t)"
    by (simp add: select_where_def filter_filter conj_commute)
  then show ?thesis by simp
qed

lemma delete_batch_drained:
  assumes "delete_batch p order k n t = (ids, t')" "length ids < n"
  shows "select_where p t' = []"
  using assms batch_keys_all[of p order k n t]
  by (auto simp: delete_batch_def Let_def select_where_def delete_where_def filter_empty_conv)

lemma delete_batch_set:
  "delete_batch p order k n t = (ids, t') \<Longrightarrow> set t' \<subseteq> set t"
  by (auto simp: delete_batch_def Let_def delete_where_def)

end
