(* ===== verification/Authflow.thy ===== *)
theory Authflow
  imports Samples Batches
begin

text \<open>
  Authorization transactions, the short-lived server-side context of a browser flow:
  \<^verbatim>\<open>internal/authflow/authflow.go\<close>, its store \<^verbatim>\<open>internal/storage/postgres/authflow.go\<close> and
  the statements of \<^verbatim>\<open>authflow.sql.go\<close> only they use. A transaction is created live, and
  becomes terminal exactly once: consumed, rejected with a fixed reason, or expired by the
  maintenance loop, which later deletes it.

  A service method takes the random bytes it reads, what \<^verbatim>\<open>uuid.NewRandomFromReader\<close> makes
  of them and the identifier \<^verbatim>\<open>uuid.New\<close> gives its audit event. Metrics are not modelled.
\<close>

section \<open>Structs\<close>

record Transaction =
  txn_ID :: uuid
  txn_TokenHash :: string
  txn_Kind :: string
  txn_ClientID :: "uuid option"
  txn_RedirectURI :: string
  txn_Scopes :: "string list"
  txn_PKCEChallenge :: string
  txn_PKCEMethod :: string
  txn_State :: string
  txn_Nonce :: string
  txn_PromptCreate :: bool
  txn_ResponseType :: string
  txn_ResponseMode :: string
  txn_Prompts :: "string list"
  txn_MaxAgeSeconds :: "32 word option"
  txn_CreatedAt :: time
  txn_ExpiresAt :: time
  txn_ConsumedAt :: "time option"
  txn_FailureReason :: string

record VerifiedInput =
  vi_ClientID :: uuid
  vi_RedirectURI :: string
  vi_Scopes :: "string list"
  vi_PKCEChallenge :: string
  vi_State :: string
  vi_Nonce :: string
  vi_PromptCreate :: bool
  vi_ResponseType :: string
  vi_ResponseMode :: string
  vi_Prompts :: "string list"
  vi_MaxAgeSeconds :: "32 word option"

text \<open>The zero value of \<^verbatim>\<open>VerifiedInput\<close>.\<close>

definition no_input :: VerifiedInput where
  "no_input = \<lparr>vi_ClientID = uuid_Nil, vi_RedirectURI = '''', vi_Scopes = [], vi_PKCEChallenge = '''',
     vi_State = '''', vi_Nonce = '''', vi_PromptCreate = False, vi_ResponseType = '''',
     vi_ResponseMode = '''', vi_Prompts = [], vi_MaxAgeSeconds = None\<rparr>"

text \<open>The lifetime is the only field of the service the model keeps.\<close>

record AuthflowService =
  af_ttl :: duration

definition authflow_NewService :: "duration \<Rightarrow> AuthflowService option" where
  "authflow_NewService ttl = (if ttl \<le> 0 \<or> ttl > Hour then None else Some \<lparr>af_ttl = ttl\<rparr>)"

section \<open>Input validation\<close>

definition validAbsoluteURI :: "(string \<Rightarrow> URL option) \<Rightarrow> string \<Rightarrow> bool" where
  "validAbsoluteURI url_Parse raw = (case url_Parse raw of
     None \<Rightarrow> False
   | Some parsed \<Rightarrow> IsAbs parsed \<and> url_Host parsed \<noteq> '''' \<and> url_Fragment parsed = '''' \<and> url_User parsed = None)"

text \<open>\<^verbatim>\<open>canonicalStrings\<close>: one pass over the sorted values that skips blanks and repetitions.\<close>

fun canonical_loop :: "string list \<Rightarrow> string list \<Rightarrow> string list" where
  "canonical_loop output [] = output"
| "canonical_loop output (value # values) =
     (if value = '''' \<or> (output \<noteq> [] \<and> last output = value) then canonical_loop output values
      else canonical_loop (output @ [value]) values)"

definition canonicalStrings :: "string list \<Rightarrow> string list" where
  "canonicalStrings values = canonical_loop [] (sort values)"

definition validS256Challenge :: "string \<Rightarrow> bool" where
  "validS256Challenge value \<longleftrightarrow>
     length value = 43 \<and> (case b64_DecodeString value of None \<Rightarrow> False | Some decoded \<Rightarrow> length decoded = 32)"

definition authflow_contains :: "string list \<Rightarrow> string \<Rightarrow> bool" where
  "authflow_contains values target =
     (let index = sort_SearchStrings values target in index < length values \<and> values ! index = target)"

definition validOIDCScopes :: "string list \<Rightarrow> bool" where
  "validOIDCScopes values \<longleftrightarrow> authflow_contains values ''openid'' \<and>
     list_all (\<lambda>value. \<not> (value \<noteq> ''openid'' \<and> value \<noteq> ''profile'' \<and> value \<noteq> ''email'' \<and>
                          value \<noteq> ''offline_access'')) values"

definition validPrompts :: "string list \<Rightarrow> bool" where
  "validPrompts values =
     (let canonical = canonicalStrings values in
      length canonical = length values \<and>
      list_all2 (\<lambda>c v. c = v \<and> (c = ''consent'' \<or> c = ''create'' \<or> c = ''login'' \<or> c = ''none'')) canonical values \<and>
      (\<not> authflow_contains values ''none'' \<or> length values = 1) \<and>
      (\<not> authflow_contains values ''create'' \<or> \<not> authflow_contains values ''login''))"

definition validFailureReason :: "string \<Rightarrow> bool" where
  "validFailureReason reason \<longleftrightarrow> reason \<in> set [''invalid'', ''client_disabled'', ''registration_disabled'',
     ''canceled'', ''login_required'', ''consent_required'', ''interaction_required'', ''access_denied'',
     ''server_error'']"

text \<open>The checks and normalisations of \<^verbatim>\<open>CreateVerified\<close>, before it stores anything.\<close>

definition verified_input :: "(string \<Rightarrow> URL option) \<Rightarrow> VerifiedInput \<Rightarrow> VerifiedInput option" where
  "verified_input url_Parse input0 =
     (let input = input0\<lparr>vi_Scopes := canonicalStrings (vi_Scopes input0)\<rparr> in
      if vi_ClientID input = uuid_Nil \<or> \<not> validAbsoluteURI url_Parse (vi_RedirectURI input) \<or>
         vi_ResponseType input \<noteq> ''code'' \<or> vi_ResponseMode input \<noteq> ''query'' \<or>
         length (vi_Scopes input) = 0 \<or> length (vi_Scopes input) > 4 \<or> \<not> validOIDCScopes (vi_Scopes input)
      then None else
      if \<not> validS256Challenge (vi_PKCEChallenge input) then None else
      if length (vi_State input) > 1024 \<or> length (vi_Nonce input) > 1024 then None else
      let input = (if vi_PromptCreate input \<and> length (vi_Prompts input) = 0
                   then input\<lparr>vi_Prompts := [''create'']\<rparr> else input) in
      if \<not> validPrompts (vi_Prompts input) \<or>
         vi_PromptCreate input \<noteq> authflow_contains (vi_Prompts input) ''create''
      then None else
      if (case vi_MaxAgeSeconds input of None \<Rightarrow> False | Some m \<Rightarrow> m > 30 * 24 * 60 * 60) then None
      else Some input)"

section \<open>authflow.sql.go\<close>

definition GetAuthTransactionByTokenHash :: "string \<Rightarrow> db \<Rightarrow> AuthTransaction option" where
  "GetAuthTransactionByTokenHash h d = select_one (\<lambda>t. tr_TokenHash t = h) (auth_transactions d)"

definition CreateAuthTransaction :: "AuthTransaction \<Rightarrow> db \<Rightarrow> pg_error + unit \<times> db" where
  "CreateAuthTransaction params d =
     (let t = params\<lparr>tr_ConsumedAt := None, tr_FailureReason := None\<rparr>
      in stmt (\<lambda>ts. ((), d\<lparr>auth_transactions := ts\<rparr>))
           (insert_checked (auth_transactions_violation d t) t (auth_transactions d)))"

definition overdue :: "time \<Rightarrow> AuthTransaction \<Rightarrow> bool" where
  "overdue now t \<longleftrightarrow> tr_ConsumedAt t = None \<and> tr_ExpiresAt t \<le> now"

definition ExpireAuthTransactions :: "time \<Rightarrow> nat \<Rightarrow> db \<Rightarrow> pg_error + uuid list \<times> db" where
  "ExpireAuthTransactions now n d =
     (let ids = batch_keys (overdue now) (\<lambda>t. (tr_ExpiresAt t, tr_ID t)) tr_ID n (auth_transactions d)
      in stmt (\<lambda>ts. (ids, d\<lparr>auth_transactions := ts\<rparr>))
           (update_checked auth_transactions_check (\<lambda>t. tr_ID t \<in> set ids)
              (\<lambda>t. t\<lparr>tr_ConsumedAt := Some now, tr_FailureReason := Some ''expired''\<rparr>) (auth_transactions d)))"

text \<open>Terminal, old enough, and referenced neither by a pre-auth session nor by a code.\<close>

definition retired_transaction :: "db \<Rightarrow> time \<Rightarrow> AuthTransaction \<Rightarrow> bool" where
  "retired_transaction d cutoff t \<longleftrightarrow>
     (case tr_ConsumedAt t of None \<Rightarrow> False | Some at \<Rightarrow> at \<le> cutoff) \<and>
     \<not> list_ex (\<lambda>p. pre_AuthTransactionID p = tr_ID t) (preauth_sessions d) \<and>
     \<not> list_ex (\<lambda>c. code_AuthTransactionID c = tr_ID t) (authorization_codes d)"

definition DeleteRetiredAuthTransactions :: "time \<Rightarrow> nat \<Rightarrow> db \<Rightarrow> pg_error + nat \<times> db" where
  "DeleteRetiredAuthTransactions cutoff n d =
     (let (ids, ts) = delete_batch (retired_transaction d cutoff)
            (\<lambda>t. (case tr_ConsumedAt t of Some at \<Rightarrow> at | None \<Rightarrow> 0, tr_ID t)) tr_ID n (auth_transactions d)
      in Inr (length ids, d\<lparr>auth_transactions := ts\<rparr>))"

section \<open>Store\<close>

definition uint32ToInt64 :: "32 word option \<Rightarrow> int option" where
  "uint32ToInt64 value = map_option uint value"

definition int64ToUint32 :: "int option \<Rightarrow> 32 word option" where
  "int64ToUint32 value = (case value of
     None \<Rightarrow> None | Some v \<Rightarrow> if v < 0 \<or> v > 4294967295 then None else Some (word_of_int v))"

definition authTransactionParams :: "Transaction \<Rightarrow> AuthTransaction" where
  "authTransactionParams value = \<lparr>tr_ID = txn_ID value, tr_TokenHash = txn_TokenHash value,
     tr_Kind = txn_Kind value, tr_ClientID = txn_ClientID value,
     tr_RedirectUri = pointerString (txn_RedirectURI value), tr_Scopes = txn_Scopes value,
     tr_PkceChallenge = pointerString (txn_PKCEChallenge value),
     tr_PkceMethod = pointerString (txn_PKCEMethod value), tr_StateValue = pointerString (txn_State value),
     tr_NonceValue = pointerString (txn_Nonce value), tr_PromptCreate = txn_PromptCreate value,
     tr_CreatedAt = txn_CreatedAt value, tr_ExpiresAt = txn_ExpiresAt value, tr_ConsumedAt = None,
     tr_FailureReason = None, tr_ResponseType = pointerString (txn_ResponseType value),
     tr_ResponseMode = pointerString (txn_ResponseMode value), tr_PromptValues = txn_Prompts value,
     tr_MaxAgeSeconds = uint32ToInt64 (txn_MaxAgeSeconds value)\<rparr>"

definition mapAuthTransaction :: "AuthTransaction \<Rightarrow> Transaction" where
  "mapAuthTransaction row = \<lparr>txn_ID = tr_ID row, txn_TokenHash = tr_TokenHash row, txn_Kind = tr_Kind row,
     txn_ClientID = tr_ClientID row, txn_RedirectURI = valueString (tr_RedirectUri row),
     txn_Scopes = tr_Scopes row, txn_PKCEChallenge = valueString (tr_PkceChallenge row),
     txn_PKCEMethod = valueString (tr_PkceMethod row), txn_State = valueString (tr_StateValue row),
     txn_Nonce = valueString (tr_NonceValue row), txn_PromptCreate = tr_PromptCreate row,
     txn_ResponseType = valueString (tr_ResponseType row), txn_ResponseMode = valueString (tr_ResponseMode row),
     txn_Prompts = tr_PromptValues row, txn_MaxAgeSeconds = int64ToUint32 (tr_MaxAgeSeconds row),
     txn_CreatedAt = tr_CreatedAt row, txn_ExpiresAt = tr_ExpiresAt row, txn_ConsumedAt = tr_ConsumedAt row,
     txn_FailureReason = valueString (tr_FailureReason row)\<rparr>"

definition store_CreateAuthTransaction ::
  "(nat \<Rightarrow> attempt) \<Rightarrow> Transaction \<Rightarrow> Event \<Rightarrow> db \<Rightarrow> (go_error + unit) \<times> db" where
  "store_CreateAuthTransaction env transaction event d = inTx env (\<lambda>_.
     tbind (exec_query ''create authorization transaction''
              (CreateAuthTransaction (authTransactionParams transaction))) (\<lambda>_.
     insertAudit event)) d"

definition FindAuthTransaction :: "db \<times> pg_error option \<Rightarrow> string \<Rightarrow> go_error + Transaction" where
  "FindAuthTransaction view tokenHash =
     (case pool_read view ''find authorization transaction'' (GetAuthTransactionByTokenHash tokenHash) of
        Inl err \<Rightarrow> Inl err
      | Inr None \<Rightarrow> Inl Authflow_ErrNotFound
      | Inr (Some row) \<Rightarrow> Inr (mapAuthTransaction row))"

text \<open>
  \<^verbatim>\<open>ConsumeAuthTransaction\<close> and \<^verbatim>\<open>RejectAuthTransaction\<close>: the row must still be live, and
  the audit event is part of the same transaction.
\<close>

definition terminate_tx ::
  "string \<Rightarrow> (db \<Rightarrow> pg_error + AuthTransaction option \<times> db) \<Rightarrow> Event \<Rightarrow> Transaction dbtx" where
  "terminate_tx operation statement event =
     tbind (exec_query operation statement) (\<lambda>row.
     case row of
       None \<Rightarrow> tfail Authflow_ErrConsumed
     | Some row \<Rightarrow>
     tbind (insertAudit event) (\<lambda>_.
     treturn (mapAuthTransaction row)))"

definition store_ConsumeAuthTransaction ::
  "(nat \<Rightarrow> attempt) \<Rightarrow> uuid \<Rightarrow> time \<Rightarrow> Event \<Rightarrow> db \<Rightarrow> (go_error + Transaction) \<times> db" where
  "store_ConsumeAuthTransaction env i now event d = inTx env (\<lambda>_.
     terminate_tx ''consume authorization transaction'' (ConsumeAuthTransaction now i) event) d"

definition store_RejectAuthTransaction ::
  "(nat \<Rightarrow> attempt) \<Rightarrow> uuid \<Rightarrow> string \<Rightarrow> time \<Rightarrow> Event \<Rightarrow> db \<Rightarrow> (go_error + Transaction) \<times> db" where
  "store_RejectAuthTransaction env i reason now event d = inTx env (\<lambda>_.
     terminate_tx ''reject authorization transaction'' (RejectAuthTransaction now (pointerString reason) i) event) d"

text \<open>The events of one expiry round, one per transaction.\<close>

fun expire_audits :: "time \<Rightarrow> uuid list \<Rightarrow> unit dbtx" where
  "expire_audits now [] = treturn ()"
| "expire_audits now (i # ids) =
     tbind uuid_New (\<lambda>newID.
     case audit_New newID ''authorization_transaction_expired'' ''success'' None ''auth_transaction'' (Some i)
            '''' [] now of
       None \<Rightarrow> tfail Audit_ErrInvalidEvent
     | Some event \<Rightarrow> tbind (insertAudit event) (\<lambda>_. expire_audits now ids))"

definition expire_tx :: "time \<Rightarrow> (nat \<times> bool) dbtx" where
  "expire_tx now =
     tbind (exec_query ''expire authorization transactions'' (ExpireAuthTransactions now cleanupBatchSize)) (\<lambda>ids.
     tbind (expire_audits now ids) (\<lambda>_.
     treturn (length ids, \<not> length ids < cleanupBatchSize)))"

text \<open>The maintenance loops run round \<open>k\<close> under the environment \<open>envs k\<close>.\<close>

definition store_ExpireAuthTransactions ::
  "(nat \<Rightarrow> nat \<Rightarrow> attempt) \<Rightarrow> time \<Rightarrow> db \<Rightarrow> ((nat \<times> go_error option) \<times> db) option" where
  "store_ExpireAuthTransactions envs now d = batch_loop (\<lambda>k. inTx (envs k) (\<lambda>_. expire_tx now)) 0 0 d"

text \<open>Every round of \<^verbatim>\<open>CleanupAuthTransactions\<close> is a statement on the pool, with the outcome \<open>outcomes k\<close>.\<close>

definition CleanupAuthTransactions ::
  "(nat \<Rightarrow> commit_outcome) \<Rightarrow> time \<Rightarrow> db \<Rightarrow> ((nat \<times> go_error option) \<times> db) option" where
  "CleanupAuthTransactions outcomes cutoff d = batch_loop (\<lambda>k. pool_exec (outcomes k) ''clean authorization transactions''
     (\<lambda>d. stmt (\<lambda>(count, d'). ((count, \<not> count < cleanupBatchSize), d'))
       (DeleteRetiredAuthTransactions cutoff cleanupBatchSize d))) 0 0 d"

section \<open>Service\<close>

definition new_transaction ::
  "AuthflowService \<Rightarrow> string \<Rightarrow> uuid \<Rightarrow> string \<Rightarrow> VerifiedInput \<Rightarrow> time \<Rightarrow> Transaction" where
  "new_transaction svc token i kind input now =
     \<lparr>txn_ID = i, txn_TokenHash = authflow_HashToken token, txn_Kind = kind,
      txn_ClientID = (if kind = ''authorization'' then Some (vi_ClientID input) else None),
      txn_RedirectURI = vi_RedirectURI input, txn_Scopes = vi_Scopes input,
      txn_PKCEChallenge = vi_PKCEChallenge input,
      txn_PKCEMethod = (if kind = ''authorization'' \<and> vi_PKCEChallenge input \<noteq> '''' then ''S256'' else ''''),
      txn_State = vi_State input, txn_Nonce = vi_Nonce input, txn_PromptCreate = vi_PromptCreate input,
      txn_ResponseType = vi_ResponseType input, txn_ResponseMode = vi_ResponseMode input,
      txn_Prompts = vi_Prompts input, txn_MaxAgeSeconds = vi_MaxAgeSeconds input,
      txn_CreatedAt = now, txn_ExpiresAt = now + af_ttl svc, txn_ConsumedAt = None, txn_FailureReason = ''''\<rparr>"

definition authflow_create ::
  "AuthflowService \<Rightarrow> (string \<Rightarrow> uuid) \<Rightarrow> string \<Rightarrow> uuid \<Rightarrow> (nat \<Rightarrow> attempt) \<Rightarrow> string \<Rightarrow> VerifiedInput \<Rightarrow>
   string \<Rightarrow> time \<Rightarrow> db \<Rightarrow> (go_error + string \<times> Transaction) \<times> db" where
  "authflow_create svc uuidOf random newID env kind input requestID now d =
     (case authflow_newToken random of
        None \<Rightarrow> (Inl (Errors_New ''secure transaction token generation failed''), d)
      | Some (token, random) \<Rightarrow>
        (case NewRandomFromReader uuidOf random of
           None \<Rightarrow> (Inl (Errors_New ''transaction identifier generation failed''), d)
         | Some (i, _) \<Rightarrow>
           (let transaction = new_transaction svc token i kind input now in
            case audit_New newID ''authorization_transaction_created'' ''success'' None ''auth_transaction'' (Some i)
                   requestID [''created''] now of
              None \<Rightarrow> (Inl Audit_ErrInvalidEvent, d)
            | Some event \<Rightarrow>
              (case store_CreateAuthTransaction env transaction event d of
                 (Inl err, d') \<Rightarrow> (Inl err, d')
               | (Inr _, d') \<Rightarrow> (Inr (token, transaction), d')))))"

definition CreateLocal where
  "CreateLocal svc uuidOf random newID env requestID now d =
     authflow_create svc uuidOf random newID env ''local'' no_input requestID now d"

definition CreateVerified where
  "CreateVerified url_Parse svc uuidOf random newID env input requestID now d =
     (case verified_input url_Parse input of
        None \<Rightarrow> (Inl Authflow_ErrInvalid, d)
      | Some input \<Rightarrow> authflow_create svc uuidOf random newID env ''authorization'' input requestID now d)"

definition Resolve :: "db \<times> pg_error option \<Rightarrow> string \<Rightarrow> time \<Rightarrow> go_error + Transaction" where
  "Resolve view token now =
     (if \<not> authflow_validToken token then Inl Authflow_ErrNotFound else
      rbind (FindAuthTransaction view (authflow_HashToken token)) (\<lambda>transaction.
      if txn_ConsumedAt transaction \<noteq> None then Inl Authflow_ErrConsumed else
      if \<not> now < txn_ExpiresAt transaction then Inl Authflow_ErrExpired else
      Inr transaction))"

definition authflow_Consume ::
  "uuid \<Rightarrow> (nat \<Rightarrow> attempt) \<Rightarrow> Transaction \<Rightarrow> uuid option \<Rightarrow> string \<Rightarrow> time \<Rightarrow> db \<Rightarrow> (go_error + Transaction) \<times> db" where
  "authflow_Consume newID env transaction actor requestID now d =
     (case audit_New newID ''authorization_transaction_consumed'' ''success'' actor ''auth_transaction''
             (Some (txn_ID transaction)) requestID [] now of
        None \<Rightarrow> (Inl Audit_ErrInvalidEvent, d)
      | Some event \<Rightarrow> store_ConsumeAuthTransaction env (txn_ID transaction) now event d)"

definition authflow_Reject ::
  "uuid \<Rightarrow> (nat \<Rightarrow> attempt) \<Rightarrow> Transaction \<Rightarrow> string \<Rightarrow> uuid option \<Rightarrow> string \<Rightarrow> time \<Rightarrow> db \<Rightarrow>
   (go_error + Transaction) \<times> db" where
  "authflow_Reject newID env transaction reason actor requestID now d =
     (if \<not> validFailureReason reason then (Inl Authflow_ErrInvalid, d) else
      case audit_New newID ''authorization_transaction_rejected'' ''rejected'' actor ''auth_transaction''
             (Some (txn_ID transaction)) requestID [] now of
        None \<Rightarrow> (Inl Audit_ErrInvalidEvent, d)
      | Some event \<Rightarrow> store_RejectAuthTransaction env (txn_ID transaction) reason now event d)"

text \<open>\<^verbatim>\<open>Service.Cleanup\<close>: expire, then delete what has been terminal for a day.\<close>

definition authflow_Cleanup ::
  "(nat \<Rightarrow> nat \<Rightarrow> attempt) \<Rightarrow> (nat \<Rightarrow> commit_outcome) \<Rightarrow> time \<Rightarrow> db \<Rightarrow> ((nat \<times> go_error option) \<times> db) option" where
  "authflow_Cleanup envs outcomes now d =
     (case store_ExpireAuthTransactions envs now d of
        None \<Rightarrow> None
      | Some ((expired, Some err), d') \<Rightarrow> Some ((expired, Some err), d')
      | Some ((expired, None), d') \<Rightarrow>
        (case CleanupAuthTransactions outcomes (now - 24 * Hour) d' of
           None \<Rightarrow> None
         | Some ((_, Some err), d'') \<Rightarrow> Some ((expired, Some err), d'')
         | Some ((deleted, None), d'') \<Rightarrow> Some ((expired + deleted, None), d'')))"

section \<open>Canonical inputs\<close>

lemma canonical_loop_canonical:
  assumes "sorted (out @ vals)" "distinct out" "'''' \<notin> set out"
  shows "sorted (canonical_loop out vals) \<and> distinct (canonical_loop out vals) \<and>
    set (canonical_loop out vals) = set out \<union> (set vals - {''''})"
  using assms
proof (induction out vals rule: canonical_loop.induct)
  case (2 out v vs)
  show ?case
  proof (cases "v = '''' \<or> (out \<noteq> [] \<and> last out = v)")
    case True
    have "sorted (out @ vs)" using 2(3) by (simp add: sorted_append)
    note rest = 2(1)[OF True this 2(4,5)]
    have "v = '''' \<or> v \<in> set out" using True last_in_set by blast
    then have "set out \<union> (set vs - {''''}) = set out \<union> (set (v # vs) - {''''})" by auto
    then show ?thesis using rest True by simp
  next
    case False
    have "v \<notin> set out"
    proof
      assume v: "v \<in> set out"
      then have "out \<noteq> []" by auto
      then have split: "out = butlast out @ [last out]" by simp
      have "sorted (butlast out @ [last out])" using 2(3) split by (simp add: sorted_append)
      then have "v \<le> last out" using v split by (metis Un_iff list.set_intros(1) order_refl set_append set_ConsD sorted_append empty_iff empty_set)
      moreover have "last out \<le> v" using 2(3) \<open>out \<noteq> []\<close> by (auto simp: sorted_append)
      ultimately show False using False \<open>out \<noteq> []\<close> by auto
    qed
    with 2(4,5) False have "distinct (out @ [v])" "'''' \<notin> set (out @ [v])" by auto
    note rest = 2(2)[OF False _ this]
    have "sorted ((out @ [v]) @ vs)" using 2(3) by simp
    moreover have "canonical_loop out (v # vs) = canonical_loop (out @ [v]) vs"
      unfolding canonical_loop.simps if_not_P[OF False] ..
    moreover have "v \<noteq> ''''" using False by blast
    ultimately show ?thesis using rest by (simp add: insert_Diff_if)
  qed
qed auto

lemma canonicalStrings_canonical [simp]:
  "sorted (canonicalStrings vals)" "distinct (canonicalStrings vals)"
  "set (canonicalStrings vals) = set vals - {''''}"
  using canonical_loop_canonical[of "[]" "sort vals"] by (simp_all add: canonicalStrings_def)

lemma authflow_contains_member: "sorted vals \<Longrightarrow> authflow_contains vals x \<longleftrightarrow> x \<in> set vals"
  by (simp add: authflow_contains_def Let_def sort_SearchStrings_member)

lemma validPrompts_canonical:
  assumes "validPrompts vals"
  shows "sorted vals" "distinct vals" "set vals \<subseteq> {''consent'', ''create'', ''login'', ''none''}"
    "''none'' \<in> set vals \<Longrightarrow> length vals = 1" "\<not> (''create'' \<in> set vals \<and> ''login'' \<in> set vals)"
proof -
  have "list_all2 (=) (canonicalStrings vals) vals"
    using assms by (auto simp: validPrompts_def Let_def elim: list_all2_mono)
  then have eq: "canonicalStrings vals = vals" by (simp add: list.rel_eq)
  show s: "sorted vals" and "distinct vals" using canonicalStrings_canonical(1,2)[of vals] eq by simp_all
  show "set vals \<subseteq> {''consent'', ''create'', ''login'', ''none''}"
    using assms eq by (auto simp: validPrompts_def Let_def list_all2_same)
  show "''none'' \<in> set vals \<Longrightarrow> length vals = 1" "\<not> (''create'' \<in> set vals \<and> ''login'' \<in> set vals)"
    using assms s by (auto simp: validPrompts_def Let_def authflow_contains_member)
qed

lemma validS256Challenge_format: "validS256Challenge c \<Longrightarrow> pkce_challenge_format c"
proof -
  assume c: "validS256Challenge c"
  then obtain raw where raw: "b64_DecodeString c = Some raw" "length raw = 32" "length c = 43"
    by (auto simp: validS256Challenge_def split: option.splits)
  then have "c = b64_encode raw" by (intro b64_DecodeString_full_length) auto
  then show ?thesis using raw(2) pkce_challenge_format_digest by simp
qed

text \<open>What the validation of \<^verbatim>\<open>CreateVerified\<close> establishes.\<close>

definition protocol_input :: "VerifiedInput \<Rightarrow> bool" where
  "protocol_input input \<longleftrightarrow> vi_ClientID input \<noteq> uuid_Nil \<and> vi_ResponseType input = ''code'' \<and>
     vi_ResponseMode input = ''query'' \<and> canonical_scopes (vi_Scopes input) \<and>
     validS256Challenge (vi_PKCEChallenge input) \<and> length (vi_State input) \<le> 1024 \<and>
     length (vi_Nonce input) \<le> 1024 \<and> validPrompts (vi_Prompts input) \<and>
     (vi_PromptCreate input \<longleftrightarrow> ''create'' \<in> set (vi_Prompts input)) \<and>
     none_or (\<lambda>m. m \<le> 2592000) (vi_MaxAgeSeconds input)"

lemma verified_input_protocol:
  assumes "verified_input url_Parse input0 = Some input"
  shows "protocol_input input" "validAbsoluteURI url_Parse (vi_RedirectURI input)"
proof -
  let ?in = "input0\<lparr>vi_Scopes := canonicalStrings (vi_Scopes input0)\<rparr>"
  let ?in2 = "if vi_PromptCreate ?in \<and> length (vi_Prompts ?in) = 0 then ?in\<lparr>vi_Prompts := [''create'']\<rparr> else ?in"
  obtain c: "\<not> (vi_ClientID ?in = uuid_Nil \<or> \<not> validAbsoluteURI url_Parse (vi_RedirectURI ?in) \<or>
       vi_ResponseType ?in \<noteq> ''code'' \<or> vi_ResponseMode ?in \<noteq> ''query'' \<or>
       length (vi_Scopes ?in) = 0 \<or> length (vi_Scopes ?in) > 4 \<or> \<not> validOIDCScopes (vi_Scopes ?in))"
      "\<not> \<not> validS256Challenge (vi_PKCEChallenge ?in)" "\<not> (length (vi_State ?in) > 1024 \<or> length (vi_Nonce ?in) > 1024)"
      "\<not> (\<not> validPrompts (vi_Prompts ?in2) \<or> vi_PromptCreate ?in2 \<noteq> authflow_contains (vi_Prompts ?in2) ''create'')"
      "\<not> (case vi_MaxAgeSeconds ?in2 of None \<Rightarrow> False | Some m \<Rightarrow> m > 30 * 24 * 60 * 60)" and some: "Some ?in2 = Some input"
    using assms unfolding verified_input_def Let_def by (elim if_NoneE) (rule that, assumption+)
  have eq: "input = ?in2" using some by (simp only: option.inject)
  have scopes: "canonical_scopes (vi_Scopes ?in)"
    using c(1) by (simp add: canonical_scopes_def validOIDCScopes_def authflow_contains_member scope_supported_def
        list_all_iff)
  have prompts: "validPrompts (vi_Prompts input)" "vi_PromptCreate input \<longleftrightarrow> ''create'' \<in> set (vi_Prompts input)"
    using c(4) validPrompts_canonical(1) unfolding eq[symmetric] by (simp_all add: authflow_contains_member)
  have age: "none_or (\<lambda>m. m \<le> 2592000) (vi_MaxAgeSeconds input)"
    using c(5) unfolding eq[symmetric] by (cases "vi_MaxAgeSeconds input") (auto simp: not_less)
  have keep: "vi_ClientID ?in2 = vi_ClientID ?in" "vi_ResponseType ?in2 = vi_ResponseType ?in"
    "vi_ResponseMode ?in2 = vi_ResponseMode ?in" "vi_Scopes ?in2 = vi_Scopes ?in"
    "vi_PKCEChallenge ?in2 = vi_PKCEChallenge ?in" "vi_State ?in2 = vi_State ?in" "vi_Nonce ?in2 = vi_Nonce ?in"
    "vi_RedirectURI ?in2 = vi_RedirectURI ?in"
    by simp_all
  show "protocol_input input"
    unfolding protocol_input_def using prompts age c(1-3) scopes keep unfolding eq[symmetric] by (simp add: not_less)
  show "validAbsoluteURI url_Parse (vi_RedirectURI input)" unfolding eq keep(8) using c(1) by blast
qed

lemma length_authflow_HashToken [simp]: "length (authflow_HashToken t) = 32"
  by (simp add: authflow_HashToken_def sha256_Size_def)

lemma new_transaction_check:
  assumes "protocol_input input" "0 < af_ttl svc"
  shows "auth_transactions_check (authTransactionParams (new_transaction svc token i ''authorization'' input now)) \<longleftrightarrow>
    vi_RedirectURI input \<noteq> '''' \<and> length (vi_RedirectURI input) \<le> 2048"
proof -
  note p = assms(1)[unfolded protocol_input_def]
  have "validPrompts (vi_Prompts input)" using p by blast
  note prompts = validPrompts_canonical[OF this]
  have age: "none_or (\<lambda>m. 0 \<le> m \<and> m \<le> 2592000) (uint32ToInt64 (vi_MaxAgeSeconds input))"
    using p by (cases "vi_MaxAgeSeconds input") (auto simp: uint32ToInt64_def word_le_def)
  have challenge: "vi_PKCEChallenge input \<noteq> ''''" "length (vi_PKCEChallenge input) = 43"
    using p by (auto simp: validS256Challenge_def)
  have four: "length (vi_Prompts input) \<le> 4"
  proof -
    have "card (set (vi_Prompts input)) \<le> card {''consent'', ''create'', ''login'', ''none''}"
      using prompts p by (intro card_mono) auto
    then show ?thesis using prompts(2) p by (simp add: distinct_card)
  qed
  have opt: "none_or q (pointerString s) \<longleftrightarrow> s = '''' \<or> q s" for q s by (simp add: pointerString_def)
  have scopes: "scopes_valid 1 (vi_Scopes input)" "length (vi_Scopes input) \<le> 32"
    using p canonical_scopes_length[of "vi_Scopes input"]
    by (auto simp: scopes_valid_canonical canonical_scopes_def Suc_le_eq)
  show ?thesis
    unfolding auth_transactions_check_def authTransactionParams_def new_transaction_def
    using p prompts four age challenge scopes assms(2) validS256Challenge_format[of "vi_PKCEChallenge input"]
    by (simp add: opt) (auto simp: pointerString_def Suc_le_eq)
qed

section \<open>Stored transactions\<close>

lemma int64ToUint32_uint32ToInt64 [simp]: "int64ToUint32 (uint32ToInt64 m) = m"
proof (cases m)
  case (Some w)
  have "uint w < 2 ^ 32" using uint_lt2p[of w] by simp
  then show ?thesis using Some by (simp add: int64ToUint32_def uint32ToInt64_def)
qed (simp add: int64ToUint32_def uint32ToInt64_def)

lemma mapAuthTransaction_params:
  assumes "txn_ConsumedAt t = None" "txn_FailureReason t = ''''"
  shows "mapAuthTransaction ((authTransactionParams t)\<lparr>tr_ConsumedAt := None, tr_FailureReason := None\<rparr>) = t"
  using assms by (cases t) (simp add: mapAuthTransaction_def authTransactionParams_def valueString_def[of None])

lemma CreateAuthTransaction_Inr:
  assumes "CreateAuthTransaction p d = Inr (u, d')"
  obtains t where "t = p\<lparr>tr_ConsumedAt := None, tr_FailureReason := None\<rparr>"
    "auth_transactions_violation d t = None" "d' = d\<lparr>auth_transactions := insert_row t (auth_transactions d)\<rparr>"
  using assms by (auto simp: CreateAuthTransaction_def Let_def tx_simps)

lemma store_CreateAuthTransaction_Inr:
  assumes "store_CreateAuthTransaction env transaction event d = (Inr u, d')"
  obtains t where "t = (authTransactionParams transaction)\<lparr>tr_ConsumedAt := None, tr_FailureReason := None\<rparr>"
    "auth_transactions_violation d t = None"
    "d' = d\<lparr>auth_transactions := insert_row t (auth_transactions d), audit_events := audit_events d @ [event_row event]\<rparr>"
proof -
  obtain d1 u1 where "CreateAuthTransaction (authTransactionParams transaction) d = Inr (u1, d1)"
    "d' = d1\<lparr>audit_events := audit_events d1 @ [event_row event]\<rparr>"
    using assms unfolding store_CreateAuthTransaction_def
    by (elim inTx_committed tx_elims insertAudit_run) blast
  then show thesis by (elim CreateAuthTransaction_Inr) (rule that, auto)
qed

lemma violation_unique_hash:
  "auth_transactions_violation d t = None \<Longrightarrow> unique_among tr_TokenHash (auth_transactions d) t"
  unfolding auth_transactions_violation_def first_violation_eval by simp

lemma authflow_create_Inr:
  assumes "authflow_create svc uuidOf random newID env kind input requestID now d = (Inr (token, transaction), d')"
  obtains i rest event u where "authflow_newToken random = Some (token, rest)"
    "transaction = new_transaction svc token i kind input now"
    "store_CreateAuthTransaction env transaction event d = (Inr u, d')"
  using assms unfolding authflow_create_def Let_def by (auto split: option.splits prod.splits sum.splits)

text \<open>A live row whose key is unique is found by its token.\<close>

lemma created_transaction_resolves:
  assumes "authflow_create svc uuidOf random newID env kind input requestID now d = (Inr (token, transaction), d')"
    "later < txn_ExpiresAt transaction"
  shows "Resolve (d', None) token later = Inr transaction"
proof -
  obtain i rest event u where c: "authflow_newToken random = Some (token, rest)"
    "transaction = new_transaction svc token i kind input now"
    "store_CreateAuthTransaction env transaction event d = (Inr u, d')"
    using assms(1) by (rule authflow_create_Inr)
  obtain t where t: "t = (authTransactionParams transaction)\<lparr>tr_ConsumedAt := None, tr_FailureReason := None\<rparr>"
    "auth_transactions_violation d t = None"
    "d' = d\<lparr>auth_transactions := insert_row t (auth_transactions d), audit_events := audit_events d @ [event_row event]\<rparr>"
    using c(3) by (rule store_CreateAuthTransaction_Inr)
  have hash: "tr_TokenHash t = authflow_HashToken token"
    by (simp add: t(1) c(2) authTransactionParams_def new_transaction_def)
  have "select_one (\<lambda>r. tr_TokenHash r = authflow_HashToken token) (auth_transactions d) = None"
    using violation_unique_hash[OF t(2)] hash by (auto simp: select_one_None_iff unique_among_def list_all_iff)
  then have "GetAuthTransactionByTokenHash (authflow_HashToken token) d' = Some t"
    using hash t(3) by (simp add: GetAuthTransactionByTokenHash_def table_simps)
  moreover have "mapAuthTransaction t = transaction"
    unfolding t(1) by (rule mapAuthTransaction_params) (simp_all add: c(2) new_transaction_def)
  ultimately have "FindAuthTransaction (d', None) (authflow_HashToken token) = Inr transaction"
    by (simp add: FindAuthTransaction_def pool_read_def)
  moreover have "authflow_validToken token" using txtoken.fresh_valid c(1) by blast
  moreover have "txn_ConsumedAt transaction = None" by (simp add: c(2) new_transaction_def)
  ultimately show ?thesis using assms(2) by (simp add: Resolve_def)
qed

section \<open>Terminal transactions\<close>

text \<open>
  The rows a terminating statement leaves behind: with unique identifiers, the row is
  consumed and no later terminating statement finds it.
\<close>

definition terminal :: "uuid \<Rightarrow> db \<Rightarrow> bool" where
  "terminal i d \<longleftrightarrow> (\<forall>t\<in>set (auth_transactions d). tr_ID t = i \<longrightarrow> tr_ConsumedAt t \<noteq> None)"

lemma terminal_refuses:
  assumes "terminal i d"
  shows "ConsumeAuthTransaction now i d = Inr (None, d)" "RejectAuthTransaction now reason i d = Inr (None, d)"
proof -
  have none: "select_one (\<lambda>t. tr_ID t = i \<and> tr_ConsumedAt t = None \<and> now < tr_ExpiresAt t) (auth_transactions d) = None"
    using assms by (auto simp: terminal_def select_one_None_iff)
  have same: "update_where (\<lambda>t. tr_ID t = i \<and> tr_ConsumedAt t = None \<and> now < tr_ExpiresAt t) f (auth_transactions d) =
      auth_transactions d" for f
    using assms by (auto simp: terminal_def update_where_def intro!: map_idI)
  show "ConsumeAuthTransaction now i d = Inr (None, d)" "RejectAuthTransaction now reason i d = Inr (None, d)"
    using assms none same
    by (auto simp: ConsumeAuthTransaction_def RejectAuthTransaction_def Let_def stmt_def update_checked_def terminal_def
        list_all_iff)
qed

lemma terminate_tx_terminal:
  assumes "statement d = Inr (None, d)"
  shows "\<exists>err. inTx env (\<lambda>_. terminate_tx op statement event) d = (Inl err, d)"
proof (rule inTx_never)
  fix n x d1
  show "\<not> tx_run (terminate_tx op statement event) d x d1"
  proof
    assume "tx_run (terminate_tx op statement event) d x d1"
    then obtain row d2 where "statement d = Inr (Some row, d2)"
      unfolding terminate_tx_def by (elim tx_elims) auto
    with assms show False by simp
  qed
qed

lemma terminating_statement_Inr:
  assumes "ConsumeAuthTransaction now i d = Inr (Some row, d') \<or> RejectAuthTransaction now reason i d = Inr (Some row, d')"
  obtains f t where "\<forall>t. tr_ConsumedAt (f t) = Some now" "\<forall>t. tr_ID (f t) = tr_ID t"
    "\<forall>t. tr_TokenHash (f t) = tr_TokenHash t"
    "t \<in> set (auth_transactions d)" "tr_ID t = i" "tr_ConsumedAt t = None" "now < tr_ExpiresAt t" "row = f t"
    "d' = d\<lparr>auth_transactions :=
      update_where (\<lambda>t. tr_ID t = i \<and> tr_ConsumedAt t = None \<and> now < tr_ExpiresAt t) f (auth_transactions d)\<rparr>"
  using assms
proof (elim disjE)
  assume "ConsumeAuthTransaction now i d = Inr (Some row, d')"
  then obtain t where "select_one (\<lambda>t. tr_ID t = i \<and> tr_ConsumedAt t = None \<and> now < tr_ExpiresAt t) (auth_transactions d) = Some t"
    "row = t\<lparr>tr_ConsumedAt := Some now\<rparr>" "d' = d\<lparr>auth_transactions :=
      update_where (\<lambda>t. tr_ID t = i \<and> tr_ConsumedAt t = None \<and> now < tr_ExpiresAt t)
        (\<lambda>t. t\<lparr>tr_ConsumedAt := Some now\<rparr>) (auth_transactions d)\<rparr>"
    by (auto simp: ConsumeAuthTransaction_def Let_def tx_simps eq_commute[of "Some row"])
  then show thesis by (intro that[of "\<lambda>t. t\<lparr>tr_ConsumedAt := Some now\<rparr>" t]) auto
next
  assume "RejectAuthTransaction now reason i d = Inr (Some row, d')"
  then obtain t where "select_one (\<lambda>t. tr_ID t = i \<and> tr_ConsumedAt t = None \<and> now < tr_ExpiresAt t) (auth_transactions d) = Some t"
    "row = t\<lparr>tr_ConsumedAt := Some now, tr_FailureReason := reason\<rparr>" "d' = d\<lparr>auth_transactions :=
      update_where (\<lambda>t. tr_ID t = i \<and> tr_ConsumedAt t = None \<and> now < tr_ExpiresAt t)
        (\<lambda>t. t\<lparr>tr_ConsumedAt := Some now, tr_FailureReason := reason\<rparr>) (auth_transactions d)\<rparr>"
    by (auto simp: RejectAuthTransaction_def Let_def tx_simps eq_commute[of "Some row"])
  then show thesis by (intro that[of "\<lambda>t. t\<lparr>tr_ConsumedAt := Some now, tr_FailureReason := reason\<rparr>" t]) auto
qed

lemma terminating_statements:
  assumes "distinct (map tr_ID (auth_transactions d))"
    "ConsumeAuthTransaction now i d = Inr (Some row, d') \<or> RejectAuthTransaction now reason i d = Inr (Some row, d')"
  shows "terminal i d'"
proof -
  obtain f t where f: "\<forall>t. tr_ConsumedAt (f t) = Some now" "\<forall>t. tr_ID (f t) = tr_ID t"
      "\<forall>t. tr_TokenHash (f t) = tr_TokenHash t"
    and t: "t \<in> set (auth_transactions d)" "tr_ID t = i" "tr_ConsumedAt t = None" "now < tr_ExpiresAt t" "row = f t"
    and d': "d' = d\<lparr>auth_transactions :=
      update_where (\<lambda>t. tr_ID t = i \<and> tr_ConsumedAt t = None \<and> now < tr_ExpiresAt t) f (auth_transactions d)\<rparr>"
    using assms(2) by (rule terminating_statement_Inr)
  have eq: "r = t" if "r \<in> set (auth_transactions d)" "tr_ID r = i" for r
    by (rule distinct_map_eq[OF assms(1) that(1) t(1)]) (simp add: that(2) t(2))
  let ?g = "\<lambda>r. if tr_ID r = i \<and> tr_ConsumedAt r = None \<and> now < tr_ExpiresAt r then f r else r"
  have "tr_ConsumedAt (?g r) \<noteq> None" if r: "r \<in> set (auth_transactions d)" "tr_ID (?g r) = i" for r
  proof -
    have "tr_ID r = i" using r(2) f(2) by (auto split: if_splits)
    then have "r = t" using eq r(1) by blast
    then show ?thesis using f(1) t by simp
  qed
  moreover have "set (auth_transactions d') = ?g ` set (auth_transactions d)" by (simp add: d' table_simps)
  ultimately show ?thesis unfolding terminal_def by (metis (no_types, lifting) imageE)
qed

section \<open>Maintenance\<close>

lemma expire_audits_run:
  "tx_run (expire_audits now ids) d u d' \<Longrightarrow> \<exists>rows. d' = d\<lparr>audit_events := audit_events d @ rows\<rparr>"
proof (induction now ids arbitrary: d rule: expire_audits.induct)
  case (1 now)
  then show ?case by (auto intro!: exI[of _ "[]"])
next
  case (2 now i ids)
  then obtain event d1 where d1: "d1 = d\<lparr>audit_events := audit_events d @ [event_row event]\<rparr>"
    and "\<exists>rows. d' = d1\<lparr>audit_events := audit_events d1 @ rows\<rparr>"
    unfolding expire_audits.simps by (elim tx_elims insertAudit_run) (metis+)
  then obtain rows where "d' = d1\<lparr>audit_events := audit_events d1 @ rows\<rparr>" by blast
  then show ?case using d1 by (intro exI[of _ "event_row event # rows"]) simp
qed

lemma expire_tx_run:
  assumes "tx_run (expire_tx now) d (count, again) d'"
  obtains ids where "ids = batch_keys (overdue now) (\<lambda>t. (tr_ExpiresAt t, tr_ID t)) tr_ID cleanupBatchSize (auth_transactions d)"
    "auth_transactions d' = update_where (\<lambda>t. tr_ID t \<in> set ids)
       (\<lambda>t. t\<lparr>tr_ConsumedAt := Some now, tr_FailureReason := Some ''expired''\<rparr>) (auth_transactions d)"
    "preauth_sessions d' = preauth_sessions d" "authorization_codes d' = authorization_codes d"
    "count = length ids" "again \<longleftrightarrow> \<not> length ids < cleanupBatchSize"
proof -
  obtain ids d1 u where run: "ExpireAuthTransactions now cleanupBatchSize d = Inr (ids, d1)"
    "tx_run (expire_audits now ids) d1 u d'" "count = length ids" "again \<longleftrightarrow> \<not> length ids < cleanupBatchSize"
    using assms unfolding expire_tx_def by (elim tx_elims) (metis prod.inject)
  obtain rows where "d' = d1\<lparr>audit_events := audit_events d1 @ rows\<rparr>" using expire_audits_run[OF run(2)] by blast
  with run(1,3,4) that show thesis by (auto simp: ExpireAuthTransactions_def Let_def tx_simps)
qed

definition no_overdue :: "time \<Rightarrow> db \<Rightarrow> bool" where
  "no_overdue now d \<longleftrightarrow> select_where (overdue now) (auth_transactions d) = []"

interpretation expiry: draining "\<lambda>k. inTx (envs k) (\<lambda>_. expire_tx now)"
  "\<lambda>d. length (select_where (overdue now) (auth_transactions d))" "no_overdue now" for envs now
proof
  fix k d count d'
  assume "inTx (envs k) (\<lambda>_. expire_tx now) d = (Inr (count, True), d')"
  then obtain ids where ids: "ids = batch_keys (overdue now) (\<lambda>t. (tr_ExpiresAt t, tr_ID t)) tr_ID cleanupBatchSize (auth_transactions d)"
    "auth_transactions d' = update_where (\<lambda>t. tr_ID t \<in> set ids)
       (\<lambda>t. t\<lparr>tr_ConsumedAt := Some now, tr_FailureReason := Some ''expired''\<rparr>) (auth_transactions d)"
    "\<not> length ids < cleanupBatchSize"
    by (elim inTx_committed expire_tx_run) blast
  have "0 < length ids" using ids(3) by (cases ids) (simp_all add: cleanupBatchSize_def)
  then obtain t where "t \<in> set (auth_transactions d)" "overdue now t" "tr_ID t \<in> set ids"
    unfolding ids(1) by (rule batch_keys_nonempty)
  then show "length (select_where (overdue now) (auth_transactions d')) < length (select_where (overdue now) (auth_transactions d))"
    unfolding ids(2) by (intro update_where_progress) (auto simp: overdue_def)
next
  fix k d count d'
  assume "inTx (envs k) (\<lambda>_. expire_tx now) d = (Inr (count, False), d')"
  then obtain ids where ids: "ids = batch_keys (overdue now) (\<lambda>t. (tr_ExpiresAt t, tr_ID t)) tr_ID cleanupBatchSize (auth_transactions d)"
    "auth_transactions d' = update_where (\<lambda>t. tr_ID t \<in> set ids)
       (\<lambda>t. t\<lparr>tr_ConsumedAt := Some now, tr_FailureReason := Some ''expired''\<rparr>) (auth_transactions d)"
    "length ids < cleanupBatchSize"
    by (elim inTx_committed expire_tx_run) blast
  have "tr_ID t \<in> set ids" if "t \<in> set (auth_transactions d)" "overdue now t" for t
    unfolding ids(1) using ids(3)[unfolded ids(1)] that by (rule batch_keys_all)
  then show "no_overdue now d'"
    unfolding no_overdue_def ids(2) by (auto simp: select_where_def update_where_def filter_empty_conv overdue_def)
qed

definition no_retired :: "time \<Rightarrow> db \<Rightarrow> bool" where
  "no_retired cutoff d \<longleftrightarrow> select_where (retired_transaction d cutoff) (auth_transactions d) = []"

lemma DeleteRetiredAuthTransactions_Inr:
  assumes "DeleteRetiredAuthTransactions cutoff n d = Inr (count, d')"
  obtains ids ts where "delete_batch (retired_transaction d cutoff)
       (\<lambda>t. (case tr_ConsumedAt t of Some at \<Rightarrow> at | None \<Rightarrow> 0, tr_ID t)) tr_ID n (auth_transactions d) = (ids, ts)"
    "d' = d\<lparr>auth_transactions := ts\<rparr>" "count = length ids" "retired_transaction d' = retired_transaction d"
  using assms by (auto simp: DeleteRetiredAuthTransactions_def retired_transaction_def fun_eq_iff split: prod.splits)

interpretation retirement: draining
  "\<lambda>k. pool_exec (outcomes k) ''clean authorization transactions''
     (\<lambda>d. stmt (\<lambda>(count, d'). ((count, \<not> count < cleanupBatchSize), d'))
       (DeleteRetiredAuthTransactions cutoff cleanupBatchSize d))"
  "\<lambda>d. length (select_where (retired_transaction d cutoff) (auth_transactions d))" "no_retired cutoff" for outcomes cutoff
proof
  fix k d count d'
  assume "pool_exec (outcomes k) ''clean authorization transactions''
     (\<lambda>d. stmt (\<lambda>(count, d'). ((count, \<not> count < cleanupBatchSize), d'))
       (DeleteRetiredAuthTransactions cutoff cleanupBatchSize d)) d = (Inr (count, True), d')"
  then have "DeleteRetiredAuthTransactions cutoff cleanupBatchSize d = Inr (count, d')" "\<not> count < cleanupBatchSize"
    by (auto dest!: pool_exec_Inr simp: tx_simps)
  then show "length (select_where (retired_transaction d' cutoff) (auth_transactions d')) <
      length (select_where (retired_transaction d cutoff) (auth_transactions d))"
    by (elim DeleteRetiredAuthTransactions_Inr) (auto simp: cleanupBatchSize_def intro: delete_batch_progress)
next
  fix k d count d'
  assume "pool_exec (outcomes k) ''clean authorization transactions''
     (\<lambda>d. stmt (\<lambda>(count, d'). ((count, \<not> count < cleanupBatchSize), d'))
       (DeleteRetiredAuthTransactions cutoff cleanupBatchSize d)) d = (Inr (count, False), d')"
  then have "DeleteRetiredAuthTransactions cutoff cleanupBatchSize d = Inr (count, d')" "count < cleanupBatchSize"
    by (auto dest!: pool_exec_Inr simp: tx_simps)
  then show "no_retired cutoff d'"
    by (elim DeleteRetiredAuthTransactions_Inr) (auto simp: no_retired_def intro: delete_batch_drained)
qed

lemma DeleteRetired_keeps_no_overdue:
  assumes "no_overdue now d" "pool_exec fault op (\<lambda>d. stmt (\<lambda>(count, d'). ((count, \<not> count < n), d'))
     (DeleteRetiredAuthTransactions cutoff n d)) d = (r, d')"
  shows "no_overdue now d'"
  using pool_exec_effect[OF assms(2)]
proof (elim disjE exE)
  fix x assume "stmt (\<lambda>(count, d'). ((count, \<not> count < n), d')) (DeleteRetiredAuthTransactions cutoff n d) = Inr (x, d')"
  then obtain count where "DeleteRetiredAuthTransactions cutoff n d = Inr (count, d')" by (auto simp: tx_simps)
  then show ?thesis
    using assms(1) delete_batch_set
    by (elim DeleteRetiredAuthTransactions_Inr) (fastforce simp: no_overdue_def select_where_def filter_empty_conv)
qed (use assms(1) in simp)

lemma terminating_call:
  assumes "inTx env (\<lambda>_. terminate_tx op statement event) d = (Inr t, d')"
  obtains row d1 where "statement d = Inr (Some row, d1)" "t = mapAuthTransaction row"
    "d' = d1\<lparr>audit_events := audit_events d1 @ [event_row event]\<rparr>"
  using assms unfolding terminate_tx_def by (elim inTx_committed tx_elims insertAudit_run) blast+

lemma authflow_terminated:
  assumes "authflow_Consume newID env t actor requestID now d = (Inr t', d') \<or>
    authflow_Reject newID env t reason actor requestID now d = (Inr t', d')"
  obtains row d1 rows where "ConsumeAuthTransaction now (txn_ID t) d = Inr (Some row, d1) \<or>
      RejectAuthTransaction now (pointerString reason) (txn_ID t) d = Inr (Some row, d1)"
    "t' = mapAuthTransaction row" "d' = d1\<lparr>audit_events := audit_events d1 @ rows\<rparr>"
  using assms
  unfolding authflow_Consume_def authflow_Reject_def store_ConsumeAuthTransaction_def store_RejectAuthTransaction_def
  by (auto split: option.splits if_splits elim!: terminating_call)

lemma ended_row_consumed:
  assumes "ConsumeAuthTransaction now i d = Inr (Some row, d') \<or> RejectAuthTransaction now reason i d = Inr (Some row, d')"
  shows "tr_ConsumedAt row \<noteq> None"
  using assms by (elim terminating_statement_Inr) simp

lemma ended_row_found:
  assumes "distinct (map tr_TokenHash (auth_transactions d))"
    "ConsumeAuthTransaction now i d = Inr (Some row, d') \<or> RejectAuthTransaction now reason i d = Inr (Some row, d')"
  shows "select_one (\<lambda>t. tr_TokenHash t = tr_TokenHash row) (auth_transactions d') = Some row"
proof -
  obtain f where "\<forall>t. tr_TokenHash (f t) = tr_TokenHash t"
    "auth_transactions d' =
      update_where (\<lambda>t. tr_ID t = i \<and> tr_ConsumedAt t = None \<and> now < tr_ExpiresAt t) f (auth_transactions d)"
    using assms(2) by (elim terminating_statement_Inr) simp
  then have "map tr_TokenHash (auth_transactions d') = map tr_TokenHash (auth_transactions d)"
    by (simp add: map_update_where)
  moreover have "row \<in> set (auth_transactions d')"
    using assms(2) by (elim terminating_statement_Inr) (force simp: table_simps)
  ultimately show ?thesis using assms(1) by (intro select_one_unique) simp
qed

section \<open>Properties\<close>

text \<open>
  C27 (type). What \<^verbatim>\<open>CreateVerified\<close> accepts fits the schema: for an input that passes its
  checks, in a service \<^verbatim>\<open>NewService\<close> constructed, the row it stores satisfies every CHECK
  constraint of \<^verbatim>\<open>auth_transactions\<close>, if and only if the redirect URI has between 1 and 2048
  bytes. The bound on the URI is the only one the service leaves to the schema.
\<close>

theorem verified_transactions_fit_schema:
  assumes "authflow_NewService ttl = Some svc" "verified_input url_Parse input0 = Some input"
  shows "auth_transactions_check (authTransactionParams (new_transaction svc token i ''authorization'' input now)) \<longleftrightarrow>
    vi_RedirectURI input \<noteq> '''' \<and> length (vi_RedirectURI input) \<le> 2048"
proof -
  have "0 < af_ttl svc" using assms(1) by (auto simp: authflow_NewService_def split: if_splits)
  then show ?thesis using verified_input_protocol(1)[OF assms(2)] by (intro new_transaction_check)
qed



text \<open>
  C28 (termination). The maintenance run of the authorization transactions always returns,
  and when it reports no error no live transaction is past its expiry and no terminal,
  unreferenced transaction is older than a day.
\<close>

theorem authflow_cleanup_returns:
  "\<exists>count err d'. authflow_Cleanup envs outcomes now d = Some ((count, err), d') \<and>
     (err = None \<longrightarrow> no_overdue now d' \<and> no_retired (now - 24 * Hour) d')"
proof -
  obtain n err d1 where expire: "store_ExpireAuthTransactions envs now d = Some ((n, err), d1)"
    using expiry.loop_returns[of envs now 0 0 d] unfolding store_ExpireAuthTransactions_def by auto
  show ?thesis
  proof (cases err)
    case None
    then have overdue: "no_overdue now d1"
      using expire unfolding store_ExpireAuthTransactions_def by (auto dest: expiry.loop_drained)
    obtain m err' d2 where clean: "CleanupAuthTransactions outcomes (now - 24 * Hour) d1 = Some ((m, err'), d2)"
      using retirement.loop_returns[of outcomes "now - 24 * Hour" 0 0 d1] unfolding CleanupAuthTransactions_def by auto
    have "no_overdue now d2"
      using clean retirement.loop_preserves[of "no_overdue now"] overdue DeleteRetired_keeps_no_overdue
      unfolding CleanupAuthTransactions_def by blast
    moreover have "no_retired (now - 24 * Hour) d2" if "err' = None"
      using clean that unfolding CleanupAuthTransactions_def by (auto dest: retirement.loop_drained)
    ultimately show ?thesis using expire clean None by (cases err') (simp_all add: authflow_Cleanup_def)
  qed (use expire in \<open>simp add: authflow_Cleanup_def\<close>)
qed

section \<open>Witnesses\<close>

definition sample_input :: VerifiedInput where
  "sample_input = \<lparr>vi_ClientID = 2, vi_RedirectURI = ''https://c/cb'', vi_Scopes = [''profile'', ''openid''],
     vi_PKCEChallenge = b64_encode (replicate 32 CHR ''p''), vi_State = ''st'', vi_Nonce = '''',
     vi_PromptCreate = True, vi_ResponseType = ''code'', vi_ResponseMode = ''query'', vi_Prompts = [],
     vi_MaxAgeSeconds = Some 60\<rparr>"

definition sample_verified :: VerifiedInput where
  "sample_verified = sample_input\<lparr>vi_Scopes := [''openid'', ''profile''], vi_Prompts := [''create'']\<rparr>"

definition sample_authflow :: AuthflowService where
  "sample_authflow = \<lparr>af_ttl = 10 * Minute\<rparr>"

lemma sample_canonical: "canonicalStrings [''profile'', ''openid''] = [''openid'', ''profile'']"
  by (simp add: canonicalStrings_def)

lemma sample_verified_input: "verified_input sample_url_Parse sample_input = Some sample_verified"
proof -
  have "validS256Challenge (b64_encode (replicate 32 CHR ''p''))"
    by (simp add: validS256Challenge_def length_b64_encode)
  moreover have "validOIDCScopes [''openid'', ''profile'']"
    by (simp add: validOIDCScopes_def authflow_contains_member)
  moreover have "validPrompts [''create'']"
    by (simp add: validPrompts_def Let_def canonicalStrings_def authflow_contains_member)
  moreover have "validAbsoluteURI sample_url_Parse ''https://c/cb''"
    by (simp add: validAbsoluteURI_def sample_url_Parse_def HasPrefix_def IsAbs_def)
  ultimately show ?thesis
    by (simp add: verified_input_def Let_def sample_input_def sample_verified_def sample_canonical authflow_contains_member)
qed

theorem verified_transactions_fit_schema_witness:
  "auth_transactions_check (authTransactionParams (new_transaction sample_authflow ''t'' 9 ''authorization'' sample_verified 5))"
proof -
  have "authflow_NewService (10 * Minute) = Some sample_authflow"
    by (simp add: authflow_NewService_def sample_authflow_def duration_defs)
  from verified_transactions_fit_schema[OF this sample_verified_input] show ?thesis
    by (simp add: sample_verified_def sample_input_def)
qed

definition sample_token :: string where "sample_token = ''t1_'' @ b64_encode (replicate 32 CHR ''t'')"

definition sample_transaction :: Transaction where
  "sample_transaction = new_transaction sample_authflow sample_token 22 ''authorization'' sample_verified sample_now"

lemma sample_transaction_violation:
  "auth_transactions_violation sample_db (authTransactionParams sample_transaction) = None"
proof -
  have "protocol_input sample_verified" using verified_input_protocol(1)[OF sample_verified_input] .
  then have "auth_transactions_check (authTransactionParams sample_transaction)"
    unfolding sample_transaction_def
    by (subst new_transaction_check) (simp_all add: sample_authflow_def duration_defs sample_verified_def sample_input_def)
  moreover have "tr_ClientID (authTransactionParams sample_transaction) = Some 2"
    by (simp add: sample_transaction_def authTransactionParams_def new_transaction_def sample_verified_def sample_input_def)
  moreover have "auth_transactions sample_db = []" "refers cl_ID (oidc_clients sample_db) 2"
    by (simp_all add: sample_rows refers_def)
  ultimately show ?thesis
    unfolding auth_transactions_violation_def first_violation_eval by (simp add: unique_among_def)
qed

lemma sample_CreateVerified:
  "\<exists>d'. CreateVerified sample_url_Parse sample_authflow (\<lambda>_. 22) (replicate 32 CHR ''t'' @ replicate 16 CHR ''i'') 7
     (quiet sample_ids) sample_input '''' sample_now sample_db = (Inr (sample_token, sample_transaction), d')"
proof -
  have token: "authflow_newToken (replicate 32 CHR ''t'' @ replicate 16 CHR ''i'') = Some (sample_token, replicate 16 CHR ''i'')"
    by (simp add: authflow_newToken_def io_ReadFull_def sample_token_def)
  have id: "NewRandomFromReader (\<lambda>_. 22) (replicate 16 CHR ''i'') = Some (22, [])"
    by (simp add: NewRandomFromReader_def io_ReadFull_def)
  obtain event where event: "audit_New 7 ''authorization_transaction_created'' ''success'' None ''auth_transaction'' (Some 22)
      '''' [''created''] sample_now = Some event" "Event_Validate event" "ae_ActorUserID event = None"
    by (simp add: audit_New_def Let_def Event_Validate_def validEvents_def validResults_def validTargets_def
        validChangedFields_def compact_def IsZero_def sample_now_def duration_defs)
  let ?row = "(authTransactionParams sample_transaction)\<lparr>tr_ConsumedAt := None, tr_FailureReason := None\<rparr>"
  have row: "?row = authTransactionParams sample_transaction" by (simp add: authTransactionParams_def)
  have "CreateAuthTransaction (authTransactionParams sample_transaction) sample_db =
      Inr ((), sample_db\<lparr>auth_transactions := insert_row ?row (auth_transactions sample_db)\<rparr>)"
    using sample_transaction_violation by (simp add: CreateAuthTransaction_def Let_def row stmt_def insert_checked_def)
  then have "\<exists>st. tbind (exec_query ''create authorization transaction''
      (CreateAuthTransaction (authTransactionParams sample_transaction))) (\<lambda>_. insertAudit event)
      (start_tx (quiet sample_ids 0) sample_db) = Inr ((), st)"
    by (simp add: tbind_exec_ok insertAudit_first event(2,3) start_tx_def quiet_def)
  then obtain d' where "store_CreateAuthTransaction (quiet sample_ids) sample_transaction event sample_db = (Inr (), d')"
    unfolding store_CreateAuthTransaction_def by (rule inTx_quiet)
  then show ?thesis
    unfolding CreateVerified_def authflow_create_def sample_verified_input token id Let_def
    by (simp add: token id event(1) sample_transaction_def)
qed


lemma auth_transactions_check_ends:
  assumes "auth_transactions_check t" "tr_CreatedAt t \<le> now"
  shows "auth_transactions_check (t\<lparr>tr_ConsumedAt := Some now\<rparr>)"
    "reason \<in> set auth_failure_reasons \<Longrightarrow>
     auth_transactions_check (t\<lparr>tr_ConsumedAt := Some now, tr_FailureReason := Some reason\<rparr>)"
  using assms unfolding auth_transactions_check_def by simp_all

definition sample_row :: AuthTransaction where
  "sample_row = authTransactionParams sample_transaction"

definition sample_live :: db where
  "sample_live = sample_db\<lparr>auth_transactions := [sample_row]\<rparr>"

lemma sample_row_check: "auth_transactions_check sample_row"
  using sample_transaction_violation unfolding auth_transactions_violation_def first_violation_eval sample_row_def by simp

lemma sample_row_fields [simp]:
  "tr_ID sample_row = 22" "tr_ConsumedAt sample_row = None" "tr_CreatedAt sample_row = sample_now"
  "tr_ExpiresAt sample_row = sample_now + 10 * Minute" "tr_TokenHash sample_row = authflow_HashToken sample_token"
  "txn_ID sample_transaction = 22"
  by (simp_all add: sample_row_def authTransactionParams_def sample_transaction_def new_transaction_def sample_authflow_def)

lemma sample_live_fields [simp]:
  "auth_transactions sample_live = [sample_row]" "audit_events sample_live = []" "users sample_live = [sample_user]"
  "preauth_sessions sample_live = []"
  by (simp_all add: sample_live_def) (simp add: sample_rows)

lemma sample_Consume:
  "\<exists>d'. authflow_Consume 7 (quiet sample_ids) sample_transaction None '''' sample_now sample_live =
     (Inr (mapAuthTransaction (sample_row\<lparr>tr_ConsumedAt := Some sample_now\<rparr>)), d')"
proof -
  obtain event where event: "audit_New 7 ''authorization_transaction_consumed'' ''success'' None ''auth_transaction'' (Some 22)
      '''' [] sample_now = Some event" "Event_Validate event" "ae_ActorUserID event = None"
    by (simp add: audit_New_def Let_def Event_Validate_def validEvents_def validResults_def validTargets_def
        validChangedFields_def compact_def IsZero_def sample_now_def duration_defs)
  have "ConsumeAuthTransaction sample_now 22 sample_live = Inr (Some (sample_row\<lparr>tr_ConsumedAt := Some sample_now\<rparr>),
      sample_live\<lparr>auth_transactions := [sample_row\<lparr>tr_ConsumedAt := Some sample_now\<rparr>]\<rparr>)"
    using auth_transactions_check_ends(1)[OF sample_row_check, of sample_now]
    by (simp add: ConsumeAuthTransaction_def Let_def stmt_def update_checked_def update_where_def select_one_def duration_defs)
  then have "\<exists>st. terminate_tx ''consume authorization transaction'' (ConsumeAuthTransaction sample_now 22) event
      (start_tx (quiet sample_ids 0) sample_live) =
      Inr (mapAuthTransaction (sample_row\<lparr>tr_ConsumedAt := Some sample_now\<rparr>), st)"
    unfolding terminate_tx_def
    by (simp add: tbind_exec_ok insertAudit_first event(2,3) start_tx_def quiet_def tbind_ok treturn_def)
  then obtain d' where "store_ConsumeAuthTransaction (quiet sample_ids) 22 sample_now event sample_live =
      (Inr (mapAuthTransaction (sample_row\<lparr>tr_ConsumedAt := Some sample_now\<rparr>)), d')"
    unfolding store_ConsumeAuthTransaction_def by (rule inTx_quiet)
  then show ?thesis using event(1) by (simp add: authflow_Consume_def)
qed


lemma sample_Cleanup:
  "\<exists>d'. authflow_Cleanup (\<lambda>_. quiet sample_ids) (\<lambda>_. Committed) (sample_now + Hour) sample_live = Some ((1, None), d')"
proof -
  let ?now = "sample_now + Hour"
  let ?row = "sample_row\<lparr>tr_ConsumedAt := Some ?now, tr_FailureReason := Some ''expired''\<rparr>"
  obtain event where event: "audit_New (sample_ids 0) ''authorization_transaction_expired'' ''success'' None ''auth_transaction'' (Some 22)
      '''' [] ?now = Some event" "Event_Validate event" "ae_ActorUserID event = None"
    by (simp add: audit_New_def Let_def Event_Validate_def validEvents_def validResults_def validTargets_def
        validChangedFields_def compact_def IsZero_def sample_now_def duration_defs sample_ids_def)
  have "batch_keys (overdue ?now) (\<lambda>t. (tr_ExpiresAt t, tr_ID t)) tr_ID cleanupBatchSize [sample_row] = [22]"
    by (simp add: batch_keys_def select_where_def overdue_def duration_defs cleanupBatchSize_def)
  then have expire: "ExpireAuthTransactions ?now cleanupBatchSize sample_live = Inr ([22], sample_live\<lparr>auth_transactions := [?row]\<rparr>)"
    using auth_transactions_check_ends(2)[OF sample_row_check, of ?now "''expired''"]
    by (simp add: ExpireAuthTransactions_def auth_failure_reasons_def Let_def stmt_def update_checked_def update_where_def duration_defs)
  let ?st = "(start_tx (quiet sample_ids 0) sample_live)\<lparr>st_db := sample_live\<lparr>auth_transactions := [?row]\<rparr>\<rparr>"
  have "expire_audits ?now [22] ?st = Inr ((), ?st\<lparr>st_drawn := 1,
      st_db := sample_live\<lparr>auth_transactions := [?row], audit_events := [event_row event]\<rparr>\<rparr>)"
    using event by (simp add: tbind_def uuid_New_def insertAudit_first treturn_def start_tx_def quiet_def)
  note audits = this
  have start: "st_faults (start_tx (quiet sample_ids 0) sample_live) = []"
    "ExpireAuthTransactions ?now cleanupBatchSize (st_db (start_tx (quiet sample_ids 0) sample_live)) =
      Inr ([22], sample_live\<lparr>auth_transactions := [?row]\<rparr>)"
    using expire by (simp_all add: start_tx_def quiet_def)
  have "expire_tx ?now (start_tx (quiet sample_ids 0) sample_live) = Inr ((1, False),
      ?st\<lparr>st_drawn := 1, st_db := sample_live\<lparr>auth_transactions := [?row], audit_events := [event_row event]\<rparr>\<rparr>)"
    unfolding expire_tx_def tbind_exec_ok[where stmt = "ExpireAuthTransactions ?now cleanupBatchSize", OF start] tbind_ok[where m = "expire_audits ?now [22]", OF audits] treturn_def
    by (simp add: cleanupBatchSize_def)
  then have "store_ExpireAuthTransactions (\<lambda>_. quiet sample_ids) ?now sample_live =
      Some ((1, None), sample_live\<lparr>auth_transactions := [?row], audit_events := [event_row event]\<rparr>)"
    unfolding store_ExpireAuthTransactions_def by (simp add: batch_loop.simps inTx_clean)
  moreover have "\<not> retired_transaction d (?now - 24 * Hour) ?row" for d
    by (simp add: retired_transaction_def duration_defs)
  ultimately show ?thesis
    by (simp add: authflow_Cleanup_def CleanupAuthTransactions_def batch_loop.simps pool_exec_def stmt_def
        DeleteRetiredAuthTransactions_def delete_batch_def batch_keys_def select_where_def cleanupBatchSize_def Let_def)
qed

theorem authflow_cleanup_returns_witness:
  "\<exists>d'. authflow_Cleanup (\<lambda>_. quiet sample_ids) (\<lambda>_. Committed) (sample_now + Hour) sample_live = Some ((1, None), d') \<and>
     no_overdue (sample_now + Hour) d'"
  using sample_Cleanup
    authflow_cleanup_returns[of "\<lambda>_. quiet sample_ids" "\<lambda>_. Committed" "sample_now + Hour" sample_live]
  by auto

end
