(* ===== verification/Authorization.thy ===== *)
theory Authorization
  imports Authflow Code_Exchange
begin

text \<open>
  Issuing and denying authorization: \<^verbatim>\<open>internal/authorization/authorization.go\<close>, its store
  \<^verbatim>\<open>internal/storage/postgres/authorization.go\<close> and the consent evaluation of
  \<^verbatim>\<open>internal/consent/consent.go\<close>. \<^verbatim>\<open>IssueAuthorizationCode\<close> is one transaction that locks the
  browser transaction, re-validates user, client, redirect URI and scopes, creates,
  expands or reactivates the grant when the user has just consented, inserts the code and
  consumes the browser transaction.
\<close>

section \<open>Structs\<close>

record IssueCommit =
  ic_Transaction :: Transaction
  ic_UserID :: uuid
  ic_SessionID :: uuid
  ic_SessionBindingID :: uuid
  ic_AuthenticatedAt :: time
  ic_InteractiveConsent :: bool
  ic_CodeID :: uuid
  ic_CodeHash :: string
  ic_ProposedGrantID :: uuid
  ic_CreatedAt :: time
  ic_ExpiresAt :: time
  ic_RequestID :: string

record DenyCommit =
  dc_Transaction :: Transaction
  dc_UserID :: uuid
  dc_DeniedAt :: time
  dc_RequestID :: string

record Issued =
  is_Code :: string
  is_CodeID :: uuid
  is_Grant :: ConsentGrant
  is_ExpiresAt :: time

record AuthorizationService =
  az_codeTTL :: duration

record Evaluation =
  evn_Grant :: "ConsentGrant option"
  evn_Effective :: "string list"
  evn_AlreadyGranted :: "string list"
  evn_NewScopes :: "string list"
  evn_Covers :: bool

definition authorization_NewService :: "duration \<Rightarrow> AuthorizationService option" where
  "authorization_NewService codeTTL =
     (if codeTTL < 30 * Second \<or> codeTTL > 5 * Minute then None else Some \<lparr>az_codeTTL = codeTTL\<rparr>)"

section \<open>Consent evaluation\<close>

definition validActiveClient :: "Client \<Rightarrow> bool" where
  "validActiveClient value \<longleftrightarrow> cl_ID value \<noteq> uuid_Nil \<and> cl_Status value = ''active'' \<and>
     (cl_Type value = ''public'' \<and> cl_AuthMethod value = ''none'' \<or>
      cl_Type value = ''confidential'' \<and> cl_AuthMethod value = ''client_secret_basic'')"

definition GetConsentGrant :: "db \<times> pg_error option \<Rightarrow> uuid \<Rightarrow> uuid \<Rightarrow> go_error + ConsentGrant" where
  "GetConsentGrant view userID clientID =
     (case pool_read view ''get consent grant'' (GetConsentGrantByUserClient userID clientID) of
        Inl err \<Rightarrow> Inl err
      | Inr None \<Rightarrow> Inl Consent_ErrNotFound
      | Inr (Some row) \<Rightarrow> Inr row)"

definition Evaluate :: "db \<times> pg_error option \<Rightarrow> uuid \<Rightarrow> Client \<Rightarrow> string list \<Rightarrow> go_error + Evaluation" where
  "Evaluate view userID clientValue requested0 =
     (case CanonicalScopes requested0 of
        None \<Rightarrow> Inl Consent_ErrInvalid
      | Some requested \<Rightarrow>
        if userID = uuid_Nil \<or> \<not> validActiveClient clientValue \<or> \<not> scope_subset requested (cl_Scopes clientValue)
        then Inl Consent_ErrInvalid else
        (case GetConsentGrant view userID (cl_ID clientValue) of
           Inl err \<Rightarrow>
             if errors_Is err Consent_ErrNotFound
             then Inr \<lparr>evn_Grant = None, evn_Effective = [], evn_AlreadyGranted = [], evn_NewScopes = requested,
                       evn_Covers = False\<rparr>
             else Inl err
         | Inr grant \<Rightarrow>
           if grant_ID grant = uuid_Nil \<or> grant_UserID grant \<noteq> userID \<or> grant_ClientID grant \<noteq> cl_ID clientValue \<or>
              grant_Version grant < 1 \<or> IsZero (grant_CreatedAt grant) \<or> grant_UpdatedAt grant < grant_CreatedAt grant \<or>
              (case grant_RevokedAt grant of None \<Rightarrow> False | Some at \<Rightarrow> at < grant_CreatedAt grant)
           then Inl Consent_ErrInvalid else
           (case CanonicalScopes (grant_Scopes grant) of
              None \<Rightarrow> Inl Consent_ErrInvalid
            | Some stored \<Rightarrow>
              (let effective = (if grant_RevokedAt grant \<noteq> None then [] else Intersection stored (cl_Scopes clientValue));
                   newScopes = Difference requested effective
               in Inr \<lparr>evn_Grant = Some (grant\<lparr>grant_Scopes := stored\<rparr>), evn_Effective = effective,
                       evn_AlreadyGranted = Intersection requested effective, evn_NewScopes = newScopes,
                       evn_Covers = (newScopes = [])\<rparr>))))"

section \<open>Store: validation under locks\<close>

definition validateIssueCommit :: "IssueCommit \<Rightarrow> bool" where
  "validateIssueCommit commit \<longleftrightarrow>
     \<not> (ic_UserID commit = uuid_Nil \<or> ic_SessionID commit = uuid_Nil \<or> ic_SessionBindingID commit = uuid_Nil \<or>
        ic_CodeID commit = uuid_Nil \<or> ic_ProposedGrantID commit = uuid_Nil \<or> length (ic_CodeHash commit) \<noteq> 32 \<or>
        IsZero (ic_CreatedAt commit) \<or> IsZero (ic_AuthenticatedAt commit) \<or>
        ic_AuthenticatedAt commit > ic_CreatedAt commit \<or> \<not> ic_ExpiresAt commit > ic_CreatedAt commit \<or>
        ic_ExpiresAt commit > ic_CreatedAt commit + 5 * Minute)"

text \<open>\<open>None\<close> is no error.\<close>

definition validateLockedAuthorizationTransaction :: "AuthTransaction \<Rightarrow> Transaction \<Rightarrow> time \<Rightarrow> go_error option" where
  "validateLockedAuthorizationTransaction row expected now =
     (if tr_ConsumedAt row = None \<and> \<not> tr_ExpiresAt row > now then Some Authorization_ErrExpired else
      if tr_ConsumedAt row \<noteq> None then
        if valueString (tr_FailureReason row) = ''expired'' then Some Authorization_ErrExpired
        else Some Authorization_ErrConsumed
      else
      let actual = mapAuthTransaction row in
      if txn_Kind actual \<noteq> ''authorization'' \<or> txn_ClientID actual = None \<or> txn_ClientID expected = None \<or>
         txn_ID actual \<noteq> txn_ID expected \<or> txn_ClientID actual \<noteq> txn_ClientID expected \<or>
         txn_TokenHash actual \<noteq> txn_TokenHash expected \<or> txn_RedirectURI actual \<noteq> txn_RedirectURI expected \<or>
         txn_Scopes actual \<noteq> txn_Scopes expected \<or> txn_PKCEChallenge actual \<noteq> txn_PKCEChallenge expected \<or>
         txn_PKCEMethod actual \<noteq> txn_PKCEMethod expected \<or> txn_State actual \<noteq> txn_State expected \<or>
         txn_Nonce actual \<noteq> txn_Nonce expected \<or> txn_ResponseType actual \<noteq> txn_ResponseType expected \<or>
         txn_ResponseMode actual \<noteq> txn_ResponseMode expected \<or> txn_Prompts actual \<noteq> txn_Prompts expected \<or>
         txn_MaxAgeSeconds actual \<noteq> txn_MaxAgeSeconds expected
      then Some Authorization_ErrInvalid else None)"

definition scopeSubset :: "string list \<Rightarrow> string list \<Rightarrow> bool" where
  "scopeSubset requested allowed = list_all (\<lambda>scope. scope \<in> set allowed) requested"

definition lockAndValidateAuthorizationClient :: "AuthTransaction \<Rightarrow> Client dbtx" where
  "lockAndValidateAuthorizationClient transaction =
     (case tr_ClientID transaction of
        None \<Rightarrow> tfail Authorization_ErrInvalid
      | Some cid \<Rightarrow>
        tbind (read_query ''lock authorization client'' (LockOIDCClientByID cid)) (\<lambda>row.
        case row of
          None \<Rightarrow> tfail Authorization_ErrInactive
        | Some row \<Rightarrow>
        tbind (loadClientChildren (mapClient row)) (\<lambda>value.
        let validAuthenticationProfile =
          (if cl_Type value = ''public'' then cl_AuthMethod value = ''none''
           else if cl_Type value = ''confidential'' then cl_AuthMethod value = ''client_secret_basic'' else False) in
        if cl_Status value \<noteq> ''active'' \<or> \<not> validAuthenticationProfile \<or>
           valueString (tr_RedirectUri transaction) \<notin> set (cl_RedirectURIs value) \<or>
           \<not> scopeSubset (tr_Scopes transaction) (cl_Scopes value)
        then tfail Authorization_ErrInactive
        else treturn value)))"

text \<open>The grant that covers the request, and how it was changed (empty if it was not).\<close>

definition lockAndApplyConsent ::
  "IssueCommit \<Rightarrow> Client \<Rightarrow> string list \<Rightarrow> (ConsentGrant \<times> string) dbtx" where
  "lockAndApplyConsent commit clientValue requested =
     tbind (read_query ''lock consent grant'' (LockConsentGrantByUserClient (ic_UserID commit) (cl_ID clientValue))) (\<lambda>row.
     case row of
       None \<Rightarrow>
         if \<not> ic_InteractiveConsent commit then tfail Authorization_ErrConsentRequired else
         tbind (exec_query ''create consent grant''
                  (CreateConsentGrant (ic_ProposedGrantID commit) (ic_UserID commit) (cl_ID clientValue) requested
                     (ic_CreatedAt commit) (ic_CreatedAt commit))) (\<lambda>created.
         treturn (created, ''created''))
     | Some grant \<Rightarrow>
     (case CanonicalScopes (grant_Scopes grant) of
        None \<Rightarrow> tfail Authorization_ErrInvalid
      | Some stored \<Rightarrow>
     if grant_ID grant = uuid_Nil \<or> grant_UserID grant \<noteq> ic_UserID commit \<or>
        grant_ClientID grant \<noteq> cl_ID clientValue \<or> grant_Version grant < 1
     then tfail Authorization_ErrInvalid else
     if grant_RevokedAt grant \<noteq> None then
       if \<not> ic_InteractiveConsent commit then tfail Authorization_ErrConsentRequired else
       tbind (exec_query ''reactivate consent grant''
                (ReactivateConsentGrant requested (ic_CreatedAt commit) (grant_ID grant))) (\<lambda>updated.
       case updated of
         None \<Rightarrow> tfail (no_rows ''reactivate consent grant'')
       | Some updated \<Rightarrow> treturn (updated, ''reactivated''))
     else
     let effective = Intersection stored (cl_Scopes clientValue) in
     if \<not> ic_InteractiveConsent commit then
       if Difference requested effective \<noteq> [] then tfail Authorization_ErrConsentRequired
       else treturn (grant\<lparr>grant_Scopes := stored\<rparr>, '''')
     else
     let updatedScopes = Union stored requested in
     if updatedScopes = stored then treturn (grant\<lparr>grant_Scopes := stored\<rparr>, '''') else
     tbind (exec_query ''expand consent grant''
              (UpdateConsentGrantScopes updatedScopes (ic_CreatedAt commit) (grant_ID grant))) (\<lambda>updated.
     case updated of
       None \<Rightarrow> tfail (no_rows ''expand consent grant'')
     | Some updated \<Rightarrow> treturn (updated, ''expanded''))))"

section \<open>Store: issue and deny\<close>

definition issued_code :: "IssueCommit \<Rightarrow> AuthTransaction \<Rightarrow> Client \<Rightarrow> ConsentGrant \<Rightarrow> string list \<Rightarrow> AuthorizationCode" where
  "issued_code commit transactionRow clientValue grant requested =
     \<lparr>code_ID = ic_CodeID commit, code_CodeHash = ic_CodeHash commit, code_AuthTransactionID = tr_ID transactionRow,
      code_ConsentGrantID = grant_ID grant, code_UserID = ic_UserID commit, code_ClientID = cl_ID clientValue,
      code_RedirectUri = valueString (tr_RedirectUri transactionRow), code_Scopes = requested,
      code_PkceChallenge = valueString (tr_PkceChallenge transactionRow), code_PkceMethod = ''S256'',
      code_NonceValue = tr_NonceValue transactionRow, code_AuthTime = ic_AuthenticatedAt commit,
      code_CreatedAt = ic_CreatedAt commit, code_ExpiresAt = ic_ExpiresAt commit, code_ConsumedAt = None,
      code_ConsentGrantVersion = grant_Version grant, code_OriginSessionID = Some (ic_SessionID commit),
      code_SessionBindingID = Some (ic_SessionBindingID commit)\<rparr>"

definition grant_change_audit :: "IssueCommit \<Rightarrow> ConsentGrant \<Rightarrow> string \<Rightarrow> unit dbtx" where
  "grant_change_audit commit grant grantChanged =
     (if grantChanged = '''' then treturn () else
      let (eventType, changed) =
        (if grantChanged = ''expanded'' then (''consent_grant_expanded'', [''expanded''])
         else if grantChanged = ''reactivated'' then (''consent_grant_reactivated'', [''reactivated''])
         else (''consent_grant_created'', [''created'']))
      in tbind (insertProtocolAudit eventType ''success'' (ic_UserID commit) ''consent_grant'' (grant_ID grant)
                  (ic_RequestID commit) changed (ic_CreatedAt commit)) (\<lambda>_. treturn ()))"

text \<open>The code is written, the browser transaction consumed, and the transition audited.\<close>

definition issue_code ::
  "IssueCommit \<Rightarrow> AuthTransaction \<Rightarrow> Client \<Rightarrow> ConsentGrant \<Rightarrow> string \<Rightarrow> string list \<Rightarrow> ConsentGrant dbtx" where
  "issue_code commit transactionRow clientValue grant grantChanged requested =
     tbind (exec_query ''create authorization code''
              (CreateAuthorizationCode (issued_code commit transactionRow clientValue grant requested))) (\<lambda>_.
     tbind (exec_query ''consume transaction while issuing authorization code''
              (ConsumeAuthTransaction (ic_CreatedAt commit) (tr_ID transactionRow))) (\<lambda>consumed.
     case consumed of
       None \<Rightarrow> tfail Authorization_ErrConsumed
     | Some _ \<Rightarrow>
     tbind (grant_change_audit commit grant grantChanged) (\<lambda>_.
     tbind (insertProtocolAudit ''authorization_transaction_consumed'' ''success'' (ic_UserID commit) ''auth_transaction''
              (tr_ID transactionRow) (ic_RequestID commit) [] (ic_CreatedAt commit)) (\<lambda>_.
     tbind (insertProtocolAudit ''authorization_granted'' ''success'' (ic_UserID commit) ''auth_transaction''
              (tr_ID transactionRow) (ic_RequestID commit) [] (ic_CreatedAt commit)) (\<lambda>_.
     tbind (insertProtocolAudit ''authorization_code_issued'' ''success'' (ic_UserID commit) ''authorization_code''
              (ic_CodeID commit) (ic_RequestID commit) [''issued''] (ic_CreatedAt commit)) (\<lambda>_.
     treturn grant))))))"

definition issue_tx :: "IssueCommit \<Rightarrow> ConsentGrant dbtx" where
  "issue_tx commit =
     tbind (read_query ''lock authorization transaction for code issue''
              (LockAuthTransactionByID (txn_ID (ic_Transaction commit)))) (\<lambda>transactionRow.
     case transactionRow of
       None \<Rightarrow> tfail Authorization_ErrNotFound
     | Some transactionRow \<Rightarrow>
     (case validateLockedAuthorizationTransaction transactionRow (ic_Transaction commit) (ic_CreatedAt commit) of
        Some err \<Rightarrow> tfail err
      | None \<Rightarrow>
     tbind (read_query ''lock authorization user'' (LockUserByID (ic_UserID commit))) (\<lambda>userRow.
     case userRow of
       None \<Rightarrow> tfail Authorization_ErrInactive
     | Some userRow \<Rightarrow>
     if usr_Status userRow \<noteq> ''active'' then tfail Authorization_ErrInactive else
     tbind (lockAndValidateAuthorizationClient transactionRow) (\<lambda>clientValue.
     (case CanonicalScopes (tr_Scopes transactionRow) of
        None \<Rightarrow> tfail Authorization_ErrInvalid
      | Some requested \<Rightarrow>
     tbind (lockAndApplyConsent commit clientValue requested) (\<lambda>applied.
     issue_code commit transactionRow clientValue (fst applied) (snd applied) requested))))))"

definition IssueAuthorizationCode ::
  "(nat \<Rightarrow> attempt) \<Rightarrow> IssueCommit \<Rightarrow> db \<Rightarrow> (go_error + ConsentGrant) \<times> db" where
  "IssueAuthorizationCode env commit d =
     (if \<not> validateIssueCommit commit then (Inl Authorization_ErrInvalid, d)
      else inTx env (\<lambda>_. issue_tx commit) d)"

definition deny_tx :: "DenyCommit \<Rightarrow> unit dbtx" where
  "deny_tx commit =
     tbind (read_query ''lock authorization transaction for denial''
              (LockAuthTransactionByID (txn_ID (dc_Transaction commit)))) (\<lambda>transactionRow.
     case transactionRow of
       None \<Rightarrow> tfail Authorization_ErrNotFound
     | Some transactionRow \<Rightarrow>
     (case validateLockedAuthorizationTransaction transactionRow (dc_Transaction commit) (dc_DeniedAt commit) of
        Some err \<Rightarrow> tfail err
      | None \<Rightarrow>
     tbind (read_query ''lock authorization user for denial'' (LockUserByID (dc_UserID commit))) (\<lambda>userRow.
     case userRow of
       None \<Rightarrow> tfail Authorization_ErrInactive
     | Some userRow \<Rightarrow>
     if usr_Status userRow \<noteq> ''active'' then tfail Authorization_ErrInactive else
     tbind (lockAndValidateAuthorizationClient transactionRow) (\<lambda>_.
     tbind (exec_query ''consume denied authorization transaction''
              (RejectAuthTransaction (dc_DeniedAt commit) (pointerString ''access_denied'') (tr_ID transactionRow))) (\<lambda>rejected.
     case rejected of
       None \<Rightarrow> tfail Authorization_ErrConsumed
     | Some _ \<Rightarrow>
     tbind (insertProtocolAudit ''authorization_transaction_rejected'' ''rejected'' (dc_UserID commit) ''auth_transaction''
              (tr_ID transactionRow) (dc_RequestID commit) [] (dc_DeniedAt commit)) (\<lambda>_.
     tbind (insertProtocolAudit ''authorization_denied'' ''rejected'' (dc_UserID commit) ''auth_transaction''
              (tr_ID transactionRow) (dc_RequestID commit) [] (dc_DeniedAt commit)) (\<lambda>_.
     treturn ())))))))"

definition DenyAuthorization :: "(nat \<Rightarrow> attempt) \<Rightarrow> DenyCommit \<Rightarrow> db \<Rightarrow> (go_error + unit) \<times> db" where
  "DenyAuthorization env commit d =
     (if dc_UserID commit = uuid_Nil \<or> txn_ID (dc_Transaction commit) = uuid_Nil \<or> IsZero (dc_DeniedAt commit)
      then (Inl Authorization_ErrInvalid, d)
      else inTx env (\<lambda>_. deny_tx commit) d)"

section \<open>Service\<close>

definition validAuthorizationTransaction :: "Transaction \<Rightarrow> bool" where
  "validAuthorizationTransaction value \<longleftrightarrow>
     txn_ID value \<noteq> uuid_Nil \<and> txn_Kind value = ''authorization'' \<and>
     (case txn_ClientID value of None \<Rightarrow> False | Some cid \<Rightarrow> cid \<noteq> uuid_Nil) \<and>
     txn_ResponseType value = ''code'' \<and> txn_ResponseMode value = ''query'' \<and> txn_RedirectURI value \<noteq> '''' \<and>
     txn_PKCEMethod value = ''S256'' \<and> length (txn_PKCEChallenge value) = 43 \<and>
     1 \<le> length (txn_Scopes value) \<and> length (txn_Scopes value) \<le> 4"

definition issue_commit ::
  "Transaction \<Rightarrow> uuid \<Rightarrow> uuid \<Rightarrow> uuid \<Rightarrow> time \<Rightarrow> bool \<Rightarrow> string \<Rightarrow> time \<Rightarrow> duration \<Rightarrow> string \<Rightarrow> uuid \<Rightarrow> uuid \<Rightarrow> IssueCommit" where
  "issue_commit transaction userID sessionID sessionBindingID authenticatedAt interactiveConsent requestID now ttl
     clearCode codeID grantID =
     \<lparr>ic_Transaction = transaction, ic_UserID = userID, ic_SessionID = sessionID, ic_SessionBindingID = sessionBindingID,
      ic_AuthenticatedAt = authenticatedAt, ic_InteractiveConsent = interactiveConsent, ic_CodeID = codeID,
      ic_CodeHash = HashCode clearCode, ic_ProposedGrantID = grantID, ic_CreatedAt = now, ic_ExpiresAt = now + ttl,
      ic_RequestID = requestID\<rparr>"

definition Issue ::
  "AuthorizationService \<Rightarrow> (string \<Rightarrow> uuid) \<Rightarrow> string \<Rightarrow> (nat \<Rightarrow> attempt) \<Rightarrow> Transaction \<Rightarrow> uuid \<Rightarrow> uuid \<Rightarrow> uuid \<Rightarrow>
   time \<Rightarrow> bool \<Rightarrow> string \<Rightarrow> time \<Rightarrow> db \<Rightarrow> (go_error + Issued) \<times> db" where
  "Issue svc uuidOf random env transaction userID sessionID sessionBindingID authenticatedAt interactiveConsent requestID now d =
     (if \<not> validAuthorizationTransaction transaction \<or> userID = uuid_Nil \<or> sessionID = uuid_Nil \<or>
         sessionBindingID = uuid_Nil \<or> IsZero authenticatedAt \<or> authenticatedAt > now \<or>
         \<not> now < txn_ExpiresAt transaction \<or> txn_ConsumedAt transaction \<noteq> None
      then (Inl Authorization_ErrInvalid, d) else
      case newCode random of
        None \<Rightarrow> (Inl (Errors_New ''secure authorization code generation failed''), d)
      | Some (clearCode, random) \<Rightarrow>
      (case NewRandomFromReader uuidOf random of
         None \<Rightarrow> (Inl (Errors_New ''authorization code identifier generation failed''), d)
       | Some (codeID, random) \<Rightarrow>
      (case NewRandomFromReader uuidOf random of
         None \<Rightarrow> (Inl (Errors_New ''consent grant identifier generation failed''), d)
       | Some (grantID, random) \<Rightarrow>
      (case IssueAuthorizationCode env (issue_commit transaction userID sessionID sessionBindingID authenticatedAt
              interactiveConsent requestID now (az_codeTTL svc) clearCode codeID grantID) d of
         (Inl err, d') \<Rightarrow> (Inl err, d')
       | (Inr grant, d') \<Rightarrow>
         (Inr \<lparr>is_Code = clearCode, is_CodeID = codeID, is_Grant = grant, is_ExpiresAt = now + az_codeTTL svc\<rparr>, d')))))"

definition Deny ::
  "(nat \<Rightarrow> attempt) \<Rightarrow> Transaction \<Rightarrow> uuid \<Rightarrow> string \<Rightarrow> time \<Rightarrow> db \<Rightarrow> (go_error + unit) \<times> db" where
  "Deny env transaction userID requestID now d =
     (if \<not> validAuthorizationTransaction transaction \<or> userID = uuid_Nil \<or> \<not> now < txn_ExpiresAt transaction \<or>
         txn_ConsumedAt transaction \<noteq> None
      then (Inl Authorization_ErrInvalid, d)
      else DenyAuthorization env \<lparr>dc_Transaction = transaction, dc_UserID = userID, dc_DeniedAt = now,
             dc_RequestID = requestID\<rparr> d)"

section \<open>Successful runs\<close>

definition authorization_client :: "AuthTransaction \<Rightarrow> Client \<Rightarrow> bool" where
  "authorization_client t value \<longleftrightarrow> cl_Status value = ''active'' \<and>
     (cl_Type value = ''public'' \<and> cl_AuthMethod value = ''none'' \<or>
      cl_Type value = ''confidential'' \<and> cl_AuthMethod value = ''client_secret_basic'') \<and>
     valueString (tr_RedirectUri t) \<in> set (cl_RedirectURIs value) \<and> set (tr_Scopes t) \<subseteq> set (cl_Scopes value)"

lemma lockAndValidateAuthorizationClient_run [elim!]:
  assumes "tx_run (lockAndValidateAuthorizationClient t) d value d'"
  obtains row where "d' = d" "tr_ClientID t = Some (cl_ID row)" "LockOIDCClientByID (cl_ID row) d = Some row"
    "value = client_value d row" "authorization_client t value"
proof -
  obtain cid row where run: "tr_ClientID t = Some cid" "LockOIDCClientByID cid d = Some row" "value = client_value d row" "d' = d"
    and ok: "\<not> (cl_Status value \<noteq> ''active'' \<or> \<not> (if cl_Type value = ''public'' then cl_AuthMethod value = ''none''
           else if cl_Type value = ''confidential'' then cl_AuthMethod value = ''client_secret_basic'' else False) \<or>
           valueString (tr_RedirectUri t) \<notin> set (cl_RedirectURIs value) \<or> \<not> scopeSubset (tr_Scopes t) (cl_Scopes value))"
    using assms unfolding lockAndValidateAuthorizationClient_def Let_def
    by (elim tx_elims loadClientChildren_run) blast
  have "cl_ID row = cid" using lock_by_id(2)[OF run(2)] .
  moreover have "authorization_client t value"
    using ok unfolding authorization_client_def scopeSubset_def list_all_iff by (auto split: if_splits)
  ultimately show thesis using run by (intro that) simp_all
qed

lemma lockAndApplyConsent_cases:
  assumes "tx_run (lockAndApplyConsent commit c requested) d (g, changed) d'"
  obtains
    (created) "ic_InteractiveConsent commit" "LockConsentGrantByUserClient (ic_UserID commit) (cl_ID c) d = None"
      "CreateConsentGrant (ic_ProposedGrantID commit) (ic_UserID commit) (cl_ID c) requested (ic_CreatedAt commit)
         (ic_CreatedAt commit) d = Inr (g, d')"
  | (reactivated) g0 where "ic_InteractiveConsent commit"
      "LockConsentGrantByUserClient (ic_UserID commit) (cl_ID c) d = Some g0" "grant_RevokedAt g0 \<noteq> None"
      "ReactivateConsentGrant requested (ic_CreatedAt commit) (grant_ID g0) d = Inr (Some g, d')"
  | (covered) g0 stored where "LockConsentGrantByUserClient (ic_UserID commit) (cl_ID c) d = Some g0" "grant_RevokedAt g0 = None"
      "CanonicalScopes (grant_Scopes g0) = Some stored" "g = g0\<lparr>grant_Scopes := stored\<rparr>" "d' = d"
      "if ic_InteractiveConsent commit then Union stored requested = stored
       else Difference requested (Intersection stored (cl_Scopes c)) = []"
  | (expanded) g0 stored where "ic_InteractiveConsent commit"
      "LockConsentGrantByUserClient (ic_UserID commit) (cl_ID c) d = Some g0" "grant_RevokedAt g0 = None"
      "CanonicalScopes (grant_Scopes g0) = Some stored"
      "UpdateConsentGrantScopes (Union stored requested) (ic_CreatedAt commit) (grant_ID g0) d = Inr (Some g, d')"
  using assms unfolding lockAndApplyConsent_def Let_def
  apply (elim tx_elims Pair_inject)
  subgoal by (rule created; simp)
  subgoal by (rule reactivated; simp)
  subgoal by (rule covered; simp)
  subgoal by (rule covered; simp)
  subgoal by (rule expanded; simp)
  done

text \<open>
  The grant an issue rests on, and what became of the grants: nothing, or this one grant
  replaced or added.
\<close>

definition grant_covers :: "IssueCommit \<Rightarrow> Client \<Rightarrow> string list \<Rightarrow> ConsentGrant \<Rightarrow> bool" where
  "grant_covers commit c requested g \<longleftrightarrow> grant_UserID g = ic_UserID commit \<and> grant_ClientID g = cl_ID c \<and>
     grant_RevokedAt g = None \<and> set requested \<subseteq> set (grant_Scopes g)"

definition upsert_grant :: "ConsentGrant \<Rightarrow> ConsentGrant table \<Rightarrow> ConsentGrant table" where
  "upsert_grant g t = (if list_ex (\<lambda>r. grant_ID r = grant_ID g) t
     then map (\<lambda>r. if grant_ID r = grant_ID g then g else r) t else insert_row g t)"

lemma bump_grant_Inr:
  assumes "bump_grant (\<lambda>r. grant_ID r = i \<and> q r) f d = Inr (Some g, d')" "distinct (map grant_ID (consent_grants d))"
    and keep: "\<And>r. grant_ID (f r) = grant_ID r"
  obtains g0 where "g0 \<in> set (consent_grants d)" "grant_ID g0 = i" "q g0"
    "g = f (g0\<lparr>grant_Version := grant_Version g0 + 1\<rparr>)" "d' = d\<lparr>consent_grants := upsert_grant g (consent_grants d)\<rparr>"
proof -
  let ?f = "\<lambda>r. f (r\<lparr>grant_Version := grant_Version r + 1\<rparr>)"
  obtain g0 where g0: "select_one (\<lambda>r. grant_ID r = i \<and> q r) (consent_grants d) = Some g0" "g = ?f g0"
    and d': "d' = d\<lparr>consent_grants := update_where (\<lambda>r. grant_ID r = i \<and> q r) ?f (consent_grants d)\<rparr>"
    using assms(1) by (auto simp: bump_grant_def Let_def tx_simps eq_commute[of "Some g"] split: if_splits)
  have in0: "g0 \<in> set (consent_grants d)" "grant_ID g0 = i" "q g0" using g0(1) by auto
  have same: "r = g0" if "r \<in> set (consent_grants d)" "grant_ID r = i" for r
    by (rule distinct_map_eq[OF assms(2) that(1) in0(1)]) (simp add: that(2) in0(2))
  have id: "grant_ID g = i" using g0(2) keep in0(2) by simp
  have "list_ex (\<lambda>r. grant_ID r = grant_ID g) (consent_grants d)" using in0 id by (auto simp: list_ex_iff)
  moreover have "(if grant_ID r = i \<and> q r then ?f r else r) = (if grant_ID r = grant_ID g then g else r)"
    if "r \<in> set (consent_grants d)" for r
    using same[OF that] in0 id g0(2) by (cases "grant_ID r = i") simp_all
  ultimately have "update_where (\<lambda>r. grant_ID r = i \<and> q r) ?f (consent_grants d) = upsert_grant g (consent_grants d)"
    unfolding upsert_grant_def update_where_def by (simp cong: map_cong)
  then show thesis using that in0 g0(2) d' by simp
qed

lemma LockConsentGrant_Some:
  assumes "LockConsentGrantByUserClient u c d = Some g"
  shows "g \<in> set (consent_grants d)" "grant_UserID g = u" "grant_ClientID g = c"
  using assms by (auto simp: LockConsentGrantByUserClient_def)

definition consent_applied :: "IssueCommit \<Rightarrow> Client \<Rightarrow> string list \<Rightarrow> db \<Rightarrow> ConsentGrant \<Rightarrow> db \<Rightarrow> bool" where
  "consent_applied commit c requested d g d' \<longleftrightarrow>
     grant_covers commit c requested g \<and>
     (d' = d \<or> d' = d\<lparr>consent_grants := upsert_grant g (consent_grants d)\<rparr>) \<and>
     (\<forall>g0. LockConsentGrantByUserClient (ic_UserID commit) (cl_ID c) d = Some g0 \<longrightarrow> grant_ID g = grant_ID g0 \<and>
        (grant_RevokedAt g0 = None \<longrightarrow> set (grant_Scopes g0) \<subseteq> set (grant_Scopes g))) \<and>
     (\<not> ic_InteractiveConsent commit \<longrightarrow> d' = d \<and>
        (\<exists>g0. LockConsentGrantByUserClient (ic_UserID commit) (cl_ID c) d = Some g0 \<and> grant_RevokedAt g0 = None \<and>
           set requested \<subseteq> set (grant_Scopes g0) \<inter> set (cl_Scopes c)))"

lemma lockAndApplyConsent_applied:
  assumes run: "tx_run (lockAndApplyConsent commit c requested) d (g, changed) d'"
    and canonical: "canonical_scopes requested" and unique: "distinct (map grant_ID (consent_grants d))"
  shows "consent_applied commit c requested d g d'"
  using run
proof (cases rule: lockAndApplyConsent_cases)
  case created
  have fields: "grant_UserID g = ic_UserID commit" "grant_ClientID g = cl_ID c" "grant_RevokedAt g = None"
    "grant_Scopes g = requested" and vio: "consent_grants_violation d g = None"
    and d': "d' = d\<lparr>consent_grants := insert_row g (consent_grants d)\<rparr>"
    using created(3) by (auto simp: CreateConsentGrant_def Let_def tx_simps)
  have "unique_among grant_ID (consent_grants d) g"
    using vio unfolding consent_grants_violation_def first_violation_eval by simp
  then have "upsert_grant g (consent_grants d) = insert_row g (consent_grants d)"
    by (auto simp: upsert_grant_def unique_among_def list_all_iff list_ex_iff)
  then show ?thesis using created fields d' by (simp add: consent_applied_def grant_covers_def)
next
  case (reactivated g0)
  note lock = LockConsentGrant_Some[OF reactivated(2)]
  obtain g1 where g1: "g1 \<in> set (consent_grants d)" "grant_ID g1 = grant_ID g0" "grant_RevokedAt g1 \<noteq> None"
    "g = (g1\<lparr>grant_Version := grant_Version g1 + 1\<rparr>)\<lparr>grant_Scopes := requested, grant_RevokedAt := None,
       grant_UpdatedAt := ic_CreatedAt commit\<rparr>"
    "d' = d\<lparr>consent_grants := upsert_grant g (consent_grants d)\<rparr>"
    by (rule bump_grant_Inr[OF reactivated(4)[unfolded ReactivateConsentGrant_def] unique]) (simp, rule that)
  have "g1 = g0" by (rule distinct_map_eq[OF unique g1(1) lock(1) g1(2)])
  then have fields: "grant_ID g = grant_ID g0" "grant_UserID g = ic_UserID commit" "grant_ClientID g = cl_ID c"
    "grant_RevokedAt g = None" "grant_Scopes g = requested"
    using lock by (simp_all add: g1(4))
  show ?thesis
    unfolding consent_applied_def grant_covers_def
    using fields reactivated(1-3) g1(5) by auto
next
  case (covered g0 stored)
  note lock = LockConsentGrant_Some[OF covered(1)]
  have stored: "canonical_scopes stored" "set stored = set (grant_Scopes g0)"
    using CanonicalScopes_canonical[OF covered(3)] by simp_all
  have subset: "set requested \<subseteq> set stored" if "ic_InteractiveConsent commit"
    using canonical_Union(2)[OF stored(1) canonical] covered(6) that by auto
  have silent: "set requested \<subseteq> set stored \<inter> set (cl_Scopes c)" if "\<not> ic_InteractiveConsent commit"
    using covered(6) that canonical
    by (auto simp: canonical_scopes_def scope.minus_empty_covers scope_sets split: if_splits)
  show ?thesis
    using covered lock stored subset silent
    by (auto simp: consent_applied_def grant_covers_def)
next
  case (expanded g0 stored)
  note lock = LockConsentGrant_Some[OF expanded(2)]
  have stored: "canonical_scopes stored" "set stored = set (grant_Scopes g0)"
    using CanonicalScopes_canonical[OF expanded(4)] by simp_all
  obtain g1 where g1: "g1 \<in> set (consent_grants d)" "grant_ID g1 = grant_ID g0" "grant_RevokedAt g1 = None"
    "g = (g1\<lparr>grant_Version := grant_Version g1 + 1\<rparr>)\<lparr>grant_Scopes := Union stored requested,
       grant_UpdatedAt := ic_CreatedAt commit\<rparr>"
    "d' = d\<lparr>consent_grants := upsert_grant g (consent_grants d)\<rparr>"
    by (rule bump_grant_Inr[OF expanded(5)[unfolded UpdateConsentGrantScopes_def] unique]) (simp, rule that)
  have "g1 = g0" by (rule distinct_map_eq[OF unique g1(1) lock(1) g1(2)])
  then have fields: "grant_ID g = grant_ID g0" "grant_UserID g = ic_UserID commit" "grant_ClientID g = cl_ID c"
    "grant_RevokedAt g = None" "set (grant_Scopes g) = set (grant_Scopes g0) \<union> set requested"
    using lock expanded(3) canonical_Union(2)[OF stored(1) canonical] stored(2) by (simp_all add: g1(4))
  show ?thesis
    unfolding consent_applied_def grant_covers_def
    using fields expanded(1-3) g1(5) by simp
qed

text \<open>The database after an issue: one code more, the browser transaction consumed, the trail extended.\<close>

definition consume_transaction :: "time \<Rightarrow> uuid \<Rightarrow> AuthTransaction table \<Rightarrow> AuthTransaction table" where
  "consume_transaction now i = update_where (\<lambda>t. tr_ID t = i \<and> tr_ConsumedAt t = None \<and> tr_ExpiresAt t > now)
     (\<lambda>t. t\<lparr>tr_ConsumedAt := Some now\<rparr>)"

definition code_issued_db :: "IssueCommit \<Rightarrow> uuid \<Rightarrow> AuthorizationCode \<Rightarrow> AuditEvent list \<Rightarrow> db \<Rightarrow> db" where
  "code_issued_db commit i code evs d = d\<lparr>authorization_codes := insert_row code (authorization_codes d),
     auth_transactions := consume_transaction (ic_CreatedAt commit) i (auth_transactions d),
     audit_events := audit_events d @ evs\<rparr>"

definition issue_trail :: "IssueCommit \<Rightarrow> AuditEvent list \<Rightarrow> bool" where
  "issue_trail commit evs \<longleftrightarrow> (\<exists>grantEvents. length grantEvents \<le> 1 \<and>
     map ev_EventType evs = grantEvents @
       [''authorization_transaction_consumed'', ''authorization_granted'', ''authorization_code_issued'']) \<and>
     (\<forall>e\<in>set evs. ev_ActorUserID e = Some (ic_UserID commit))"

lemma CreateAuthorizationCode_Inr:
  "CreateAuthorizationCode p d = Inr (u, d') \<Longrightarrow>
     authorization_codes_violation d (p\<lparr>code_ConsumedAt := None\<rparr>) = None \<and>
     d' = d\<lparr>authorization_codes := insert_row (p\<lparr>code_ConsumedAt := None\<rparr>) (authorization_codes d)\<rparr>"
  by (auto simp: CreateAuthorizationCode_def Let_def tx_simps)

lemma ConsumeAuthTransaction_db:
  "ConsumeAuthTransaction now i d = Inr (r, d') \<Longrightarrow>
     d' = d\<lparr>auth_transactions := consume_transaction now i (auth_transactions d)\<rparr>"
  by (auto simp: ConsumeAuthTransaction_def Let_def tx_simps consume_transaction_def)

lemma grant_change_audit_run:
  assumes "tx_run (grant_change_audit commit g changed) d u d'"
  obtains evs where "d' = d\<lparr>audit_events := audit_events d @ evs\<rparr>" "length evs \<le> 1"
    "\<forall>e\<in>set evs. ev_ActorUserID e = Some (ic_UserID commit)"
proof -
  from assms consider "d' = d" | type targetType target row where
      "audit_appended type ''success'' (ic_UserID commit) targetType target (ic_CreatedAt commit) row"
      "d' = d\<lparr>audit_events := audit_events d @ [row]\<rparr>"
    unfolding grant_change_audit_def Let_def split_beta by (elim tx_elims insertProtocolAudit_run) blast+
  then show thesis
  proof cases
    case 1
    then show ?thesis by (intro that[of "[]"]) simp_all
  next
    case 2
    then show ?thesis by (intro that[of "[row]"]) (simp_all add: audit_appended_def)
  qed
qed

lemma issued_code_fresh [simp]: "(issued_code commit row c g requested)\<lparr>code_ConsumedAt := None\<rparr> = issued_code commit row c g requested"
  by (simp add: issued_code_def)

lemma issue_code_run:
  assumes "tx_run (issue_code commit row c g changed requested) d r d'"
  obtains evs where "r = g" "authorization_codes_violation d (issued_code commit row c g requested) = None"
    "issue_trail commit evs" "d' = code_issued_db commit (tr_ID row) (issued_code commit row c g requested) evs d"
proof -
  obtain u d1 x d2 v d3 e1 e2 e3 where run:
    "CreateAuthorizationCode (issued_code commit row c g requested) d = Inr (u, d1)"
    "ConsumeAuthTransaction (ic_CreatedAt commit) (tr_ID row) d1 = Inr (x, d2)"
    "tx_run (grant_change_audit commit g changed) d2 v d3"
    "audit_appended ''authorization_transaction_consumed'' ''success'' (ic_UserID commit) ''auth_transaction'' (tr_ID row) (ic_CreatedAt commit) e1"
    "audit_appended ''authorization_granted'' ''success'' (ic_UserID commit) ''auth_transaction'' (tr_ID row) (ic_CreatedAt commit) e2"
    "audit_appended ''authorization_code_issued'' ''success'' (ic_UserID commit) ''authorization_code'' (ic_CodeID commit) (ic_CreatedAt commit) e3"
    "d' = d3\<lparr>audit_events := audit_events d3 @ [e1, e2, e3]\<rparr>" "r = g"
    using assms unfolding issue_code_def by (elim tx_elims insertProtocolAudit_run) simp
  obtain evs where evs: "d3 = d2\<lparr>audit_events := audit_events d2 @ evs\<rparr>" "length evs \<le> 1"
    "\<forall>e\<in>set evs. ev_ActorUserID e = Some (ic_UserID commit)"
    using run(3) by (rule grant_change_audit_run)
  note code = CreateAuthorizationCode_Inr[OF run(1)]
  note consumed = ConsumeAuthTransaction_db[OF run(2)]
  have trail: "issue_trail commit (evs @ [e1, e2, e3])"
    using evs(2,3) run(4-6) unfolding issue_trail_def audit_appended_def
    by (intro conjI exI[of _ "map ev_EventType evs"]) auto
  show thesis
    using code consumed evs(1) run(7,8) trail
    by (intro that[of "evs @ [e1, e2, e3]"]) (simp_all add: code_issued_db_def)
qed

text \<open>The browser transaction is live and is the one the caller has resolved.\<close>

definition transaction_presented :: "AuthTransaction \<Rightarrow> Transaction \<Rightarrow> time \<Rightarrow> bool" where
  "transaction_presented t expected now \<longleftrightarrow>
     tr_ConsumedAt t = None \<and> now < tr_ExpiresAt t \<and> tr_Kind t = ''authorization'' \<and>
     tr_ID t = txn_ID expected \<and> tr_ClientID t = txn_ClientID expected \<and> tr_ClientID t \<noteq> None \<and>
     tr_TokenHash t = txn_TokenHash expected \<and> valueString (tr_RedirectUri t) = txn_RedirectURI expected \<and>
     tr_Scopes t = txn_Scopes expected \<and> valueString (tr_PkceChallenge t) = txn_PKCEChallenge expected \<and>
     valueString (tr_NonceValue t) = txn_Nonce expected"

lemma validateLocked_None:
  assumes "validateLockedAuthorizationTransaction t expected now = None"
  shows "transaction_presented t expected now"
proof -
  obtain "\<not> (tr_ConsumedAt t = None \<and> \<not> tr_ExpiresAt t > now)" "tr_ConsumedAt t = None"
    "\<not> (txn_Kind (mapAuthTransaction t) \<noteq> ''authorization'' \<or> txn_ClientID (mapAuthTransaction t) = None \<or> txn_ClientID expected = None \<or>
         txn_ID (mapAuthTransaction t) \<noteq> txn_ID expected \<or> txn_ClientID (mapAuthTransaction t) \<noteq> txn_ClientID expected \<or>
         txn_TokenHash (mapAuthTransaction t) \<noteq> txn_TokenHash expected \<or> txn_RedirectURI (mapAuthTransaction t) \<noteq> txn_RedirectURI expected \<or>
         txn_Scopes (mapAuthTransaction t) \<noteq> txn_Scopes expected \<or> txn_PKCEChallenge (mapAuthTransaction t) \<noteq> txn_PKCEChallenge expected \<or>
         txn_PKCEMethod (mapAuthTransaction t) \<noteq> txn_PKCEMethod expected \<or> txn_State (mapAuthTransaction t) \<noteq> txn_State expected \<or>
         txn_Nonce (mapAuthTransaction t) \<noteq> txn_Nonce expected \<or> txn_ResponseType (mapAuthTransaction t) \<noteq> txn_ResponseType expected \<or>
         txn_ResponseMode (mapAuthTransaction t) \<noteq> txn_ResponseMode expected \<or> txn_Prompts (mapAuthTransaction t) \<noteq> txn_Prompts expected \<or>
         txn_MaxAgeSeconds (mapAuthTransaction t) \<noteq> txn_MaxAgeSeconds expected)"
    using assms unfolding validateLockedAuthorizationTransaction_def Let_def by (auto simp only: option.distinct split: if_splits)
  then show ?thesis unfolding transaction_presented_def by (simp add: mapAuthTransaction_def)
qed

definition code_authorized :: "IssueCommit \<Rightarrow> ConsentGrant \<Rightarrow> db \<Rightarrow> db \<Rightarrow> bool" where
  "code_authorized commit g d d' \<longleftrightarrow> (\<exists>t u row c requested dg evs.
     LockAuthTransactionByID (txn_ID (ic_Transaction commit)) d = Some t \<and>
     transaction_presented t (ic_Transaction commit) (ic_CreatedAt commit) \<and>
     LockUserByID (ic_UserID commit) d = Some u \<and> usr_Status u = ''active'' \<and>
     tr_ClientID t = Some (cl_ID row) \<and> LockOIDCClientByID (cl_ID row) d = Some row \<and> c = client_value d row \<and>
     authorization_client t c \<and> CanonicalScopes (tr_Scopes t) = Some requested \<and>
     consent_applied commit c requested d g dg \<and>
     authorization_codes_violation dg (issued_code commit t c g requested) = None \<and> issue_trail commit evs \<and>
     d' = code_issued_db commit (tr_ID t) (issued_code commit t c g requested) evs dg)"

lemma issue_tx_run:
  assumes "tx_run (issue_tx commit) d g d'" "distinct (map grant_ID (consent_grants d))"
  shows "code_authorized commit g d d'"
proof -
  obtain t u c requested g1 changed dg d1 where run:
    "LockAuthTransactionByID (txn_ID (ic_Transaction commit)) d = Some t"
    "validateLockedAuthorizationTransaction t (ic_Transaction commit) (ic_CreatedAt commit) = None"
    "LockUserByID (ic_UserID commit) d = Some u" "\<not> usr_Status u \<noteq> ''active''"
    "tx_run (lockAndValidateAuthorizationClient t) d c d1"
    "CanonicalScopes (tr_Scopes t) = Some requested"
    "tx_run (lockAndApplyConsent commit c requested) d1 (g1, changed) dg"
    "tx_run (issue_code commit t c g1 changed requested) dg g d'"
    using assms(1) unfolding issue_tx_def by (elim tx_elims) (metis prod.collapse)
  obtain row where row: "d1 = d" "tr_ClientID t = Some (cl_ID row)" "LockOIDCClientByID (cl_ID row) d = Some row"
    "c = client_value d row" "authorization_client t c"
    using run(5) by (rule lockAndValidateAuthorizationClient_run)
  obtain evs where evs: "g = g1" "authorization_codes_violation dg (issued_code commit t c g1 requested) = None"
    "issue_trail commit evs" "d' = code_issued_db commit (tr_ID t) (issued_code commit t c g1 requested) evs dg"
    using run(8) by (rule issue_code_run)
  have canonical: "canonical_scopes requested" using CanonicalScopes_canonical[OF run(6)] ..
  have "consent_applied commit c requested d g1 dg"
    using lockAndApplyConsent_applied[OF run(7) canonical] assms(2) row(1) by simp
  then show ?thesis
    unfolding code_authorized_def using run(1,3,4,6) validateLocked_None[OF run(2)] row(2-5) evs by blast
qed

lemma IssueAuthorizationCode_Inr:
  assumes "IssueAuthorizationCode env commit d = (Inr g, d')" "distinct (map grant_ID (consent_grants d))"
  shows "validateIssueCommit commit \<and> code_authorized commit g d d'"
  using assms unfolding IssueAuthorizationCode_def
  by (auto split: if_splits elim!: inTx_committed intro: issue_tx_run)

lemma IssueAuthorizationCode_effect:
  assumes "IssueAuthorizationCode env commit d = (r, d')" "distinct (map grant_ID (consent_grants d))"
  shows "d' = d \<or> (\<exists>g. code_authorized commit g d d')"
  using assms unfolding IssueAuthorizationCode_def
  by (auto split: if_splits dest!: inTx_effect intro: issue_tx_run)

lemma deny_tx_run:
  assumes "tx_run (deny_tx commit) d r d'"
  obtains t row e1 e2 d1 where "LockAuthTransactionByID (txn_ID (dc_Transaction commit)) d = Some t"
    "transaction_presented t (dc_Transaction commit) (dc_DeniedAt commit)"
    "RejectAuthTransaction (dc_DeniedAt commit) (pointerString ''access_denied'') (tr_ID t) d = Inr (Some row, d1)"
    "d' = d1\<lparr>audit_events := audit_events d1 @ [e1, e2]\<rparr>"
proof -
  obtain t c d0 x d1 d2 e1 e2 where run: "LockAuthTransactionByID (txn_ID (dc_Transaction commit)) d = Some t"
    "validateLockedAuthorizationTransaction t (dc_Transaction commit) (dc_DeniedAt commit) = None"
    "tx_run (lockAndValidateAuthorizationClient t) d c d0"
    "RejectAuthTransaction (dc_DeniedAt commit) (pointerString ''access_denied'') (tr_ID t) d0 = Inr (Some x, d1)"
    "d2 = d1\<lparr>audit_events := audit_events d1 @ [e1]\<rparr>" "d' = d2\<lparr>audit_events := audit_events d2 @ [e2]\<rparr>"
    using assms unfolding deny_tx_def by (elim tx_elims insertProtocolAudit_run) metis
  have "d0 = d" using run(3) by blast
  then show thesis using that[of t x d1 e1 e2] validateLocked_None[OF run(2)] run by simp
qed

section \<open>A browser transaction has one outcome\<close>

lemma consume_transaction_terminal:
  assumes "distinct (map tr_ID ts)" "t \<in> set ts" "tr_ConsumedAt t = None" "now < tr_ExpiresAt t"
    "auth_transactions d' = consume_transaction now (tr_ID t) ts"
  shows "terminal (tr_ID t) d'"
proof -
  have same: "r = t" if "r \<in> set ts" "tr_ID r = tr_ID t" for r
    by (rule distinct_map_eq[OF assms(1) that(1) assms(2) that(2)])
  have "tr_ConsumedAt r' \<noteq> None" if r': "r' \<in> set (auth_transactions d')" "tr_ID r' = tr_ID t" for r'
  proof -
    obtain r where r: "r \<in> set ts" "r' = (if tr_ID r = tr_ID t \<and> tr_ConsumedAt r = None \<and> now < tr_ExpiresAt r
        then r\<lparr>tr_ConsumedAt := Some now\<rparr> else r)"
      using r'(1) unfolding assms(5) consume_transaction_def set_update_where by blast
    then have "tr_ID r = tr_ID t" using r'(2) by (simp split: if_splits)
    then have "r = t" using same r(1) by blast
    then show ?thesis using r(2) assms(3,4) by simp
  qed
  then show ?thesis by (simp add: terminal_def)
qed

lemma LockAuthTransaction_Some:
  "LockAuthTransactionByID i d = Some t \<Longrightarrow> t \<in> set (auth_transactions d) \<and> tr_ID t = i"
  by (auto simp: LockAuthTransactionByID_def)

lemma code_authorized_terminal:
  assumes "code_authorized commit g d d'" "distinct (map tr_ID (auth_transactions d))"
  shows "terminal (txn_ID (ic_Transaction commit)) d'"
proof -
  obtain t c requested dg evs where t: "LockAuthTransactionByID (txn_ID (ic_Transaction commit)) d = Some t"
    "transaction_presented t (ic_Transaction commit) (ic_CreatedAt commit)"
    "consent_applied commit c requested d g dg"
    "d' = code_issued_db commit (tr_ID t) (issued_code commit t c g requested) evs dg"
    using assms(1) unfolding code_authorized_def by blast
  have "auth_transactions dg = auth_transactions d" using t(3) by (auto simp: consent_applied_def)
  then have "auth_transactions d' = consume_transaction (ic_CreatedAt commit) (tr_ID t) (auth_transactions d)"
    by (simp add: t(4) code_issued_db_def)
  moreover have row: "t \<in> set (auth_transactions d)" "tr_ID t = txn_ID (ic_Transaction commit)"
    using LockAuthTransaction_Some[OF t(1)] by simp_all
  moreover have "tr_ConsumedAt t = None" "ic_CreatedAt commit < tr_ExpiresAt t"
    using t(2) by (simp_all add: transaction_presented_def)
  ultimately have "terminal (tr_ID t) d'" by (intro consume_transaction_terminal[OF assms(2)])
  then show ?thesis using row(2) by simp
qed

text \<open>The operations that need the transaction live are refused once it is terminal.\<close>

lemma terminal_not_presented:
  assumes "terminal i d" "LockAuthTransactionByID i d = Some t"
  shows "\<not> transaction_presented t expected now"
  using assms LockAuthTransaction_Some[OF assms(2)] by (auto simp: terminal_def transaction_presented_def)

lemma terminal_refuses_issue:
  assumes "terminal (txn_ID (ic_Transaction commit)) d"
  shows "\<exists>err. IssueAuthorizationCode env commit d = (Inl err, d)"
proof -
  have "\<not> tx_run (issue_tx commit) d x d'" for x d'
  proof
    assume "tx_run (issue_tx commit) d x d'"
    then obtain t where "LockAuthTransactionByID (txn_ID (ic_Transaction commit)) d = Some t"
      "validateLockedAuthorizationTransaction t (ic_Transaction commit) (ic_CreatedAt commit) = None"
      unfolding issue_tx_def by (elim tx_elims) blast
    then show False using terminal_not_presented[OF assms] validateLocked_None by blast
  qed
  then show ?thesis unfolding IssueAuthorizationCode_def by (auto intro: inTx_never)
qed

lemma terminal_refuses_deny:
  assumes "terminal (txn_ID (dc_Transaction commit)) d"
  shows "\<exists>err. DenyAuthorization env commit d = (Inl err, d)"
proof -
  have "\<not> tx_run (deny_tx commit) d x d'" for x d'
    using terminal_not_presented[OF assms] by (blast elim: deny_tx_run)
  then show ?thesis unfolding DenyAuthorization_def by (auto intro: inTx_never)
qed

lemma Issue_Inr:
  assumes "Issue svc uuidOf random env t userID sessionID bindingID authenticatedAt interactive requestID now d = (Inr issued, d')"
  obtains grantID random' where "newCode random = Some (is_Code issued, random')" "validAuthorizationTransaction t"
    "is_ExpiresAt issued = now + az_codeTTL svc"
    "IssueAuthorizationCode env (issue_commit t userID sessionID bindingID authenticatedAt interactive requestID now
       (az_codeTTL svc) (is_Code issued) (is_CodeID issued) grantID) d = (Inr (is_Grant issued), d')"
  using assms unfolding Issue_def by (auto split: if_splits option.splits sum.splits prod.splits)

lemma issue_commit_transaction [simp]:
  "ic_Transaction (issue_commit t u s b a i r n ttl c ci gi) = t" "ic_UserID (issue_commit t u s b a i r n ttl c ci gi) = u"
  "ic_CreatedAt (issue_commit t u s b a i r n ttl c ci gi) = n"
  by (simp_all add: issue_commit_def)

lemma Deny_terminal:
  assumes "Deny env t userID requestID now d = (Inr (), d')" "distinct (map tr_ID (auth_transactions d))"
  shows "terminal (txn_ID t) d'"
proof -
  let ?commit = "\<lparr>dc_Transaction = t, dc_UserID = userID, dc_DeniedAt = now, dc_RequestID = requestID\<rparr>"
  have "\<exists>x. tx_run (deny_tx ?commit) d x d'"
    using assms(1) unfolding Deny_def DenyAuthorization_def by (auto split: if_splits elim: inTx_committed)
  then obtain row t1 e1 e2 d1 where run: "LockAuthTransactionByID (txn_ID t) d = Some t1"
    "RejectAuthTransaction now (pointerString ''access_denied'') (tr_ID t1) d = Inr (Some row, d1)"
    "d' = d1\<lparr>audit_events := audit_events d1 @ [e1, e2]\<rparr>"
    by (auto elim: deny_tx_run)
  have "terminal (tr_ID t1) d1" using terminating_statements[OF assms(2)] run(2) by blast
  then show ?thesis using run(1,3) LockAuthTransaction_Some by (simp add: terminal_def)
qed

section \<open>Properties\<close>



text \<open>
  C24 (equivalence). The consent page and the store decide alike: on the same database,
  \<^verbatim>\<open>Evaluate\<close> reports a request as covered exactly when issuing without interaction is not
  refused for want of consent, and the grant it reports is the one the code will rest on.
\<close>

theorem consent_evaluation_agrees_with_issue:
  assumes "Evaluate (st_db st, None) userID clientValue scopes = Inr ev" "CanonicalScopes scopes = Some requested"
    "st_faults st = []" "ic_UserID commit = userID" "\<not> ic_InteractiveConsent commit"
  shows "lockAndApplyConsent commit clientValue requested st =
    (if evn_Covers ev then Inr ((the (evn_Grant ev), ''''), st) else Inl Authorization_ErrConsentRequired)"
proof -
  have lock: "LockConsentGrantByUserClient userID (cl_ID clientValue) (st_db st) =
      GetConsentGrantByUserClient userID (cl_ID clientValue) (st_db st)"
    by (simp add: LockConsentGrantByUserClient_def GetConsentGrantByUserClient_def)
  show ?thesis
  proof (cases "GetConsentGrantByUserClient userID (cl_ID clientValue) (st_db st)")
    case None
    then have "\<not> evn_Covers ev"
      using assms(1,2) by (auto simp: Evaluate_def GetConsentGrant_def pool_read_def split: if_splits)
    then show ?thesis
      using None assms(3-5) lock by (simp add: lockAndApplyConsent_def tbind_ok read_query_ok tfail_def)
  next
    case (Some grant)
    obtain stored where g: "\<not> (grant_ID grant = uuid_Nil \<or> grant_UserID grant \<noteq> userID \<or>
        grant_ClientID grant \<noteq> cl_ID clientValue \<or> grant_Version grant < 1)"
      "CanonicalScopes (grant_Scopes grant) = Some stored"
      and ev: "evn_Grant ev = Some (grant\<lparr>grant_Scopes := stored\<rparr>)"
        "evn_Covers ev \<longleftrightarrow> Difference requested (if grant_RevokedAt grant \<noteq> None then [] else Intersection stored (cl_Scopes clientValue)) = []"
      using assms(1,2) Some
      by (auto simp: Evaluate_def GetConsentGrant_def pool_read_def Let_def split: if_splits option.splits)
    have "Difference requested [] \<noteq> []"
      using CanonicalScopes_canonical[OF assms(2)] by (auto simp: canonical_scopes_def scope.minus_empty_covers)
    then show ?thesis
      using Some assms(3-5) lock g ev
      by (simp add: lockAndApplyConsent_def tbind_ok read_query_ok tfail_def treturn_def Let_def)
  qed
qed

section \<open>Witnesses\<close>

definition sample_request_input :: VerifiedInput where
  "sample_request_input = sample_verified\<lparr>vi_Scopes := sample_scopes, vi_RedirectURI := ''r''\<rparr>"

definition sample_request :: Transaction where
  "sample_request = new_transaction sample_authflow sample_token 22 ''authorization'' sample_request_input sample_now"

definition sample_request_row :: AuthTransaction where
  "sample_request_row = authTransactionParams sample_request"

definition sample_granting :: db where
  "sample_granting = sample_db\<lparr>authorization_codes := [], auth_transactions := [sample_request_row]\<rparr>"

definition sample_authorization :: AuthorizationService where
  "sample_authorization = \<lparr>az_codeTTL = Minute\<rparr>"

definition sample_clear_code :: string where
  "sample_clear_code = codePrefix @ b64_encode (replicate 32 CHR ''k'')"

definition sample_issue_random :: string where
  "sample_issue_random = replicate 32 CHR ''k'' @ replicate 32 CHR ''i''"

definition sample_commit :: IssueCommit where
  "sample_commit = issue_commit sample_request 1 3 30 (sample_now - Minute) False '''' sample_now Minute sample_clear_code 23 23"

definition sample_issued :: Issued where
  "sample_issued = \<lparr>is_Code = sample_clear_code, is_CodeID = 23, is_Grant = sample_grant, is_ExpiresAt = sample_now + Minute\<rparr>"

lemma sample_canonical_scopes: "canonical_scopes sample_scopes"
  using CanonicalScopes_canonical[OF sample_scopes_canonical] ..

lemma sample_request_protocol: "protocol_input sample_request_input"
  using verified_input_protocol(1)[OF sample_verified_input] sample_canonical_scopes
  by (simp add: protocol_input_def sample_request_input_def)

lemma sample_request_check: "auth_transactions_check sample_request_row"
  unfolding sample_request_row_def sample_request_def
  by (subst new_transaction_check[OF sample_request_protocol])
    (simp_all add: sample_authflow_def duration_defs sample_request_input_def)

lemma sample_request_fields [simp]:
  "tr_ID sample_request_row = 22" "tr_ConsumedAt sample_request_row = None" "tr_CreatedAt sample_request_row = sample_now"
  "tr_ExpiresAt sample_request_row = sample_now + 10 * Minute" "tr_ClientID sample_request_row = Some 2"
  "tr_Scopes sample_request_row = sample_scopes" "tr_RedirectUri sample_request_row = Some ''r''"
  "txn_ID sample_request = 22" "txn_ExpiresAt sample_request = sample_now + 10 * Minute" "txn_ConsumedAt sample_request = None"
  "tr_NonceValue sample_request_row = None" "valueString (tr_PkceChallenge sample_request_row) = b64_encode (replicate 32 CHR ''p'')"
  by (simp_all add: sample_request_row_def authTransactionParams_def sample_request_def new_transaction_def sample_authflow_def
      sample_request_input_def sample_verified_def sample_input_def pointerString_def valueString_def)

lemma sample_request_validated: "validateLockedAuthorizationTransaction sample_request_row sample_request sample_now = None"
proof -
  have "txn_Kind sample_request = ''authorization''" "txn_ClientID sample_request = Some 2"
    by (simp_all add: sample_request_def new_transaction_def sample_request_input_def sample_verified_def sample_input_def)
  moreover have "mapAuthTransaction sample_request_row = sample_request"
    using mapAuthTransaction_params[of sample_request]
    by (simp add: sample_request_row_def authTransactionParams_def sample_request_def new_transaction_def)
  ultimately show ?thesis by (simp add: validateLockedAuthorizationTransaction_def duration_defs)
qed

lemma sample_granting_fields [simp]:
  "auth_transactions sample_granting = [sample_request_row]" "audit_events sample_granting = []"
  "users sample_granting = [sample_user]" "authorization_codes sample_granting = []"
  "consent_grants sample_granting = [sample_grant]" "login_sessions sample_granting = [sample_session]"
  "oidc_clients sample_granting = [sample_client_row]"
  by (simp_all add: sample_granting_def) (simp_all add: sample_rows)

lemma sample_granting_locks [simp]:
  "LockAuthTransactionByID 22 sample_granting = Some sample_request_row"
  "LockUserByID 1 sample_granting = Some sample_user" "LockOIDCClientByID 2 sample_granting = Some sample_client_row"
  "LockConsentGrantByUserClient 1 2 sample_granting = Some sample_grant"
  by (simp_all add: read_query_defs LockAuthTransactionByID_def LockConsentGrantByUserClient_def select_one_def)
    (simp_all add: sample_rows)

lemma sample_granting_client: "client_value sample_granting sample_client_row = sample_client"
proof -
  have "client_value sample_granting sample_client_row = client_value sample_db sample_client_row"
    by (simp add: client_value_def sample_granting_def ListOIDCClientRedirectURIs_def ListOIDCClientLogoutURIs_def ListOIDCClientScopes_def)
  then show ?thesis by (simp add: sample_client_value)
qed

lemma sample_issue_client:
  assumes "st_faults st = []" "st_db st = sample_granting"
  shows "lockAndValidateAuthorizationClient sample_request_row st = Inr (sample_client, st)"
proof -
  have "cl_Type sample_client = ''public''" "cl_AuthMethod sample_client = ''none''" "cl_Status sample_client = ''active''"
    "cl_RedirectURIs sample_client = [''r'']"
    by (simp_all add: sample_client_def)
  then show ?thesis
    using assms sample_granting_client
    by (simp add: lockAndValidateAuthorizationClient_def tbind_ok read_query_ok loadClientChildren_ok treturn_def Let_def
        scopeSubset_def list_all_iff valueString_def)
qed

lemma sample_issue_grant:
  assumes "st_faults st = []" "st_db st = sample_granting"
  shows "lockAndApplyConsent sample_commit sample_client sample_scopes st = Inr ((sample_grant, ''''), st)"
proof -
  have "cl_ID sample_client = 2" "grant_ID sample_grant = 5" "grant_UserID sample_grant = 1" "grant_ClientID sample_grant = 2"
    "grant_Version sample_grant = 1" "grant_RevokedAt sample_grant = None" "sample_grant\<lparr>grant_Scopes := sample_scopes\<rparr> = sample_grant"
    by (simp_all add: sample_client_def sample_grant_def)
  moreover have "Difference sample_scopes (Intersection sample_scopes sample_scopes) = []"
    using sample_canonical_scopes by (auto simp: canonical_scopes_def scope.minus_empty_covers scope_sets list_all_iff)
  ultimately show ?thesis
    using assms sample_scopes_canonical
    by (simp add: lockAndApplyConsent_def tbind_ok read_query_ok treturn_def Let_def sample_commit_def issue_commit_def)
qed

lemma sample_issue_insertable:
  "authorization_codes_violation sample_granting
     (issued_code sample_commit sample_request_row sample_client sample_grant sample_scopes) = None"
proof -
  let ?c = "issued_code sample_commit sample_request_row sample_client sample_grant sample_scopes"
  have "pkce_challenge_format (b64_encode (replicate 32 CHR ''p''))" by (simp add: pkce_challenge_format_digest)
  moreover have "scopes_valid 1 sample_scopes"
    using sample_canonical_scopes by (simp add: scopes_valid_canonical) (simp add: sample_scopes_def)
  ultimately have "authorization_codes_check ?c"
    unfolding authorization_codes_check_def issued_code_def
    by (simp add: sample_commit_def issue_commit_def duration_defs valueString_def[of "Some x" for x] sample_grant_def)
  then show ?thesis
    unfolding authorization_codes_violation_def first_violation_eval
    by (simp add: unique_among_def refers_def issued_code_def sample_commit_def issue_commit_def)
      (simp add: sample_rows)
qed

lemma sample_issue_code:
  assumes "st = start_tx (quiet sample_ids 0) sample_granting"
  shows "\<exists>st'. issue_code sample_commit sample_request_row sample_client sample_grant '''' sample_scopes st = Inr (sample_grant, st')"
proof -
  let ?code = "issued_code sample_commit sample_request_row sample_client sample_grant sample_scopes"
  let ?d1 = "sample_granting\<lparr>authorization_codes := [?code]\<rparr>"
  let ?row = "sample_request_row\<lparr>tr_ConsumedAt := Some sample_now\<rparr>"
  let ?d2 = "?d1\<lparr>auth_transactions := [?row]\<rparr>"
  have st: "st_faults st = []" "st_db st = sample_granting" by (simp_all add: assms start_tx_def quiet_def)
  have created: "CreateAuthorizationCode ?code sample_granting = Inr ((), ?d1)"
    using sample_issue_insertable
    by (simp add: CreateAuthorizationCode_def Let_def stmt_def insert_checked_def insert_row_def)
  have consumed: "ConsumeAuthTransaction sample_now 22 ?d1 = Inr (Some ?row, ?d2)"
    using auth_transactions_check_ends(1)[OF sample_request_check, of sample_now]
    by (simp add: ConsumeAuthTransaction_def Let_def stmt_def update_checked_def update_where_def select_one_def duration_defs)
  have ready: "audit_ready (Suc (Suc (Suc 0))) 1 [] sample_now (st\<lparr>st_db := ?d2\<rparr>)"
    using sample_audit_ready[of ?d2 3 0] assms by (simp add: numeral_3_eq_3 audit_ready_def start_tx_def quiet_def)
  have fields: "ic_CreatedAt sample_commit = sample_now" "ic_UserID sample_commit = 1" "ic_RequestID sample_commit = []"
    "ic_CodeID sample_commit = 23"
    by (simp_all add: sample_commit_def issue_commit_def)
  have run: "issue_code sample_commit sample_request_row sample_client sample_grant '''' sample_scopes st =
    tbind (insertProtocolAudit ''authorization_transaction_consumed'' ''success'' 1 ''auth_transaction'' 22 [] [] sample_now) (\<lambda>_.
     tbind (insertProtocolAudit ''authorization_granted'' ''success'' 1 ''auth_transaction'' 22 [] [] sample_now) (\<lambda>_.
     tbind (insertProtocolAudit ''authorization_code_issued'' ''success'' 1 ''authorization_code'' 23 [] [''issued''] sample_now) (\<lambda>_.
     treturn sample_grant))) (st\<lparr>st_db := ?d2\<rparr>)"
    unfolding issue_code_def fields
    by (simp add: tbind_exec_ok[where stmt = "CreateAuthorizationCode ?code"] st created
        tbind_exec_ok[where stmt = "ConsumeAuthTransaction sample_now 22"] consumed grant_change_audit_def tbind_treturn)
  show ?thesis
    unfolding run
    by (rule insertProtocolAudit_then[OF ready], simp add: audit_known_eval, simp, simp add: audit_unrecorded_def,
        (rule insertProtocolAudit_then, assumption, simp add: audit_known_eval, simp, simp add: audit_unrecorded_def)+,
        simp add: treturn_def)
qed

lemma sample_Issue:
  "\<exists>d'. Issue sample_authorization (\<lambda>_. 23) sample_issue_random (quiet sample_ids) sample_request 1 3 30 (sample_now - Minute) False ''''
     sample_now sample_granting = (Inr sample_issued, d')"
proof -
  let ?st = "start_tx (quiet sample_ids 0) sample_granting"
  have st: "st_faults ?st = []" "st_db ?st = sample_granting" by (simp_all add: start_tx_def quiet_def)
  have fields: "ic_UserID sample_commit = 1" "ic_Transaction sample_commit = sample_request" "ic_CreatedAt sample_commit = sample_now"
    by (simp_all add: sample_commit_def)
  have "\<exists>st. issue_tx sample_commit ?st = Inr (sample_grant, st)"
    using sample_issue_code[OF refl] st sample_issue_client[OF st] sample_issue_grant[OF st] sample_scopes_canonical
    unfolding issue_tx_def fields by (simp add: tbind_ok read_query_ok sample_request_validated)
  then obtain d' where d': "inTx (quiet sample_ids) (\<lambda>_. issue_tx sample_commit) sample_granting = (Inr sample_grant, d')"
    by (rule inTx_quiet)
  have "validateIssueCommit sample_commit"
    by (simp add: validateIssueCommit_def sample_commit_def issue_commit_def IsZero_def sample_now_def duration_defs)
  then have stored: "IssueAuthorizationCode (quiet sample_ids) sample_commit sample_granting = (Inr sample_grant, d')"
    by (simp add: IssueAuthorizationCode_def d')
  have code: "newCode sample_issue_random = Some (sample_clear_code, replicate 32 CHR ''i'')"
    by (simp add: newCode_def io_ReadFull_def sample_issue_random_def sample_clear_code_def)
  have "NewRandomFromReader (\<lambda>_. 23) (replicate 32 CHR ''i'') = Some (23, replicate 16 CHR ''i'')"
    "NewRandomFromReader (\<lambda>_. 23) (replicate 16 CHR ''i'') = Some (23, [])"
    by (simp_all add: NewRandomFromReader_def io_ReadFull_def)
  moreover have "b64_encode (replicate 32 CHR ''p'') \<noteq> []"
    using length_b64_encode[of "replicate 32 CHR ''p''"] by auto
  then have "validAuthorizationTransaction sample_request"
    by (simp add: validAuthorizationTransaction_def sample_request_def new_transaction_def sample_request_input_def
        sample_verified_def sample_input_def sample_scopes_def length_b64_encode)
  ultimately show ?thesis
    using stored[unfolded sample_commit_def]
    by (simp add: Issue_def code sample_authorization_def sample_issued_def IsZero_def sample_now_def duration_defs)
qed



theorem consent_evaluation_agrees_with_issue_witness:
  "\<exists>ev. Evaluate (sample_granting, None) 1 sample_client sample_scopes = Inr ev \<and> evn_Covers ev \<and>
     lockAndApplyConsent sample_commit sample_client sample_scopes (start_tx (quiet sample_ids 0) sample_granting) =
       Inr ((the (evn_Grant ev), ''''), start_tx (quiet sample_ids 0) sample_granting)"
proof -
  let ?st = "start_tx (quiet sample_ids 0) sample_granting"
  have st: "st_faults ?st = []" "st_db ?st = sample_granting" by (simp_all add: start_tx_def quiet_def)
  have grant: "GetConsentGrantByUserClient 1 (cl_ID sample_client) sample_granting = Some sample_grant"
    by (simp add: GetConsentGrantByUserClient_def select_one_def) (simp add: sample_grant_def sample_client_def)
  have client: "validActiveClient sample_client" by (simp add: validActiveClient_def sample_client_def)
  obtain ev where ev: "Evaluate (sample_granting, None) 1 sample_client sample_scopes = Inr ev"
    unfolding Evaluate_def GetConsentGrant_def pool_read_def
    using grant client sample_scopes_canonical
    by (simp add: scope_subset_iff Let_def) (simp add: sample_grant_def sample_client_def IsZero_def sample_scopes_canonical Let_def)
  have "Evaluate (st_db ?st, None) 1 sample_client sample_scopes = Inr ev" using ev st by simp
  from consent_evaluation_agrees_with_issue[OF this sample_scopes_canonical st(1), of sample_commit]
  have "lockAndApplyConsent sample_commit sample_client sample_scopes ?st =
      (if evn_Covers ev then Inr ((the (evn_Grant ev), ''''), ?st) else Inl Authorization_ErrConsentRequired)"
    by (simp add: sample_commit_def issue_commit_def)
  with ev sample_issue_grant[OF st] show ?thesis by (auto split: if_splits)
qed

end
