(* ===== verification/Cascades.thy ===== *)
theory Cascades
  imports Refresh_Rotation
begin

text \<open>
  Bulk revocation. Withdrawing a grant, a session, a client or a user revokes every refresh
  family and every live access token of that scope, in one transaction. The statements differ
  only in the rows they select; the locale \<open>revocation_scope\<close> holds what follows from any
  such selection, and it is interpreted for each of them.
\<close>

definition cascaded ::
  "(RefreshTokenFamily \<Rightarrow> bool) \<Rightarrow> (AccessToken \<Rightarrow> bool) \<Rightarrow> time \<Rightarrow> string option \<Rightarrow> string option \<Rightarrow> db \<Rightarrow> db" where
  "cascaded pf pa now familyReason accessReason d = d\<lparr>
     refresh_token_families := mark_families pf now familyReason (refresh_token_families d),
     access_tokens := mark_access pa now accessReason (access_tokens d)\<rparr>"

text \<open>No family of the scope is unrevoked and no access token of it is live at \<open>now\<close>.\<close>

definition authority_dead :: "(RefreshTokenFamily \<Rightarrow> bool) \<Rightarrow> (AccessToken \<Rightarrow> bool) \<Rightarrow> time \<Rightarrow> db \<Rightarrow> bool" where
  "authority_dead pf pa now d \<longleftrightarrow>
     (\<forall>f\<in>set (refresh_token_families d). pf f \<longrightarrow> fam_RevokedAt f \<noteq> None) \<and>
     (\<forall>a\<in>set (access_tokens d). pa a \<longrightarrow> acc_RevokedAt a \<noteq> None \<or> acc_ExpiresAt a \<le> now)"

locale revocation_scope =
  fixes pf :: "RefreshTokenFamily \<Rightarrow> bool" and pa :: "AccessToken \<Rightarrow> bool"
  assumes family_stable: "pf (f\<lparr>fam_RevokedAt := x, fam_RevokeReason := y\<rparr>) = pf f"
    and access_stable: "pa (a\<lparr>acc_RevokedAt := x, acc_RevokeReason := y\<rparr>) = pa a"
begin

lemma cascade_kills: "authority_dead pf pa now (cascaded pf pa now fr ar d)"
  by (auto simp: authority_dead_def cascaded_def mark_families_def mark_access_def table_simps unrevoked_family_def
      live_access_def family_stable access_stable)

lemma outside_families: "filter (\<lambda>f. \<not> pf f) (mark_families pf now fr t) = filter (\<lambda>f. \<not> pf f) t"
  by (induction t) (auto simp: mark_families_def update_where_def unrevoked_family_def family_stable)

lemma outside_access: "filter (\<lambda>a. \<not> pa a) (mark_access pa now ar t) = filter (\<lambda>a. \<not> pa a) t"
  by (induction t) (auto simp: mark_access_def update_where_def live_access_def access_stable)

text \<open>What is dead stays dead under a further cascade of the scope.\<close>

lemma cascade_idle:
  assumes "authority_dead pf pa now d"
  shows "cascaded pf pa now fr ar d = d"
proof -
  have "mark_families pf now fr (refresh_token_families d) = refresh_token_families d"
    using assms by (auto simp: authority_dead_def mark_families_def update_where_def unrevoked_family_def intro!: map_idI)
  moreover have "mark_access pa now ar (access_tokens d) = access_tokens d"
    using assms by (auto simp: authority_dead_def mark_access_def update_where_def live_access_def intro!: map_idI)
  ultimately show ?thesis by (simp add: cascaded_def)
qed

end

text \<open>A dead family cannot be rotated by any request.\<close>

lemma dead_family_not_rotated:
  assumes "authority_dead pf pa now d" "refresh_principals_ok d input (u, c, g, f, t)"
  shows "\<not> pf f"
proof
  assume "pf f"
  have "f \<in> set (refresh_token_families d)" "fam_RevokedAt f = None"
    using assms(2) by (auto simp: refresh_principals_ok_def LockRefreshTokenFamilyByID_def)
  with \<open>pf f\<close> show False using assms(1) by (auto simp: authority_dead_def)
qed

section \<open>The scopes\<close>

definition binding_family :: "uuid set \<Rightarrow> RefreshTokenFamily \<Rightarrow> bool" where
  "binding_family B f \<longleftrightarrow> fam_SessionBindingID f \<in> B"

definition binding_access :: "uuid set \<Rightarrow> AccessToken \<Rightarrow> bool" where
  "binding_access B a \<longleftrightarrow> (case acc_SessionBindingID a of Some b \<Rightarrow> b \<in> B | None \<Rightarrow> False)"

interpretation by_bindings: revocation_scope "binding_family B" "binding_access B" for B
  by unfold_locales (simp_all add: binding_family_def binding_access_def)

interpretation by_grant: revocation_scope "\<lambda>f. fam_ConsentGrantID f = i" "\<lambda>a. acc_ConsentGrantID a = i" for i
  by unfold_locales simp_all

interpretation by_client: revocation_scope "\<lambda>f. fam_ClientID f = i" "\<lambda>a. acc_ClientID a = i" for i
  by unfold_locales simp_all

interpretation by_user: revocation_scope "\<lambda>f. fam_UserID f = i" "\<lambda>a. acc_UserID a = i" for i
  by unfold_locales simp_all

lemma cascaded_nothing:
  assumes "\<And>f. \<not> pf f" "\<And>a. \<not> pa a"
  shows "cascaded pf pa now fr ar d = d"
proof -
  have "mark_families pf now fr t = t" for t using assms by (simp add: mark_families_def update_where_def unrevoked_family_def)
  moreover have "mark_access pa now ar t = t" for t using assms by (simp add: mark_access_def update_where_def live_access_def)
  ultimately show ?thesis by (simp add: cascaded_def)
qed

lemma cascaded_fields [simp]:
  "users (cascaded pf pa now fr ar d) = users d" "login_sessions (cascaded pf pa now fr ar d) = login_sessions d"
  "audit_events (cascaded pf pa now fr ar d) = audit_events d" "oidc_clients (cascaded pf pa now fr ar d) = oidc_clients d"
  "consent_grants (cascaded pf pa now fr ar d) = consent_grants d"
  by (simp_all add: cascaded_def)

lemma authority_dead_cong:
  "refresh_token_families d' = refresh_token_families d \<Longrightarrow> access_tokens d' = access_tokens d \<Longrightarrow>
   authority_dead pf pa now d' = authority_dead pf pa now d"
  by (simp add: authority_dead_def)

text \<open>The two statements of a cascade, for any selection of rows.\<close>

lemma cascade_statements:
  assumes "revoke_families pf now fr d = Inr (ids, d1)" "revoke_live_access pa now ar d1 = Inr (n, d2)"
  shows "d2 = cascaded pf pa now fr ar d"
  using revoke_families_Inr[OF assms(1)] revoke_live_access_Inr[OF assms(2)] by (simp add: cascaded_def)

lemma cascade_statements_ok:
  assumes "families_predate now d" "access_predate now d" "fr \<in> set family_revoke_reasons" "ar \<in> set access_revoke_reasons"
  obtains ids d1 n where "revoke_families pf now (Some fr) d = Inr (ids, d1)"
    "revoke_live_access pa now (Some ar) d1 = Inr (n, cascaded pf pa now (Some fr) (Some ar) d)"
proof -
  let ?d1 = "d\<lparr>refresh_token_families := mark_families pf now (Some fr) (refresh_token_families d)\<rparr>"
  have "access_predate now ?d1" using assms(2) by (simp add: access_predate_def)
  from revoke_live_access_ok[OF this assms(4), of pa] revoke_families_ok[OF assms(1,3), of pf] that
  show thesis by (simp add: cascaded_def)
qed

end
