(* ===== verification/Sessions.thy ===== *)
theory Sessions
  imports Cascades Batches
begin

text \<open>
  Login sessions: the token manager and the service of \<^verbatim>\<open>internal/session\<close>, the store methods of
  \<^verbatim>\<open>internal/storage/postgres/session.go\<close> and the statements of \<^verbatim>\<open>session.sql.go\<close>. A request is
  authenticated against the stored session and its user every time; revoking a session
  revokes, in the same transaction, every refresh family and live access token that carries
  the session's binding.

  The coarse client address (\<^verbatim>\<open>coarseIP\<close>) is an argument: it is the text \<^verbatim>\<open>net/netip\<close> prints for
  the masked prefix. Metrics are not modelled.
\<close>

section \<open>Structs\<close>

record SessionRecord =
  rec_ID :: uuid
  rec_UserID :: uuid
  rec_SessionBindingID :: uuid
  rec_TokenHash :: string
  rec_CSRFHash :: string
  rec_CSRFExpiresAt :: time
  rec_CreatedAt :: time
  rec_LastSeenAt :: time
  rec_AuthenticatedAt :: time
  rec_ExpiresAt :: time
  rec_IdleExpiresAt :: time
  rec_UserAgentHash :: "string option"
  rec_IPPrefix :: string

record IssuedSession =
  iss_Token :: string
  iss_CSRFToken :: string
  iss_Record :: SessionRecord

record PreAuthRecord =
  pa_ID :: uuid
  pa_TokenHash :: string
  pa_CSRFHash :: string
  pa_AuthTransactionID :: uuid
  pa_CreatedAt :: time
  pa_ExpiresAt :: time
  pa_ConsumedAt :: "time option"
  pa_AttemptCount :: int

record IssuedPreAuth =
  ipa_Token :: string
  ipa_CSRFToken :: string
  ipa_Record :: PreAuthRecord

record Principal =
  pr_SessionID :: uuid
  pr_SessionBindingID :: uuid
  pr_User :: User
  pr_CSRFHash :: string
  pr_CSRFExpiresAt :: time
  pr_CreatedAt :: time
  pr_LastSeenAt :: time
  pr_AuthenticatedAt :: time
  pr_ExpiresAt :: time
  pr_IdleExpiresAt :: time
  pr_RevokedAt :: "time option"

record Summary =
  sum_ID :: uuid
  sum_UserID :: uuid
  sum_Username :: string
  sum_UserStatus :: string
  sum_CreatedAt :: time
  sum_LastSeenAt :: time
  sum_AuthenticatedAt :: time
  sum_ExpiresAt :: time
  sum_IdleExpiresAt :: time
  sum_RevokedAt :: "time option"
  sum_RevokeReason :: string
  sum_IPPrefix :: string
  sum_Current :: bool

record TokenManager =
  tm_sessionTTL :: duration
  tm_idleTimeout :: duration
  tm_csrfTTL :: duration

section \<open>Token manager\<close>

definition NewTokenManager :: "duration \<Rightarrow> duration \<Rightarrow> duration \<Rightarrow> TokenManager option" where
  "NewTokenManager sessionTTL idleTimeout csrfTTL =
     (if sessionTTL \<le> 0 \<or> idleTimeout \<le> 0 \<or> idleTimeout > sessionTTL \<or> csrfTTL \<le> 0 then None
      else Some \<lparr>tm_sessionTTL = sessionTTL, tm_idleTimeout = idleTimeout, tm_csrfTTL = csrfTTL\<rparr>)"

definition hashOptional :: "string \<Rightarrow> string \<Rightarrow> string option" where
  "hashOptional prefix value = (if value = '''' then None else Some (sha256_Sum256 (prefix @ value)))"

definition NewAuthenticated ::
  "TokenManager \<Rightarrow> (string \<Rightarrow> uuid) \<Rightarrow> string \<Rightarrow> uuid \<Rightarrow> time \<Rightarrow> string \<Rightarrow> string \<Rightarrow> (go_error + IssuedSession \<times> string)" where
  "NewAuthenticated m uuidOf random userID now userAgent ipPrefix =
     (case session_newToken ''s1_'' random of
        None \<Rightarrow> Inl (Errors_New ''secure token generation failed'')
      | Some (token, random) \<Rightarrow>
      (case session_newToken ''c1_'' random of
         None \<Rightarrow> Inl (Errors_New ''secure token generation failed'')
       | Some (csrf, random) \<Rightarrow>
      (case NewRandomFromReader uuidOf random of
         None \<Rightarrow> Inl (Errors_New ''session identifier generation failed'')
       | Some (i, random) \<Rightarrow>
      (let expires = now + tm_sessionTTL m;
           idleExpires = (if now + tm_idleTimeout m > expires then expires else now + tm_idleTimeout m)
       in Inr (\<lparr>iss_Token = token, iss_CSRFToken = csrf,
           iss_Record = \<lparr>rec_ID = i, rec_UserID = userID, rec_SessionBindingID = i,
             rec_TokenHash = session_HashToken token, rec_CSRFHash = HashCSRF csrf,
             rec_CSRFExpiresAt = now + tm_csrfTTL m, rec_CreatedAt = now, rec_LastSeenAt = now,
             rec_AuthenticatedAt = now, rec_ExpiresAt = expires, rec_IdleExpiresAt = idleExpires,
             rec_UserAgentHash = hashOptional ''oneissuer:user-agent:v1:'' userAgent,
             rec_IPPrefix = ipPrefix\<rparr>\<rparr>, random)))))"

definition NewPreAuth ::
  "TokenManager \<Rightarrow> (string \<Rightarrow> uuid) \<Rightarrow> string \<Rightarrow> uuid \<Rightarrow> time \<Rightarrow> (go_error + IssuedPreAuth \<times> string)" where
  "NewPreAuth m uuidOf random transactionID now =
     (case session_newToken ''p1_'' random of
        None \<Rightarrow> Inl (Errors_New ''secure token generation failed'')
      | Some (token, random) \<Rightarrow>
      (case session_newToken ''c1_'' random of
         None \<Rightarrow> Inl (Errors_New ''secure token generation failed'')
       | Some (csrf, random) \<Rightarrow>
      (case NewRandomFromReader uuidOf random of
         None \<Rightarrow> Inl (Errors_New ''pre-auth identifier generation failed'')
       | Some (i, random) \<Rightarrow>
         Inr (\<lparr>ipa_Token = token, ipa_CSRFToken = csrf,
           ipa_Record = \<lparr>pa_ID = i, pa_TokenHash = session_HashToken token, pa_CSRFHash = HashCSRF csrf,
             pa_AuthTransactionID = transactionID, pa_CreatedAt = now, pa_ExpiresAt = now + tm_csrfTTL m,
             pa_ConsumedAt = None, pa_AttemptCount = 0\<rparr>\<rparr>, random))))"

definition NewCSRF :: "TokenManager \<Rightarrow> string \<Rightarrow> time \<Rightarrow> (go_error + string \<times> string \<times> time)" where
  "NewCSRF m random now =
     (case session_newToken ''c1_'' random of
        None \<Rightarrow> Inl (Errors_New ''secure token generation failed'')
      | Some (token, _) \<Rightarrow> Inr (token, HashCSRF token, now + tm_csrfTTL m))"

definition ValidatePreAuth :: "PreAuthRecord \<Rightarrow> string \<Rightarrow> string \<Rightarrow> time \<Rightarrow> go_error option" where
  "ValidatePreAuth record clearCookie clearCSRF now =
     (if \<not> session_validToken clearCookie ''p1_'' \<or> pa_ConsumedAt record \<noteq> None \<or> \<not> now < pa_ExpiresAt record
      then Some Session_ErrUnauthenticated
      else if session_HashToken clearCookie \<noteq> pa_TokenHash record \<or> \<not> csrfMatches clearCSRF (pa_CSRFHash record)
      then Some Session_ErrInvalidCSRF
      else None)"

definition NextIdleExpiry :: "TokenManager \<Rightarrow> time \<Rightarrow> time \<Rightarrow> time" where
  "NextIdleExpiry m now absolute =
     (if now + tm_idleTimeout m > absolute then absolute else now + tm_idleTimeout m)"

section \<open>Statements\<close>

definition GetLoginSessionByTokenHash :: "string \<Rightarrow> db \<Rightarrow> (LoginSession \<times> User) option" where
  "GetLoginSessionByTokenHash h d =
     (case select_one (\<lambda>s. ses_TokenHash s = h) (login_sessions d) of
        None \<Rightarrow> None
      | Some s \<Rightarrow> map_option (\<lambda>u. (s, u)) (select_one (\<lambda>u. usr_ID u = ses_UserID s) (users d)))"

definition CreateLoginSession :: "LoginSession \<Rightarrow> db \<Rightarrow> pg_error + unit \<times> db" where
  "CreateLoginSession params d =
     (let s = params\<lparr>ses_RevokedAt := None, ses_RevokeReason := None\<rparr>
      in stmt (\<lambda>t. ((), d\<lparr>login_sessions := t\<rparr>))
           (insert_checked (login_sessions_violation d s) s (login_sessions d)))"

definition CreatePreAuthSession :: "PreauthSession \<Rightarrow> db \<Rightarrow> pg_error + unit \<times> db" where
  "CreatePreAuthSession params d =
     (let p = params\<lparr>pre_ConsumedAt := None, pre_AttemptCount := 0\<rparr>
      in stmt (\<lambda>t. ((), d\<lparr>preauth_sessions := t\<rparr>))
           (insert_checked (preauth_sessions_violation d p) p (preauth_sessions d)))"

definition GetPreAuthSessionByTokenHash :: "string \<Rightarrow> db \<Rightarrow> PreauthSession option" where
  "GetPreAuthSessionByTokenHash h d = select_one (\<lambda>p. pre_TokenHash p = h) (preauth_sessions d)"

definition ConsumePreAuthSession :: "time \<Rightarrow> uuid \<Rightarrow> db \<Rightarrow> pg_error + uuid option \<times> db" where
  "ConsumePreAuthSession now i d =
     (let p = (\<lambda>r. pre_ID r = i \<and> pre_ConsumedAt r = None \<and> pre_ExpiresAt r > now)
      in stmt (\<lambda>t. (map_option pre_ID (select_one p (preauth_sessions d)), d\<lparr>preauth_sessions := t\<rparr>))
           (update_checked preauth_sessions_check p (\<lambda>r. r\<lparr>pre_ConsumedAt := Some now\<rparr>) (preauth_sessions d)))"

definition ReservePreAuthAttempt :: "uuid \<Rightarrow> time \<Rightarrow> int \<Rightarrow> db \<Rightarrow> pg_error + PreauthSession option \<times> db" where
  "ReservePreAuthAttempt i now limit d =
     (let p = (\<lambda>r. pre_ID r = i \<and> pre_ConsumedAt r = None \<and> pre_ExpiresAt r > now \<and> pre_AttemptCount r < limit);
          f = (\<lambda>r. r\<lparr>pre_AttemptCount := pre_AttemptCount r + 1\<rparr>)
      in stmt (\<lambda>t. (map_option f (select_one p (preauth_sessions d)), d\<lparr>preauth_sessions := t\<rparr>))
           (update_checked preauth_sessions_check p f (preauth_sessions d)))"

definition LockActiveLoginSessionsByUser :: "uuid \<Rightarrow> db \<Rightarrow> LoginSession list" where
  "LockActiveLoginSessionsByUser u d =
     sort_key ses_ID (select_where (\<lambda>s. ses_UserID s = u \<and> ses_RevokedAt s = None) (login_sessions d))"

definition CountActiveLoginSessions :: "time \<Rightarrow> db \<Rightarrow> nat" where
  "CountActiveLoginSessions now d =
     length (select_where (\<lambda>s. ses_RevokedAt s = None \<and> ses_ExpiresAt s > now \<and> ses_IdleExpiresAt s > now) (login_sessions d))"

definition RotateLoginSessionCSRF :: "string \<Rightarrow> time \<Rightarrow> uuid \<Rightarrow> db \<Rightarrow> pg_error + unit \<times> db" where
  "RotateLoginSessionCSRF hash expires i d =
     stmt (\<lambda>t. ((), d\<lparr>login_sessions := t\<rparr>))
       (update_checked login_sessions_check (\<lambda>s. ses_ID s = i \<and> ses_RevokedAt s = None)
          (\<lambda>s. s\<lparr>ses_CsrfHash := hash, ses_CsrfExpiresAt := expires\<rparr>) (login_sessions d))"

definition TouchLoginSession :: "time \<Rightarrow> time \<Rightarrow> uuid \<Rightarrow> db \<Rightarrow> pg_error + unit \<times> db" where
  "TouchLoginSession lastSeen idleExpires i d =
     stmt (\<lambda>t. ((), d\<lparr>login_sessions := t\<rparr>))
       (update_checked login_sessions_check
          (\<lambda>s. ses_ID s = i \<and> ses_RevokedAt s = None \<and> ses_ExpiresAt s > lastSeen \<and> ses_IdleExpiresAt s > lastSeen)
          (\<lambda>s. s\<lparr>ses_LastSeenAt := lastSeen, ses_IdleExpiresAt := min (ses_ExpiresAt s) idleExpires\<rparr>) (login_sessions d))"

definition expired_preauth :: "time \<Rightarrow> PreauthSession \<Rightarrow> bool" where
  "expired_preauth cutoff p \<longleftrightarrow> pre_ExpiresAt p \<le> cutoff \<or> (case pre_ConsumedAt p of None \<Rightarrow> False | Some t \<Rightarrow> t \<le> cutoff)"

definition DeleteExpiredPreAuthSessions :: "time \<Rightarrow> nat \<Rightarrow> db \<Rightarrow> pg_error + nat \<times> db" where
  "DeleteExpiredPreAuthSessions cutoff n d =
     (let (ids, t) = delete_batch (expired_preauth cutoff)
            (\<lambda>p. (min (pre_ExpiresAt p) (case pre_ConsumedAt p of None \<Rightarrow> pre_ExpiresAt p | Some c \<Rightarrow> c), pre_ID p))
            pre_ID n (preauth_sessions d)
      in Inr (length ids, d\<lparr>preauth_sessions := t\<rparr>))"

definition retired_session :: "time \<Rightarrow> LoginSession \<Rightarrow> bool" where
  "retired_session cutoff s \<longleftrightarrow> (case ses_RevokedAt s of None \<Rightarrow> False | Some t \<Rightarrow> t \<le> cutoff) \<or>
     ses_ExpiresAt s \<le> cutoff \<or> ses_IdleExpiresAt s \<le> cutoff"

text \<open>
  Deleting a session runs the actions of the foreign keys to it, in the order the
  constraints were created: codes, families and access tokens lose the reference
  (\<^verbatim>\<open>ON DELETE SET NULL\<close>), the last of them under the authority trigger and the table's
  constraints; a logout transaction forbids the deletion (\<^verbatim>\<open>ON DELETE RESTRICT\<close>).
\<close>

fun detach_sessions :: "uuid list \<Rightarrow> db \<Rightarrow> pg_error + db" where
  "detach_sessions [] d = Inr d"
| "detach_sessions (i # ids) d =
     (let d = d\<lparr>authorization_codes := update_where (\<lambda>c. code_OriginSessionID c = Some i)
                  (\<lambda>c. c\<lparr>code_OriginSessionID := None\<rparr>) (authorization_codes d)\<rparr>;
          d = d\<lparr>refresh_token_families := update_where (\<lambda>f. fam_OriginSessionID f = Some i)
                  (\<lambda>f. f\<lparr>fam_OriginSessionID := None\<rparr>) (refresh_token_families d)\<rparr>
      in case update_checked (\<lambda>a. access_token_authority_ok d a \<and> access_tokens_check a)
                (\<lambda>a. acc_OriginSessionID a = Some i) (\<lambda>a. a\<lparr>acc_OriginSessionID := None\<rparr>) (access_tokens d) of
           Inl e \<Rightarrow> Inl e
         | Inr t \<Rightarrow>
           if list_ex (\<lambda>l. lo_SessionID l = Some i) (logout_transactions d) then Inl (PgError ''23503'')
           else detach_sessions ids (d\<lparr>access_tokens := t\<rparr>))"

definition DeleteRetiredLoginSessions :: "time \<Rightarrow> nat \<Rightarrow> db \<Rightarrow> pg_error + nat \<times> db" where
  "DeleteRetiredLoginSessions cutoff n d =
     (let (ids, t) = delete_batch (retired_session cutoff)
            (\<lambda>s. (min (ses_ExpiresAt s) (min (ses_IdleExpiresAt s)
                    (case ses_RevokedAt s of None \<Rightarrow> ses_ExpiresAt s | Some r \<Rightarrow> r)), ses_ID s))
            ses_ID n (login_sessions d)
      in stmt (\<lambda>d'. (length ids, d')) (detach_sessions ids (d\<lparr>login_sessions := t\<rparr>)))"

section \<open>Store\<close>

definition mapPrincipal :: "LoginSession \<times> User \<Rightarrow> Principal" where
  "mapPrincipal row = (case row of (s, u) \<Rightarrow>
     \<lparr>pr_SessionID = ses_ID s, pr_SessionBindingID = ses_SessionBindingID s, pr_User = u,
      pr_CSRFHash = ses_CsrfHash s, pr_CSRFExpiresAt = ses_CsrfExpiresAt s, pr_CreatedAt = ses_CreatedAt s,
      pr_LastSeenAt = ses_LastSeenAt s, pr_AuthenticatedAt = ses_AuthenticatedAt s, pr_ExpiresAt = ses_ExpiresAt s,
      pr_IdleExpiresAt = ses_IdleExpiresAt s, pr_RevokedAt = ses_RevokedAt s\<rparr>)"

definition FindLoginSession :: "db \<times> pg_error option \<Rightarrow> string \<Rightarrow> go_error + Principal" where
  "FindLoginSession view tokenHash =
     (case pool_read view ''find login session'' (GetLoginSessionByTokenHash tokenHash) of
        Inl err \<Rightarrow> Inl err
      | Inr None \<Rightarrow> Inl Session_ErrNotFound
      | Inr (Some row) \<Rightarrow> Inr (mapPrincipal row))"

definition store_TouchLoginSession where
  "store_TouchLoginSession outcome i lastSeen idleExpires =
     pool_exec outcome ''touch login session'' (TouchLoginSession lastSeen idleExpires i)"

definition RotateSessionCSRF where
  "RotateSessionCSRF outcome i hash expires =
     pool_exec outcome ''rotate session CSRF'' (RotateLoginSessionCSRF hash expires i)"

text \<open>The deduplicating loop over the binding identifiers.\<close>

fun unique_bindings :: "uuid list \<Rightarrow> uuid list \<Rightarrow> uuid list" where
  "unique_bindings [] unique = unique"
| "unique_bindings (b # bs) unique =
     (if b = uuid_Nil \<or> b \<in> set unique then unique_bindings bs unique else unique_bindings bs (unique @ [b]))"

definition revokeSessionBindingsCascade :: "uuid list \<Rightarrow> time \<Rightarrow> string \<Rightarrow> unit dbtx" where
  "revokeSessionBindingsCascade bindingIDs now familyReason =
     (let unique = unique_bindings bindingIDs [] in
      if length unique = 0 then treturn () else
      if IsZero now then tfail Session_ErrNotFound else
      tbind (read_query ''lock session refresh families'' (LockUnrevokedRefreshTokenFamiliesByBindings unique)) (\<lambda>_.
      tbind (read_query ''lock session access metadata'' (LockLiveAccessTokensByBindings unique now)) (\<lambda>_.
      tbind (exec_query ''revoke session refresh families''
               (RevokeRefreshTokenFamiliesByBindings now (pointerString familyReason) unique)) (\<lambda>_.
      tbind (exec_query ''revoke session access metadata''
               (RevokeLiveAccessTokensByBindings now (pointerString familyReason) unique)) (\<lambda>_.
      treturn ())))))"

definition revokeSessionBindingCascade :: "uuid \<Rightarrow> time \<Rightarrow> string \<Rightarrow> unit dbtx" where
  "revokeSessionBindingCascade bindingID now familyReason =
     (if bindingID = uuid_Nil \<or> IsZero now then tfail Session_ErrNotFound
      else revokeSessionBindingsCascade [bindingID] now familyReason)"

text \<open>A locked session is revoked with what it carries; the event is the last statement.\<close>

definition revoke_locked_session :: "LoginSession \<Rightarrow> time \<Rightarrow> string option \<Rightarrow> string \<Rightarrow> Event \<Rightarrow> unit dbtx" where
  "revoke_locked_session row now reason operation event =
     tbind (revokeSessionBindingCascade (ses_SessionBindingID row) now ''session_revoked'') (\<lambda>_.
     tbind (exec_query operation (RevokeLoginSessionBindingByID now reason (ses_ID row))) (\<lambda>revoked.
     case revoked of
       None \<Rightarrow> tfail Session_ErrNotFound
     | Some _ \<Rightarrow> insertAudit event))"

definition revoke_user_session_tx :: "uuid \<Rightarrow> uuid \<Rightarrow> time \<Rightarrow> Event \<Rightarrow> unit dbtx" where
  "revoke_user_session_tx userID target now event =
     tbind (read_query ''lock user session for revocation'' (LockLoginSessionByID target)) (\<lambda>row.
     case row of
       None \<Rightarrow> tfail Session_ErrNotFound
     | Some sessionRow \<Rightarrow>
     if ses_UserID sessionRow \<noteq> userID \<or> ses_RevokedAt sessionRow \<noteq> None then tfail Session_ErrNotFound
     else revoke_locked_session sessionRow now (pointerString ''user'') ''revoke user session'' event)"

definition RevokeUserSession ::
  "(nat \<Rightarrow> attempt) \<Rightarrow> uuid \<Rightarrow> uuid \<Rightarrow> time \<Rightarrow> Event \<Rightarrow> db \<Rightarrow> (go_error + unit) \<times> db" where
  "RevokeUserSession env userID target now event d = inTx env (\<lambda>_. revoke_user_session_tx userID target now event) d"

fun revoke_other_rows :: "uuid \<Rightarrow> time \<Rightarrow> LoginSession list \<Rightarrow> nat \<Rightarrow> nat dbtx" where
  "revoke_other_rows currentSession now [] count = treturn count"
| "revoke_other_rows currentSession now (row # rows) count =
     (if ses_ID row = currentSession then revoke_other_rows currentSession now rows count else
      tbind (exec_query ''revoke other user session''
               (RevokeLoginSessionBindingByID now (pointerString ''others'') (ses_ID row))) (\<lambda>revoked.
      case revoked of
        None \<Rightarrow> tfail (no_rows ''revoke other user session'')
      | Some _ \<Rightarrow> revoke_other_rows currentSession now rows (Suc count)))"

definition revoke_other_sessions_tx :: "uuid \<Rightarrow> uuid \<Rightarrow> time \<Rightarrow> Event \<Rightarrow> nat dbtx" where
  "revoke_other_sessions_tx userID currentSession now event =
     tbind (read_query ''lock other user sessions'' (LockActiveLoginSessionsByUser userID)) (\<lambda>rows.
     let bindingIDs = map ses_SessionBindingID (filter (\<lambda>row. ses_ID row \<noteq> currentSession) rows) in
     tbind (revokeSessionBindingsCascade bindingIDs now ''session_revoked'') (\<lambda>_.
     tbind (revoke_other_rows currentSession now rows 0) (\<lambda>count.
     tbind (insertAudit event) (\<lambda>_.
     treturn count))))"

definition RevokeOtherUserSessions ::
  "(nat \<Rightarrow> attempt) \<Rightarrow> uuid \<Rightarrow> uuid \<Rightarrow> time \<Rightarrow> Event \<Rightarrow> db \<Rightarrow> (go_error + nat) \<times> db" where
  "RevokeOtherUserSessions env userID currentSession now event d =
     inTx env (\<lambda>_. revoke_other_sessions_tx userID currentSession now event) d"

definition revoke_session_by_hash_tx :: "string \<Rightarrow> time \<Rightarrow> string \<Rightarrow> Event \<Rightarrow> unit dbtx" where
  "revoke_session_by_hash_tx hash now reason event =
     tbind (read_query ''lock login session'' (LockLoginSessionByTokenHash hash)) (\<lambda>row.
     case row of
       None \<Rightarrow> tfail Session_ErrNotFound
     | Some row \<Rightarrow>
     if ses_RevokedAt row \<noteq> None then tfail Session_ErrNotFound
     else revoke_locked_session row now (pointerString reason) ''revoke login session'' event)"

definition RevokeSessionByHash ::
  "(nat \<Rightarrow> attempt) \<Rightarrow> string \<Rightarrow> time \<Rightarrow> string \<Rightarrow> Event \<Rightarrow> db \<Rightarrow> (go_error + unit) \<times> db" where
  "RevokeSessionByHash env hash now reason event d = inTx env (\<lambda>_. revoke_session_by_hash_tx hash now reason event) d"

text \<open>One round of \<^verbatim>\<open>CleanupSessions\<close>: both kinds in one transaction.\<close>

definition cleanup_sessions_tx :: "time \<Rightarrow> time \<Rightarrow> (nat \<times> bool) dbtx" where
  "cleanup_sessions_tx preAuthCutoff retiredCutoff =
     tbind (exec_query ''clean pre-auth sessions'' (DeleteExpiredPreAuthSessions preAuthCutoff cleanupBatchSize)) (\<lambda>preauth.
     tbind (exec_query ''clean login sessions'' (DeleteRetiredLoginSessions retiredCutoff cleanupBatchSize)) (\<lambda>login.
     treturn (preauth + login, \<not> (preauth < cleanupBatchSize \<and> login < cleanupBatchSize))))"

definition CleanupSessions ::
  "(nat \<Rightarrow> nat \<Rightarrow> attempt) \<Rightarrow> time \<Rightarrow> time \<Rightarrow> db \<Rightarrow> ((nat \<times> go_error option) \<times> db) option" where
  "CleanupSessions envs preAuthCutoff retiredCutoff d =
     batch_loop (\<lambda>k. inTx (envs k) (\<lambda>_. cleanup_sessions_tx preAuthCutoff retiredCutoff)) 0 0 d"

definition CountActiveSessions :: "db \<times> pg_error option \<Rightarrow> time \<Rightarrow> go_error + nat" where
  "CountActiveSessions view now = pool_read view ''count active login sessions'' (CountActiveLoginSessions now)"

definition login_session_row :: "SessionRecord \<Rightarrow> LoginSession" where
  "login_session_row record =
     \<lparr>ses_ID = rec_ID record, ses_UserID = rec_UserID record, ses_TokenHash = rec_TokenHash record,
      ses_CsrfHash = rec_CSRFHash record, ses_CsrfExpiresAt = rec_CSRFExpiresAt record,
      ses_CreatedAt = rec_CreatedAt record, ses_LastSeenAt = rec_LastSeenAt record,
      ses_AuthenticatedAt = rec_AuthenticatedAt record, ses_ExpiresAt = rec_ExpiresAt record,
      ses_IdleExpiresAt = rec_IdleExpiresAt record, ses_RevokedAt = None, ses_RevokeReason = None,
      ses_UserAgentHash = rec_UserAgentHash record,
      ses_IpPrefix = (if rec_IPPrefix record \<noteq> '''' then Some (rec_IPPrefix record) else None),
      ses_SessionBindingID = rec_SessionBindingID record\<rparr>"

definition createLoginSession :: "SessionRecord \<Rightarrow> unit dbtx" where
  "createLoginSession record = exec_query ''create login session'' (CreateLoginSession (login_session_row record))"

definition preauth_row :: "PreAuthRecord \<Rightarrow> PreauthSession" where
  "preauth_row record =
     \<lparr>pre_ID = pa_ID record, pre_TokenHash = pa_TokenHash record, pre_CsrfHash = pa_CSRFHash record,
      pre_AuthTransactionID = pa_AuthTransactionID record, pre_CreatedAt = pa_CreatedAt record,
      pre_ExpiresAt = pa_ExpiresAt record, pre_ConsumedAt = None, pre_AttemptCount = 0\<rparr>"

definition createPreAuthSession :: "PreAuthRecord \<Rightarrow> unit dbtx" where
  "createPreAuthSession record = exec_query ''create pre-auth session'' (CreatePreAuthSession (preauth_row record))"

section \<open>Service\<close>

record SessionService =
  svc_tokens :: TokenManager
  svc_touchEvery :: duration

definition session_NewService :: "TokenManager \<Rightarrow> SessionService" where
  "session_NewService tokens = \<lparr>svc_tokens = tokens, svc_touchEvery = 5 * Minute\<rparr>"

definition Authenticate ::
  "SessionService \<Rightarrow> db \<times> pg_error option \<Rightarrow> commit_outcome \<Rightarrow> string \<Rightarrow> time \<Rightarrow> db \<Rightarrow> (go_error + Principal) \<times> db" where
  "Authenticate svc view outcome token now d =
     (if \<not> session_validToken token ''s1_'' then (Inl Session_ErrUnauthenticated, d) else
      case FindLoginSession view (session_HashToken token) of
        Inl err \<Rightarrow> (if errors_Is err Session_ErrNotFound then (Inl Session_ErrUnauthenticated, d) else (Inl err, d))
      | Inr who \<Rightarrow>
      if pr_RevokedAt who \<noteq> None \<or> \<not> now < pr_ExpiresAt who \<or> \<not> now < pr_IdleExpiresAt who \<or>
         usr_Status (pr_User who) \<noteq> ''active''
      then (Inl Session_ErrUnauthenticated, d) else
      if now - pr_LastSeenAt who \<ge> svc_touchEvery svc then
        let idle = NextIdleExpiry (svc_tokens svc) now (pr_ExpiresAt who) in
        (case store_TouchLoginSession outcome (pr_SessionID who) now idle d of
           (Inl err, d') \<Rightarrow> (Inl err, d')
         | (Inr _, d') \<Rightarrow> (Inr (who\<lparr>pr_LastSeenAt := now, pr_IdleExpiresAt := idle\<rparr>), d'))
      else (Inr who, d))"

text \<open>\<open>None\<close> is no error.\<close>

definition ValidateCSRF :: "Principal \<Rightarrow> string \<Rightarrow> time \<Rightarrow> go_error option" where
  "ValidateCSRF who token now =
     (if \<not> now < pr_CSRFExpiresAt who \<or> \<not> csrfMatches token (pr_CSRFHash who)
      then Some Session_ErrInvalidCSRF else None)"

text \<open>The principal is updated through its pointer; \<open>None\<close> is a nil pointer.\<close>

definition EnsureCSRF ::
  "SessionService \<Rightarrow> string \<Rightarrow> commit_outcome \<Rightarrow> Principal option \<Rightarrow> string \<Rightarrow> time \<Rightarrow> db \<Rightarrow>
   (go_error + (string \<times> bool) \<times> Principal) \<times> db" where
  "EnsureCSRF svc random outcome who presented now d =
     (case who of
        None \<Rightarrow> (Inl Session_ErrUnauthenticated, d)
      | Some who \<Rightarrow>
      if ValidateCSRF who presented now = None then (Inr ((presented, False), who), d) else
      (case NewCSRF (svc_tokens svc) random now of
         Inl err \<Rightarrow> (Inl err, d)
       | Inr (token, hash, expires) \<Rightarrow>
      (case RotateSessionCSRF outcome (pr_SessionID who) hash expires d of
         (Inl err, d') \<Rightarrow> (Inl err, d')
       | (Inr _, d') \<Rightarrow>
         (Inr ((token, True), who\<lparr>pr_CSRFHash := hash, pr_CSRFExpiresAt := expires\<rparr>), d'))))"

definition session_RevokeMine ::
  "uuid \<Rightarrow> (nat \<Rightarrow> attempt) \<Rightarrow> Principal \<Rightarrow> uuid \<Rightarrow> string \<Rightarrow> time \<Rightarrow> db \<Rightarrow> (go_error + unit) \<times> db" where
  "session_RevokeMine newID env who target requestID now d =
     (case audit_New newID ''session_revoked'' ''success'' (Some (usr_ID (pr_User who))) ''session'' (Some target)
             requestID [''revoked''] now of
        None \<Rightarrow> (Inl Audit_ErrInvalidEvent, d)
      | Some event \<Rightarrow> RevokeUserSession env (usr_ID (pr_User who)) target now event d)"

definition RevokeOthers ::
  "uuid \<Rightarrow> (nat \<Rightarrow> attempt) \<Rightarrow> Principal \<Rightarrow> string \<Rightarrow> time \<Rightarrow> db \<Rightarrow> (go_error + nat) \<times> db" where
  "RevokeOthers newID env who requestID now d =
     (let target = usr_ID (pr_User who) in
      case audit_New newID ''sessions_revoked_all'' ''success'' (Some (usr_ID (pr_User who))) ''user'' (Some target)
             requestID [''revoked''] now of
        None \<Rightarrow> (Inl Audit_ErrInvalidEvent, d)
      | Some event \<Rightarrow> RevokeOtherUserSessions env (usr_ID (pr_User who)) (pr_SessionID who) now event d)"

definition Logout ::
  "uuid \<Rightarrow> (nat \<Rightarrow> attempt) \<Rightarrow> Principal \<Rightarrow> string \<Rightarrow> string \<Rightarrow> time \<Rightarrow> db \<Rightarrow> (go_error + unit) \<times> db" where
  "Logout newID env who clearToken requestID now d =
     (case audit_New newID ''session_revoked'' ''success'' (Some (usr_ID (pr_User who))) ''session''
             (Some (pr_SessionID who)) requestID [''revoked''] now of
        None \<Rightarrow> (Inl Audit_ErrInvalidEvent, d)
      | Some event \<Rightarrow> RevokeSessionByHash env (session_HashToken clearToken) now ''logout'' event d)"

definition session_Cleanup :: "(nat \<Rightarrow> nat \<Rightarrow> attempt) \<Rightarrow> time \<Rightarrow> db \<Rightarrow> ((nat \<times> go_error option) \<times> db) option" where
  "session_Cleanup envs now d = CleanupSessions envs now (now - 30 * 24 * Hour) d"

section \<open>Authentication\<close>

text \<open>The session a principal was resolved from, live at \<open>now\<close> with an active user.\<close>

definition session_live :: "db \<Rightarrow> string \<Rightarrow> time \<Rightarrow> LoginSession \<Rightarrow> User \<Rightarrow> bool" where
  "session_live d token now s u \<longleftrightarrow> session_validToken token ''s1_'' \<and>
     GetLoginSessionByTokenHash (session_HashToken token) d = Some (s, u) \<and> ses_RevokedAt s = None \<and>
     now < ses_ExpiresAt s \<and> now < ses_IdleExpiresAt s \<and> usr_Status u = ''active''"

definition touch_session :: "time \<Rightarrow> time \<Rightarrow> uuid \<Rightarrow> LoginSession table \<Rightarrow> LoginSession table" where
  "touch_session now idle i = update_where
     (\<lambda>s. ses_ID s = i \<and> ses_RevokedAt s = None \<and> ses_ExpiresAt s > now \<and> ses_IdleExpiresAt s > now)
     (\<lambda>s. s\<lparr>ses_LastSeenAt := now, ses_IdleExpiresAt := min (ses_ExpiresAt s) idle\<rparr>)"

lemma TouchLoginSession_Inr:
  "TouchLoginSession now idle i d = Inr (u, d') \<Longrightarrow> d' = d\<lparr>login_sessions := touch_session now idle i (login_sessions d)\<rparr>"
  by (auto simp: TouchLoginSession_def tx_simps touch_session_def)

lemma Authenticate_Inr:
  assumes "Authenticate svc view outcome token now d = (Inr p, d')"
  obtains s u where "snd view = None" "session_live (fst view) token now s u"
    "pr_SessionID p = ses_ID s" "pr_SessionBindingID p = ses_SessionBindingID s" "pr_User p = u"
    "pr_AuthenticatedAt p = ses_AuthenticatedAt s"
    "d' = d \<or> d' = d\<lparr>login_sessions := touch_session now (NextIdleExpiry (svc_tokens svc) now (ses_ExpiresAt s)) (ses_ID s)
        (login_sessions d)\<rparr>"
proof -
  have valid: "session_validToken token ''s1_''"
    using assms by (auto simp: Authenticate_def split: if_splits)
  obtain s u where view: "snd view = None" and row: "GetLoginSessionByTokenHash (session_HashToken token) (fst view) = Some (s, u)"
    using assms valid
    by (auto simp: Authenticate_def FindLoginSession_def pool_read_Inr split: if_splits sum.splits option.splits)
  have find: "FindLoginSession view (session_HashToken token) = Inr (mapPrincipal (s, u))"
    using view row by (cases view) (simp add: FindLoginSession_def pool_read_def)
  note body = assms[unfolded Authenticate_def find]
  have live: "session_live (fst view) token now s u"
    using body valid row by (auto simp: session_live_def mapPrincipal_def split: if_splits)
  let ?idle = "NextIdleExpiry (svc_tokens svc) now (ses_ExpiresAt s)"
  have "p = mapPrincipal (s, u) \<and> d' = d \<or>
      p = (mapPrincipal (s, u))\<lparr>pr_LastSeenAt := now, pr_IdleExpiresAt := ?idle\<rparr> \<and>
      d' = d\<lparr>login_sessions := touch_session now ?idle (ses_ID s) (login_sessions d)\<rparr>"
    using body valid
    by (auto simp: mapPrincipal_def store_TouchLoginSession_def Let_def split: if_splits sum.splits prod.splits
        dest!: pool_exec_Inr TouchLoginSession_Inr)
  then show thesis using that view live by (auto simp: mapPrincipal_def)
qed

section \<open>Revocation\<close>

lemma set_unique_bindings: "set (unique_bindings bs us) = set us \<union> (set bs - {uuid_Nil})"
  by (induction bs us rule: unique_bindings.induct) auto

definition bindings_revoked :: "uuid set \<Rightarrow> time \<Rightarrow> string \<Rightarrow> db \<Rightarrow> db" where
  "bindings_revoked B now reason = cascaded (binding_family B) (binding_access B) now (pointerString reason) (pointerString reason)"

lemma revokeSessionBindingsCascade_run:
  assumes "tx_run (revokeSessionBindingsCascade bs now reason) d x d'"
  shows "d' = bindings_revoked (set bs - {uuid_Nil}) now reason d"
proof -
  let ?bs = "unique_bindings bs []"
  have B: "set ?bs = set bs - {uuid_Nil}" by (simp add: set_unique_bindings)
  have none: "cascaded (binding_family {}) (binding_access {}) now fr ar d = d" for fr ar
    by (rule cascaded_nothing) (simp_all add: binding_family_def binding_access_def split: option.split)
  from assms consider "?bs = []" "d' = d" | n d1 m where
      "RevokeRefreshTokenFamiliesByBindings now (pointerString reason) ?bs d = Inr (n, d1)"
      "RevokeLiveAccessTokensByBindings now (pointerString reason) ?bs d1 = Inr (m, d')"
    unfolding revokeSessionBindingsCascade_def Let_def by (elim tx_elims) auto
  then show ?thesis
  proof cases
    case 1
    then have "set bs - {uuid_Nil} = {}" using B by simp
    then show ?thesis using 1 none by (simp only: bindings_revoked_def)
  next
    case 2
    then have "\<exists>ids. revoke_families (binding_family (set ?bs)) now (pointerString reason) d = Inr (ids, d1)"
      "revoke_live_access (binding_access (set ?bs)) now (pointerString reason) d1 = Inr (m, d')"
      by (auto simp: bulk_revocation_defs stmt_Inr binding_family_def[abs_def] binding_access_def[abs_def])
    then show ?thesis using B by (auto simp: bindings_revoked_def dest: cascade_statements)
  qed
qed

definition revoke_session_id :: "time \<Rightarrow> string option \<Rightarrow> uuid \<Rightarrow> LoginSession table \<Rightarrow> LoginSession table" where
  "revoke_session_id now reason i = update_where (\<lambda>s. ses_ID s = i \<and> ses_RevokedAt s = None)
     (\<lambda>s. s\<lparr>ses_RevokedAt := Some now, ses_RevokeReason := reason\<rparr>)"

lemma RevokeLoginSessionBindingByID_Inr:
  "RevokeLoginSessionBindingByID now reason i d = Inr (r, d') \<Longrightarrow>
     d' = d\<lparr>login_sessions := revoke_session_id now reason i (login_sessions d)\<rparr>"
  by (auto simp: RevokeLoginSessionBindingByID_def Let_def tx_simps revoke_session_id_def)

lemma revoke_locked_session_run:
  assumes "tx_run (revoke_locked_session row now reason op event) d x d'"
  shows "ses_SessionBindingID row \<noteq> uuid_Nil \<and>
    d' = (bindings_revoked {ses_SessionBindingID row} now ''session_revoked'' d)\<lparr>
      login_sessions := revoke_session_id now reason (ses_ID row) (login_sessions d),
      audit_events := audit_events d @ [event_row event]\<rparr>"
proof -
  obtain d1 x1 r d2 where run: "ses_SessionBindingID row \<noteq> uuid_Nil"
    "tx_run (revokeSessionBindingsCascade [ses_SessionBindingID row] now ''session_revoked'') d x1 d1"
    "RevokeLoginSessionBindingByID now reason (ses_ID row) d1 = Inr (r, d2)"
    "d' = d2\<lparr>audit_events := audit_events d2 @ [event_row event]\<rparr>"
    using assms unfolding revoke_locked_session_def revokeSessionBindingCascade_def
    by (elim tx_elims insertAudit_run) blast
  have "d1 = bindings_revoked {ses_SessionBindingID row} now ''session_revoked'' d"
    using revokeSessionBindingsCascade_run[OF run(2)] run(1) by simp
  then show ?thesis
    using run(1,4) RevokeLoginSessionBindingByID_Inr[OF run(3)] by (simp add: bindings_revoked_def)
qed

lemma revoke_user_session_tx_run:
  assumes "tx_run (revoke_user_session_tx userID target now event) d x d'"
  obtains s where "LockLoginSessionByID target d = Some s" "ses_UserID s = userID" "ses_RevokedAt s = None"
    "tx_run (revoke_locked_session s now (pointerString ''user'') ''revoke user session'' event) d x d'"
  using assms unfolding revoke_user_session_tx_def by (elim tx_elims) auto

lemma revoke_session_by_hash_tx_run:
  assumes "tx_run (revoke_session_by_hash_tx hash now reason event) d x d'"
  obtains s where "LockLoginSessionByTokenHash hash d = Some s" "ses_RevokedAt s = None"
    "tx_run (revoke_locked_session s now (pointerString reason) ''revoke login session'' event) d x d'"
  using assms unfolding revoke_session_by_hash_tx_def by (elim tx_elims) auto

definition revoke_session_ids :: "time \<Rightarrow> string option \<Rightarrow> uuid set \<Rightarrow> LoginSession table \<Rightarrow> LoginSession table" where
  "revoke_session_ids now reason I = update_where (\<lambda>s. ses_ID s \<in> I \<and> ses_RevokedAt s = None)
     (\<lambda>s. s\<lparr>ses_RevokedAt := Some now, ses_RevokeReason := reason\<rparr>)"

lemma revoke_session_ids_step:
  "revoke_session_ids now reason I (revoke_session_id now reason i t) = revoke_session_ids now reason (insert i I) t"
proof -
  let ?f = "\<lambda>s. s\<lparr>ses_RevokedAt := Some now, ses_RevokeReason := reason\<rparr>"
  have "(if ses_ID (if ses_ID s = i \<and> ses_RevokedAt s = None then ?f s else s) \<in> I \<and>
          ses_RevokedAt (if ses_ID s = i \<and> ses_RevokedAt s = None then ?f s else s) = None
        then ?f (if ses_ID s = i \<and> ses_RevokedAt s = None then ?f s else s)
        else if ses_ID s = i \<and> ses_RevokedAt s = None then ?f s else s) =
      (if ses_ID s \<in> insert i I \<and> ses_RevokedAt s = None then ?f s else s)" for s
    by (cases "ses_ID s = i"; cases "ses_RevokedAt s") simp_all
  then show ?thesis
    unfolding revoke_session_ids_def revoke_session_id_def update_where_def map_map comp_def by (rule map_cong[OF refl])
qed

lemma revoke_session_ids_empty: "revoke_session_ids now reason {} t = t"
  by (simp add: revoke_session_ids_def update_where_def)

lemma revoke_other_rows_run:
  assumes "tx_run (revoke_other_rows cur now rows count) d n d'"
  shows "d' = d\<lparr>login_sessions := revoke_session_ids now (pointerString ''others'') (ses_ID ` set rows - {cur}) (login_sessions d)\<rparr>"
  using assms
proof (induction rows arbitrary: count d)
  case Nil
  then show ?case by (auto simp: revoke_session_ids_empty)
next
  case (Cons row rows)
  show ?case
  proof (cases "ses_ID row = cur")
    case True
    then show ?thesis using Cons by simp
  next
    case False
    then obtain r d1 where "RevokeLoginSessionBindingByID now (pointerString ''others'') (ses_ID row) d = Inr (Some r, d1)"
      and rest: "tx_run (revoke_other_rows cur now rows (Suc count)) d1 n d'"
      using Cons.prems by (auto elim!: tx_elims)
    from RevokeLoginSessionBindingByID_Inr[OF this(1)] Cons.IH[OF rest] False
    show ?thesis by (simp add: revoke_session_ids_step insert_Diff_if)
  qed
qed

definition others_of :: "uuid \<Rightarrow> uuid \<Rightarrow> db \<Rightarrow> LoginSession set" where
  "others_of userID cur d =
     {s \<in> set (login_sessions d). ses_UserID s = userID \<and> ses_RevokedAt s = None \<and> ses_ID s \<noteq> cur}"

lemma revoke_other_sessions_tx_run:
  assumes "tx_run (revoke_other_sessions_tx userID cur now event) d n d'"
  shows "d' = (bindings_revoked (ses_SessionBindingID ` others_of userID cur d - {uuid_Nil}) now ''session_revoked'' d)\<lparr>
      login_sessions := revoke_session_ids now (pointerString ''others'') (ses_ID ` others_of userID cur d) (login_sessions d),
      audit_events := audit_events d @ [event_row event]\<rparr>"
proof -
  let ?rows = "LockActiveLoginSessionsByUser userID d"
  obtain x d1 d2 where run:
    "tx_run (revokeSessionBindingsCascade (map ses_SessionBindingID (filter (\<lambda>row. ses_ID row \<noteq> cur) ?rows)) now ''session_revoked'') d x d1"
    "tx_run (revoke_other_rows cur now ?rows 0) d1 n d2"
    "d' = d2\<lparr>audit_events := audit_events d2 @ [event_row event]\<rparr>"
    using assms unfolding revoke_other_sessions_tx_def Let_def by (elim tx_elims insertAudit_run) blast
  have rows: "set (filter (\<lambda>row. ses_ID row \<noteq> cur) ?rows) = others_of userID cur d" "ses_ID ` set ?rows - {cur} = ses_ID ` others_of userID cur d"
    by (auto simp: LockActiveLoginSessionsByUser_def others_of_def table_simps)
  have "d1 = bindings_revoked (ses_SessionBindingID ` others_of userID cur d - {uuid_Nil}) now ''session_revoked'' d"
    using revokeSessionBindingsCascade_run[OF run(1)] rows(1) by (metis list.set_map)
  then show ?thesis
    using revoke_other_rows_run[OF run(2)] run(3) rows(2) by (simp add: bindings_revoked_def)
qed

text \<open>A revoked session authenticates nobody.\<close>

lemma revoked_not_authenticated:
  assumes "\<forall>s\<in>set (login_sessions d). ses_TokenHash s = session_HashToken token \<longrightarrow> ses_RevokedAt s \<noteq> None"
  shows "Authenticate svc (d, None) outcome token now d2 = (Inl Session_ErrUnauthenticated, d2)"
proof (cases "select_one (\<lambda>s. ses_TokenHash s = session_HashToken token) (login_sessions d)")
  case None
  then show ?thesis
    by (simp add: Authenticate_def FindLoginSession_def pool_read_def GetLoginSessionByTokenHash_def)
next
  case (Some s)
  then have "ses_RevokedAt s \<noteq> None" using assms by auto
  then show ?thesis
    using Some
    by (cases "select_one (\<lambda>u. usr_ID u = ses_UserID s) (users d)")
      (simp_all add: Authenticate_def FindLoginSession_def pool_read_def GetLoginSessionByTokenHash_def mapPrincipal_def)
qed

lemma revoke_session_id_revoked:
  assumes "distinct (map ses_ID t)" "distinct (map ses_TokenHash t)" "s \<in> set t" "r \<in> set (revoke_session_id now reason (ses_ID s) t)"
    "ses_TokenHash r = ses_TokenHash s"
  shows "ses_RevokedAt r \<noteq> None"
proof -
  obtain r0 where r0: "r0 \<in> set t" "r = (if ses_ID r0 = ses_ID s \<and> ses_RevokedAt r0 = None
      then r0\<lparr>ses_RevokedAt := Some now, ses_RevokeReason := reason\<rparr> else r0)"
    using assms(4) unfolding revoke_session_id_def set_update_where by blast
  then have "ses_TokenHash r0 = ses_TokenHash s" using assms(5) by (simp split: if_splits)
  then have "r0 = s" using distinct_map_eq[OF assms(2) r0(1) assms(3)] by blast
  then show ?thesis using r0(2) by simp
qed

lemma session_revoked_by:
  assumes "session_RevokeMine newID env who target requestID now d = (Inr (), d') \<or>
    Logout newID env who clearToken requestID now d = (Inr (), d') \<and>
      (\<exists>s. LockLoginSessionByTokenHash (session_HashToken clearToken) d = Some s \<and> ses_ID s = target)"
    and unique: "distinct (map ses_ID (login_sessions d))"
  obtains s event reason op where "LockLoginSessionByID target d = Some s" "ses_RevokedAt s = None"
    "session_RevokeMine newID env who target requestID now d = (Inr (), d') \<longrightarrow> ses_UserID s = usr_ID (pr_User who)"
    "tx_run (revoke_locked_session s now reason op event) d () d'"
  using assms(1)
proof (elim disjE)
  assume a: "session_RevokeMine newID env who target requestID now d = (Inr (), d')"
  then obtain event where "tx_run (revoke_user_session_tx (usr_ID (pr_User who)) target now event) d () d'"
    by (auto simp: session_RevokeMine_def RevokeUserSession_def split: option.splits elim!: inTx_committed)
  then show thesis by (elim revoke_user_session_tx_run) (rule that, simp_all)
next
  assume a: "Logout newID env who clearToken requestID now d = (Inr (), d') \<and>
      (\<exists>s. LockLoginSessionByTokenHash (session_HashToken clearToken) d = Some s \<and> ses_ID s = target)"
  then obtain event where "tx_run (revoke_session_by_hash_tx (session_HashToken clearToken) now ''logout'' event) d () d'"
    by (auto simp: Logout_def RevokeSessionByHash_def split: option.splits elim!: inTx_committed)
  then obtain s where s: "LockLoginSessionByTokenHash (session_HashToken clearToken) d = Some s" "ses_RevokedAt s = None"
    "tx_run (revoke_locked_session s now (pointerString ''logout'') ''revoke login session'' event) d () d'"
    by (rule revoke_session_by_hash_tx_run)
  have row: "s \<in> set (login_sessions d)" "ses_ID s = target" using s(1) a by (auto simp: LockLoginSessionByTokenHash_def)
  have "LockLoginSessionByID target d = Some s"
    using select_one_unique[OF unique row(1)] row(2) by (simp add: LockLoginSessionByID_def)
  moreover have "session_RevokeMine newID env who target requestID now d = (Inr (), d') \<longrightarrow> ses_UserID s = usr_ID (pr_User who)"
  proof
    assume "session_RevokeMine newID env who target requestID now d = (Inr (), d')"
    then obtain event where "tx_run (revoke_user_session_tx (usr_ID (pr_User who)) target now event) d () d'"
      by (auto simp: session_RevokeMine_def RevokeUserSession_def split: option.splits elim!: inTx_committed)
    then show "ses_UserID s = usr_ID (pr_User who)"
      using calculation by (elim revoke_user_session_tx_run) simp
  qed
  ultimately show thesis using that s by blast
qed

section \<open>Properties\<close>

text \<open>
  C29 (safety). A request is authenticated only by a live session: the presented token is
  well formed and is the token of a stored session that is neither revoked nor past its
  absolute or idle deadline and whose user exists and is active. The only effect is that the
  session may be touched, and a touch never moves its idle deadline past the absolute one.
\<close>

theorem authentication_needs_live_session:
  assumes "Authenticate svc view outcome token now d = (Inr p, d')"
  shows "\<exists>s u. snd view = None \<and> session_live (fst view) token now s u \<and>
    pr_SessionID p = ses_ID s \<and> pr_SessionBindingID p = ses_SessionBindingID s \<and> pr_User p = u \<and>
    (d' = d \<or> d' = d\<lparr>login_sessions := touch_session now (NextIdleExpiry (svc_tokens svc) now (ses_ExpiresAt s)) (ses_ID s)
        (login_sessions d)\<rparr>) \<and>
    NextIdleExpiry (svc_tokens svc) now (ses_ExpiresAt s) \<le> ses_ExpiresAt s"
  using assms by (elim Authenticate_Inr) (auto simp: NextIdleExpiry_def)


section \<open>Witnesses\<close>

lemma revokeSessionBindingCascade_ok:
  assumes "st_faults st = []" "b \<noteq> uuid_Nil" "\<not> IsZero now" "families_predate now (st_db st)" "access_predate now (st_db st)"
  shows "\<exists>st'. revokeSessionBindingCascade b now ''session_revoked'' st = Inr ((), st') \<and>
    st' = st\<lparr>st_db := bindings_revoked {b} now ''session_revoked'' (st_db st)\<rparr>"
proof -
  obtain ids d1 n where run: "revoke_families (binding_family {b}) now (Some ''session_revoked'') (st_db st) = Inr (ids, d1)"
    "revoke_live_access (binding_access {b}) now (Some ''session_revoked'') d1 =
      Inr (n, bindings_revoked {b} now ''session_revoked'' (st_db st))"
    using cascade_statements_ok[OF assms(4,5), of "''session_revoked''" "''session_revoked''" "binding_family {b}" "binding_access {b}"]
    unfolding bindings_revoked_def by (simp add: pointerString_def) blast
  have fams: "RevokeRefreshTokenFamiliesByBindings now (Some ''session_revoked'') [b] (st_db st) = Inr (length ids, d1)"
    using run(1) by (simp add: RevokeRefreshTokenFamiliesByBindings_def binding_family_def[abs_def] stmt_def)
  have access: "RevokeLiveAccessTokensByBindings now (Some ''session_revoked'') [b] d1 =
      Inr (n, bindings_revoked {b} now ''session_revoked'' (st_db st))"
    using run(2) by (simp add: RevokeLiveAccessTokensByBindings_def binding_access_def[abs_def] cong: option.case_cong)
  show ?thesis
    unfolding revokeSessionBindingCascade_def revokeSessionBindingsCascade_def
    using assms(1-3)
    by (simp add: Let_def pointerString_def tbind_ok read_query_ok
        tbind_exec_ok[where stmt = "RevokeRefreshTokenFamiliesByBindings now (Some ''session_revoked'') [b]"] fams
        tbind_exec_ok[where stmt = "RevokeLiveAccessTokensByBindings now (Some ''session_revoked'') [b]"] access treturn_def)
qed

definition sample_cookie :: string where "sample_cookie = ''s1_'' @ b64_encode (replicate 32 CHR ''q'')"

definition sample_login :: LoginSession where
  "sample_login = sample_session\<lparr>ses_TokenHash := session_HashToken sample_cookie\<rparr>"

definition sample_signed_in :: db where "sample_signed_in = sample_db\<lparr>login_sessions := [sample_login]\<rparr>"

definition sample_sessions :: SessionService where
  "sample_sessions = session_NewService \<lparr>tm_sessionTTL = 8 * Hour, tm_idleTimeout = Hour, tm_csrfTTL = Hour\<rparr>"

definition sample_principal :: Principal where "sample_principal = mapPrincipal (sample_login, sample_user)"

lemma sample_login_fields [simp]:
  "login_sessions sample_signed_in = [sample_login]" "audit_events sample_signed_in = []" "users sample_signed_in = [sample_user]"
  "ses_ID sample_login = 3" "ses_UserID sample_login = 1" "ses_RevokedAt sample_login = None"
  "ses_SessionBindingID sample_login = 30" "ses_TokenHash sample_login = session_HashToken sample_cookie"
  "usr_ID sample_user = 1" "pr_User sample_principal = sample_user" "pr_SessionID sample_principal = 3"
  by (simp_all add: sample_signed_in_def sample_login_def sample_principal_def mapPrincipal_def) (simp_all add: sample_rows)

lemma sample_Authenticate:
  "Authenticate sample_sessions (sample_signed_in, None) Committed sample_cookie sample_now sample_signed_in =
     (Inr sample_principal, sample_signed_in)"
proof -
  have "session_validToken sample_cookie ''s1_''"
    unfolding sample_cookie_def by (rule browser.valid_encoding) simp
  moreover have "FindLoginSession (sample_signed_in, None) (session_HashToken sample_cookie) = Inr sample_principal"
    by (simp add: FindLoginSession_def pool_read_def GetLoginSessionByTokenHash_def select_one_def sample_principal_def)
  moreover have "pr_RevokedAt sample_principal = None" "sample_now < pr_ExpiresAt sample_principal"
    "sample_now < pr_IdleExpiresAt sample_principal" "sample_now - pr_LastSeenAt sample_principal < 5 * Minute"
    by (simp_all add: sample_principal_def mapPrincipal_def sample_login_def sample_session_def duration_defs)
  ultimately show ?thesis by (simp add: Authenticate_def sample_sessions_def session_NewService_def)
qed

theorem authentication_needs_live_session_witness:
  "\<exists>s u. session_live sample_signed_in sample_cookie sample_now s u \<and> ses_ID s = 3 \<and> u = sample_user"
  using authentication_needs_live_session[OF sample_Authenticate] by auto

lemma sample_login_check: "login_sessions_check (sample_login\<lparr>ses_RevokedAt := Some sample_now, ses_RevokeReason := Some ''user''\<rparr>)"
  by (simp add: login_sessions_check_def sample_login_def sample_session_def duration_defs revocation_valid_def
      session_revoke_reasons_def session_HashToken_def sha256_Size_def)

lemma sample_RevokeMine:
  "\<exists>d'. session_RevokeMine 7 (quiet sample_ids) sample_principal 3 '''' sample_now sample_signed_in = (Inr (), d')"
proof -
  obtain event where event: "audit_New 7 ''session_revoked'' ''success'' (Some 1) ''session'' (Some 3) '''' [''revoked''] sample_now =
      Some event" "Event_Validate event" "ae_ActorUserID event = Some 1"
    by (simp add: audit_New_def Let_def Event_Validate_def validEvents_def validResults_def validTargets_def
        validChangedFields_def compact_def IsZero_def sample_now_def duration_defs)
  let ?st = "start_tx (quiet sample_ids 0) sample_signed_in"
  let ?d1 = "bindings_revoked {30} sample_now ''session_revoked'' sample_signed_in"
  let ?row = "sample_login\<lparr>ses_RevokedAt := Some sample_now, ses_RevokeReason := Some ''user''\<rparr>"
  have st: "st_faults ?st = []" "st_db ?st = sample_signed_in" by (simp_all add: start_tx_def quiet_def)
  have zero: "\<not> IsZero sample_now" by (simp add: IsZero_def sample_now_def duration_defs)
  have predate: "families_predate sample_now sample_signed_in" "access_predate sample_now sample_signed_in"
    using sample_predate by (simp_all add: families_predate_def access_predate_def sample_signed_in_def)
  obtain st' where cascade: "revokeSessionBindingCascade 30 sample_now ''session_revoked'' ?st = Inr ((), st')" "st' = ?st\<lparr>st_db := ?d1\<rparr>"
    using revokeSessionBindingCascade_ok[OF st(1), of 30 sample_now] st(2) zero predate by auto
  have revoke: "RevokeLoginSessionBindingByID sample_now (Some ''user'') 3 ?d1 = Inr (Some ?row, ?d1\<lparr>login_sessions := [?row]\<rparr>)"
    using sample_login_check
    by (simp add: RevokeLoginSessionBindingByID_def Let_def stmt_def update_checked_def update_where_def select_one_def bindings_revoked_def)
  have st': "st_faults st' = []" "st_db st' = ?d1" by (simp_all add: cascade(2) st)
  have proceed: "tbind (exec_query ''revoke user session'' (RevokeLoginSessionBindingByID sample_now (Some ''user'') 3)) f st' =
      f (Some ?row) (st'\<lparr>st_db := ?d1\<lparr>login_sessions := [?row]\<rparr>\<rparr>)" for f
    by (rule tbind_exec_ok[OF st'(1)]) (simp only: st'(2) revoke)
  have "\<exists>st. revoke_user_session_tx 1 3 sample_now event ?st = Inr ((), st)"
    unfolding revoke_user_session_tx_def revoke_locked_session_def
    using st
    by (simp add: tbind_ok read_query_ok LockLoginSessionByID_def select_one_def pointerString_def cascade(1) proceed
        insertAudit_first event(2,3) st' bindings_revoked_def refers_def)
  then obtain d' where "RevokeUserSession (quiet sample_ids) 1 3 sample_now event sample_signed_in = (Inr (), d')"
    unfolding RevokeUserSession_def by (rule inTx_quiet)
  then show ?thesis using event(1) by (simp add: session_RevokeMine_def)
qed


end
