(* ===== verification/Retention.thy ===== *)
theory Retention
  imports Authflow Sessions Samples
begin

text \<open>
  Retention: the batched cleanup statements of \<^verbatim>\<open>token.sql.go\<close>, \<^verbatim>\<open>authorization.sql.go\<close> and
  \<^verbatim>\<open>logout.sql.go\<close>, the store loops that repeat them, and the maintenance pass of
  \<^verbatim>\<open>internal/app/app.go\<close> that runs every cleanup in turn. The pass always ends, whatever the
  database does, and it never touches a row that still carries authority.
\<close>

section \<open>Statements\<close>

text \<open>
  Deleting a code runs the actions of the foreign keys to it: the family it started and its
  access token lose the reference. The trigger \<^verbatim>\<open>oneissuer_validate_access_token_authority\<close> lets a
  code-sourced access token be detached only when its code is gone.
\<close>

fun detach_codes :: "uuid list \<Rightarrow> db \<Rightarrow> pg_error + db" where
  "detach_codes [] d = Inr d"
| "detach_codes (i # ids) d =
     (let d = d\<lparr>refresh_token_families := update_where (\<lambda>f. fam_OriginAuthorizationCodeID f = Some i)
                  (\<lambda>f. f\<lparr>fam_OriginAuthorizationCodeID := None\<rparr>) (refresh_token_families d)\<rparr>
      in case update_checked
                (\<lambda>a. (if acc_IssuanceSource a = ''authorization_code''
                      then select_one (\<lambda>c. code_ID c = i) (authorization_codes d) = None
                      else access_token_authority_ok d a) \<and> access_tokens_check a)
                (\<lambda>a. acc_AuthorizationCodeID a = Some i) (\<lambda>a. a\<lparr>acc_AuthorizationCodeID := None\<rparr>) (access_tokens d) of
           Inl e \<Rightarrow> Inl e
         | Inr t \<Rightarrow> detach_codes ids (d\<lparr>access_tokens := t\<rparr>))"

definition DeleteRetiredAuthorizationCodes :: "time \<Rightarrow> nat \<Rightarrow> db \<Rightarrow> pg_error + nat \<times> db" where
  "DeleteRetiredAuthorizationCodes cutoff n d =
     (let (ids, t) = delete_batch (\<lambda>c. code_ExpiresAt c \<le> cutoff) (\<lambda>c. (code_ExpiresAt c, code_ID c))
            code_ID n (authorization_codes d)
      in stmt (\<lambda>d'. (length ids, d')) (detach_codes ids (d\<lparr>authorization_codes := t\<rparr>)))"

definition DeleteRetiredAccessTokens :: "time \<Rightarrow> nat \<Rightarrow> db \<Rightarrow> pg_error + nat \<times> db" where
  "DeleteRetiredAccessTokens cutoff n d =
     (let (ids, t) = delete_batch (\<lambda>a. acc_ExpiresAt a \<le> cutoff) (\<lambda>a. (acc_ExpiresAt a, acc_ID a))
            acc_ID n (access_tokens d)
      in Inr (length ids, d\<lparr>access_tokens := t\<rparr>))"

text \<open>\<^verbatim>\<open>GREATEST(absolute_expires_at, COALESCE(revoked_at, absolute_expires_at))\<close>.\<close>

definition family_terminal_at :: "RefreshTokenFamily \<Rightarrow> time" where
  "family_terminal_at f = max (fam_AbsoluteExpiresAt f)
     (case fam_RevokedAt f of None \<Rightarrow> fam_AbsoluteExpiresAt f | Some t \<Rightarrow> t)"

definition retired_generation :: "db \<Rightarrow> time \<Rightarrow> RefreshToken \<Rightarrow> bool" where
  "retired_generation d cutoff g \<longleftrightarrow>
     list_ex (\<lambda>f. fam_ID f = gen_FamilyID g \<and> family_terminal_at f \<le> cutoff) (refresh_token_families d) \<and>
     \<not> list_ex (\<lambda>a. acc_SourceRefreshTokenID a = Some (gen_ID g)) (access_tokens d)"

definition DeleteRetiredRefreshTokens :: "time \<Rightarrow> nat \<Rightarrow> db \<Rightarrow> pg_error + nat \<times> db" where
  "DeleteRetiredRefreshTokens cutoff n d =
     (let (ids, t) = delete_batch (retired_generation d cutoff)
            (\<lambda>g. (case select_one (\<lambda>f. fam_ID f = gen_FamilyID g) (refresh_token_families d) of
                    None \<Rightarrow> 0 | Some f \<Rightarrow> family_terminal_at f, gen_ID g))
            gen_ID n (refresh_tokens d)
      in if list_ex (\<lambda>a. \<exists>i\<in>set ids. acc_SourceRefreshTokenID a = Some i) (access_tokens d)
         then Inl (PgError ''23503'')
         else Inr (length ids, d\<lparr>refresh_tokens := t\<rparr>))"

definition retired_family :: "db \<Rightarrow> time \<Rightarrow> RefreshTokenFamily \<Rightarrow> bool" where
  "retired_family d cutoff f \<longleftrightarrow> family_terminal_at f \<le> cutoff \<and>
     \<not> list_ex (\<lambda>g. gen_FamilyID g = fam_ID f) (refresh_tokens d) \<and>
     \<not> list_ex (\<lambda>a. acc_RefreshFamilyID a = Some (fam_ID f)) (access_tokens d)"

definition DeleteRetiredRefreshTokenFamilies :: "time \<Rightarrow> nat \<Rightarrow> db \<Rightarrow> pg_error + nat \<times> db" where
  "DeleteRetiredRefreshTokenFamilies cutoff n d =
     (let (ids, t) = delete_batch (retired_family d cutoff) (\<lambda>f. (family_terminal_at f, fam_ID f))
            fam_ID n (refresh_token_families d)
      in if list_ex (\<lambda>g. gen_FamilyID g \<in> set ids) (refresh_tokens d) \<or>
            list_ex (\<lambda>a. \<exists>i\<in>set ids. acc_RefreshFamilyID a = Some i) (access_tokens d)
         then Inl (PgError ''23503'')
         else Inr (length ids, d\<lparr>refresh_token_families := t\<rparr>))"

definition retired_logout :: "time \<Rightarrow> time \<Rightarrow> LogoutTransaction \<Rightarrow> bool" where
  "retired_logout now cutoff l = (case lo_ConsumedAt l of None \<Rightarrow> lo_ExpiresAt l \<le> now | Some t \<Rightarrow> t \<le> cutoff)"

definition DeleteRetiredLogoutTransactions :: "time \<Rightarrow> time \<Rightarrow> nat \<Rightarrow> db \<Rightarrow> pg_error + nat \<times> db" where
  "DeleteRetiredLogoutTransactions now cutoff n d =
     (let (ids, t) = delete_batch (retired_logout now cutoff)
            (\<lambda>l. (case lo_ConsumedAt l of None \<Rightarrow> lo_ExpiresAt l | Some t \<Rightarrow> t, lo_ID l))
            lo_ID n (logout_transactions d)
      in Inr (length ids, d\<lparr>logout_transactions := t\<rparr>))"

section \<open>Store\<close>

definition cleanup_protocol_tx :: "time \<Rightarrow> (nat \<times> bool) dbtx" where
  "cleanup_protocol_tx cutoff =
     tbind (exec_query ''clean authorization code metadata'' (DeleteRetiredAuthorizationCodes cutoff cleanupBatchSize)) (\<lambda>codes.
     tbind (exec_query ''clean access token metadata'' (DeleteRetiredAccessTokens cutoff cleanupBatchSize)) (\<lambda>access.
     treturn (codes + access, \<not> (access < cleanupBatchSize \<and> codes < cleanupBatchSize))))"

definition CleanupProtocolArtifacts ::
  "(nat \<Rightarrow> nat \<Rightarrow> attempt) \<Rightarrow> time \<Rightarrow> db \<Rightarrow> ((nat \<times> go_error option) \<times> db) option" where
  "CleanupProtocolArtifacts envs cutoff d = batch_loop (\<lambda>k. inTx (envs k) (\<lambda>_. cleanup_protocol_tx cutoff)) 0 0 d"

definition cleanup_refresh_tx :: "time \<Rightarrow> (nat \<times> bool) dbtx" where
  "cleanup_refresh_tx cutoff =
     tbind (exec_query ''clean refresh token generations'' (DeleteRetiredRefreshTokens cutoff cleanupBatchSize)) (\<lambda>generations.
     tbind (exec_query ''clean refresh token families'' (DeleteRetiredRefreshTokenFamilies cutoff cleanupBatchSize)) (\<lambda>families.
     treturn (generations + families, \<not> (generations < cleanupBatchSize \<and> families < cleanupBatchSize))))"

definition CleanupRefreshArtifacts ::
  "(nat \<Rightarrow> nat \<Rightarrow> attempt) \<Rightarrow> time \<Rightarrow> db \<Rightarrow> ((nat \<times> go_error option) \<times> db) option" where
  "CleanupRefreshArtifacts envs cutoff d = batch_loop (\<lambda>k. inTx (envs k) (\<lambda>_. cleanup_refresh_tx cutoff)) 0 0 d"

definition cleanup_logout_tx :: "time \<Rightarrow> time \<Rightarrow> (nat \<times> bool) dbtx" where
  "cleanup_logout_tx now terminalCutoff =
     tbind (exec_query ''clean logout transactions'' (DeleteRetiredLogoutTransactions now terminalCutoff cleanupBatchSize)) (\<lambda>count.
     treturn (count, \<not> count < cleanupBatchSize))"

definition CleanupLogoutTransactions ::
  "(nat \<Rightarrow> nat \<Rightarrow> attempt) \<Rightarrow> time \<Rightarrow> time \<Rightarrow> db \<Rightarrow> ((nat \<times> go_error option) \<times> db) option" where
  "CleanupLogoutTransactions envs now terminalCutoff d =
     batch_loop (\<lambda>k. inTx (envs k) (\<lambda>_. cleanup_logout_tx now terminalCutoff)) 0 0 d"

section \<open>The maintenance pass\<close>

definition protocolArtifactRetention :: int where "protocolArtifactRetention = 24 * Hour"
definition refreshArtifactRetention :: int where "refreshArtifactRetention = 30 * 24 * Hour"

text \<open>
  What the database does to the operations of one pass: the attempts of every round of every
  loop, and what the final count sees. A deadline of \<^verbatim>\<open>cleanupOperationTimeout\<close> shows as a failed
  attempt.
\<close>

record maintenance =
  mt_sessions :: "nat \<Rightarrow> nat \<Rightarrow> attempt"
  mt_expiry :: "nat \<Rightarrow> nat \<Rightarrow> attempt"
  mt_retirement :: "nat \<Rightarrow> commit_outcome"
  mt_protocol :: "nat \<Rightarrow> nat \<Rightarrow> attempt"
  mt_refresh :: "nat \<Rightarrow> nat \<Rightarrow> attempt"
  mt_logout :: "nat \<Rightarrow> nat \<Rightarrow> attempt"
  mt_count :: "pg_error option"

text \<open>What an operation reports to the metrics: its name, the result class and the rows.\<close>

type_synonym cleanup_report = "string \<times> string \<times> nat"

definition cleanup_result :: "bool \<Rightarrow> go_error option \<Rightarrow> string" where
  "cleanup_result shutdown err = (case err of
     None \<Rightarrow> ''success''
   | Some e \<Rightarrow> if error_cause e = Some ContextCanceled \<and> shutdown then ''canceled'' else ''failure'')"

definition runCleanupOperation ::
  "bool \<Rightarrow> string \<Rightarrow> (db \<Rightarrow> ((nat \<times> go_error option) \<times> db) option) \<Rightarrow>
   (cleanup_report list \<times> db) option \<Rightarrow> (cleanup_report list \<times> db) option" where
  "runCleanupOperation shutdown operation run before =
     (case before of
        None \<Rightarrow> None
      | Some (reports, d) \<Rightarrow>
        (case run d of
           None \<Rightarrow> None
         | Some ((rows, err), d') \<Rightarrow> Some (reports @ [(operation, cleanup_result shutdown err, rows)], d')))"

definition cleanup_pass :: "maintenance \<Rightarrow> bool \<Rightarrow> time \<Rightarrow> db \<Rightarrow> (cleanup_report list \<times> db) option" where
  "cleanup_pass m shutdown now d =
     (let p = Some ([], d);
          p = runCleanupOperation shutdown ''sessions'' (session_Cleanup (mt_sessions m) now) p;
          p = runCleanupOperation shutdown ''auth_transactions''
                (authflow_Cleanup (mt_expiry m) (mt_retirement m) now) p;
          p = runCleanupOperation shutdown ''protocol_artifacts''
                (CleanupProtocolArtifacts (mt_protocol m) (now - protocolArtifactRetention)) p;
          p = runCleanupOperation shutdown ''refresh_artifacts''
                (CleanupRefreshArtifacts (mt_refresh m) (now - refreshArtifactRetention)) p;
          p = runCleanupOperation shutdown ''logout_transactions''
                (CleanupLogoutTransactions (mt_logout m) now (now - protocolArtifactRetention)) p;
          p = runCleanupOperation shutdown ''active_sessions''
                (\<lambda>d. case CountActiveSessions (d, mt_count m) now of
                        Inl err \<Rightarrow> Some ((0, Some err), d) | Inr count \<Rightarrow> Some ((0, None), d)) p
      in p)"

section \<open>Live rows\<close>

text \<open>
  The primary keys of the tables that maintenance works on.
\<close>

definition primary_keys :: "db \<Rightarrow> bool" where
  "primary_keys d \<longleftrightarrow> distinct (map ses_ID (login_sessions d)) \<and> distinct (map pre_ID (preauth_sessions d)) \<and>
     distinct (map lo_ID (logout_transactions d)) \<and> distinct (map tr_ID (auth_transactions d)) \<and>
     distinct (map code_ID (authorization_codes d)) \<and> distinct (map fam_ID (refresh_token_families d)) \<and>
     distinct (map gen_ID (refresh_tokens d)) \<and> distinct (map acc_ID (access_tokens d))"

text \<open>
  What the database holds that is still in force at \<open>now\<close>: the tables maintenance does not work
  on as they are, and of the others the rows that have neither expired nor ended. The back
  references that \<^verbatim>\<open>ON DELETE SET NULL\<close> may clear are left out, and so is the audit trail.
\<close>

definition live_generation :: "time \<Rightarrow> RefreshTokenFamily table \<Rightarrow> RefreshToken \<Rightarrow> bool" where
  "live_generation now fs g \<longleftrightarrow> list_all (\<lambda>f. fam_ID f = gen_FamilyID g \<longrightarrow> now < fam_AbsoluteExpiresAt f) fs"

definition live_view :: "time \<Rightarrow> db \<Rightarrow> db" where
  "live_view now d = d\<lparr>
     login_sessions := select_where
       (\<lambda>s. ses_RevokedAt s = None \<and> now < ses_ExpiresAt s \<and> now < ses_IdleExpiresAt s) (login_sessions d),
     preauth_sessions := select_where (\<lambda>p. pre_ConsumedAt p = None \<and> now < pre_ExpiresAt p) (preauth_sessions d),
     logout_transactions := select_where (\<lambda>l. lo_ConsumedAt l = None \<and> now < lo_ExpiresAt l) (logout_transactions d),
     auth_transactions := select_where (\<lambda>t. tr_ConsumedAt t = None \<and> now < tr_ExpiresAt t) (auth_transactions d),
     authorization_codes := map (\<lambda>c. c\<lparr>code_OriginSessionID := None\<rparr>)
       (select_where (\<lambda>c. now < code_ExpiresAt c) (authorization_codes d)),
     refresh_token_families := map (\<lambda>f. f\<lparr>fam_OriginAuthorizationCodeID := None, fam_OriginSessionID := None\<rparr>)
       (select_where (\<lambda>f. now < fam_AbsoluteExpiresAt f) (refresh_token_families d)),
     refresh_tokens := select_where (live_generation now (refresh_token_families d)) (refresh_tokens d),
     access_tokens := map (\<lambda>a. a\<lparr>acc_AuthorizationCodeID := None, acc_OriginSessionID := None\<rparr>)
       (select_where (\<lambda>a. now < acc_ExpiresAt a) (access_tokens d)),
     audit_events := []\<rparr>"

definition keeps_live :: "time \<Rightarrow> db \<Rightarrow> db \<Rightarrow> bool" where
  "keeps_live now d d' \<longleftrightarrow> (primary_keys d \<longrightarrow> primary_keys d' \<and> live_view now d' = live_view now d)"

lemma keeps_live_refl: "keeps_live now d d"
  by (simp add: keeps_live_def)

lemma keeps_live_trans: "keeps_live now d d' \<Longrightarrow> keeps_live now d' d'' \<Longrightarrow> keeps_live now d d''"
  by (simp add: keeps_live_def)

lemma map_select_update_where:
  assumes "\<And>r. strip (f r) = strip r" "\<And>r. q (f r) = q r"
  shows "map strip (select_where q (update_where p f t)) = map strip (select_where q t)"
  by (induction t) (auto simp: select_where_def update_where_def assms)

lemma live_generation_update_where:
  assumes "\<And>f. fam_ID (h f) = fam_ID f" "\<And>f. fam_AbsoluteExpiresAt (h f) = fam_AbsoluteExpiresAt f"
  shows "live_generation now (update_where p h fs) = live_generation now fs"
proof -
  have "list_all P (update_where p h fs) = list_all P fs" if "\<And>f. P (h f) = P f" for P
    using that by (induction fs) (simp_all add: update_where_def)
  then show ?thesis unfolding live_generation_def by (simp add: assms)
qed

text \<open>A batch of rows that are not live, addressed by their primary key.\<close>

lemma delete_batch_keeps:
  assumes "delete_batch p order k n t = (ids, t')" "distinct (map k t)" "\<And>r. r \<in> set t \<Longrightarrow> p r \<Longrightarrow> \<not> q r"
  shows "select_where q t' = select_where q t \<and> distinct (map k t')"
proof -
  have ids: "ids = batch_keys p order k n t" "t' = delete_where (\<lambda>r. k r \<in> set ids) t"
    using assms(1) by (auto simp: delete_batch_def Let_def)
  have "\<not> q r" if "r \<in> set t" "k r \<in> set ids" for r
    using batch_keys_subset[OF that(2)[unfolded ids(1)]] distinct_map_eq[OF assms(2)] that(1) assms(3) by metis
  then have "select_where q t' = select_where q t"
    unfolding ids(2) select_where_def delete_where_def filter_filter by (intro filter_cong) auto
  moreover have "distinct (map k t')" unfolding ids(2) by (rule distinct_map_delete_where[OF assms(2)])
  ultimately show ?thesis ..
qed

lemma detach_sessions_keeps:
  "detach_sessions ids d = Inr d' \<Longrightarrow>
     live_view now d' = live_view now d \<and> (primary_keys d \<longrightarrow> primary_keys d') \<and>
     login_sessions d' = login_sessions d \<and> preauth_sessions d' = preauth_sessions d"
proof (induction ids arbitrary: d)
  case (Cons i ids)
  define d1 where "d1 = d\<lparr>authorization_codes := update_where (\<lambda>c. code_OriginSessionID c = Some i)
                  (\<lambda>c. c\<lparr>code_OriginSessionID := None\<rparr>) (authorization_codes d),
     refresh_token_families := update_where (\<lambda>f. fam_OriginSessionID f = Some i)
                  (\<lambda>f. f\<lparr>fam_OriginSessionID := None\<rparr>) (refresh_token_families d)\<rparr>"
  define d2 where "d2 = d1\<lparr>access_tokens := update_where (\<lambda>a. acc_OriginSessionID a = Some i)
     (\<lambda>a. a\<lparr>acc_OriginSessionID := None\<rparr>) (access_tokens d)\<rparr>"
  have "detach_sessions ids d2 = Inr d'"
    using Cons(2) by (simp add: Let_def d2_def d1_def tx_simps split: sum.splits if_splits)
  moreover have "live_view now d2 = live_view now d"
    unfolding d2_def d1_def live_view_def
    by (simp add: map_select_update_where live_generation_update_where)
  moreover have "primary_keys d \<longrightarrow> primary_keys d2"
    unfolding d2_def d1_def primary_keys_def by (simp add: map_update_where)
  moreover have "login_sessions d2 = login_sessions d" "preauth_sessions d2 = preauth_sessions d"
    by (simp_all add: d2_def d1_def)
  ultimately show ?case using Cons(1)[of d2] by simp
qed simp

lemma detach_codes_keeps:
  "detach_codes ids d = Inr d' \<Longrightarrow>
     live_view now d' = live_view now d \<and> (primary_keys d \<longrightarrow> primary_keys d') \<and>
     authorization_codes d' = authorization_codes d \<and> length (access_tokens d') = length (access_tokens d)"
proof (induction ids arbitrary: d)
  case (Cons i ids)
  define d1 where "d1 = d\<lparr>refresh_token_families := update_where (\<lambda>f. fam_OriginAuthorizationCodeID f = Some i)
     (\<lambda>f. f\<lparr>fam_OriginAuthorizationCodeID := None\<rparr>) (refresh_token_families d)\<rparr>"
  define d2 where "d2 = d1\<lparr>access_tokens := update_where (\<lambda>a. acc_AuthorizationCodeID a = Some i)
     (\<lambda>a. a\<lparr>acc_AuthorizationCodeID := None\<rparr>) (access_tokens d)\<rparr>"
  have "detach_codes ids d2 = Inr d'"
    using Cons(2) by (simp add: Let_def d2_def d1_def tx_simps split: sum.splits)
  moreover have "live_view now d2 = live_view now d"
    unfolding d2_def d1_def live_view_def
    by (simp add: map_select_update_where live_generation_update_where)
  moreover have "primary_keys d \<longrightarrow> primary_keys d2"
    unfolding d2_def d1_def primary_keys_def by (simp add: map_update_where)
  moreover have "authorization_codes d2 = authorization_codes d" "length (access_tokens d2) = length (access_tokens d)"
    by (simp_all add: d2_def d1_def)
  ultimately show ?case using Cons(1)[of d2] by simp
qed simp

text \<open>Every cleanup statement keeps the live rows.\<close>

lemma DeleteExpiredPreAuthSessions_keeps:
  assumes "DeleteExpiredPreAuthSessions cutoff n d = Inr (count, d')" "cutoff \<le> now"
  shows "keeps_live now d d'"
proof -
  obtain ids t where b: "delete_batch (expired_preauth cutoff)
            (\<lambda>p. (min (pre_ExpiresAt p) (case pre_ConsumedAt p of None \<Rightarrow> pre_ExpiresAt p | Some c \<Rightarrow> c), pre_ID p))
            pre_ID n (preauth_sessions d) = (ids, t)" "d' = d\<lparr>preauth_sessions := t\<rparr>"
    using assms(1) by (auto simp: DeleteExpiredPreAuthSessions_def split: prod.splits)
  have keep: "select_where (\<lambda>p. pre_ConsumedAt p = None \<and> now < pre_ExpiresAt p) t = select_where (\<lambda>p. pre_ConsumedAt p = None \<and> now < pre_ExpiresAt p) (preauth_sessions d) \<and> distinct (map pre_ID t)"
    if "primary_keys d"
    by (rule delete_batch_keeps[OF b(1)], use that in \<open>simp add: primary_keys_def\<close>) (insert assms(2), auto simp: expired_preauth_def split: option.splits)
  show ?thesis unfolding keeps_live_def b(2)
    using keep by (simp add: primary_keys_def live_view_def)
qed

lemma DeleteRetiredLoginSessions_keeps:
  assumes "DeleteRetiredLoginSessions cutoff n d = Inr (count, d')" "cutoff \<le> now"
  shows "keeps_live now d d'"
proof -
  obtain ids t where b: "delete_batch (retired_session cutoff)
            (\<lambda>s. (min (ses_ExpiresAt s) (min (ses_IdleExpiresAt s)
                    (case ses_RevokedAt s of None \<Rightarrow> ses_ExpiresAt s | Some r \<Rightarrow> r)), ses_ID s))
            ses_ID n (login_sessions d) = (ids, t)" "detach_sessions ids (d\<lparr>login_sessions := t\<rparr>) = Inr d'"
    using assms(1) by (auto simp: DeleteRetiredLoginSessions_def tx_simps split: prod.splits)
  have keep: "select_where (\<lambda>s. ses_RevokedAt s = None \<and> now < ses_ExpiresAt s \<and> now < ses_IdleExpiresAt s) t = select_where (\<lambda>s. ses_RevokedAt s = None \<and> now < ses_ExpiresAt s \<and> now < ses_IdleExpiresAt s) (login_sessions d) \<and> distinct (map ses_ID t)"
    if "primary_keys d"
    by (rule delete_batch_keeps[OF b(1)], use that in \<open>simp add: primary_keys_def\<close>) (insert assms(2), auto simp: retired_session_def)
  have "keeps_live now d (d\<lparr>login_sessions := t\<rparr>)" unfolding keeps_live_def
    using keep by (simp add: primary_keys_def live_view_def)
  then show ?thesis using detach_sessions_keeps[OF b(2), of now] by (simp add: keeps_live_def)
qed

lemma DeleteRetiredAuthorizationCodes_keeps:
  assumes "DeleteRetiredAuthorizationCodes cutoff n d = Inr (count, d')" "cutoff \<le> now"
  shows "keeps_live now d d'"
proof -
  obtain ids t where b: "delete_batch (\<lambda>c. code_ExpiresAt c \<le> cutoff) (\<lambda>c. (code_ExpiresAt c, code_ID c))
            code_ID n (authorization_codes d) = (ids, t)" "detach_codes ids (d\<lparr>authorization_codes := t\<rparr>) = Inr d'"
    using assms(1) by (auto simp: DeleteRetiredAuthorizationCodes_def tx_simps split: prod.splits)
  have keep: "select_where (\<lambda>c. now < code_ExpiresAt c) t = select_where (\<lambda>c. now < code_ExpiresAt c) (authorization_codes d) \<and> distinct (map code_ID t)"
    if "primary_keys d"
    by (rule delete_batch_keeps[OF b(1)], use that in \<open>simp add: primary_keys_def\<close>) (insert assms(2), simp)
  have "keeps_live now d (d\<lparr>authorization_codes := t\<rparr>)" unfolding keeps_live_def
    using keep by (simp add: primary_keys_def live_view_def)
  then show ?thesis using detach_codes_keeps[OF b(2), of now] by (simp add: keeps_live_def)
qed

lemma DeleteRetiredAccessTokens_keeps:
  assumes "DeleteRetiredAccessTokens cutoff n d = Inr (count, d')" "cutoff \<le> now"
  shows "keeps_live now d d'"
proof -
  obtain ids t where b: "delete_batch (\<lambda>a. acc_ExpiresAt a \<le> cutoff) (\<lambda>a. (acc_ExpiresAt a, acc_ID a))
            acc_ID n (access_tokens d) = (ids, t)" "d' = d\<lparr>access_tokens := t\<rparr>"
    using assms(1) by (auto simp: DeleteRetiredAccessTokens_def split: prod.splits)
  have keep: "select_where (\<lambda>a. now < acc_ExpiresAt a) t = select_where (\<lambda>a. now < acc_ExpiresAt a) (access_tokens d) \<and> distinct (map acc_ID t)"
    if "primary_keys d"
    by (rule delete_batch_keeps[OF b(1)], use that in \<open>simp add: primary_keys_def\<close>) (insert assms(2), simp)
  show ?thesis unfolding keeps_live_def b(2)
    using keep by (simp add: primary_keys_def live_view_def)
qed

lemma DeleteRetiredLogoutTransactions_keeps:
  assumes "DeleteRetiredLogoutTransactions now cutoff n d = Inr (count, d')"
  shows "keeps_live now d d'"
proof -
  obtain ids t where b: "delete_batch (retired_logout now cutoff)
            (\<lambda>l. (case lo_ConsumedAt l of None \<Rightarrow> lo_ExpiresAt l | Some t \<Rightarrow> t, lo_ID l))
            lo_ID n (logout_transactions d) = (ids, t)" "d' = d\<lparr>logout_transactions := t\<rparr>"
    using assms(1) by (auto simp: DeleteRetiredLogoutTransactions_def split: prod.splits)
  have keep: "select_where (\<lambda>l. lo_ConsumedAt l = None \<and> now < lo_ExpiresAt l) t = select_where (\<lambda>l. lo_ConsumedAt l = None \<and> now < lo_ExpiresAt l) (logout_transactions d) \<and> distinct (map lo_ID t)"
    if "primary_keys d"
    by (rule delete_batch_keeps[OF b(1)], use that in \<open>simp add: primary_keys_def\<close>) (auto simp: retired_logout_def)
  show ?thesis unfolding keeps_live_def b(2)
    using keep by (simp add: primary_keys_def live_view_def)
qed

lemma DeleteRetiredAuthTransactions_keeps:
  assumes "DeleteRetiredAuthTransactions cutoff n d = Inr (count, d')"
  shows "keeps_live now d d'"
proof (rule DeleteRetiredAuthTransactions_Inr[OF assms])
  fix ids t assume b: "delete_batch (retired_transaction d cutoff)
       (\<lambda>t. (case tr_ConsumedAt t of Some at \<Rightarrow> at | None \<Rightarrow> 0, tr_ID t)) tr_ID n (auth_transactions d) = (ids, t)"
    "d' = d\<lparr>auth_transactions := t\<rparr>"
  have keep: "select_where (\<lambda>t. tr_ConsumedAt t = None \<and> now < tr_ExpiresAt t) t = select_where (\<lambda>t. tr_ConsumedAt t = None \<and> now < tr_ExpiresAt t) (auth_transactions d) \<and> distinct (map tr_ID t)"
    if "primary_keys d"
    by (rule delete_batch_keeps[OF b(1)], use that in \<open>simp add: primary_keys_def\<close>) (auto simp: retired_transaction_def)
  show ?thesis unfolding keeps_live_def b(2)
    using keep by (simp add: primary_keys_def live_view_def)
qed

lemma terminal_after_expiry: "fam_AbsoluteExpiresAt f \<le> family_terminal_at f"
  by (simp add: family_terminal_at_def)

lemma DeleteRetiredRefreshTokens_keeps:
  assumes "DeleteRetiredRefreshTokens cutoff n d = Inr (count, d')" "cutoff \<le> now"
  shows "keeps_live now d d'"
proof -
  obtain ids t where b: "delete_batch (retired_generation d cutoff)
            (\<lambda>g. (case select_one (\<lambda>f. fam_ID f = gen_FamilyID g) (refresh_token_families d) of
                    None \<Rightarrow> 0 | Some f \<Rightarrow> family_terminal_at f, gen_ID g))
            gen_ID n (refresh_tokens d) = (ids, t)" "d' = d\<lparr>refresh_tokens := t\<rparr>"
    using assms(1) by (auto simp: DeleteRetiredRefreshTokens_def split: prod.splits if_splits)
  have "\<not> live_generation now (refresh_token_families d) g" if retired: "retired_generation d cutoff g" for g
  proof -
    obtain f where "f \<in> set (refresh_token_families d)" "fam_ID f = gen_FamilyID g" "family_terminal_at f \<le> cutoff"
      using retired by (auto simp: retired_generation_def list_ex_iff)
    moreover then have "\<not> now < fam_AbsoluteExpiresAt f" using assms(2) terminal_after_expiry[of f] by simp
    ultimately show ?thesis unfolding live_generation_def list_all_iff by blast
  qed
  then show ?thesis unfolding keeps_live_def b(2)
    using delete_batch_keeps[OF b(1), where q = "live_generation now (refresh_token_families d)"]
    by (simp add: primary_keys_def live_view_def)
qed

lemma DeleteRetiredRefreshTokenFamilies_keeps:
  assumes "DeleteRetiredRefreshTokenFamilies cutoff n d = Inr (count, d')" "cutoff \<le> now"
  shows "keeps_live now d d'"
proof -
  obtain ids t where b: "delete_batch (retired_family d cutoff) (\<lambda>f. (family_terminal_at f, fam_ID f))
            fam_ID n (refresh_token_families d) = (ids, t)" "d' = d\<lparr>refresh_token_families := t\<rparr>"
    and free: "\<forall>g\<in>set (refresh_tokens d). gen_FamilyID g \<notin> set ids"
    using assms(1) by (auto simp: DeleteRetiredRefreshTokenFamilies_def list_ex_iff split: prod.splits if_splits)
  have t: "t = delete_where (\<lambda>f. fam_ID f \<in> set ids) (refresh_token_families d)"
    using b(1) by (auto simp: delete_batch_def Let_def)
  have "live_generation now t g = live_generation now (refresh_token_families d) g" if "g \<in> set (refresh_tokens d)" for g
    using free that by (auto simp: live_generation_def t delete_where_def list_all_iff)
  then have gens: "select_where (live_generation now t) (refresh_tokens d) =
      select_where (live_generation now (refresh_token_families d)) (refresh_tokens d)"
    unfolding select_where_def by (intro filter_cong) simp_all
  have dead: "\<not> now < fam_AbsoluteExpiresAt f" if "retired_family d cutoff f" for f
    using that assms(2) terminal_after_expiry[of f] by (auto simp: retired_family_def)
  show ?thesis unfolding keeps_live_def b(2)
    using gens dead delete_batch_keeps[OF b(1), where q = "\<lambda>f. now < fam_AbsoluteExpiresAt f"]
    by (simp add: primary_keys_def live_view_def)
qed

section \<open>The loops\<close>

text \<open>A draining loop every round of which keeps the live rows, whether it succeeds or not.\<close>

locale retention = draining step pending clean
  for step :: "nat \<Rightarrow> db \<Rightarrow> (go_error + nat \<times> bool) \<times> db" and pending :: "db \<Rightarrow> nat" and clean :: "db \<Rightarrow> bool" +
  fixes now :: time
  assumes round_keeps: "step k d = (r, d') \<Longrightarrow> keeps_live now d d'"
begin

lemma loop_keeps: "batch_loop step k tally d = Some (r, d') \<Longrightarrow> keeps_live now d d'"
  using loop_preserves[of "keeps_live now d"] round_keeps keeps_live_trans keeps_live_refl by blast

text \<open>What every round leaves alone, the loop leaves alone.\<close>

lemma loop_frame:
  assumes "\<And>k d r d'. step k d = (r, d') \<Longrightarrow> f d' = f d" "batch_loop step k tally d = Some (r, d')"
  shows "f d' = f d"
proof (rule loop_preserves[OF _ _ assms(2)])
  show "f d'' = f d" if "f d1 = f d" "step k d1 = (r, d'')" for k d1 r d'' using assms(1)[OF that(2)] that(1) by simp
qed simp

text \<open>A loop whose rounds do not fail does not fail.\<close>

lemma loop_succeeds:
  assumes "\<And>k d. \<exists>y d'. step k d = (Inr y, d')" "batch_loop step k tally d = Some ((n, err), d')"
  shows "err = None"
  using assms(2)
proof (induction "pending d" arbitrary: k tally d rule: less_induct)
  case less
  obtain count again d1 where s: "step k d = (Inr (count, again), d1)" using assms(1)[of k d] by auto
  show ?case
  proof (cases again)
    case True
    then have "pending d1 < pending d" using progress[of k d count] s by simp
    from less(1)[OF this] show ?thesis using less(2) s True by (simp add: batch_loop.simps[of step k])
  next
    case False
    then show ?thesis using less(2) s by (simp add: batch_loop.simps)
  qed
qed

lemma loop_result:
  "\<exists>n err d'. batch_loop step 0 0 d = Some ((n, err), d') \<and> keeps_live now d d' \<and> (err = None \<longrightarrow> clean d')"
proof -
  obtain n err d' where run: "batch_loop step 0 0 d = Some ((n, err), d')" using loop_returns by fastforce
  then show ?thesis using loop_keeps loop_drained by blast
qed

end

lemma inTx_keeps_live:
  assumes "inTx env (\<lambda>_. m) d = (r, d')" "\<And>x d'. tx_run m d x d' \<Longrightarrow> keeps_live now d d'"
  shows "keeps_live now d d'"
  using inTx_effect[OF assms(1)] assms(2) keeps_live_refl by blast

text \<open>A round of two statements, and one of a single statement.\<close>

lemma two_statements_run:
  assumes "tx_run (tbind (exec_query op1 s1) (\<lambda>x. tbind (exec_query op2 s2) (\<lambda>y. treturn (f x y)))) d z d'"
  obtains x d1 y where "s1 d = Inr (x, d1)" "s2 d1 = Inr (y, d')" "z = f x y"
  using assms by (elim tx_elims) blast

lemma delete_batch_length:
  assumes "delete_batch p order k n t = (ids, t')"
  shows "length t' \<le> length t" "0 < length ids \<Longrightarrow> length t' < length t"
proof -
  have ids: "ids = batch_keys p order k n t" "t' = filter (\<lambda>r. k r \<notin> set ids) t"
    using assms by (auto simp: delete_batch_def Let_def delete_where_def)
  show "length t' \<le> length t" by (simp add: ids(2))
  assume "0 < length ids"
  then obtain r where "r \<in> set t" "k r \<in> set ids" using batch_keys_nonempty ids(1) by metis
  then show "length t' < length t" unfolding ids(2) by (intro length_filter_less) auto
qed

text \<open>
  What a cleanup statement \<open>s\<close> does to the table \<open>tab\<close> it works on: the count is that of a batch
  of the rows of \<open>p\<close>.
\<close>

definition retires_batch :: "(db \<Rightarrow> 'r table) \<Rightarrow> (db \<Rightarrow> 'r \<Rightarrow> bool) \<Rightarrow> (db \<Rightarrow> pg_error + nat \<times> db) \<Rightarrow> bool" where
  "retires_batch tab p s \<longleftrightarrow> (\<forall>d count d'. s d = Inr (count, d') \<longrightarrow>
     length (tab d') \<le> length (tab d) \<and> (0 < count \<longrightarrow> length (tab d') < length (tab d)) \<and>
     (count < cleanupBatchSize \<longrightarrow> select_where (p d) (tab d') = []))"

lemma retires_batchI:
  assumes "\<And>d count d'. s d = Inr (count, d') \<Longrightarrow>
    \<exists>ids. delete_batch (p d) (order d) k cleanupBatchSize (tab d) = (ids, tab d') \<and> count = length ids"
  shows "retires_batch tab p s"
  unfolding retires_batch_def using assms delete_batch_length delete_batch_drained by metis

lemma retires_batchD:
  assumes "retires_batch tab p s" "s d = Inr (count, d')"
  shows "length (tab d') \<le> length (tab d)" "0 < count \<Longrightarrow> length (tab d') < length (tab d)"
    "count < cleanupBatchSize \<Longrightarrow> select_where (p d) (tab d') = []"
  using assms unfolding retires_batch_def by blast+

lemma preauth_batch: "retires_batch preauth_sessions (\<lambda>_. expired_preauth cutoff) (DeleteExpiredPreAuthSessions cutoff cleanupBatchSize)"
  by (rule retires_batchI[where k = pre_ID]) (auto simp: DeleteExpiredPreAuthSessions_def split: prod.splits)

lemma session_batch: "retires_batch login_sessions (\<lambda>_. retired_session cutoff) (DeleteRetiredLoginSessions cutoff cleanupBatchSize)"
  by (rule retires_batchI[where k = ses_ID])
    (auto simp: DeleteRetiredLoginSessions_def tx_simps split: prod.splits dest!: detach_sessions_keeps)

lemma code_batch: "retires_batch authorization_codes (\<lambda>_ c. code_ExpiresAt c \<le> cutoff) (DeleteRetiredAuthorizationCodes cutoff cleanupBatchSize)"
  by (rule retires_batchI[where k = code_ID])
    (auto simp: DeleteRetiredAuthorizationCodes_def tx_simps split: prod.splits dest!: detach_codes_keeps)

lemma access_batch: "retires_batch access_tokens (\<lambda>_ a. acc_ExpiresAt a \<le> cutoff) (DeleteRetiredAccessTokens cutoff cleanupBatchSize)"
  by (rule retires_batchI[where k = acc_ID]) (auto simp: DeleteRetiredAccessTokens_def split: prod.splits)

lemma generation_batch: "retires_batch refresh_tokens (\<lambda>d. retired_generation d cutoff) (DeleteRetiredRefreshTokens cutoff cleanupBatchSize)"
  by (rule retires_batchI[where k = gen_ID]) (auto simp: DeleteRetiredRefreshTokens_def split: prod.splits if_splits)

lemma family_batch: "retires_batch refresh_token_families (\<lambda>d. retired_family d cutoff) (DeleteRetiredRefreshTokenFamilies cutoff cleanupBatchSize)"
  by (rule retires_batchI[where k = fam_ID]) (auto simp: DeleteRetiredRefreshTokenFamilies_def split: prod.splits if_splits)

lemma logout_batch: "retires_batch logout_transactions (\<lambda>_. retired_logout now cutoff) (DeleteRetiredLogoutTransactions now cutoff cleanupBatchSize)"
  by (rule retires_batchI[where k = lo_ID]) (auto simp: DeleteRetiredLogoutTransactions_def split: prod.splits)

text \<open>
  The loops whose rounds run two statements: each works on a table of its own and leaves the
  number of rows of the other's alone, so that a full round makes progress in one of them.
\<close>

locale paired_retention =
  fixes round :: "(nat \<times> bool) dbtx"
    and op1 op2 :: string
    and s1 s2 :: "db \<Rightarrow> pg_error + nat \<times> db"
    and t1 :: "db \<Rightarrow> 'r1 table" and t2 :: "db \<Rightarrow> 'r2 table"
    and p1 :: "db \<Rightarrow> 'r1 \<Rightarrow> bool" and p2 :: "db \<Rightarrow> 'r2 \<Rightarrow> bool"
    and clean :: "db \<Rightarrow> bool" and now :: time
  assumes round_eq: "round = tbind (exec_query op1 s1) (\<lambda>x. tbind (exec_query op2 s2) (\<lambda>y.
      treturn (x + y, \<not> (x < cleanupBatchSize \<and> y < cleanupBatchSize))))"
    and batch1: "retires_batch t1 p1 s1" and batch2: "retires_batch t2 p2 s2"
    and live1: "s1 d = Inr (x, d1) \<Longrightarrow> keeps_live now d d1"
    and live2: "s2 d = Inr (x, d1) \<Longrightarrow> keeps_live now d d1"
    and other1: "s1 d = Inr (x, d1) \<Longrightarrow> length (t2 d1) = length (t2 d)"
    and other2: "s2 d = Inr (x, d1) \<Longrightarrow> length (t1 d1) = length (t1 d)"
    and drained: "s1 d = Inr (x, d1) \<Longrightarrow> s2 d1 = Inr (y, d') \<Longrightarrow> select_where (p1 d) (t1 d1) = [] \<Longrightarrow>
      select_where (p2 d1) (t2 d') = [] \<Longrightarrow> clean d'"
begin

lemma round_run:
  assumes "tx_run round d z d'"
  obtains x d1 y where "s1 d = Inr (x, d1)" "s2 d1 = Inr (y, d')" "snd z \<longleftrightarrow> \<not> (x < cleanupBatchSize \<and> y < cleanupBatchSize)"
  using assms unfolding round_eq by (elim two_statements_run) (metis snd_conv)

lemma round_progress:
  assumes "tx_run round d z d'" "snd z"
  shows "length (t1 d') + length (t2 d') < length (t1 d) + length (t2 d)"
proof (rule round_run[OF assms(1)])
  fix x d1 y
  assume run: "s1 d = Inr (x, d1)" "s2 d1 = Inr (y, d')" "snd z \<longleftrightarrow> \<not> (x < cleanupBatchSize \<and> y < cleanupBatchSize)"
  then have "0 < x \<or> 0 < y" using assms(2) by (auto simp: cleanupBatchSize_def)
  then show ?thesis
    using retires_batchD(1,2)[OF batch1 run(1)] retires_batchD(1,2)[OF batch2 run(2)] other1[OF run(1)] other2[OF run(2)]
    by linarith
qed

lemma round_clean: "tx_run round d z d' \<Longrightarrow> \<not> snd z \<Longrightarrow> clean d'"
  by (erule round_run) (rule drained, auto intro: retires_batchD[OF batch1] retires_batchD[OF batch2])

lemma round_live: "tx_run round d z d' \<Longrightarrow> keeps_live now d d'"
  by (erule round_run) (blast intro: keeps_live_trans live1 live2)

lemma rounds_retain:
  "retention (\<lambda>k. inTx (envs k) (\<lambda>_. round)) (\<lambda>d. length (t1 d) + length (t2 d)) clean now"
proof
  fix k d count d' assume "inTx (envs k) (\<lambda>_. round) d = (Inr (count, True), d')"
  then show "length (t1 d') + length (t2 d') < length (t1 d) + length (t2 d)"
    by (elim inTx_committed) (rule round_progress, assumption, simp)
next
  fix k d count d' assume "inTx (envs k) (\<lambda>_. round) d = (Inr (count, False), d')"
  then show "clean d'" by (elim inTx_committed) (rule round_clean, assumption, simp)
next
  fix k d r d' assume "inTx (envs k) (\<lambda>_. round) d = (r, d')"
  then show "keeps_live now d d'" by (rule inTx_keeps_live) (rule round_live)
qed

end

definition sessions_clean :: "time \<Rightarrow> time \<Rightarrow> db \<Rightarrow> bool" where
  "sessions_clean preAuthCutoff retiredCutoff d \<longleftrightarrow>
     select_where (expired_preauth preAuthCutoff) (preauth_sessions d) = [] \<and>
     select_where (retired_session retiredCutoff) (login_sessions d) = []"

definition protocol_clean :: "time \<Rightarrow> db \<Rightarrow> bool" where
  "protocol_clean cutoff d \<longleftrightarrow> select_where (\<lambda>c. code_ExpiresAt c \<le> cutoff) (authorization_codes d) = [] \<and>
     select_where (\<lambda>a. acc_ExpiresAt a \<le> cutoff) (access_tokens d) = []"

definition refresh_clean :: "time \<Rightarrow> db \<Rightarrow> bool" where
  "refresh_clean cutoff d \<longleftrightarrow> select_where (retired_generation d cutoff) (refresh_tokens d) = [] \<and>
     select_where (retired_family d cutoff) (refresh_token_families d) = []"

definition logout_clean :: "time \<Rightarrow> time \<Rightarrow> db \<Rightarrow> bool" where
  "logout_clean now cutoff d \<longleftrightarrow> select_where (retired_logout now cutoff) (logout_transactions d) = []"

lemma thirty_days: "now - 30 * 24 * Hour \<le> now" "now - refreshArtifactRetention \<le> now" "now - protocolArtifactRetention \<le> now"
  by (simp_all add: duration_defs refreshArtifactRetention_def protocolArtifactRetention_def)

interpretation session_round: paired_retention "cleanup_sessions_tx now (now - 30 * 24 * Hour)"
  "''clean pre-auth sessions''" "''clean login sessions''"
  "DeleteExpiredPreAuthSessions now cleanupBatchSize" "DeleteRetiredLoginSessions (now - 30 * 24 * Hour) cleanupBatchSize"
  preauth_sessions login_sessions "\<lambda>_. expired_preauth now" "\<lambda>_. retired_session (now - 30 * 24 * Hour)"
  "sessions_clean now (now - 30 * 24 * Hour)" now for now
proof
  show "keeps_live now d d1" if "DeleteExpiredPreAuthSessions now cleanupBatchSize d = Inr (x, d1)" for d x d1
    by (rule DeleteExpiredPreAuthSessions_keeps[OF that]) simp
  show "keeps_live now d d1" if "DeleteRetiredLoginSessions (now - 30 * 24 * Hour) cleanupBatchSize d = Inr (x, d1)" for d x d1
    by (rule DeleteRetiredLoginSessions_keeps[OF that thirty_days(1)])
  show "length (login_sessions d1) = length (login_sessions d)"
    if "DeleteExpiredPreAuthSessions now cleanupBatchSize d = Inr (x, d1)" for d x d1
    using that by (auto simp: DeleteExpiredPreAuthSessions_def split: prod.splits)
  have kept: "preauth_sessions d1 = preauth_sessions d"
    if "DeleteRetiredLoginSessions (now - 30 * 24 * Hour) cleanupBatchSize d = Inr (x, d1)" for d x d1
    using that by (auto simp: DeleteRetiredLoginSessions_def tx_simps split: prod.splits dest!: detach_sessions_keeps)
  then show "length (preauth_sessions d1) = length (preauth_sessions d)"
    if "DeleteRetiredLoginSessions (now - 30 * 24 * Hour) cleanupBatchSize d = Inr (x, d1)" for d x d1
    using that by metis
  show "sessions_clean now (now - 30 * 24 * Hour) d'"
    if "DeleteRetiredLoginSessions (now - 30 * 24 * Hour) cleanupBatchSize d1 = Inr (y, d')"
      "select_where (expired_preauth now) (preauth_sessions d1) = []"
      "select_where (retired_session (now - 30 * 24 * Hour)) (login_sessions d') = []" for d1 y d'
    using that kept[OF that(1)] by (simp add: sessions_clean_def)
qed (simp_all add: cleanup_sessions_tx_def preauth_batch session_batch)

interpretation protocol_round: paired_retention "cleanup_protocol_tx (now - protocolArtifactRetention)"
  "''clean authorization code metadata''" "''clean access token metadata''"
  "DeleteRetiredAuthorizationCodes (now - protocolArtifactRetention) cleanupBatchSize"
  "DeleteRetiredAccessTokens (now - protocolArtifactRetention) cleanupBatchSize"
  authorization_codes access_tokens "\<lambda>_ c. code_ExpiresAt c \<le> now - protocolArtifactRetention"
  "\<lambda>_ a. acc_ExpiresAt a \<le> now - protocolArtifactRetention" "protocol_clean (now - protocolArtifactRetention)" now for now
proof
  show "keeps_live now d d1" if "DeleteRetiredAuthorizationCodes (now - protocolArtifactRetention) cleanupBatchSize d = Inr (x, d1)" for d x d1
    by (rule DeleteRetiredAuthorizationCodes_keeps[OF that thirty_days(3)])
  show "keeps_live now d d1" if "DeleteRetiredAccessTokens (now - protocolArtifactRetention) cleanupBatchSize d = Inr (x, d1)" for d x d1
    by (rule DeleteRetiredAccessTokens_keeps[OF that thirty_days(3)])
  show "length (access_tokens d1) = length (access_tokens d)"
    if "DeleteRetiredAuthorizationCodes (now - protocolArtifactRetention) cleanupBatchSize d = Inr (x, d1)" for d x d1
    using that by (auto simp: DeleteRetiredAuthorizationCodes_def tx_simps split: prod.splits dest!: detach_codes_keeps)
  have kept: "authorization_codes d1 = authorization_codes d"
    if "DeleteRetiredAccessTokens (now - protocolArtifactRetention) cleanupBatchSize d = Inr (x, d1)" for d x d1
    using that by (auto simp: DeleteRetiredAccessTokens_def split: prod.splits)
  then show "length (authorization_codes d1) = length (authorization_codes d)"
    if "DeleteRetiredAccessTokens (now - protocolArtifactRetention) cleanupBatchSize d = Inr (x, d1)" for d x d1
    using that by metis
  show "protocol_clean (now - protocolArtifactRetention) d'"
    if "DeleteRetiredAccessTokens (now - protocolArtifactRetention) cleanupBatchSize d1 = Inr (y, d')"
      "select_where (\<lambda>c. code_ExpiresAt c \<le> now - protocolArtifactRetention) (authorization_codes d1) = []"
      "select_where (\<lambda>a. acc_ExpiresAt a \<le> now - protocolArtifactRetention) (access_tokens d') = []" for d1 y d'
    using that kept[OF that(1)] by (simp add: protocol_clean_def)
qed (simp_all add: cleanup_protocol_tx_def code_batch access_batch conj_commute)

interpretation refresh_round: paired_retention "cleanup_refresh_tx (now - refreshArtifactRetention)"
  "''clean refresh token generations''" "''clean refresh token families''"
  "DeleteRetiredRefreshTokens (now - refreshArtifactRetention) cleanupBatchSize"
  "DeleteRetiredRefreshTokenFamilies (now - refreshArtifactRetention) cleanupBatchSize"
  refresh_tokens refresh_token_families "\<lambda>d. retired_generation d (now - refreshArtifactRetention)"
  "\<lambda>d. retired_family d (now - refreshArtifactRetention)" "refresh_clean (now - refreshArtifactRetention)" now for now
proof
  show "keeps_live now d d1" if "DeleteRetiredRefreshTokens (now - refreshArtifactRetention) cleanupBatchSize d = Inr (x, d1)" for d x d1
    by (rule DeleteRetiredRefreshTokens_keeps[OF that thirty_days(2)])
  show "keeps_live now d d1" if "DeleteRetiredRefreshTokenFamilies (now - refreshArtifactRetention) cleanupBatchSize d = Inr (x, d1)" for d x d1
    by (rule DeleteRetiredRefreshTokenFamilies_keeps[OF that thirty_days(2)])
  show "length (refresh_token_families d1) = length (refresh_token_families d)"
    if "DeleteRetiredRefreshTokens (now - refreshArtifactRetention) cleanupBatchSize d = Inr (x, d1)" for d x d1
    using that by (auto simp: DeleteRetiredRefreshTokens_def split: prod.splits if_splits)
  show "length (refresh_tokens d1) = length (refresh_tokens d)"
    if "DeleteRetiredRefreshTokenFamilies (now - refreshArtifactRetention) cleanupBatchSize d = Inr (x, d1)" for d x d1
    using that by (auto simp: DeleteRetiredRefreshTokenFamilies_def split: prod.splits if_splits)
  show "refresh_clean (now - refreshArtifactRetention) d'"
    if s1: "DeleteRetiredRefreshTokens (now - refreshArtifactRetention) cleanupBatchSize d = Inr (x, d1)"
      and s2: "DeleteRetiredRefreshTokenFamilies (now - refreshArtifactRetention) cleanupBatchSize d1 = Inr (y, d')"
      and gens: "select_where (retired_generation d (now - refreshArtifactRetention)) (refresh_tokens d1) = []"
      and fams: "select_where (retired_family d1 (now - refreshArtifactRetention)) (refresh_token_families d') = []" for d x d1 y d'
  proof -
    have d1: "refresh_token_families d1 = refresh_token_families d" "access_tokens d1 = access_tokens d"
      using s1 by (auto simp: DeleteRetiredRefreshTokens_def split: prod.splits if_splits)
    obtain t where d': "d' = d1\<lparr>refresh_token_families := t\<rparr>" "set t \<subseteq> set (refresh_token_families d1)"
      using s2 delete_batch_set by (fastforce simp: DeleteRetiredRefreshTokenFamilies_def split: prod.splits if_splits)
    have "retired_generation d (now - refreshArtifactRetention) g" if "retired_generation d' (now - refreshArtifactRetention) g" for g
      using that d' d1 by (auto simp: retired_generation_def list_ex_iff)
    moreover have "retired_family d' = retired_family d1" by (simp add: d' retired_family_def fun_eq_iff)
    ultimately show ?thesis using gens fams d' by (auto simp: refresh_clean_def select_where_def filter_empty_conv)
  qed
qed (simp_all add: cleanup_refresh_tx_def generation_batch family_batch)

interpretation session_rounds: retention "\<lambda>k. inTx (envs k) (\<lambda>_. cleanup_sessions_tx now (now - 30 * 24 * Hour))"
  "\<lambda>d. length (preauth_sessions d) + length (login_sessions d)" "sessions_clean now (now - 30 * 24 * Hour)" now for envs now
  by (rule session_round.rounds_retain)

interpretation protocol_rounds: retention "\<lambda>k. inTx (envs k) (\<lambda>_. cleanup_protocol_tx (now - protocolArtifactRetention))"
  "\<lambda>d. length (authorization_codes d) + length (access_tokens d)" "protocol_clean (now - protocolArtifactRetention)" now for envs now
  by (rule protocol_round.rounds_retain)

interpretation refresh_rounds: retention "\<lambda>k. inTx (envs k) (\<lambda>_. cleanup_refresh_tx (now - refreshArtifactRetention))"
  "\<lambda>d. length (refresh_tokens d) + length (refresh_token_families d)" "refresh_clean (now - refreshArtifactRetention)" now for envs now
  by (rule refresh_round.rounds_retain)

lemma cleanup_logout_run:
  assumes "tx_run (cleanup_logout_tx now cutoff) d z d'"
  obtains x where "DeleteRetiredLogoutTransactions now cutoff cleanupBatchSize d = Inr (x, d')" "snd z \<longleftrightarrow> \<not> x < cleanupBatchSize"
  using assms unfolding cleanup_logout_tx_def by (elim tx_elims) (metis snd_conv)

interpretation logout_rounds: retention "\<lambda>k. inTx (envs k) (\<lambda>_. cleanup_logout_tx now cutoff)"
  "\<lambda>d. length (logout_transactions d)" "logout_clean now cutoff" now for envs now cutoff
proof
  fix k d count d' assume "inTx (envs k) (\<lambda>_. cleanup_logout_tx now cutoff) d = (Inr (count, True), d')"
  then obtain x where "DeleteRetiredLogoutTransactions now cutoff cleanupBatchSize d = Inr (x, d')" "\<not> x < cleanupBatchSize"
    by (elim inTx_committed cleanup_logout_run) auto
  then show "length (logout_transactions d') < length (logout_transactions d)"
    using retires_batchD(2)[OF logout_batch] by (auto simp: cleanupBatchSize_def)
next
  fix k d count d' assume "inTx (envs k) (\<lambda>_. cleanup_logout_tx now cutoff) d = (Inr (count, False), d')"
  then show "logout_clean now cutoff d'"
    unfolding logout_clean_def by (elim inTx_committed cleanup_logout_run) (auto dest: retires_batchD(3)[OF logout_batch])
next
  fix k d r d' assume "inTx (envs k) (\<lambda>_. cleanup_logout_tx now cutoff) d = (r, d')"
  then show "keeps_live now d d'"
    by (rule inTx_keeps_live) (elim cleanup_logout_run, erule DeleteRetiredLogoutTransactions_keeps)
qed

lemma select_where_update_dead:
  assumes "\<And>r. r \<in> set t \<Longrightarrow> g r \<Longrightarrow> \<not> q r" "\<And>r. g r \<Longrightarrow> \<not> q (f r)"
  shows "select_where q (update_where g f t) = select_where q t"
  using assms by (induction t) (auto simp: select_where_def update_where_def)

text \<open>Expiring an overdue transaction ends a row that was not live.\<close>

lemma expire_tx_keeps:
  assumes "tx_run (expire_tx now) d z d'"
  shows "keeps_live now d d'"
proof -
  obtain ids d1 u where run: "ExpireAuthTransactions now cleanupBatchSize d = Inr (ids, d1)"
    "tx_run (expire_audits now ids) d1 u d'"
    using assms unfolding expire_tx_def by (elim tx_elims) blast
  obtain rows where d': "d' = d1\<lparr>audit_events := audit_events d1 @ rows\<rparr>" using expire_audits_run[OF run(2)] by blast
  let ?expired = "\<lambda>t. t\<lparr>tr_ConsumedAt := Some now, tr_FailureReason := Some ''expired''\<rparr>"
  have ids: "ids = batch_keys (overdue now) (\<lambda>t. (tr_ExpiresAt t, tr_ID t)) tr_ID cleanupBatchSize (auth_transactions d)"
    and d1: "d1 = d\<lparr>auth_transactions := update_where (\<lambda>t. tr_ID t \<in> set ids) ?expired (auth_transactions d)\<rparr>"
    using run(1) by (auto simp: ExpireAuthTransactions_def Let_def tx_simps)
  define ts where "ts = update_where (\<lambda>t. tr_ID t \<in> set ids) ?expired (auth_transactions d)"
  have kept: "select_where (\<lambda>t. tr_ConsumedAt t = None \<and> now < tr_ExpiresAt t) ts =
      select_where (\<lambda>t. tr_ConsumedAt t = None \<and> now < tr_ExpiresAt t) (auth_transactions d)"
    if "distinct (map tr_ID (auth_transactions d))"
  proof -
    have "\<not> now < tr_ExpiresAt t" if t: "t \<in> set (auth_transactions d)" "tr_ID t \<in> set ids" for t
    proof -
      obtain t' where t': "t' \<in> set (auth_transactions d)" "overdue now t'" "tr_ID t' = tr_ID t"
        using batch_keys_subset[OF t(2)[unfolded ids]] by blast
      have "t' = t" using distinct_map_eq[OF \<open>distinct (map tr_ID (auth_transactions d))\<close>] t(1) t'(1,3) by blast
      then show ?thesis using t'(2) by (simp add: overdue_def)
    qed
    then show ?thesis unfolding ts_def by (intro select_where_update_dead) simp_all
  qed
  have "map tr_ID ts = map tr_ID (auth_transactions d)" by (simp add: ts_def map_update_where)
  moreover have "d' = d\<lparr>auth_transactions := ts, audit_events := audit_events d @ rows\<rparr>"
    unfolding d' d1 ts_def by simp
  ultimately show ?thesis using kept by (simp add: keeps_live_def primary_keys_def live_view_def)
qed

interpretation expiry_rounds: retention "\<lambda>k. inTx (envs k) (\<lambda>_. expire_tx now)"
  "\<lambda>d. length (select_where (overdue now) (auth_transactions d))" "no_overdue now" now for envs now
  by unfold_locales (erule inTx_keeps_live, erule expire_tx_keeps)

interpretation retirement_rounds: retention
  "\<lambda>k. pool_exec (outcomes k) ''clean authorization transactions''
     (\<lambda>d. stmt (\<lambda>(count, d'). ((count, \<not> count < cleanupBatchSize), d'))
       (DeleteRetiredAuthTransactions cutoff cleanupBatchSize d))"
  "\<lambda>d. length (select_where (retired_transaction d cutoff) (auth_transactions d))" "no_retired cutoff" now
  for outcomes cutoff now
proof
  fix k d r d'
  assume "pool_exec (outcomes k) ''clean authorization transactions''
     (\<lambda>d. stmt (\<lambda>(count, d'). ((count, \<not> count < cleanupBatchSize), d'))
       (DeleteRetiredAuthTransactions cutoff cleanupBatchSize d)) d = (r, d')"
  then have "d' = d \<or> (\<exists>count. DeleteRetiredAuthTransactions cutoff cleanupBatchSize d = Inr (count, d'))"
    by (auto dest!: pool_exec_effect simp: tx_simps)
  then show "keeps_live now d d'" using keeps_live_refl DeleteRetiredAuthTransactions_keeps by blast
qed

section \<open>The pass as a whole\<close>

text \<open>What the later operations of a pass leave alone, so that the work of the earlier ones lasts.\<close>

lemma detach_codes_frame:
  "detach_codes ids d = Inr d' \<Longrightarrow> preauth_sessions d' = preauth_sessions d \<and>
     login_sessions d' = login_sessions d \<and> auth_transactions d' = auth_transactions d"
  by (induction ids arbitrary: d) (force simp: Let_def tx_simps split: sum.splits)+

lemma protocol_round_frame:
  assumes "tx_run (cleanup_protocol_tx cutoff) d z d'"
  shows "preauth_sessions d' = preauth_sessions d \<and> login_sessions d' = login_sessions d \<and> auth_transactions d' = auth_transactions d"
  using assms unfolding cleanup_protocol_tx_def
  by (elim two_statements_run) (auto simp: DeleteRetiredAuthorizationCodes_def DeleteRetiredAccessTokens_def tx_simps
      split: prod.splits dest!: detach_codes_frame)

lemma refresh_round_frame:
  assumes "tx_run (cleanup_refresh_tx cutoff) d z d'"
  shows "preauth_sessions d' = preauth_sessions d \<and> login_sessions d' = login_sessions d \<and>
    auth_transactions d' = auth_transactions d \<and> authorization_codes d' = authorization_codes d \<and> access_tokens d' = access_tokens d"
  using assms unfolding cleanup_refresh_tx_def
  by (elim two_statements_run) (auto simp: DeleteRetiredRefreshTokens_def DeleteRetiredRefreshTokenFamilies_def
      split: prod.splits if_splits)

lemma logout_round_frame:
  assumes "tx_run (cleanup_logout_tx now cutoff) d z d'"
  shows "d'\<lparr>logout_transactions := []\<rparr> = d\<lparr>logout_transactions := []\<rparr>"
  using assms by (elim cleanup_logout_run) (auto simp: DeleteRetiredLogoutTransactions_def split: prod.splits)

lemma expire_round_frame:
  assumes "tx_run (expire_tx now) d z d'"
  shows "preauth_sessions d' = preauth_sessions d \<and> login_sessions d' = login_sessions d"
proof -
  obtain ids d1 u where run: "ExpireAuthTransactions now cleanupBatchSize d = Inr (ids, d1)"
    "tx_run (expire_audits now ids) d1 u d'"
    using assms unfolding expire_tx_def by (elim tx_elims) blast
  then show ?thesis using expire_audits_run[OF run(2)] by (auto simp: ExpireAuthTransactions_def Let_def tx_simps)
qed

lemma inTx_frame:
  assumes "inTx env (\<lambda>_. m) d = (r, d')" "\<And>z d'. tx_run m d z d' \<Longrightarrow> f d' = f d"
  shows "f d' = f d"
  using inTx_effect[OF assms(1)] assms(2) by blast

text \<open>Each operation returns, keeps the live rows, and is complete when it reports no error.\<close>

lemma session_Cleanup_result:
  "\<exists>n err d'. session_Cleanup envs now d = Some ((n, err), d') \<and> keeps_live now d d' \<and>
     (err = None \<longrightarrow> sessions_clean now (now - 30 * 24 * Hour) d')"
  unfolding session_Cleanup_def CleanupSessions_def by (rule session_rounds.loop_result)

lemma authflow_Cleanup_result:
  "\<exists>n err d'. authflow_Cleanup envs outcomes now d = Some ((n, err), d') \<and> keeps_live now d d' \<and>
     (err = None \<longrightarrow> no_overdue now d') \<and> preauth_sessions d' = preauth_sessions d \<and> login_sessions d' = login_sessions d"
proof -
  let ?f = "\<lambda>d. (preauth_sessions d, login_sessions d)"
  obtain n err d1 where e: "store_ExpireAuthTransactions envs now d = Some ((n, err), d1)" "keeps_live now d d1" "err = None \<longrightarrow> no_overdue now d1"
    using expiry_rounds.loop_result[of envs now d] unfolding store_ExpireAuthTransactions_def by blast
  have f1: "?f d1 = ?f d"
  proof (rule expiry_rounds.loop_frame)
    show "?f d'' = ?f d'" if "inTx (envs k) (\<lambda>_. expire_tx now) d' = (r, d'')" for k d' r d''
      by (rule inTx_frame[OF that]) (simp add: expire_round_frame)
    show "batch_loop (\<lambda>k. inTx (envs k) (\<lambda>_. expire_tx now)) 0 0 d = Some ((n, err), d1)"
      using e(1) unfolding store_ExpireAuthTransactions_def .
  qed
  show ?thesis
  proof (cases err)
    case None
    obtain m err' d2 where c: "CleanupAuthTransactions outcomes (now - 24 * Hour) d1 = Some ((m, err'), d2)" "keeps_live now d1 d2"
      using retirement_rounds.loop_result[of outcomes "now - 24 * Hour" d1 now] unfolding CleanupAuthTransactions_def by blast
    have "no_overdue now d2" 
      using c(1) retirement.loop_preserves[of "no_overdue now"] e(3) None DeleteRetired_keeps_no_overdue
      unfolding CleanupAuthTransactions_def by blast
    moreover have "?f d2 = ?f d1"
    proof (rule retirement_rounds.loop_frame)
      show "batch_loop (\<lambda>k. pool_exec (outcomes k) ''clean authorization transactions''
         (\<lambda>d. stmt (\<lambda>(count, d'). ((count, \<not> count < cleanupBatchSize), d'))
         (DeleteRetiredAuthTransactions (now - 24 * Hour) cleanupBatchSize d))) 0 0 d1 = Some ((m, err'), d2)"
        using c(1) unfolding CleanupAuthTransactions_def .
    qed (auto dest!: pool_exec_effect simp: tx_simps DeleteRetiredAuthTransactions_def split: prod.splits)
    moreover have "keeps_live now d d2" by (rule keeps_live_trans[OF e(2) c(2)])
    moreover have "authflow_Cleanup envs outcomes now d = Some ((if err' = None then n + m else n, err'), d2)"
      using e(1) c(1) None by (cases err') (simp_all add: authflow_Cleanup_def)
    ultimately show ?thesis using f1 by simp
  qed (use e f1 in \<open>simp add: authflow_Cleanup_def\<close>)
qed

lemma CleanupProtocolArtifacts_result:
  "\<exists>n err d'. CleanupProtocolArtifacts envs (now - protocolArtifactRetention) d = Some ((n, err), d') \<and> keeps_live now d d' \<and>
     (err = None \<longrightarrow> protocol_clean (now - protocolArtifactRetention) d') \<and> preauth_sessions d' = preauth_sessions d \<and>
     login_sessions d' = login_sessions d \<and> auth_transactions d' = auth_transactions d"
proof -
  let ?f = "\<lambda>d. (preauth_sessions d, login_sessions d, auth_transactions d)"
  obtain n err d' where r: "batch_loop (\<lambda>k. inTx (envs k) (\<lambda>_. cleanup_protocol_tx (now - protocolArtifactRetention))) 0 0 d = Some ((n, err), d')"
    "keeps_live now d d'" "err = None \<longrightarrow> protocol_clean (now - protocolArtifactRetention) d'"
    using protocol_rounds.loop_result by blast
  have "?f d' = ?f d"
    by (rule protocol_rounds.loop_frame[OF _ r(1)]) (rule inTx_frame[where f = ?f], assumption, simp add: protocol_round_frame)
  then show ?thesis using r by (simp add: CleanupProtocolArtifacts_def)
qed

lemma CleanupRefreshArtifacts_result:
  "\<exists>n err d'. CleanupRefreshArtifacts envs (now - refreshArtifactRetention) d = Some ((n, err), d') \<and> keeps_live now d d' \<and>
     (err = None \<longrightarrow> refresh_clean (now - refreshArtifactRetention) d') \<and> preauth_sessions d' = preauth_sessions d \<and>
     login_sessions d' = login_sessions d \<and> auth_transactions d' = auth_transactions d \<and>
     authorization_codes d' = authorization_codes d \<and> access_tokens d' = access_tokens d"
proof -
  let ?f = "\<lambda>d. (preauth_sessions d, login_sessions d, auth_transactions d, authorization_codes d, access_tokens d)"
  obtain n err d' where r: "batch_loop (\<lambda>k. inTx (envs k) (\<lambda>_. cleanup_refresh_tx (now - refreshArtifactRetention))) 0 0 d = Some ((n, err), d')"
    "keeps_live now d d'" "err = None \<longrightarrow> refresh_clean (now - refreshArtifactRetention) d'"
    using refresh_rounds.loop_result by blast
  have "?f d' = ?f d"
    by (rule refresh_rounds.loop_frame[OF _ r(1)]) (rule inTx_frame[where f = ?f], assumption, simp add: refresh_round_frame)
  then show ?thesis using r by (simp add: CleanupRefreshArtifacts_def)
qed

lemma CleanupLogoutTransactions_result:
  "\<exists>n err d'. CleanupLogoutTransactions envs now cutoff d = Some ((n, err), d') \<and> keeps_live now d d' \<and>
     (err = None \<longrightarrow> logout_clean now cutoff d') \<and> (\<exists>t. d' = d\<lparr>logout_transactions := t\<rparr>)"
proof -
  let ?f = "\<lambda>d. d\<lparr>logout_transactions := []\<rparr>"
  obtain n err d' where r: "batch_loop (\<lambda>k. inTx (envs k) (\<lambda>_. cleanup_logout_tx now cutoff)) 0 0 d = Some ((n, err), d')"
    "keeps_live now d d'" "err = None \<longrightarrow> logout_clean now cutoff d'"
    using logout_rounds.loop_result by blast

  have "?f d' = ?f d"
    by (rule logout_rounds.loop_frame[OF _ r(1)]) (rule inTx_frame[where f = ?f], assumption, rule logout_round_frame)
  then have "(?f d')\<lparr>logout_transactions := logout_transactions d'\<rparr> = (?f d)\<lparr>logout_transactions := logout_transactions d'\<rparr>"
    by (rule arg_cong)
  then have "d' = d\<lparr>logout_transactions := logout_transactions d'\<rparr>" by simp
  then have "\<exists>t. d' = d\<lparr>logout_transactions := t\<rparr>" by (rule exI)
  then show ?thesis using r by (simp add: CleanupLogoutTransactions_def)
qed

lemma cleanup_pass_result:
  "\<exists>e1 e2 e3 e4 e5 e6 n1 n2 n3 n4 n5 d'. cleanup_pass m shutdown now d = Some
      ([(''sessions'', cleanup_result shutdown e1, n1), (''auth_transactions'', cleanup_result shutdown e2, n2),
        (''protocol_artifacts'', cleanup_result shutdown e3, n3), (''refresh_artifacts'', cleanup_result shutdown e4, n4),
        (''logout_transactions'', cleanup_result shutdown e5, n5), (''active_sessions'', cleanup_result shutdown e6, 0)], d') \<and>
     keeps_live now d d' \<and>
     (e1 = None \<longrightarrow> sessions_clean now (now - 30 * 24 * Hour) d') \<and> (e2 = None \<longrightarrow> no_overdue now d') \<and>
     (e3 = None \<longrightarrow> protocol_clean (now - protocolArtifactRetention) d') \<and>
     (e4 = None \<longrightarrow> refresh_clean (now - refreshArtifactRetention) d') \<and>
     (e5 = None \<longrightarrow> logout_clean now (now - protocolArtifactRetention) d')"
proof -
  obtain n1 e1 d1 where 1: "session_Cleanup (mt_sessions m) now d = Some ((n1, e1), d1)" "keeps_live now d d1"
    "e1 = None \<longrightarrow> sessions_clean now (now - 30 * 24 * Hour) d1"
    using session_Cleanup_result by blast
  obtain n2 e2 d2 where 2: "authflow_Cleanup (mt_expiry m) (mt_retirement m) now d1 = Some ((n2, e2), d2)" "keeps_live now d1 d2"
    "e2 = None \<longrightarrow> no_overdue now d2" "preauth_sessions d2 = preauth_sessions d1" "login_sessions d2 = login_sessions d1"
    using authflow_Cleanup_result by blast
  obtain n3 e3 d3 where 3: "CleanupProtocolArtifacts (mt_protocol m) (now - protocolArtifactRetention) d2 = Some ((n3, e3), d3)"
    "keeps_live now d2 d3" "e3 = None \<longrightarrow> protocol_clean (now - protocolArtifactRetention) d3" "preauth_sessions d3 = preauth_sessions d2"
    "login_sessions d3 = login_sessions d2" "auth_transactions d3 = auth_transactions d2"
    using CleanupProtocolArtifacts_result by blast
  obtain n4 e4 d4 where 4: "CleanupRefreshArtifacts (mt_refresh m) (now - refreshArtifactRetention) d3 = Some ((n4, e4), d4)"
    "keeps_live now d3 d4" "e4 = None \<longrightarrow> refresh_clean (now - refreshArtifactRetention) d4" "preauth_sessions d4 = preauth_sessions d3"
    "login_sessions d4 = login_sessions d3" "auth_transactions d4 = auth_transactions d3"
    "authorization_codes d4 = authorization_codes d3" "access_tokens d4 = access_tokens d3"
    using CleanupRefreshArtifacts_result by blast
  obtain n5 e5 d5 where 5: "CleanupLogoutTransactions (mt_logout m) now (now - protocolArtifactRetention) d4 = Some ((n5, e5), d5)"
    "keeps_live now d4 d5" "e5 = None \<longrightarrow> logout_clean now (now - protocolArtifactRetention) d5"
    "\<exists>t. d5 = d4\<lparr>logout_transactions := t\<rparr>"
    using CleanupLogoutTransactions_result by metis
  have kept: "keeps_live now d d5"     by (rule keeps_live_trans[OF keeps_live_trans[OF keeps_live_trans[OF keeps_live_trans[OF 1(2) 2(2)] 3(2)] 4(2)] 5(2)])
  obtain t where d5: "d5 = d4\<lparr>logout_transactions := t\<rparr>" using 5(4) by blast
  have tables: "preauth_sessions d5 = preauth_sessions d1" "login_sessions d5 = login_sessions d1"
    "auth_transactions d5 = auth_transactions d2" "authorization_codes d5 = authorization_codes d3"
    "access_tokens d5 = access_tokens d3"
    by (simp_all add: d5 2(4,5) 3(4-6) 4(4-8))
  have "refresh_clean cutoff d5 \<longleftrightarrow> refresh_clean cutoff d4" for cutoff
    by (simp add: d5 refresh_clean_def retired_generation_def[abs_def] retired_family_def[abs_def])
  then have clean: "e1 = None \<longrightarrow> sessions_clean now (now - 30 * 24 * Hour) d5" "e2 = None \<longrightarrow> no_overdue now d5"
    "e3 = None \<longrightarrow> protocol_clean (now - protocolArtifactRetention) d5" "e4 = None \<longrightarrow> refresh_clean (now - refreshArtifactRetention) d5"
    using 1(3) 2(3) 3(3) 4(3) by (simp_all add: sessions_clean_def no_overdue_def protocol_clean_def tables)
  define e6 where "e6 = (case CountActiveSessions (d5, mt_count m) now of Inl err \<Rightarrow> Some err | Inr count \<Rightarrow> None)"
  have "(case CountActiveSessions (d5, mt_count m) now of Inl err \<Rightarrow> Some ((0, Some err), d5) | Inr count \<Rightarrow> Some ((0::nat, None), d5)) = Some ((0, e6), d5)"
    by (simp add: e6_def split: sum.split)
  then have "cleanup_pass m shutdown now d = Some
      ([(''sessions'', cleanup_result shutdown e1, n1), (''auth_transactions'', cleanup_result shutdown e2, n2),
        (''protocol_artifacts'', cleanup_result shutdown e3, n3), (''refresh_artifacts'', cleanup_result shutdown e4, n4),
        (''logout_transactions'', cleanup_result shutdown e5, n5), (''active_sessions'', cleanup_result shutdown e6, 0)], d5)"
    by (simp add: cleanup_pass_def Let_def runCleanupOperation_def 1(1) 2(1) 3(1) 4(1) 5(1))
  then show ?thesis using kept clean 5(3) by blast
qed


text \<open>
  C31 (safety). A maintenance pass removes nothing that is still in force, and brings nothing back:
  whether its operations succeed or fail, the live sessions, pre-auth sessions, transactions,
  codes, families, generations and access tokens are the same rows after it as before, apart
  from back references to rows that are gone, and every other table but the audit trail is
  unchanged. The primary keys stay unique.
\<close>

theorem maintenance_keeps_live_rows:
  assumes "primary_keys d" "cleanup_pass m shutdown now d = Some (reports, d')"
  shows "live_view now d' = live_view now d \<and> primary_keys d'"
  using assms cleanup_pass_result[of m shutdown now d] by (auto simp: keeps_live_def)

text \<open>
  The refresh statements address only rows that nothing refers to, so that no foreign key
  can refuse them.
\<close>

lemma delete_batch_ids:
  "delete_batch p order k n t = (ids, t') \<Longrightarrow> i \<in> set ids \<Longrightarrow> \<exists>r\<in>set t. p r \<and> k r = i"
  by (auto simp: delete_batch_def Let_def dest: batch_keys_subset)

lemma DeleteRetiredRefreshTokens_succeeds: "\<exists>count d'. DeleteRetiredRefreshTokens cutoff n d = Inr (count, d')"
proof -
  obtain ids t where b: "delete_batch (retired_generation d cutoff)
            (\<lambda>g. (case select_one (\<lambda>f. fam_ID f = gen_FamilyID g) (refresh_token_families d) of
                    None \<Rightarrow> 0 | Some f \<Rightarrow> family_terminal_at f, gen_ID g))
            gen_ID n (refresh_tokens d) = (ids, t)" by fastforce
  have "acc_SourceRefreshTokenID a \<noteq> Some i" if "i \<in> set ids" "a \<in> set (access_tokens d)" for i a
    using delete_batch_ids[OF b that(1)] that(2) by (auto simp: retired_generation_def list_ex_iff)
  then show ?thesis unfolding DeleteRetiredRefreshTokens_def b by (auto simp: list_ex_iff)
qed

lemma DeleteRetiredRefreshTokenFamilies_succeeds:
  "\<exists>count d'. DeleteRetiredRefreshTokenFamilies cutoff n d = Inr (count, d')"
proof -
  obtain ids t where b: "delete_batch (retired_family d cutoff) (\<lambda>f. (family_terminal_at f, fam_ID f))
            fam_ID n (refresh_token_families d) = (ids, t)" by fastforce
  have "gen_FamilyID g \<noteq> i" if "i \<in> set ids" "g \<in> set (refresh_tokens d)" for i g
    using delete_batch_ids[OF b that(1)] that(2) by (auto simp: retired_family_def list_ex_iff)
  moreover have "acc_RefreshFamilyID a \<noteq> Some i" if "i \<in> set ids" "a \<in> set (access_tokens d)" for i a
    using delete_batch_ids[OF b that(1)] that(2) by (auto simp: retired_family_def list_ex_iff)
  ultimately show ?thesis unfolding DeleteRetiredRefreshTokenFamilies_def b by (auto simp: list_ex_iff)
qed

lemma refresh_round_succeeds:
  assumes "clean_attempt (env 0)"
  shows "\<exists>y d'. inTx env (\<lambda>_. cleanup_refresh_tx cutoff) d = (Inr y, d')"
proof -
  obtain x d1 y d2 where s: "DeleteRetiredRefreshTokens cutoff cleanupBatchSize d = Inr (x, d1)"
    "DeleteRetiredRefreshTokenFamilies cutoff cleanupBatchSize d1 = Inr (y, d2)"
    using DeleteRetiredRefreshTokens_succeeds DeleteRetiredRefreshTokenFamilies_succeeds by metis
  have "\<exists>z st. cleanup_refresh_tx cutoff (start_tx (env 0) d) = Inr (z, st)"
    using s assms by (simp add: cleanup_refresh_tx_def tx_eval clean_attempt_def)
  then show ?thesis using inTx_clean[of env "\<lambda>_. cleanup_refresh_tx cutoff" d] assms by blast
qed

text \<open>
  C33 (liveness). Cleaning up refresh families is never blocked by a reference to them: on a
  database that does not fail, \<^verbatim>\<open>CleanupRefreshArtifacts\<close> returns without an error, and no retired
  generation and no retired family is left.
\<close>

theorem refresh_cleanup_never_blocked:
  assumes "\<And>k. clean_attempt (envs k 0)"
  shows "\<exists>n d'. CleanupRefreshArtifacts envs cutoff d = Some ((n, None), d') \<and> refresh_clean cutoff d'"
proof -
  have cutoff: "cutoff = (cutoff + refreshArtifactRetention) - refreshArtifactRetention" by simp
  obtain n err d' where run: "batch_loop (\<lambda>k. inTx (envs k) (\<lambda>_. cleanup_refresh_tx cutoff)) 0 0 d = Some ((n, err), d')"
    "err = None \<longrightarrow> refresh_clean cutoff d'"
    using refresh_rounds.loop_result[of envs "cutoff + refreshArtifactRetention" d] cutoff by auto
  have "\<exists>y d'. inTx (envs k) (\<lambda>_. cleanup_refresh_tx cutoff) d = (Inr y, d')" for k d
    by (rule refresh_round_succeeds) (rule assms)
  then have "err = None"
    using refresh_rounds.loop_succeeds[of envs "cutoff + refreshArtifactRetention" 0 0 d n err d'] run(1) cutoff by simp
  with run show ?thesis by (auto simp: CleanupRefreshArtifacts_def)
qed

section \<open>Witnesses\<close>

definition sample_maintenance :: maintenance where
  "sample_maintenance = \<lparr>mt_sessions = (\<lambda>_. quiet sample_ids), mt_expiry = (\<lambda>_. quiet sample_ids),
     mt_retirement = (\<lambda>_. Committed), mt_protocol = (\<lambda>_. quiet sample_ids), mt_refresh = (\<lambda>_. quiet sample_ids),
     mt_logout = (\<lambda>_. quiet sample_ids), mt_count = None\<rparr>"

lemma quiet_loop:
  assumes "m (start_tx (quiet ids 0) d) = Inr ((n, False), (start_tx (quiet ids 0) d)\<lparr>st_db := d'\<rparr>)"
  shows "batch_loop (\<lambda>k. inTx (quiet ids) (\<lambda>_. m)) 0 0 d = Some ((n, None), d')"
  using inTx_clean[of "quiet ids" "\<lambda>_. m", OF clean_quiet assms] by (simp add: batch_loop.simps)

lemma paired_loop:
  assumes "s1 d = Inr (x, d1)" "s2 d1 = Inr (y, d2)" "f x y = (n, False)"
  shows "batch_loop (\<lambda>k. inTx (quiet ids) (\<lambda>_. tbind (exec_query op1 s1) (\<lambda>x. tbind (exec_query op2 s2) (\<lambda>y. treturn (f x y)))))
     0 0 d = Some ((n, None), d2)"
  by (rule quiet_loop) (simp add: tx_eval assms)

text \<open>
  Two days later maintenance removes the code of the sample installation; forty days later it
  removes the family and its generation.
\<close>

lemmas batch_eval = delete_batch_def batch_keys_def select_where_def delete_where_def Let_def cleanupBatchSize_def
  duration_defs stmt_def

lemma sample_session_Cleanup:
  "session_Cleanup (\<lambda>_. quiet sample_ids) (sample_now + 48 * Hour) sample_db = Some ((0, None), sample_db)"
  unfolding session_Cleanup_def CleanupSessions_def cleanup_sessions_tx_def
proof (rule paired_loop)
  show "DeleteExpiredPreAuthSessions (sample_now + 48 * Hour) cleanupBatchSize sample_db = Inr (0, sample_db)"
    by (simp add: DeleteExpiredPreAuthSessions_def batch_eval sample_db_def empty_db_def)
  show "DeleteRetiredLoginSessions (sample_now + 48 * Hour - 30 * 24 * Hour) cleanupBatchSize sample_db = Inr (0, sample_db)"
    by (simp add: DeleteRetiredLoginSessions_def retired_session_def batch_eval sample_db_def empty_db_def sample_session_def)
qed (simp add: cleanupBatchSize_def)

lemma sample_authflow_Cleanup:
  "authflow_Cleanup (\<lambda>_. quiet sample_ids) (\<lambda>_. Committed) now sample_db = Some ((0, None), sample_db)"
proof -
  have "ExpireAuthTransactions now cleanupBatchSize sample_db = Inr ([], sample_db)"
    by (simp add: ExpireAuthTransactions_def batch_eval update_checked_def update_where_def sample_db_def empty_db_def)
  then have "store_ExpireAuthTransactions (\<lambda>_. quiet sample_ids) now sample_db = Some ((0, None), sample_db)"
    unfolding store_ExpireAuthTransactions_def expire_tx_def
    by (intro quiet_loop) (simp add: tx_eval cleanupBatchSize_def)
  moreover have "DeleteRetiredAuthTransactions cutoff cleanupBatchSize sample_db = Inr (0, sample_db)" for cutoff
    by (simp add: DeleteRetiredAuthTransactions_def batch_eval sample_db_def empty_db_def)
  ultimately show ?thesis
    by (simp add: authflow_Cleanup_def CleanupAuthTransactions_def batch_loop.simps pool_exec_def stmt_def cleanupBatchSize_def)
qed

lemma sample_CleanupProtocolArtifacts:
  "CleanupProtocolArtifacts (\<lambda>_. quiet sample_ids) (sample_now + 48 * Hour - protocolArtifactRetention) sample_db =
     Some ((1, None), sample_db\<lparr>authorization_codes := []\<rparr>)"
  unfolding CleanupProtocolArtifacts_def cleanup_protocol_tx_def
proof (rule paired_loop)
  show "DeleteRetiredAuthorizationCodes (sample_now + 48 * Hour - protocolArtifactRetention) cleanupBatchSize sample_db =
      Inr (1, sample_db\<lparr>authorization_codes := []\<rparr>)"
    by (simp add: DeleteRetiredAuthorizationCodes_def batch_eval protocolArtifactRetention_def sample_db_def empty_db_def
        sample_code_def update_checked_def update_where_def sample_family_def)
  show "DeleteRetiredAccessTokens (sample_now + 48 * Hour - protocolArtifactRetention) cleanupBatchSize
      (sample_db\<lparr>authorization_codes := []\<rparr>) = Inr (0, sample_db\<lparr>authorization_codes := []\<rparr>)"
    by (simp add: DeleteRetiredAccessTokens_def batch_eval sample_db_def empty_db_def)
qed (simp add: cleanupBatchSize_def)

lemma sample_CleanupRefreshArtifacts:
  "CleanupRefreshArtifacts (\<lambda>_. quiet sample_ids) (sample_now + 48 * Hour - refreshArtifactRetention) (sample_db\<lparr>authorization_codes := []\<rparr>) =
     Some ((0, None), sample_db\<lparr>authorization_codes := []\<rparr>)"
  unfolding CleanupRefreshArtifacts_def cleanup_refresh_tx_def
proof (rule paired_loop)
  show "DeleteRetiredRefreshTokens (sample_now + 48 * Hour - refreshArtifactRetention) cleanupBatchSize (sample_db\<lparr>authorization_codes := []\<rparr>) =
      Inr (0, sample_db\<lparr>authorization_codes := []\<rparr>)"
    by (simp add: DeleteRetiredRefreshTokens_def batch_eval refreshArtifactRetention_def sample_db_def empty_db_def
        sample_family_def sample_generation_def retired_generation_def family_terminal_at_def)
  show "DeleteRetiredRefreshTokenFamilies (sample_now + 48 * Hour - refreshArtifactRetention) cleanupBatchSize
      (sample_db\<lparr>authorization_codes := []\<rparr>) = Inr (0, sample_db\<lparr>authorization_codes := []\<rparr>)"
    by (simp add: DeleteRetiredRefreshTokenFamilies_def batch_eval refreshArtifactRetention_def sample_db_def empty_db_def
        sample_family_def sample_generation_def retired_family_def family_terminal_at_def)
qed (simp add: cleanupBatchSize_def)

lemma sample_CleanupLogoutTransactions:
  "CleanupLogoutTransactions (\<lambda>_. quiet sample_ids) now cutoff (sample_db\<lparr>authorization_codes := []\<rparr>) =
     Some ((0, None), sample_db\<lparr>authorization_codes := []\<rparr>)"
proof -
  have "DeleteRetiredLogoutTransactions now cutoff cleanupBatchSize (sample_db\<lparr>authorization_codes := []\<rparr>) =
      Inr (0, sample_db\<lparr>authorization_codes := []\<rparr>)"
    by (simp add: DeleteRetiredLogoutTransactions_def batch_eval sample_db_def empty_db_def)
  then show ?thesis unfolding CleanupLogoutTransactions_def cleanup_logout_tx_def
    by (intro quiet_loop) (simp add: tx_eval cleanupBatchSize_def)
qed

lemma sample_cleanup_pass:
  "cleanup_pass sample_maintenance False (sample_now + 48 * Hour) sample_db = Some
     ([(''sessions'', ''success'', 0), (''auth_transactions'', ''success'', 0), (''protocol_artifacts'', ''success'', 1),
       (''refresh_artifacts'', ''success'', 0), (''logout_transactions'', ''success'', 0), (''active_sessions'', ''success'', 0)],
      sample_db\<lparr>authorization_codes := []\<rparr>)"
  by (simp add: cleanup_pass_def Let_def runCleanupOperation_def sample_maintenance_def sample_session_Cleanup
      sample_authflow_Cleanup sample_CleanupProtocolArtifacts sample_CleanupRefreshArtifacts
      sample_CleanupLogoutTransactions CountActiveSessions_def pool_read_def cleanup_result_def)

lemma cleanup_result_success: "cleanup_result shutdown err = ''success'' \<Longrightarrow> err = None"
  by (auto simp: cleanup_result_def split: option.splits if_splits)


theorem maintenance_keeps_live_rows_witness:
  "live_view (sample_now + 48 * Hour) (sample_db\<lparr>authorization_codes := []\<rparr>) = live_view (sample_now + 48 * Hour) sample_db \<and>
   primary_keys (sample_db\<lparr>authorization_codes := []\<rparr>)"
proof -
  have "primary_keys sample_db" by (simp add: primary_keys_def sample_db_def empty_db_def)
  from maintenance_keeps_live_rows[OF this sample_cleanup_pass] show ?thesis .
qed

theorem refresh_cleanup_never_blocked_witness:
  "\<exists>n d'. CleanupRefreshArtifacts (\<lambda>_. quiet sample_ids) (sample_now + 24 * Hour) sample_db = Some ((n, None), d') \<and>
     refresh_clean (sample_now + 24 * Hour) d'"
  by (rule refresh_cleanup_never_blocked) simp

end
