(* ===== verification/Access_Verification.thy ===== *)
theory Access_Verification
  imports Token_Revocation Authorization
begin

text \<open>
  The resource side of \<^verbatim>\<open>internal/token\<close>: verification of a presented access token, UserInfo
  (\<^verbatim>\<open>token.go\<close>), revocation and introspection requests (\<^verbatim>\<open>lifecycle.go\<close>). A signature alone
  grants nothing: every accepted token is matched against its stored row and the current user,
  client, grant and family.

  The JOSE library is a parameter: the record \<open>jose\<close> holds \<^verbatim>\<open>jose.ParseSignedCompact\<close>,
  \<^verbatim>\<open>JSONWebSignature.Verify\<close>, and the strict JSON decoding of the claims.
\<close>

section \<open>Signed tokens\<close>

text \<open>
  What the service looks at in a parsed object: the header of each signature, whose extra
  headers are a map from names to values (\<open>None\<close> for one that is not a string), and the text
  that the signature covers.
\<close>

record jose_Header =
  jh_Algorithm :: string
  jh_KeyID :: string
  jh_JSONWebKey :: bool
  jh_Nonce :: string
  jh_ExtraHeaders :: "(string \<times> string option) list"

record JSONWebSignature =
  js_Signatures :: "jose_Header list"
  js_Signed :: string

record rsa_PublicKey =
  rsa_N :: "nat option"
  rsa_E :: nat

record JSONWebKey =
  jwk_Key :: "rsa_PublicKey option"
  jwk_KeyID :: string
  jwk_Algorithm :: string
  jwk_Use :: string
  jwk_IsPublic :: bool

record jose =
  jo_ParseSignedCompact :: "string \<Rightarrow> JSONWebSignature option"
  jo_Verify :: "JSONWebSignature \<Rightarrow> rsa_PublicKey \<Rightarrow> string option"
  jo_DecodeClaims :: "string \<Rightarrow> AccessTokenClaims option"

text \<open>\<^verbatim>\<open>big.Int.BitLen\<close>.\<close>

fun BitLen :: "nat \<Rightarrow> nat" where
  "BitLen n = (if n = 0 then 0 else Suc (BitLen (n div 2)))"

declare BitLen.simps [simp del]

definition usable_key :: "string \<Rightarrow> JSONWebKey \<Rightarrow> bool" where
  "usable_key keyID candidate \<longleftrightarrow> jwk_KeyID candidate = keyID \<and> jwk_Algorithm candidate = ''RS256'' \<and>
     jwk_Use candidate = ''sig'' \<and> jwk_IsPublic candidate \<and>
     (case jwk_Key candidate of None \<Rightarrow> False
      | Some public \<Rightarrow> (case rsa_N public of None \<Rightarrow> False | Some n \<Rightarrow> BitLen n \<ge> 2048))"

text \<open>The loop over the published keys: a second match is refused.\<close>

fun verification_key :: "string \<Rightarrow> JSONWebKey list \<Rightarrow> rsa_PublicKey option \<Rightarrow> rsa_PublicKey option" where
  "verification_key keyID [] key = key"
| "verification_key keyID (candidate # rest) key =
     (if usable_key keyID candidate
      then (case key of Some _ \<Rightarrow> None | None \<Rightarrow> verification_key keyID rest (jwk_Key candidate))
      else verification_key keyID rest key)"

section \<open>Claims\<close>

text \<open>The int64 arithmetic of the lifetime check, and \<^verbatim>\<open>time.Unix(sec, 0)\<close>.\<close>

definition int64 :: "int \<Rightarrow> int" where
  "int64 x = (x + 2 ^ 63) mod 2 ^ 64 - 2 ^ 63"

definition time_Unix :: "int \<Rightarrow> time" where
  "time_Unix sec = int64 (sec + 62135596800) * Second"

definition lifetime_exceeded :: "AccessTokenClaims \<Rightarrow> bool" where
  "lifetime_exceeded claims \<longleftrightarrow>
     int64 (int64 (ac_ExpiresAt claims - ac_IssuedAt claims) * 1000000000) > 1800000000000"

text \<open>\<^verbatim>\<open>strings.Split(s, " ")\<close>.\<close>

fun strings_Split :: "string \<Rightarrow> char \<Rightarrow> string list" where
  "strings_Split [] sep = [[]]"
| "strings_Split (c # s) sep =
     (if c = sep then [] # strings_Split s sep
      else case strings_Split s sep of [] \<Rightarrow> [[c]] | part # parts \<Rightarrow> (c # part) # parts)"

definition parseScopeClaim :: "string \<Rightarrow> string list option" where
  "parseScopeClaim raw =
     (if raw = '''' \<or> \<not> TrimSpace_unchanged raw \<or> list_ex (\<lambda>c. c \<in> set [CHR 0x09, CHR 0x0D, CHR 0x0A]) raw then None
      else case CanonicalScopes (strings_Split raw CHR '' '') of
             None \<Rightarrow> None
           | Some canonical \<Rightarrow> if strings_Join canonical '' '' \<noteq> raw then None else Some canonical)"

definition maxCompactTokenBytes :: nat where "maxCompactTokenBytes = 16384"

definition claims_acceptable :: "TokenService \<Rightarrow> time \<Rightarrow> AccessTokenClaims \<Rightarrow> bool" where
  "claims_acceptable svc now claims \<longleftrightarrow>
     ac_Issuer claims = ts_issuer svc \<and> ac_Audience claims = ts_userinfoAudience svc \<and> ac_Subject claims \<noteq> '''' \<and>
     ac_ClientID claims \<noteq> '''' \<and> \<not> ac_IssuedAt claims \<le> 0 \<and> \<not> ac_ExpiresAt claims \<le> ac_IssuedAt claims \<and>
     \<not> time_Unix (ac_ExpiresAt claims) < now - ts_clockSkew svc \<and> \<not> time_Unix (ac_IssuedAt claims) > now + ts_clockSkew svc \<and>
     \<not> lifetime_exceeded claims \<and> validJTI (ac_JWTID claims) \<and>
     (case parseScopeClaim (ac_Scope claims) of None \<Rightarrow> False | Some scopes \<Rightarrow> ''openid'' \<in> set scopes)"

definition access_header_ok :: "jose_Header \<Rightarrow> bool" where
  "access_header_ok header \<longleftrightarrow> jh_Algorithm header = ''RS256'' \<and> jh_KeyID header \<noteq> '''' \<and> \<not> jh_JSONWebKey header \<and>
     jh_Nonce header = '''' \<and> map_of (jh_ExtraHeaders header) ''typ'' = Some (Some ''at+jwt'') \<and>
     length (jh_ExtraHeaders header) = 1"

definition verifyAccessToken ::
  "jose \<Rightarrow> JSONWebKey list \<Rightarrow> TokenService \<Rightarrow> string \<Rightarrow> time \<Rightarrow> AccessTokenClaims option" where
  "verifyAccessToken lib keys svc token now =
     (if token = '''' \<or> length token > maxCompactTokenBytes \<or> \<not> TrimSpace_unchanged token \<or>
         length (filter (\<lambda>c. c = CHR ''.'') token) \<noteq> 2
      then None
      else case jo_ParseSignedCompact lib token of
        None \<Rightarrow> None
      | Some object \<Rightarrow>
        (case js_Signatures object of
           [header] \<Rightarrow>
             if \<not> access_header_ok header then None
             else (case verification_key (jh_KeyID header) keys None of
                None \<Rightarrow> None
              | Some key \<Rightarrow>
                (case jo_Verify lib object key of
                   None \<Rightarrow> None
                 | Some payload \<Rightarrow>
                   (case jo_DecodeClaims lib payload of
                      None \<Rightarrow> None
                    | Some claims \<Rightarrow> if claims_acceptable svc now claims then Some claims else None)))
         | _ \<Rightarrow> None))"

section \<open>Matching the stored authority\<close>

definition access_family_matches :: "AccessToken \<Rightarrow> RefreshTokenFamily option \<Rightarrow> string list \<Rightarrow> time \<Rightarrow> bool" where
  "access_family_matches metadata family scopes now =
     (case acc_RefreshFamilyID metadata of
        None \<Rightarrow> family = None
      | Some fid \<Rightarrow>
        (case family of
           None \<Rightarrow> False
         | Some f \<Rightarrow>
           fam_ID f = fid \<and> fam_RevokedAt f = None \<and> now < fam_AbsoluteExpiresAt f \<and>
           fam_UserID f = acc_UserID metadata \<and> fam_ClientID f = acc_ClientID metadata \<and>
           fam_ConsentGrantID f = acc_ConsentGrantID metadata \<and>
           acc_SessionBindingID metadata = Some (fam_SessionBindingID f) \<and>
           (case CanonicalRefreshScopes (fam_Scopes f) of
              Inl _ \<Rightarrow> False | Inr familyScopes \<Rightarrow> scope_subset scopes familyScopes)))"

definition accessAuthorityMatches :: "TokenService \<Rightarrow> AccessAuthority \<Rightarrow> AccessTokenClaims \<Rightarrow> time \<Rightarrow> bool" where
  "accessAuthorityMatches svc authority claims now =
     (let metadata = aa_Metadata authority; user = aa_User authority; client = aa_Client authority; grant = aa_Grant authority in
      case CanonicalScopes (acc_Scopes metadata) of
        None \<Rightarrow> False
      | Some scopes \<Rightarrow>
        acc_ID metadata \<noteq> uuid_Nil \<and> acc_ConsentGrantID metadata \<noteq> uuid_Nil \<and> acc_RevokedAt metadata = None \<and>
        acc_UserID metadata \<noteq> uuid_Nil \<and> acc_ClientID metadata \<noteq> uuid_Nil \<and> length (acc_JtiHash metadata) = sha256_Size \<and>
        now < acc_ExpiresAt metadata \<and> \<not> IsZero (acc_IssuedAt metadata) \<and> acc_ExpiresAt metadata > acc_IssuedAt metadata \<and>
        usr_ID user = acc_UserID metadata \<and> usr_Status user = ''active'' \<and>
        cl_ID client = acc_ClientID metadata \<and> activeClient client \<and>
        grant_ID grant = acc_ConsentGrantID metadata \<and> grant_UserID grant = acc_UserID metadata \<and>
        grant_ClientID grant = acc_ClientID metadata \<and> \<not> grant_Version grant < 1 \<and> grant_RevokedAt grant = None \<and>
        (if acc_IssuanceSource metadata = ''authorization_code'' then acc_SourceRefreshTokenID metadata = None
         else acc_IssuanceSource metadata = ''refresh_token'' \<and> acc_AuthorizationCodeID metadata = None \<and>
              acc_SourceRefreshTokenID metadata \<noteq> None \<and> acc_RefreshFamilyID metadata \<noteq> None \<and>
              acc_SessionBindingID metadata \<noteq> None) \<and>
        access_family_matches metadata (aa_Family authority) scopes now \<and>
        parseScopeClaim (ac_Scope claims) = Some scopes \<and> scope_subset scopes (cl_Scopes client) \<and>
        Difference scopes (Intersection (grant_Scopes grant) (cl_Scopes client)) = [] \<and>
        ac_Issuer claims = ts_issuer svc \<and> ac_Audience claims = ts_userinfoAudience svc \<and>
        ac_Subject claims = usr_Subject user \<and> ac_ClientID claims = cl_ClientID client \<and>
        ac_IssuedAt claims = Unix (acc_IssuedAt metadata) \<and> ac_ExpiresAt claims = Unix (acc_ExpiresAt metadata) \<and>
        HashJTI (ac_JWTID claims) = acc_JtiHash metadata)"

section \<open>UserInfo\<close>

record UserInfo =
  ui_Subject :: string
  ui_Name :: "string option"
  ui_PreferredUsername :: "string option"
  ui_Email :: "string option"
  ui_EmailVerified :: "bool option"

definition applyUserInfoClaims :: "string list \<Rightarrow> User \<Rightarrow> UserInfo \<Rightarrow> UserInfo" where
  "applyUserInfoClaims scopes user claims =
     (let claims = (if ''profile'' \<in> set scopes
                    then claims\<lparr>ui_Name := Some (usr_DisplayName user), ui_PreferredUsername := Some (usr_Username user)\<rparr>
                    else claims)
      in if ''email'' \<in> set scopes
         then claims\<lparr>ui_Email := Some (usr_Email user), ui_EmailVerified := Some (usr_EmailVerified user)\<rparr>
         else claims)"

definition UserInfoForAccessToken ::
  "(nat \<Rightarrow> attempt) \<Rightarrow> jose \<Rightarrow> JSONWebKey list \<Rightarrow> TokenService \<Rightarrow> string \<Rightarrow> time \<Rightarrow> db \<Rightarrow> (go_error + UserInfo) \<times> db" where
  "UserInfoForAccessToken env lib keys svc token now d =
     (case verifyAccessToken lib keys svc token now of
        None \<Rightarrow> (Inl Token_ErrInvalidToken, d)
      | Some claims \<Rightarrow>
        (case GetAccessTokenAuthority env (HashJTI (ac_JWTID claims)) now d of
           (Inl err, d') \<Rightarrow> (Inl (if errors_Is err Token_ErrInvalidToken then Token_ErrInvalidToken else err), d')
         | (Inr authority, d') \<Rightarrow>
           if \<not> accessAuthorityMatches svc authority claims now then (Inl Token_ErrInvalidToken, d')
           else (Inr (applyUserInfoClaims (acc_Scopes (aa_Metadata authority)) (aa_User authority)
             \<lparr>ui_Subject = usr_Subject (aa_User authority), ui_Name = None, ui_PreferredUsername = None,
              ui_Email = None, ui_EmailVerified = None\<rparr>), d')))"

section \<open>Revocation requests\<close>

record RevocationInput =
  rvi_Client :: Client
  rvi_Token :: string
  rvi_Hint :: string
  rvi_RequestID :: string
  rvi_Now :: time

definition maxPresentedLifecycleTokenBytes :: nat where "maxPresentedLifecycleTokenBytes = 16384"

definition token_Revoke ::
  "(nat \<Rightarrow> attempt) \<Rightarrow> (nat \<Rightarrow> db \<times> pg_error option) \<Rightarrow> jose \<Rightarrow> JSONWebKey list \<Rightarrow> TokenService \<Rightarrow> RevocationInput \<Rightarrow> db \<Rightarrow>
   (go_error + unit) \<times> db" where
  "token_Revoke env pool lib keys svc input d =
     (if \<not> activeClient (rvi_Client input) \<or> IsZero (rvi_Now input) \<or> rvi_Token input = '''' \<or>
         length (rvi_Token input) > maxPresentedLifecycleTokenBytes \<or> \<not> TrimSpace_unchanged (rvi_Token input)
      then (Inr (), d)
      else
        let lookup = \<lparr>rl_Client = rvi_Client input,
              rl_AccessJTIHash = (case verifyAccessToken lib keys svc (rvi_Token input) (rvi_Now input) of
                None \<Rightarrow> '''' | Some claims \<Rightarrow> HashJTI (ac_JWTID claims)),
              rl_RefreshTokenHash = (case DigestPresentedRefreshToken (rvi_Token input) of None \<Rightarrow> '''' | Some digest \<Rightarrow> digest),
              rl_RequestID = rvi_RequestID input, rl_Now = rvi_Now input\<rparr>
        in if rl_AccessJTIHash lookup = '''' \<and> rl_RefreshTokenHash lookup = '''' then (Inr (), d)
           else RevokeToken env pool lookup d)"

section \<open>Introspection\<close>

record IntrospectionInput =
  ii_Client :: Client
  ii_Token :: string
  ii_Hint :: string
  ii_Now :: time

record IntrospectionResponse =
  isr_Active :: bool
  isr_TokenType :: string
  isr_ClientID :: string
  isr_Scope :: string
  isr_Subject :: string
  isr_Issuer :: string
  isr_Audience :: string
  isr_IssuedAt :: int
  isr_ExpiresAt :: int

definition inactive :: IntrospectionResponse where
  "inactive = \<lparr>isr_Active = False, isr_TokenType = '''', isr_ClientID = '''', isr_Scope = '''', isr_Subject = '''',
     isr_Issuer = '''', isr_Audience = '''', isr_IssuedAt = 0, isr_ExpiresAt = 0\<rparr>"

text \<open>The second component says whether the token was of the kind asked for (\<^verbatim>\<open>found\<close>).\<close>

definition introspectAccess ::
  "(nat \<Rightarrow> attempt) \<Rightarrow> jose \<Rightarrow> JSONWebKey list \<Rightarrow> TokenService \<Rightarrow> IntrospectionInput \<Rightarrow> db \<Rightarrow>
   (go_error + IntrospectionResponse \<times> bool) \<times> db" where
  "introspectAccess env lib keys svc input d =
     (case verifyAccessToken lib keys svc (ii_Token input) (ii_Now input) of
        None \<Rightarrow> (Inr (inactive, False), d)
      | Some claims \<Rightarrow>
        (case GetAccessTokenAuthority env (HashJTI (ac_JWTID claims)) (ii_Now input) d of
           (Inl err, d') \<Rightarrow> if errors_Is err Token_ErrInvalidToken then (Inr (inactive, True), d') else (Inl err, d')
         | (Inr authority, d') \<Rightarrow>
           if cl_ID (aa_Client authority) \<noteq> cl_ID (ii_Client input) \<or>
              cl_ClientID (aa_Client authority) \<noteq> cl_ClientID (ii_Client input) \<or>
              \<not> accessAuthorityMatches svc authority claims (ii_Now input)
           then (Inr (inactive, True), d')
           else
             let effective = Intersection (acc_Scopes (aa_Metadata authority))
                   (Intersection (grant_Scopes (aa_Grant authority)) (cl_Scopes (aa_Client authority)));
                 effective = (case aa_Family authority of None \<Rightarrow> effective | Some family \<Rightarrow> Intersection effective (fam_Scopes family))
             in if effective = [] \<or> ''openid'' \<notin> set effective then (Inr (inactive, True), d')
                else (Inr (\<lparr>isr_Active = True, isr_TokenType = ''Bearer'', isr_ClientID = cl_ClientID (aa_Client authority),
                  isr_Scope = strings_Join effective '' '', isr_Subject = usr_Subject (aa_User authority),
                  isr_Issuer = ts_issuer svc, isr_Audience = ts_userinfoAudience svc,
                  isr_IssuedAt = Unix (acc_IssuedAt (aa_Metadata authority)),
                  isr_ExpiresAt = Unix (acc_ExpiresAt (aa_Metadata authority))\<rparr>, True), d')))"

definition refresh_authority_live :: "RefreshTokenAuthority \<Rightarrow> Client \<Rightarrow> string \<Rightarrow> time \<Rightarrow> bool" where
  "refresh_authority_live authority client digest now =
     (let generation = rta_Generation authority; family = rta_Family authority; grant = rta_Grant authority in
      cl_ID (rta_Client authority) = cl_ID client \<and> cl_ClientID (rta_Client authority) = cl_ClientID client \<and>
      gen_ID generation \<noteq> uuid_Nil \<and> gen_FamilyID generation = fam_ID family \<and> gen_TokenHash generation = digest \<and>
      gen_ConsumedAt generation = None \<and> now < gen_ExpiresAt generation \<and> fam_RevokedAt family = None \<and>
      now < fam_AbsoluteExpiresAt family \<and>
      usr_ID (rta_User authority) = fam_UserID family \<and> usr_Status (rta_User authority) = ''active'' \<and>
      cl_ID (rta_Client authority) = fam_ClientID family \<and> activeClient (rta_Client authority) \<and>
      grant_ID grant = fam_ConsentGrantID family \<and> grant_UserID grant = fam_UserID family \<and>
      grant_ClientID grant = fam_ClientID family \<and> grant_RevokedAt grant = None \<and> \<not> grant_Version grant < 1)"

definition introspectRefresh ::
  "(nat \<Rightarrow> attempt) \<Rightarrow> TokenService \<Rightarrow> IntrospectionInput \<Rightarrow> db \<Rightarrow> (go_error + IntrospectionResponse \<times> bool) \<times> db" where
  "introspectRefresh env svc input d =
     (case DigestPresentedRefreshToken (ii_Token input) of
        None \<Rightarrow> (Inr (inactive, False), d)
      | Some digest \<Rightarrow>
        (case GetRefreshTokenAuthority env digest d of
           (Inl err, d') \<Rightarrow> if errors_Is err Token_ErrInvalidGrant then (Inr (inactive, True), d') else (Inl err, d')
         | (Inr authority, d') \<Rightarrow>
           if \<not> refresh_authority_live authority (ii_Client input) digest (ii_Now input) then (Inr (inactive, True), d')
           else
             (case SelectRefreshAccessScopes None (fam_Scopes (rta_Family authority)) (grant_Scopes (rta_Grant authority))
                     (cl_Scopes (rta_Client authority)) of
                Inl _ \<Rightarrow> (Inr (inactive, True), d')
              | Inr effective \<Rightarrow>
                (Inr (\<lparr>isr_Active = True, isr_TokenType = '''', isr_ClientID = cl_ClientID (rta_Client authority),
                  isr_Scope = strings_Join effective '' '', isr_Subject = usr_Subject (rta_User authority),
                  isr_Issuer = ts_issuer svc, isr_Audience = '''', isr_IssuedAt = Unix (gen_IssuedAt (rta_Generation authority)),
                  isr_ExpiresAt = Unix (gen_ExpiresAt (rta_Generation authority))\<rparr>, True), d'))))"

text \<open>A first lookup that did not find the token is followed by the other kind.\<close>

definition introspect_in_turn ::
  "(db \<Rightarrow> (go_error + IntrospectionResponse \<times> bool) \<times> db) \<Rightarrow> (db \<Rightarrow> (go_error + IntrospectionResponse \<times> bool) \<times> db) \<Rightarrow> db \<Rightarrow>
   (go_error + IntrospectionResponse) \<times> db" where
  "introspect_in_turn first second d =
     (case first d of
        (Inl err, d') \<Rightarrow> (Inl err, d')
      | (Inr (response, True), d') \<Rightarrow> (Inr response, d')
      | (Inr (_, False), d') \<Rightarrow>
        (case second d' of
           (Inl err, d'') \<Rightarrow> (Inl err, d'')
         | (Inr (response, True), d'') \<Rightarrow> (Inr response, d'')
         | (Inr (_, False), d'') \<Rightarrow> (Inr inactive, d'')))"

definition Introspect ::
  "(nat \<Rightarrow> attempt) \<Rightarrow> (nat \<Rightarrow> attempt) \<Rightarrow> jose \<Rightarrow> JSONWebKey list \<Rightarrow> TokenService \<Rightarrow> IntrospectionInput \<Rightarrow> db \<Rightarrow>
   (go_error + IntrospectionResponse) \<times> db" where
  "Introspect aenv renv lib keys svc input d =
     (if cl_Type (ii_Client input) \<noteq> ''confidential'' \<or> cl_AuthMethod (ii_Client input) \<noteq> ''client_secret_basic'' \<or>
         \<not> activeClient (ii_Client input) \<or> IsZero (ii_Now input) \<or> ii_Token input = '''' \<or>
         length (ii_Token input) > maxPresentedLifecycleTokenBytes \<or> \<not> TrimSpace_unchanged (ii_Token input)
      then (Inr inactive, d)
      else if ii_Hint input = ''refresh_token''
      then introspect_in_turn (introspectRefresh renv svc input) (introspectAccess aenv lib keys svc input) d
      else introspect_in_turn (introspectAccess aenv lib keys svc input) (introspectRefresh renv svc input) d)"

section \<open>The snapshots\<close>

definition access_authority_stored :: "db \<Rightarrow> string \<Rightarrow> time \<Rightarrow> AccessAuthority \<Rightarrow> bool" where
  "access_authority_stored d hash now authority \<longleftrightarrow>
     (let a = aa_Metadata authority in
      GetAccessTokenByJTIHash hash d = Some a \<and> now < acc_ExpiresAt a \<and>
      GetUserByID (acc_UserID a) d = Some (aa_User authority) \<and> usr_Status (aa_User authority) = ''active'' \<and>
      (\<exists>row. GetOIDCClientByID (acc_ClientID a) d = Some row \<and> aa_Client authority = client_value d row) \<and>
      cl_Status (aa_Client authority) = ''active'' \<and>
      GetConsentGrantByUserClient (acc_UserID a) (acc_ClientID a) d = Some (aa_Grant authority) \<and>
      grant_ID (aa_Grant authority) = acc_ConsentGrantID a \<and>
      (case acc_RefreshFamilyID a of None \<Rightarrow> aa_Family authority = None
       | Some fid \<Rightarrow> \<exists>f. aa_Family authority = Some f \<and> GetRefreshTokenFamilyByID fid d = Some f))"

definition refresh_authority_stored :: "db \<Rightarrow> string \<Rightarrow> RefreshTokenAuthority \<Rightarrow> bool" where
  "refresh_authority_stored d hash authority \<longleftrightarrow>
     (let g = rta_Generation authority; f = rta_Family authority in
      GetRefreshTokenByHash hash d = Some g \<and> GetRefreshTokenFamilyByID (gen_FamilyID g) d = Some f \<and>
      GetUserByID (fam_UserID f) d = Some (rta_User authority) \<and>
      (\<exists>row. GetOIDCClientByID (fam_ClientID f) d = Some row \<and> rta_Client authority = client_value d row) \<and>
      GetConsentGrantByUserClient (fam_UserID f) (fam_ClientID f) d = Some (rta_Grant authority) \<and>
      grant_ID (rta_Grant authority) = fam_ConsentGrantID f)"

lemma loadClient_run:
  assumes "tx_run (loadClient i) d c d'"
  obtains row where "GetOIDCClientByID i d = Some row" "c = client_value d row" "d' = d"
  using assms unfolding loadClient_def by (elim tx_elims loadClientChildren_run) blast

lemma access_authority_family_run:
  assumes "tx_run (access_authority_family a) d family d'"
  obtains "d' = d" "case acc_RefreshFamilyID a of None \<Rightarrow> family = None
       | Some fid \<Rightarrow> \<exists>f. family = Some f \<and> GetRefreshTokenFamilyByID fid d = Some f"
proof (cases "acc_RefreshFamilyID a")
  case None
  then have "tx_run (treturn None) d family d'" using assms by (simp add: access_authority_family_def)
  then show thesis using that None by (elim tx_elims) simp
next
  case (Some fid)
  have "d' = d \<and> (\<exists>f. family = Some f \<and> GetRefreshTokenFamilyByID fid d = Some f)"
    using assms unfolding access_authority_family_def Some option.case by (elim tx_elims) simp
  then show thesis using that Some by simp
qed

lemma access_authority_tx_run:
  assumes "tx_run (access_authority_tx hash now) d authority d'"
  shows "d' = d \<and> access_authority_stored d hash now authority"
  using assms unfolding access_authority_tx_def access_authority_stored_def Let_def
  by (elim tx_elims loadClient_run access_authority_family_run) (hypsubst_thin, simp cong: option.case_cong)

lemma refresh_authority_tx_run:
  assumes "tx_run (refresh_authority_tx hash) d authority d'"
  shows "d' = d \<and> refresh_authority_stored d hash authority"
  using assms unfolding refresh_authority_tx_def refresh_authority_stored_def Let_def
  by (elim tx_elims loadClient_run) (hypsubst_thin, simp)

lemma GetAccessTokenAuthority_read:
  assumes "GetAccessTokenAuthority env hash now d = (r, d')"
  shows "d' = d" "r = Inr authority \<Longrightarrow> access_authority_stored d hash now authority"
proof -
  show "d' = d"
    using assms access_authority_tx_run by (auto simp: GetAccessTokenAuthority_def split: if_splits dest!: inTx_effect)
  show "access_authority_stored d hash now authority" if "r = Inr authority"
    using assms access_authority_tx_run unfolding that
    by (auto simp: GetAccessTokenAuthority_def split: if_splits elim!: inTx_committed)
qed

lemma GetRefreshTokenAuthority_read:
  assumes "GetRefreshTokenAuthority env hash d = (r, d')"
  shows "d' = d" "r = Inr authority \<Longrightarrow> refresh_authority_stored d hash authority"
proof -
  show "d' = d"
    using assms refresh_authority_tx_run by (auto simp: GetRefreshTokenAuthority_def split: if_splits dest!: inTx_effect)
  show "refresh_authority_stored d hash authority" if "r = Inr authority"
    using assms refresh_authority_tx_run unfolding that
    by (auto simp: GetRefreshTokenAuthority_def split: if_splits elim!: inTx_committed)
qed

section \<open>Live authority\<close>

text \<open>
  The stored row \<open>a\<close> carries authority at \<open>now\<close>: it and everything it rests on is in force, and
  its scopes are among those the user granted, the client may ask for and the family carries.
\<close>

definition access_live :: "db \<Rightarrow> time \<Rightarrow> AccessToken \<Rightarrow> User \<Rightarrow> OidcClient \<Rightarrow> ConsentGrant \<Rightarrow> bool" where
  "access_live d now a user row grant \<longleftrightarrow>
     a \<in> set (access_tokens d) \<and> acc_RevokedAt a = None \<and> now < acc_ExpiresAt a \<and>
     GetUserByID (acc_UserID a) d = Some user \<and> usr_Status user = ''active'' \<and>
     GetOIDCClientByID (acc_ClientID a) d = Some row \<and> cl_Status row = ''active'' \<and>
     GetConsentGrantByUserClient (acc_UserID a) (acc_ClientID a) d = Some grant \<and>
     grant_ID grant = acc_ConsentGrantID a \<and> grant_RevokedAt grant = None \<and>
     set (acc_Scopes a) \<subseteq> set (grant_Scopes grant) \<inter> set (ListOIDCClientScopes (cl_ID row) d) \<and>
     (\<forall>fid. acc_RefreshFamilyID a = Some fid \<longrightarrow> (\<exists>f. GetRefreshTokenFamilyByID fid d = Some f \<and> fam_RevokedAt f = None \<and>
        now < fam_AbsoluteExpiresAt f \<and> set (acc_Scopes a) \<subseteq> set (fam_Scopes f)))"

text \<open>The claims of a token describe the stored row.\<close>

definition claims_describe :: "AccessTokenClaims \<Rightarrow> AccessToken \<Rightarrow> User \<Rightarrow> OidcClient \<Rightarrow> bool" where
  "claims_describe claims a user row \<longleftrightarrow>
     HashJTI (ac_JWTID claims) = acc_JtiHash a \<and> ac_Subject claims = usr_Subject user \<and> ac_ClientID claims = cl_ClientID row \<and>
     parseScopeClaim (ac_Scope claims) = CanonicalScopes (acc_Scopes a) \<and>
     ac_IssuedAt claims = Unix (acc_IssuedAt a) \<and> ac_ExpiresAt claims = Unix (acc_ExpiresAt a)"

lemma Difference_empty:
  assumes "Difference xs ys = []" "canonical_scopes xs"
  shows "set xs \<subseteq> set ys"
proof -
  have "set (Difference xs ys) = {}" using assms(1) by simp
  then show ?thesis using assms(2) by (auto simp: scope_sets canonical_scopes_def list_all_iff)
qed

lemma client_value_status: "cl_Status (client_value d row) = cl_Status row" "cl_ClientID (client_value d row) = cl_ClientID row"
  "cl_Scopes (client_value d row) = ListOIDCClientScopes (cl_ID row) d"
  by (simp_all add: client_value_def mapClient_def)

lemma access_family_live:
  assumes "access_family_matches a family scopes now"
    and "case acc_RefreshFamilyID a of None \<Rightarrow> family = None | Some fid \<Rightarrow> \<exists>f. family = Some f \<and> GetRefreshTokenFamilyByID fid d = Some f"
    and "acc_RefreshFamilyID a = Some fid"
  obtains f where "GetRefreshTokenFamilyByID fid d = Some f" "family = Some f" "fam_RevokedAt f = None" "now < fam_AbsoluteExpiresAt f"
    "set scopes \<subseteq> set (fam_Scopes f)"
proof -
  obtain f where stored: "GetRefreshTokenFamilyByID fid d = Some f" "family = Some f" using assms(2,3) by auto
  obtain familyScopes where f: "GetRefreshTokenFamilyByID fid d = Some f" "family = Some f" "fam_RevokedAt f = None"
    "now < fam_AbsoluteExpiresAt f" "CanonicalRefreshScopes (fam_Scopes f) = Inr familyScopes" "scope_subset scopes familyScopes"
    using assms(1,3) stored by (cases "CanonicalRefreshScopes (fam_Scopes f)") (auto simp: access_family_matches_def)
  have "set familyScopes = set (fam_Scopes f)"
    using f(5) CanonicalScopes_canonical[of "fam_Scopes f"] by (auto simp: CanonicalRefreshScopes_def split: option.splits if_splits)
  then show thesis using that f by (auto simp: scope_subset_iff)
qed

lemma accepted_authority:
  assumes "access_authority_stored d hash now authority" "accessAuthorityMatches svc authority claims now"
  obtains row where "aa_Client authority = client_value d row"
    "access_live d now (aa_Metadata authority) (aa_User authority) row (aa_Grant authority)"
    "claims_describe claims (aa_Metadata authority) (aa_User authority) row"
proof -
  define a where "a = aa_Metadata authority"
  obtain row where stored: "GetAccessTokenByJTIHash hash d = Some a" "now < acc_ExpiresAt a"
    "GetUserByID (acc_UserID a) d = Some (aa_User authority)" "usr_Status (aa_User authority) = ''active''"
    "GetOIDCClientByID (acc_ClientID a) d = Some row" "aa_Client authority = client_value d row" "cl_Status row = ''active''"
    "GetConsentGrantByUserClient (acc_UserID a) (acc_ClientID a) d = Some (aa_Grant authority)"
    "grant_ID (aa_Grant authority) = acc_ConsentGrantID a"
    and family: "case acc_RefreshFamilyID a of None \<Rightarrow> aa_Family authority = None
       | Some fid \<Rightarrow> \<exists>f. aa_Family authority = Some f \<and> GetRefreshTokenFamilyByID fid d = Some f"
    using assms(1) unfolding access_authority_stored_def Let_def a_def[symmetric] by (auto simp: client_value_status)
  obtain scopes where m: "CanonicalScopes (acc_Scopes a) = Some scopes" "acc_RevokedAt a = None" "grant_RevokedAt (aa_Grant authority) = None"
    "access_family_matches a (aa_Family authority) scopes now" "parseScopeClaim (ac_Scope claims) = Some scopes"
    "Difference scopes (Intersection (grant_Scopes (aa_Grant authority)) (cl_Scopes (aa_Client authority))) = []"
    "ac_Subject claims = usr_Subject (aa_User authority)" "ac_ClientID claims = cl_ClientID (aa_Client authority)"
    "ac_IssuedAt claims = Unix (acc_IssuedAt a)" "ac_ExpiresAt claims = Unix (acc_ExpiresAt a)" "HashJTI (ac_JWTID claims) = acc_JtiHash a"
    using assms(2) unfolding accessAuthorityMatches_def Let_def a_def[symmetric] by (auto split: option.splits)
  have scopes: "set scopes = set (acc_Scopes a)" using CanonicalScopes_canonical[OF m(1)] by blast
  have "set (acc_Scopes a) \<subseteq> set (grant_Scopes (aa_Grant authority)) \<inter> set (ListOIDCClientScopes (cl_ID row) d)"
    using Difference_empty[OF m(6) conjunct1[OF CanonicalScopes_canonical[OF m(1)]]]
    by (auto simp: scopes scope_sets stored(6) client_value_status)
  moreover have "\<exists>f. GetRefreshTokenFamilyByID fid d = Some f \<and> fam_RevokedAt f = None \<and>
        now < fam_AbsoluteExpiresAt f \<and> set (acc_Scopes a) \<subseteq> set (fam_Scopes f)" if "acc_RefreshFamilyID a = Some fid" for fid
    using access_family_live[OF m(4) family that] scopes by metis
  moreover have "a \<in> set (access_tokens d)" using stored(1) by (auto simp: GetAccessTokenByJTIHash_def)
  ultimately have "access_live d now a (aa_User authority) row (aa_Grant authority)"
    using stored m(2,3) by (simp add: access_live_def)
  moreover have "claims_describe claims a (aa_User authority) row"
    using m stored(6) by (simp add: claims_describe_def client_value_status)
  ultimately show thesis using that stored(6) unfolding a_def by blast
qed

section \<open>Properties\<close>

text \<open>
  C34 (safety). UserInfo answers only for authority that is in force when it is asked, however
  valid the signature: the presented token verifies, its identifier belongs to a stored access
  token that is neither revoked nor expired, whose user and client are active, whose grant is
  not revoked and whose family, if it has one, is live; the token's claims describe that row;
  and its scopes are within those of the grant, the client and the family. The answer is the
  subject of that user, with profile and email claims only for those scopes, and nothing is
  written.
\<close>

theorem userinfo_needs_live_authority:
  assumes "UserInfoForAccessToken env lib keys svc token now d = (Inr info, d')"
  shows "d' = d \<and> (\<exists>claims a user row grant.
    verifyAccessToken lib keys svc token now = Some claims \<and> access_live d now a user row grant \<and>
    claims_describe claims a user row \<and> ui_Subject info = usr_Subject user \<and>
    (ui_Name info, ui_PreferredUsername info) =
      (if ''profile'' \<in> set (acc_Scopes a) then (Some (usr_DisplayName user), Some (usr_Username user)) else (None, None)) \<and>
    (ui_Email info, ui_EmailVerified info) =
      (if ''email'' \<in> set (acc_Scopes a) then (Some (usr_Email user), Some (usr_EmailVerified user)) else (None, None)))"
proof -
  obtain claims authority where run: "verifyAccessToken lib keys svc token now = Some claims"
    "GetAccessTokenAuthority env (HashJTI (ac_JWTID claims)) now d = (Inr authority, d')"
    "accessAuthorityMatches svc authority claims now"
    and info: "info = applyUserInfoClaims (acc_Scopes (aa_Metadata authority)) (aa_User authority)
             \<lparr>ui_Subject = usr_Subject (aa_User authority), ui_Name = None, ui_PreferredUsername = None,
              ui_Email = None, ui_EmailVerified = None\<rparr>"
    using assms by (auto simp: UserInfoForAccessToken_def split: option.splits prod.splits sum.splits if_splits)
  obtain row where "access_live d now (aa_Metadata authority) (aa_User authority) row (aa_Grant authority)"
    "claims_describe claims (aa_Metadata authority) (aa_User authority) row"
    using accepted_authority[OF GetAccessTokenAuthority_read(2)[OF run(2) refl] run(3)] by blast
  moreover have "d' = d" by (rule GetAccessTokenAuthority_read(1)[OF run(2)])
  moreover have "ui_Subject info = usr_Subject (aa_User authority)"
    "(ui_Name info, ui_PreferredUsername info) = (if ''profile'' \<in> set (acc_Scopes (aa_Metadata authority))
       then (Some (usr_DisplayName (aa_User authority)), Some (usr_Username (aa_User authority))) else (None, None))"
    "(ui_Email info, ui_EmailVerified info) = (if ''email'' \<in> set (acc_Scopes (aa_Metadata authority))
       then (Some (usr_Email (aa_User authority)), Some (usr_EmailVerified (aa_User authority))) else (None, None))"
    unfolding info applyUserInfoClaims_def Let_def by simp_all
  ultimately show ?thesis using run(1) by blast
qed

text \<open>A generation that is current, of a live family, for an active user, client and grant.\<close>

definition refresh_live :: "db \<Rightarrow> time \<Rightarrow> RefreshToken \<Rightarrow> RefreshTokenFamily \<Rightarrow> User \<Rightarrow> OidcClient \<Rightarrow> ConsentGrant \<Rightarrow> bool" where
  "refresh_live d now g f user row grant \<longleftrightarrow>
     g \<in> set (refresh_tokens d) \<and> gen_ConsumedAt g = None \<and> now < gen_ExpiresAt g \<and>
     GetRefreshTokenFamilyByID (gen_FamilyID g) d = Some f \<and> fam_RevokedAt f = None \<and> now < fam_AbsoluteExpiresAt f \<and>
     GetUserByID (fam_UserID f) d = Some user \<and> usr_Status user = ''active'' \<and>
     GetOIDCClientByID (fam_ClientID f) d = Some row \<and> cl_Status row = ''active'' \<and>
     GetConsentGrantByUserClient (fam_UserID f) (fam_ClientID f) d = Some grant \<and>
     grant_ID grant = fam_ConsentGrantID f \<and> grant_RevokedAt grant = None"

definition access_introspected ::
  "jose \<Rightarrow> JSONWebKey list \<Rightarrow> TokenService \<Rightarrow> IntrospectionInput \<Rightarrow> db \<Rightarrow> IntrospectionResponse \<Rightarrow> bool" where
  "access_introspected lib keys svc input d response \<longleftrightarrow>
     (\<exists>claims a user row grant. verifyAccessToken lib keys svc (ii_Token input) (ii_Now input) = Some claims \<and>
        access_live d (ii_Now input) a user row grant \<and> claims_describe claims a user row \<and>
        cl_ID row = cl_ID (ii_Client input) \<and>
        response = \<lparr>isr_Active = True, isr_TokenType = ''Bearer'', isr_ClientID = cl_ClientID row,
          isr_Scope = ac_Scope claims, isr_Subject = usr_Subject user, isr_Issuer = ts_issuer svc,
          isr_Audience = ts_userinfoAudience svc, isr_IssuedAt = ac_IssuedAt claims, isr_ExpiresAt = ac_ExpiresAt claims\<rparr>)"

definition refresh_introspected :: "TokenService \<Rightarrow> IntrospectionInput \<Rightarrow> db \<Rightarrow> IntrospectionResponse \<Rightarrow> bool" where
  "refresh_introspected svc input d response \<longleftrightarrow>
     (\<exists>digest g f user row grant scopes. DigestPresentedRefreshToken (ii_Token input) = Some digest \<and> gen_TokenHash g = digest \<and>
        refresh_live d (ii_Now input) g f user row grant \<and> cl_ID row = cl_ID (ii_Client input) \<and>
        set scopes \<subseteq> set (fam_Scopes f) \<inter> set (grant_Scopes grant) \<inter> set (ListOIDCClientScopes (cl_ID row) d) \<and>
        response = \<lparr>isr_Active = True, isr_TokenType = '''', isr_ClientID = cl_ClientID row,
          isr_Scope = strings_Join scopes '' '', isr_Subject = usr_Subject user, isr_Issuer = ts_issuer svc,
          isr_Audience = '''', isr_IssuedAt = Unix (gen_IssuedAt g), isr_ExpiresAt = Unix (gen_ExpiresAt g)\<rparr>)"

lemma parseScopeClaim_Some: "parseScopeClaim raw = Some scopes \<Longrightarrow> strings_Join scopes '' '' = raw"
  by (auto simp: parseScopeClaim_def split: if_splits option.splits)

text \<open>The scopes reported for a live access token are those of its claim.\<close>

lemma effective_scopes:
  assumes live: "access_live d now a user row grant" and scopes: "CanonicalScopes (acc_Scopes a) = Some scopes"
    and family: "acc_RefreshFamilyID a = None \<longrightarrow> family = None"
      "\<And>fid. acc_RefreshFamilyID a = Some fid \<Longrightarrow> GetRefreshTokenFamilyByID fid d = family"
  shows "(case family of None \<Rightarrow> Intersection (acc_Scopes a) (Intersection (grant_Scopes grant) (ListOIDCClientScopes (cl_ID row) d))
     | Some f \<Rightarrow> Intersection (Intersection (acc_Scopes a) (Intersection (grant_Scopes grant) (ListOIDCClientScopes (cl_ID row) d)))
         (fam_Scopes f)) = scopes" (is "?effective = scopes")
proof -
  have canonical: "canonical_scopes scopes" "set scopes = set (acc_Scopes a)" using CanonicalScopes_canonical[OF scopes] by blast+
  have within: "set scopes \<subseteq> set (grant_Scopes grant) \<inter> set (ListOIDCClientScopes (cl_ID row) d)"
    using live by (simp add: access_live_def canonical(2))
  have famwithin: "set scopes \<subseteq> set (fam_Scopes f)" if "family = Some f" for f
  proof (cases "acc_RefreshFamilyID a")
    case None
    then show ?thesis using family(1) that by simp
  next
    case (Some fid)
    then show ?thesis using live family(2)[OF Some] that by (auto simp: access_live_def canonical(2))
  qed
  have supported: "scope_supported s" if "s \<in> set scopes" for s
    using canonical(1) that by (auto simp: canonical_scopes_def list_all_iff)
  have "sorted ?effective" "distinct ?effective"
    by (cases family; simp add: scope_listing)+
  moreover have "set ?effective = set scopes"
    using within famwithin supported by (cases family) (auto simp: scope_sets canonical(2)[symmetric])
  ultimately show ?thesis using canonical(1) by (intro sorted_distinct_set_unique) (auto simp: canonical_scopes_def)
qed

lemma introspectAccess_Inr:
  assumes "introspectAccess env lib keys svc input d = (r, d')"
  shows "d' = d" "r = Inr (response, found) \<Longrightarrow> response = inactive \<or> found \<and> access_introspected lib keys svc input d response"
proof -
  show "d' = d"
    using assms by (auto simp: introspectAccess_def Let_def split: option.splits prod.splits sum.splits if_splits
        dest: GetAccessTokenAuthority_read(1))
  assume r: "r = Inr (response, found)"
  show "response = inactive \<or> found \<and> access_introspected lib keys svc input d response"
  proof (cases "response = inactive")
    case False
    let ?eff = "\<lambda>au. let effective = Intersection (acc_Scopes (aa_Metadata au))
                   (Intersection (grant_Scopes (aa_Grant au)) (cl_Scopes (aa_Client au)))
             in case aa_Family au of None \<Rightarrow> effective | Some family \<Rightarrow> Intersection effective (fam_Scopes family)"
    obtain claims au where run: "verifyAccessToken lib keys svc (ii_Token input) (ii_Now input) = Some claims"
      "GetAccessTokenAuthority env (HashJTI (ac_JWTID claims)) (ii_Now input) d = (Inr au, d')"
      and own: "cl_ID (aa_Client au) = cl_ID (ii_Client input)" "accessAuthorityMatches svc au claims (ii_Now input)"
      and found: found and resp: "response = \<lparr>isr_Active = True, isr_TokenType = ''Bearer'', isr_ClientID = cl_ClientID (aa_Client au),
                  isr_Scope = strings_Join (?eff au) '' '', isr_Subject = usr_Subject (aa_User au),
                  isr_Issuer = ts_issuer svc, isr_Audience = ts_userinfoAudience svc,
                  isr_IssuedAt = Unix (acc_IssuedAt (aa_Metadata au)),
                  isr_ExpiresAt = Unix (acc_ExpiresAt (aa_Metadata au))\<rparr>"
      using assms False unfolding r introspectAccess_def Let_def
      by (auto split: option.splits prod.splits sum.splits if_splits)
    have stored: "access_authority_stored d (HashJTI (ac_JWTID claims)) (ii_Now input) au"
      by (rule GetAccessTokenAuthority_read(2)[OF run(2) refl])
    obtain row where row: "aa_Client au = client_value d row"
      "access_live d (ii_Now input) (aa_Metadata au) (aa_User au) row (aa_Grant au)"
      "claims_describe claims (aa_Metadata au) (aa_User au) row"
      using accepted_authority[OF stored own(2)] by blast
    obtain scopes where scopes: "parseScopeClaim (ac_Scope claims) = Some scopes" "CanonicalScopes (acc_Scopes (aa_Metadata au)) = Some scopes"
      using own(2) unfolding accessAuthorityMatches_def Let_def by (auto split: option.splits)
    have family: "acc_RefreshFamilyID (aa_Metadata au) = None \<longrightarrow> aa_Family au = None"
      "acc_RefreshFamilyID (aa_Metadata au) = Some fid \<Longrightarrow> GetRefreshTokenFamilyByID fid d = aa_Family au" for fid
      using stored unfolding access_authority_stored_def Let_def by auto
    have "?eff au = scopes"
      using effective_scopes[OF row(2) scopes(2) family] by (simp add: row(1) client_value_status Let_def)
    then have "isr_Scope response = ac_Scope claims" using parseScopeClaim_Some[OF scopes(1)] by (simp add: resp)
    then have "access_introspected lib keys svc input d response"
      unfolding access_introspected_def using run(1) row own(1) resp
      by (intro exI[of _ claims] exI[of _ "aa_Metadata au"] exI[of _ "aa_User au"] exI[of _ row] exI[of _ "aa_Grant au"])
        (simp add: client_value_status claims_describe_def)
    then show ?thesis using found by blast
  qed simp
qed

lemma introspectRefresh_Inr:
  assumes "introspectRefresh env svc input d = (r, d')"
  shows "d' = d" "r = Inr (response, found) \<Longrightarrow> response = inactive \<or> found \<and> refresh_introspected svc input d response"
proof -
  show "d' = d"
    using assms by (auto simp: introspectRefresh_def split: option.splits prod.splits sum.splits if_splits
        dest: GetRefreshTokenAuthority_read(1))
  assume r: "r = Inr (response, found)"
  show "response = inactive \<or> found \<and> refresh_introspected svc input d response"
  proof (cases "response = inactive")
    case False
    obtain digest au scopes where run: "DigestPresentedRefreshToken (ii_Token input) = Some digest"
      "GetRefreshTokenAuthority env digest d = (Inr au, d')"
      and live: "refresh_authority_live au (ii_Client input) digest (ii_Now input)"
      and scopes: "SelectRefreshAccessScopes None (fam_Scopes (rta_Family au)) (grant_Scopes (rta_Grant au)) (cl_Scopes (rta_Client au)) = Inr scopes"
      and found: found and resp: "response = \<lparr>isr_Active = True, isr_TokenType = '''', isr_ClientID = cl_ClientID (rta_Client au),
                  isr_Scope = strings_Join scopes '' '', isr_Subject = usr_Subject (rta_User au),
                  isr_Issuer = ts_issuer svc, isr_Audience = '''', isr_IssuedAt = Unix (gen_IssuedAt (rta_Generation au)),
                  isr_ExpiresAt = Unix (gen_ExpiresAt (rta_Generation au))\<rparr>"
      using assms False unfolding r introspectRefresh_def
      by (auto split: option.splits prod.splits sum.splits if_splits)
    obtain row where row: "rta_Client au = client_value d row" "GetOIDCClientByID (fam_ClientID (rta_Family au)) d = Some row"
      and stored: "refresh_authority_stored d digest au"
      using GetRefreshTokenAuthority_read(2)[OF run(2) refl] by (auto simp: refresh_authority_stored_def Let_def)
    have "rta_Generation au \<in> set (refresh_tokens d)"
      using stored by (auto simp: refresh_authority_stored_def Let_def GetRefreshTokenByHash_def)
    then have "refresh_live d (ii_Now input) (rta_Generation au) (rta_Family au) (rta_User au) row (rta_Grant au)"
      using stored live row
      by (auto simp: refresh_live_def refresh_authority_stored_def refresh_authority_live_def Let_def activeClient_def client_value_status)
    moreover have "cl_ID row = cl_ID (ii_Client input)" "gen_TokenHash (rta_Generation au) = digest"
      using live row(1) by (simp_all add: refresh_authority_live_def Let_def)
    moreover have "set scopes \<subseteq> set (fam_Scopes (rta_Family au)) \<inter> set (grant_Scopes (rta_Grant au)) \<inter> set (ListOIDCClientScopes (cl_ID row) d)"
      using SelectRefreshAccessScopes_Inr(2)[OF scopes] by (simp add: row(1) client_value_status)
    ultimately have "refresh_introspected svc input d response"
      unfolding refresh_introspected_def using run(1) resp row(1)
      by (intro exI[of _ digest] exI[of _ "rta_Generation au"] exI[of _ "rta_Family au"] exI[of _ "rta_User au"] exI[of _ row]
          exI[of _ "rta_Grant au"] exI[of _ scopes]) (simp add: client_value_status)
    then show ?thesis using found by blast
  qed simp
qed

lemma introspect_in_turn_Inr:
  assumes "introspect_in_turn first second d = (Inr response, d')"
    and "\<And>d r d'. first d = (r, d') \<Longrightarrow> d' = d" "\<And>d r d'. second d = (r, d') \<Longrightarrow> d' = d"
  shows "d' = d \<and> (response = inactive \<or> (\<exists>found. first d = (Inr (response, found), d)) \<or> (\<exists>found. second d = (Inr (response, found), d)))"
  using assms(1) assms(2,3)[of d] unfolding introspect_in_turn_def
  by (cases "first d"; cases "second d") (auto split: sum.splits bool.splits)

text \<open>
  C35 (safety). Introspection tells the truth, and tells it only to the owner: an active answer is
  given to an active confidential client that owns the token, about an access token that carries
  live authority, with exactly the scope, subject and times of the token's own claims, or about
  the current generation of a live refresh family, with scopes within those of the family, the
  grant and the client. Every other answer is the same empty inactive response, and nothing is
  written.
\<close>

theorem introspection_is_truthful:
  assumes "Introspect aenv renv lib keys svc input d = (Inr response, d')"
  shows "d' = d \<and> (if isr_Active response
    then cl_Type (ii_Client input) = ''confidential'' \<and> activeClient (ii_Client input) \<and>
      (access_introspected lib keys svc input d response \<or> refresh_introspected svc input d response)
    else response = inactive)"
proof (cases "response = inactive \<and> d' = d")
  case True
  then show ?thesis by (simp add: inactive_def)
next
  case False
  let ?a = "introspectAccess aenv lib keys svc input" and ?r = "introspectRefresh renv svc input"
  have client: "cl_Type (ii_Client input) = ''confidential''" "activeClient (ii_Client input)"
    and turn: "introspect_in_turn ?r ?a d = (Inr response, d') \<or> introspect_in_turn ?a ?r d = (Inr response, d')"
    using assms False by (auto simp: Introspect_def split: if_splits)
  note frame = introspectAccess_Inr(1)[of aenv lib keys svc input] introspectRefresh_Inr(1)[of renv svc input]
  have res: "d' = d \<and> (response = inactive \<or> (\<exists>found. ?a d = (Inr (response, found), d)) \<or> (\<exists>found. ?r d = (Inr (response, found), d)))"
    using turn introspect_in_turn_Inr[of ?a ?r d response d'] introspect_in_turn_Inr[of ?r ?a d response d'] frame by blast
  then have "access_introspected lib keys svc input d response \<or> refresh_introspected svc input d response"
    using False introspectAccess_Inr(2)[OF _ refl] introspectRefresh_Inr(2)[OF _ refl] by metis
  moreover from this have "isr_Active response" by (auto simp: access_introspected_def refresh_introspected_def)
  ultimately show ?thesis using res client by simp
qed

section \<open>A fresh token\<close>

text \<open>The names of the supported scopes are words without spaces, so that a scope claim parses to its list.\<close>

definition word_char :: "char \<Rightarrow> bool" where
  "word_char c \<longleftrightarrow> (let n = of_char c :: nat in n = 45 \<or> n = 95 \<or> 48 \<le> n \<and> n \<le> 57 \<or> 65 \<le> n \<and> n \<le> 90 \<or> 97 \<le> n \<and> n \<le> 122)"

definition scope_word :: "string \<Rightarrow> bool" where
  "scope_word w \<longleftrightarrow> w \<noteq> [] \<and> list_all word_char w"

lemma supported_scope_word: "scope_supported s \<Longrightarrow> scope_word s"
  by (auto simp: scope_supported_def scope_word_def word_char_def)

lemma space_runes_not_words: "r \<in> set space_runes \<Longrightarrow> r \<noteq> [] \<and> \<not> word_char (hd r) \<and> \<not> word_char (last r)"
  by (auto simp: space_runes_def word_char_def Let_def)

lemma HasPrefix_hd: "HasPrefix s p \<Longrightarrow> p \<noteq> [] \<Longrightarrow> hd s = hd p"
  by (cases p; cases s) (auto simp: HasPrefix_def)

lemma TrimSpace_unchanged_words:
  assumes "word_char (hd s)" "word_char (last s)"
  shows "TrimSpace_unchanged s"
proof -
  have "\<not> HasPrefix s r \<and> \<not> HasPrefix (rev s) (rev r)" if "r \<in> set space_runes" for r
    using space_runes_not_words[OF that] assms HasPrefix_hd[of s r] HasPrefix_hd[of "rev s" "rev r"] by (auto simp: hd_rev)
  then show ?thesis by (auto simp: TrimSpace_unchanged_def starts_with_space_def ends_with_space_def)
qed

lemma Join_words:
  assumes "list_all scope_word ws" "ws \<noteq> []"
  shows "strings_Join ws '' '' \<noteq> []" "hd (strings_Join ws '' '') = hd (hd ws)" "last (strings_Join ws '' '') = last (last ws)"
    "set (strings_Join ws '' '') \<subseteq> {CHR '' ''} \<union> (\<Union>w\<in>set ws. set w)"
  using assms by (induction ws "'' ''" rule: strings_Join.induct) (auto simp: scope_word_def hd_append)

lemma Split_word: "list_all word_char w \<Longrightarrow> strings_Split (w @ CHR '' '' # rest) CHR '' '' = w # strings_Split rest CHR '' ''"
  "list_all word_char w \<Longrightarrow> strings_Split w CHR '' '' = [w]"
  by (induction w) (auto simp: word_char_def)

lemma Split_Join: "list_all scope_word ws \<Longrightarrow> ws \<noteq> [] \<Longrightarrow> strings_Split (strings_Join ws '' '') CHR '' '' = ws"
  by (induction ws "'' ''" rule: strings_Join.induct) (auto simp: scope_word_def Split_word)

lemma parseScopeClaim_Join:
  assumes "canonical_scopes s"
  shows "parseScopeClaim (strings_Join s '' '') = Some s"
proof -
  have words: "list_all scope_word s" "s \<noteq> []"
    using assms supported_scope_word by (auto simp: canonical_scopes_def list_all_iff)
  note join = Join_words[OF words]
  have "scope_word (hd s)" "scope_word (last s)" using words by (simp_all add: list_all_iff)
  then have "word_char (hd (hd s))" "word_char (last (last s))" by (simp_all add: scope_word_def list_all_iff)
  then have "TrimSpace_unchanged (strings_Join s '' '')" by (intro TrimSpace_unchanged_words) (simp_all add: join)
  moreover have "\<not> list_ex (\<lambda>c. c \<in> set [CHR 0x09, CHR 0x0D, CHR 0x0A]) (strings_Join s '' '')"
  proof
    assume "list_ex (\<lambda>c. c \<in> set [CHR 0x09, CHR 0x0D, CHR 0x0A]) (strings_Join s '' '')"
    then obtain c where c: "c \<in> set (strings_Join s '' '')" "c \<in> {CHR 0x09, CHR 0x0D, CHR 0x0A}" by (auto simp: list_ex_iff)
    then have "c = CHR '' '' \<or> word_char c" using join(4) words(1) by (auto simp: list_all_iff scope_word_def)
    then show False using c(2) by (auto simp: word_char_def)
  qed
  ultimately show ?thesis
    unfolding parseScopeClaim_def using join(1) CanonicalScopes_fixed[OF assms] Split_Join[OF words] by simp
qed

lemma int64_id: "- (2 ^ 63) \<le> x \<Longrightarrow> x < 2 ^ 63 \<Longrightarrow> int64 x = x"
  by (simp add: int64_def)

text \<open>
  The library accepts a token with the given claims: a compact serialisation of acceptable
  shape, with one signature by a published key over the encoding of the claims.
\<close>

definition jose_accepts :: "jose \<Rightarrow> JSONWebKey list \<Rightarrow> string \<Rightarrow> AccessTokenClaims \<Rightarrow> bool" where
  "jose_accepts lib keys token claims \<longleftrightarrow>
     token \<noteq> '''' \<and> length token \<le> maxCompactTokenBytes \<and> TrimSpace_unchanged token \<and>
     length (filter (\<lambda>c. c = CHR ''.'') token) = 2 \<and>
     (\<exists>object header key payload. jo_ParseSignedCompact lib token = Some object \<and> js_Signatures object = [header] \<and>
        access_header_ok header \<and> verification_key (jh_KeyID header) keys None = Some key \<and>
        jo_Verify lib object key = Some payload \<and> jo_DecodeClaims lib payload = Some claims)"

text \<open>Instants for which the seconds of a claim fit an int64: any time between 1970 and the year 292 billion.\<close>

definition claim_instant :: "time \<Rightarrow> bool" where
  "claim_instant t \<longleftrightarrow> 0 < Unix t \<and> Unix t < 2 ^ 62"

lemma access_claims_acceptable:
  assumes svc: "service_ok svc" and time: "claim_instant issued" "issued \<le> now" "now + Second \<le> issued + ts_accessTokenTTL svc"
    and names: "usr_Subject user \<noteq> ''''" "cl_ClientID client \<noteq> ''''"
    and scopes: "canonical_scopes scopes" and jti: "validJTI jti"
  shows "claims_acceptable svc now (access_claims svc user client scopes issued jti)"
proof -
  define ttl where "ttl = ts_accessTokenTTL svc"
  define i where "i = issued div 1000000"
  define e where "e = (issued + ttl) div 1000000"
  have ttl: "60000000 \<le> ttl" "ttl \<le> 1800000000" "0 \<le> ts_clockSkew svc"
    using svc by (simp_all add: service_ok_def duration_defs ttl_def)
  have i: "i * 1000000 \<le> issued" "issued < i * 1000000 + 1000000" unfolding i_def by linarith+
  have e: "e * 1000000 \<le> issued + ttl" "issued + ttl < e * 1000000 + 1000000" unfolding e_def by linarith+
  have bounds: "i + 59 < e" "e \<le> i + 1800" using i e ttl by linarith+
  have unix: "Unix issued = i - 62135596800" "Unix (issued + ttl) = e - 62135596800"
    by (simp_all add: Unix_def Second_def i_def e_def)
  have range: "62135596800 < i" "i < 2 ^ 62 + 62135596800" using time(1) by (simp_all add: claim_instant_def unix(1))
  have "int64 e = e" by (rule int64_id) (use range bounds in simp_all)
  moreover have "int64 i = i" by (rule int64_id) (use range in simp_all)
  moreover have "int64 (e - i) = e - i" by (rule int64_id) (use bounds in simp_all)
  moreover have "int64 ((e - i) * 1000000000) = (e - i) * 1000000000" by (rule int64_id) (use bounds in simp_all)
  ultimately have conv: "time_Unix (e - 62135596800) = e * 1000000" "time_Unix (i - 62135596800) = i * 1000000"
    "\<not> lifetime_exceeded (access_claims svc user client scopes issued jti)"
    using bounds by (simp_all add: time_Unix_def Second_def lifetime_exceeded_def access_claims_def unix ttl_def[symmetric])
  have "''openid'' \<in> set scopes" using scopes by (simp add: canonical_scopes_def)
  moreover have "\<not> e * 1000000 < now - ts_clockSkew svc"
    using time(3) ttl(3) e(2) unfolding ttl_def[symmetric] Second_def by linarith
  moreover have "\<not> i * 1000000 > now + ts_clockSkew svc" using time(2) ttl(3) i(1) by linarith
  ultimately show ?thesis
    unfolding claims_acceptable_def
    using conv range bounds names jti parseScopeClaim_Join[OF scopes]
    by (simp add: access_claims_def unix ttl_def[symmetric])
qed

lemma access_authority_family_ok:
  assumes "st_faults st = []"
    "case acc_RefreshFamilyID a of None \<Rightarrow> family = None | Some fid \<Rightarrow> \<exists>f. family = Some f \<and> GetRefreshTokenFamilyByID fid (st_db st) = Some f"
  shows "access_authority_family a st = Inr (family, st)"
  using assms by (cases "acc_RefreshFamilyID a") (auto simp: access_authority_family_def tbind_ok read_query_ok treturn_def)

lemma GetAccessTokenAuthority_ok:
  assumes "clean_attempt (env 0)" "access_authority_stored d hash now authority" "acc_JtiHash (aa_Metadata authority) = hash"
    "length hash = sha256_Size" "\<not> IsZero now"
  shows "GetAccessTokenAuthority env hash now d = (Inr authority, d)"
proof -
  let ?st = "start_tx (env 0) d" and ?a = "aa_Metadata authority"
  have st: "st_faults ?st = []" "st_db ?st = d" using assms(1) by (simp_all add: start_tx_def clean_attempt_def)
  obtain row where s: "GetAccessTokenByJTIHash hash d = Some ?a" "now < acc_ExpiresAt ?a"
    "GetUserByID (acc_UserID ?a) d = Some (aa_User authority)" "usr_Status (aa_User authority) = ''active''"
    "GetOIDCClientByID (acc_ClientID ?a) d = Some row" "aa_Client authority = client_value d row"
    "cl_Status (aa_Client authority) = ''active''"
    "GetConsentGrantByUserClient (acc_UserID ?a) (acc_ClientID ?a) d = Some (aa_Grant authority)"
    "grant_ID (aa_Grant authority) = acc_ConsentGrantID ?a"
    "case acc_RefreshFamilyID ?a of None \<Rightarrow> aa_Family authority = None
       | Some fid \<Rightarrow> \<exists>f. aa_Family authority = Some f \<and> GetRefreshTokenFamilyByID fid d = Some f"
    using assms(2) unfolding access_authority_stored_def Let_def by blast
  have client: "tmap_error (client_not_found_as Token_ErrInvalidToken) (loadClient (acc_ClientID ?a)) ?st = Inr (client_value d row, ?st)"
    using st s(5) by (simp add: tmap_error_def loadClient_def tbind_ok read_query_ok loadClientChildren_ok)
  have family: "access_authority_family ?a ?st = Inr (aa_Family authority, ?st)"
    using access_authority_family_ok[OF st(1)] s(10) unfolding st(2) by blast
  have "access_authority_tx hash now ?st = Inr (authority, ?st)"
    unfolding access_authority_tx_def
    using st s(1-4,7-9) assms(3) by (simp add: tbind_ok read_query_ok client[unfolded s(6)[symmetric]] family treturn_def)
  from inTx_clean[of env "\<lambda>_. access_authority_tx hash now", OF assms(1) this] show ?thesis
    using assms(4,5) st(2) by (simp add: GetAccessTokenAuthority_def)
qed

lemma verifyAccessToken_ok:
  assumes "jose_accepts lib keys token claims" "claims_acceptable svc now claims"
  shows "verifyAccessToken lib keys svc token now = Some claims"
  using assms by (auto simp: jose_accepts_def verifyAccessToken_def)

lemma validJTI_minted: "length raw = 16 \<Longrightarrow> validJTI (''jti_'' @ b64_encode raw)"
  by (simp add: validJTI_def valid_prefixed_def jtiPrefix_def HasPrefix_def TrimPrefix_def b64_DecodeString_encode)

lemma mint_ids:
  assumes "mint tenv svc random au = Inr minted"
  shows "au_GrantID au \<noteq> uuid_Nil" "usr_ID (au_User au) \<noteq> uuid_Nil" "activeClient (au_Client au)"
  using assms by (auto simp: mint_def split: option.splits if_splits)

text \<open>The rows that an exchange leaves behind, as UserInfo reads them.\<close>

lemma exchanged_authority:
  assumes principals: "code_principals d input codeRow (user, client, scopes, grant)"
    and run: "mint tenv svc random (code_authority input codeRow user client scopes grant) = Inr minted"
    and out: "mint_outcome tenv svc (code_authority input codeRow user client scopes grant) scopes minted" and svc: "service_ok svc"
    and rows: "initial_rows_ok codeRow scopes grant minted d"
    and insert: "access_tokens_violation (initial_rows codeRow scopes grant minted d)
          (code_access_row codeRow scopes grant minted (map_option ir_FamilyID (mi_InitialRefresh minted))) = None"
    and d': "d' = code_exchanged input codeRow scopes grant minted events d"
    and time: "now < xi_Now input + ts_accessTokenTTL svc"
  obtains a family where "a = code_access_row codeRow scopes grant minted (map_option ir_FamilyID (mi_InitialRefresh minted))"
    "access_authority_stored d' (mi_JTIHash minted) now
       \<lparr>aa_Metadata = a, aa_Grant = grant, aa_User = user, aa_Client = client, aa_Family = family\<rparr>"
    "access_family_matches a family scopes now"
proof -
  define a where "a = code_access_row codeRow scopes grant minted (map_option ir_FamilyID (mi_InitialRefresh minted))"
  obtain row where p: "LockUserByID (code_UserID codeRow) d = Some user" "usr_Status user = ''active''"
    "LockOIDCClientByID (code_ClientID codeRow) d = Some row" "client = client_value d row"
    "LockConsentGrantByUserClient (code_UserID codeRow) (code_ClientID codeRow) d = Some grant"
    "CanonicalScopes (code_Scopes codeRow) = Some scopes"
    using principals unfolding code_principals_def by (auto simp only: prod.case map_option_eq_Some)
  have frame: "users d' = users d" "oidc_clients d' = oidc_clients d" "consent_grants d' = consent_grants d"
    "client_value d' = client_value d"
    unfolding d' code_exchanged_def initial_rows_def client_value_def read_query_defs ListOIDCClientRedirectURIs_def
      ListOIDCClientLogoutURIs_def ListOIDCClientScopes_def
    by (auto split: option.split)
  have "unique_among acc_JtiHash (access_tokens d) a"
    using insert unfolding access_tokens_violation_def first_violation_eval a_def by simp
  then have jti: "GetAccessTokenByJTIHash (mi_JTIHash minted) d' = Some a"
    using unique_among_select[of acc_JtiHash "access_tokens d" a]
    by (simp add: GetAccessTokenByJTIHash_def d' code_exchanged_def table_simps a_def[symmetric])
      (simp add: a_def code_access_row_def)
  have canonical: "canonical_scopes scopes" using CanonicalScopes_canonical[OF p(6)] by blast
  have ttl: "xi_Now input + ts_accessTokenTTL svc < xi_Now input + ts_refreshAbsoluteTTL svc"
    using svc by (simp add: service_ok_def duration_defs)
  obtain family where family: "case acc_RefreshFamilyID a of None \<Rightarrow> family = None
       | Some fid \<Rightarrow> \<exists>f. family = Some f \<and> GetRefreshTokenFamilyByID fid d' = Some f" "access_family_matches a family scopes now"
  proof (cases "mi_InitialRefresh minted")
    case None
    then show ?thesis using that[of None] by (simp add: a_def code_access_row_def access_family_matches_def)
  next
    case (Some initial)
    obtain binding where binding: "code_SessionBindingID codeRow = Some binding"
      "refresh_token_families_violation d (code_family_row codeRow scopes grant minted initial binding) = None"
      using rows Some by (auto simp: initial_rows_ok_def Let_def split: option.splits)
    define f where "f = code_family_row codeRow scopes grant minted initial binding"
    have offline: "''offline_access'' \<in> set scopes" "initial_minted svc (xi_Now input) initial"
      using out Some by (auto simp: mint_outcome_def code_authority_def split: if_splits)
    have "unique_among fam_ID (refresh_token_families d) f"
      using binding(2) unfolding refresh_token_families_violation_def first_violation_eval f_def by simp
    then have "GetRefreshTokenFamilyByID (fam_ID f) d' = Some f"
      using unique_among_select[of fam_ID "refresh_token_families d" f] Some binding(1)
      by (simp add: GetRefreshTokenFamilyByID_def d' code_exchanged_def initial_rows_def table_simps f_def[symmetric])
    moreover have "acc_RefreshFamilyID a = Some (fam_ID f)" by (simp add: a_def code_access_row_def Some f_def code_family_row_def)
    moreover have "CanonicalRefreshScopes scopes = Inr scopes"
      using offline(1) canonical by (simp add: CanonicalRefreshScopes_def CanonicalScopes_fixed canonical_scopes_def[of scopes])
    moreover have "now < fam_AbsoluteExpiresAt f"
      using offline(2) time ttl by (simp add: f_def code_family_row_def initial_minted_def)
    moreover have "fam_Scopes f = scopes" "fam_RevokedAt f = None" "fam_UserID f = acc_UserID a" "fam_ClientID f = acc_ClientID a"
      "fam_ConsentGrantID f = acc_ConsentGrantID a" "acc_SessionBindingID a = Some (fam_SessionBindingID f)"
      using binding(1) by (simp_all add: f_def code_family_row_def a_def code_access_row_def)
    ultimately have "access_family_matches a (Some f) scopes now" "GetRefreshTokenFamilyByID (fam_ID f) d' = Some f"
      "acc_RefreshFamilyID a = Some (fam_ID f)"
      by (simp_all add: access_family_matches_def scope_subset_iff)
    then show ?thesis by (intro that[of "Some f"]) simp_all
  qed
  have "access_authority_stored d' (mi_JTIHash minted) now
       \<lparr>aa_Metadata = a, aa_Grant = grant, aa_User = user, aa_Client = client, aa_Family = family\<rparr>"
    unfolding access_authority_stored_def Let_def
    using jti p family(1) out time principals
    by (simp add: frame read_query_defs a_def code_access_row_def mint_outcome_def code_authority_def
        code_principals_def sameAuthenticatedClient_def cong: option.case_cong)
  then show thesis using that[OF a_def] family(2) by blast
qed

lemma exchanged_token_accepted:
  assumes service: "token_NewService url_Parse issuer idTTL accessTTL skew (lifetime_options ls) = Inr svc" "libraries_ok tenv"
    and exchange: "Exchange env tenv svc random input d = (Inr r, d')"
    and signed: "\<And>claims. te_Sign tenv (te_marshalAccess tenv claims) ''at+jwt'' = Some (rs_AccessToken r) \<Longrightarrow>
      jose_accepts lib keys (rs_AccessToken r) claims"
    and schema: "\<And>u. u \<in> set (users d) \<Longrightarrow> usr_Subject u \<noteq> ''''" "\<And>g. g \<in> set (consent_grants d) \<Longrightarrow> 1 \<le> grant_Version g"
    and time: "claim_instant (xi_Now input)" "xi_Now input \<le> now" "now + Second \<le> xi_Now input + ts_accessTokenTTL svc"
    and clean: "clean_attempt (uenv 0)"
  shows "\<exists>codeRow user info. code_presented d input codeRow \<and> GetUserByID (code_UserID codeRow) d = Some user \<and>
    UserInfoForAccessToken uenv lib keys svc (rs_AccessToken r) now d' = (Inr info, d') \<and> ui_Subject info = usr_Subject user"
proof -
  note svc = token_NewService_ok[OF service(1)]

  have "ExchangeAuthorizationCode env input (\<lambda>n. mint tenv svc (random n)) d = (Inr r, d')" "\<not> IsZero (xi_Now input)"
    using exchange by (auto simp: Exchange_def split: if_splits)
  then obtain n codeRow user client scopes grant where presented: "code_presented d input codeRow"
    and principals: "code_principals d input codeRow (user, client, scopes, grant)"
    and issued: "code_issued (mint tenv svc (random n)) input codeRow (user, client, scopes, grant) d (Some r) d'"
    by (elim ExchangeAuthorizationCode_Inr) (metis prod.exhaust)
  let ?au = "code_authority input codeRow user client scopes grant"
  obtain minted events where run: "mint tenv svc (random n) ?au = Inr minted"
    and rows: "initial_rows_ok codeRow scopes grant minted d"
    and insert: "access_tokens_violation (initial_rows codeRow scopes grant minted d)
          (code_access_row codeRow scopes grant minted (map_option ir_FamilyID (mi_InitialRefresh minted))) = None"
    and valid: "validMintedTokens minted (xi_Now input) (''offline_access'' \<in> set scopes)"
    and r: "r = exchange_code_response minted scopes" and d': "d' = code_exchanged input codeRow scopes grant minted events d"
    using issued by (auto simp: code_issued_def)
  obtain scopes' where out': "mint_outcome tenv svc ?au scopes' minted" by (rule mint_Inr[OF service(2) svc run])
  have canonical: "canonical_scopes scopes"
    using principals CanonicalScopes_canonical[of "code_Scopes codeRow" scopes] by (simp add: code_principals_def)
  then have "scopes' = scopes" using out' CanonicalScopes_fixed[of scopes] by (simp add: mint_outcome_def code_authority_def)
  then have out: "mint_outcome tenv svc ?au scopes minted" using out' by simp
  have before: "now < xi_Now input + ts_accessTokenTTL svc" using time(3) by (simp add: Second_def)
  obtain a family where a: "a = code_access_row codeRow scopes grant minted (map_option ir_FamilyID (mi_InitialRefresh minted))"
    and stored: "access_authority_stored d' (mi_JTIHash minted) now
       \<lparr>aa_Metadata = a, aa_Grant = grant, aa_User = user, aa_Client = client, aa_Family = family\<rparr>" (is "access_authority_stored d' _ now ?authority")
    and family: "access_family_matches a family scopes now"
    by (rule exchanged_authority[OF principals run out svc rows insert d' before])
  obtain raw where raw: "length raw = 16" "mi_JTIHash minted = HashJTI (''jti_'' @ b64_encode raw)"
    "te_Sign tenv (te_marshalAccess tenv (access_claims svc user client scopes (xi_Now input) (''jti_'' @ b64_encode raw))) ''at+jwt'' = Some (rs_AccessToken r)"
    using out by (auto simp: mint_outcome_def access_attested_def Let_def code_authority_def r exchange_code_response_def)
  let ?claims = "access_claims svc user client scopes (xi_Now input) (''jti_'' @ b64_encode raw)"
  have user: "user \<in> set (users d)" "GetUserByID (code_UserID codeRow) d = Some user" and grant: "grant \<in> set (consent_grants d)"
    using principals by (auto simp: code_principals_def read_query_defs)
  have active: "activeClient client" "usr_ID user \<noteq> uuid_Nil" "grant_ID grant \<noteq> uuid_Nil"
    using mint_ids[OF run] by (simp_all add: code_authority_def)
  have "claims_acceptable svc now ?claims"
    using access_claims_acceptable[OF svc time schema(1)[OF user(1)] _ canonical validJTI_minted[OF raw(1)], of client] active(1)
    by (simp add: activeClient_def)
  then have verified: "verifyAccessToken lib keys svc (rs_AccessToken r) now = Some ?claims"
    by (rule verifyAccessToken_ok[OF signed[OF raw(3)]])
  have "0 < xi_Now input" using time(1) unfolding claim_instant_def Unix_def Second_def by linarith
  then have nonzero: "\<not> IsZero now" "\<not> IsZero (xi_Now input)" using time(2) by (simp_all add: IsZero_def)
  have "length (mi_JTIHash minted) = sha256_Size" unfolding raw(2) by (simp add: length_HashJTI sha256_Size_def)
  moreover have "acc_JtiHash (aa_Metadata ?authority) = mi_JTIHash minted" by (simp add: a code_access_row_def)
  moreover have "HashJTI (ac_JWTID ?claims) = mi_JTIHash minted" unfolding raw(2) by (simp add: access_claims_def)
  ultimately have read: "GetAccessTokenAuthority uenv (HashJTI (ac_JWTID ?claims)) now d' = (Inr ?authority, d')"
    using GetAccessTokenAuthority_ok[where env = uenv, OF clean stored] nonzero(1) by metis
  have ids: "acc_UserID a = usr_ID user" "acc_ClientID a = cl_ID client" "grant_UserID grant = usr_ID user" "grant_ClientID grant = cl_ID client"
    using code_principals_ids[OF principals] principals by (auto simp: a code_access_row_def code_principals_def read_query_defs)
  have row: "acc_ID a = mi_AccessTokenID minted" "acc_ConsentGrantID a = grant_ID grant" "acc_RevokedAt a = None" "acc_Scopes a = scopes"
    "acc_JtiHash a = mi_JTIHash minted" "acc_IssuedAt a = xi_Now input" "acc_ExpiresAt a = xi_Now input + ts_accessTokenTTL svc"
    "acc_IssuanceSource a = ''authorization_code''" "acc_SourceRefreshTokenID a = None"
    using out by (simp_all add: a code_access_row_def mint_outcome_def code_authority_def)
  have covered: "Difference scopes (Intersection (grant_Scopes grant) (cl_Scopes client)) = []" "scope_subset scopes (cl_Scopes client)"
    "grant_RevokedAt grant = None" "usr_Status user = ''active''"
    using principals covered_by_grant[OF CanonicalScopes_fixed[OF canonical]] by (auto simp: code_principals_def scope_subset_iff)
  have "accessAuthorityMatches svc ?authority ?claims now"
    unfolding accessAuthorityMatches_def Let_def
    using CanonicalScopes_fixed[OF canonical] active ids row covered family before out schema(2)[OF grant] svc raw(2)
      parseScopeClaim_Join[OF canonical] nonzero(2)
    by (simp add: access_claims_def activeClient_def mint_outcome_def service_ok_def duration_defs length_HashJTI sha256_Size_def)
  then show ?thesis using presented user(2) verified read
    by (auto simp: UserInfoForAccessToken_def applyUserInfoClaims_def Let_def)
qed

section \<open>Witnesses\<close>

text \<open>A library that knows one signed token, by the one published key.\<close>

definition sample_jose :: jose where
  "sample_jose = \<lparr>jo_ParseSignedCompact = (\<lambda>token. if token = ''e.f.g''
       then Some \<lparr>js_Signatures = [\<lparr>jh_Algorithm = ''RS256'', jh_KeyID = ''k1'', jh_JSONWebKey = False, jh_Nonce = '''',
         jh_ExtraHeaders = [(''typ'', Some ''at+jwt'')]\<rparr>], js_Signed = ''e.f''\<rparr> else None),
     jo_Verify = (\<lambda>_ _. Some ''{access}''),
     jo_DecodeClaims = (\<lambda>payload. if payload = ''{access}'' then Some sample_claims else None)\<rparr>"

definition sample_keys :: "JSONWebKey list" where
  "sample_keys = [\<lparr>jwk_Key = Some \<lparr>rsa_N = Some (2 ^ 2047), rsa_E = 65537\<rparr>, jwk_KeyID = ''k1'', jwk_Algorithm = ''RS256'',
     jwk_Use = ''sig'', jwk_IsPublic = True\<rparr>]"

lemma BitLen_power: "BitLen (2 ^ n) = Suc n"
  by (induction n) (simp_all add: BitLen.simps)

lemma sample_jose_accepts:
  assumes "te_Sign sample_env (te_marshalAccess sample_env claims) ''at+jwt'' = Some ''e.f.g''"
  shows "jose_accepts sample_jose sample_keys ''e.f.g'' claims"
proof -
  have "claims = sample_claims" using assms by (auto simp: sample_env_def split: if_splits)
  moreover have "TrimSpace_unchanged ''e.f.g''" by (rule TrimSpace_unchanged_words) (simp_all add: word_char_def)
  moreover have "BitLen (2 ^ 2047) \<ge> 2048" by (simp only: BitLen_power)
  then have "verification_key ''k1'' sample_keys None = Some \<lparr>rsa_N = Some (2 ^ 2047), rsa_E = 65537\<rparr>"
    unfolding sample_keys_def by (simp add: usable_key_def del: power_numeral)
  ultimately show ?thesis
    unfolding jose_accepts_def by (simp add: sample_jose_def maxCompactTokenBytes_def access_header_ok_def del: power_numeral)
qed

lemma sample_instants:
  "claim_instant (xi_Now sample_exchange)" "xi_Now sample_exchange \<le> sample_now + Minute"
  "sample_now + Minute + Second \<le> xi_Now sample_exchange + ts_accessTokenTTL sample_service"
  by (simp_all add: claim_instant_def Unix_def sample_exchange_def sample_now_def duration_defs sample_service_def)

lemma sample_columns:
  "u \<in> set (users sample_db) \<Longrightarrow> usr_Subject u \<noteq> ''''" "g \<in> set (consent_grants sample_db) \<Longrightarrow> 1 \<le> grant_Version g"
  by (auto simp: sample_rows)

lemma sample_access_token: "rs_AccessToken (exchange_code_response sample_minted sample_scopes) = ''e.f.g''"
  by (simp add: exchange_code_response_def sample_minted_def)


lemma sample_userinfo:
  "\<exists>d' info. UserInfoForAccessToken (quiet sample_ids) sample_jose sample_keys sample_service ''e.f.g'' (sample_now + Minute) d' = (Inr info, d')"
proof -
  obtain d' where run: "Exchange (quiet sample_ids) sample_env sample_service (\<lambda>_. sample_code_random) sample_exchange sample_db =
      (Inr (exchange_code_response sample_minted sample_scopes), d')" using sample_exchange_call by blast
  from exchanged_token_accepted[OF sample_NewService sample_libraries run _ sample_columns sample_instants,
      of sample_jose sample_keys "quiet sample_ids"] show ?thesis
    using sample_jose_accepts by (auto simp: sample_access_token)
qed

theorem userinfo_needs_live_authority_witness:
  "\<exists>d info claims a user row grant.
     UserInfoForAccessToken (quiet sample_ids) sample_jose sample_keys sample_service ''e.f.g'' (sample_now + Minute) d = (Inr info, d) \<and>
     access_live d (sample_now + Minute) a user row grant \<and> claims_describe claims a user row"
proof -
  obtain d' info where run: "UserInfoForAccessToken (quiet sample_ids) sample_jose sample_keys sample_service ''e.f.g''
      (sample_now + Minute) d' = (Inr info, d')" using sample_userinfo by blast
  from userinfo_needs_live_authority[OF run] run show ?thesis by blast
qed

text \<open>An installation with a confidential client, and the refresh token of its family.\<close>

definition sample_owner_row :: OidcClient where
  "sample_owner_row = sample_client_row\<lparr>cl_Type := ''confidential'', cl_AuthMethod := ''client_secret_basic''\<rparr>"

definition sample_offline :: db where
  "sample_offline = sample_db\<lparr>oidc_clients := [sample_owner_row],
     refresh_tokens := [sample_generation\<lparr>gen_TokenHash := HashRefreshToken sample_refresh_token\<rparr>]\<rparr>"

definition sample_introspection :: IntrospectionInput where
  "sample_introspection = \<lparr>ii_Client = client_value sample_offline sample_owner_row, ii_Token = sample_refresh_token,
     ii_Hint = ''refresh_token'', ii_Now = sample_now\<rparr>"

lemma refresh_authority_tx_ok:
  assumes "st_faults st = []" "refresh_authority_stored (st_db st) hash authority"
  shows "refresh_authority_tx hash st = Inr (authority, st)"
proof -
  obtain row where s: "GetRefreshTokenByHash hash (st_db st) = Some (rta_Generation authority)"
    "GetRefreshTokenFamilyByID (gen_FamilyID (rta_Generation authority)) (st_db st) = Some (rta_Family authority)"
    "GetUserByID (fam_UserID (rta_Family authority)) (st_db st) = Some (rta_User authority)"
    "GetOIDCClientByID (fam_ClientID (rta_Family authority)) (st_db st) = Some row" "rta_Client authority = client_value (st_db st) row"
    "GetConsentGrantByUserClient (fam_UserID (rta_Family authority)) (fam_ClientID (rta_Family authority)) (st_db st) = Some (rta_Grant authority)"
    "grant_ID (rta_Grant authority) = fam_ConsentGrantID (rta_Family authority)"
    using assms(2) unfolding refresh_authority_stored_def Let_def by blast
  have "tmap_error (client_not_found_as Token_ErrInvalidGrant) (loadClient (fam_ClientID (rta_Family authority))) st = Inr (rta_Client authority, st)"
    using assms(1) s(4,5) by (simp add: tmap_error_def loadClient_def tbind_ok read_query_ok loadClientChildren_ok)
  then show ?thesis unfolding refresh_authority_tx_def using assms(1) s by (simp add: tbind_ok read_query_ok treturn_def)
qed

lemma opaque_trimmed:
  assumes "word_char (hd prefix)" "prefix \<noteq> []" "raw \<noteq> []"
  shows "TrimSpace_unchanged (prefix @ b64_encode raw)"
proof -
  have nonempty: "b64_encode raw \<noteq> []" using assms(3) by (simp flip: length_greater_0_conv add: length_b64_encode)
  then have "b64_value (last (b64_encode raw)) \<noteq> None" using b64_encode_alphabet[of raw] by (simp add: list_all_iff)
  then have "word_char (last (b64_encode raw))" by (simp add: b64_value_def word_char_def Let_def split: if_splits)
  then show ?thesis using assms nonempty by (intro TrimSpace_unchanged_words) simp_all
qed

lemma sample_introspects:
  "\<exists>response. Introspect (quiet sample_ids) (quiet sample_ids) sample_jose sample_keys sample_service sample_introspection sample_offline =
     (Inr response, sample_offline) \<and> isr_Active response"
proof -
  let ?owner = "client_value sample_offline sample_owner_row"
  let ?g = "sample_generation\<lparr>gen_TokenHash := HashRefreshToken sample_refresh_token\<rparr>"
  define au where "au = \<lparr>rta_Generation = ?g, rta_Family = sample_family, rta_Grant = sample_grant, rta_User = sample_user, rta_Client = ?owner\<rparr>"
  have digest: "DigestPresentedRefreshToken sample_refresh_token = Some (HashRefreshToken sample_refresh_token)" by (rule sample_refresh_digest)
  have owner: "cl_Type ?owner = ''confidential''" "cl_AuthMethod ?owner = ''client_secret_basic''" "activeClient ?owner" "cl_ID ?owner = 2"
    "cl_Scopes ?owner = sample_scopes"
    by (simp_all add: client_value_def mapClient_def sample_owner_row_def activeClient_def sample_offline_def sample_rows ListOIDCClientScopes_def
        client_children_def select_where_def sample_scopes_def)
  have stored: "refresh_authority_stored sample_offline (HashRefreshToken sample_refresh_token) au"
    by (simp add: refresh_authority_stored_def au_def read_query_defs select_one_def sample_offline_def sample_rows sample_owner_row_def)
  have "refresh_authority_tx (HashRefreshToken sample_refresh_token) (start_tx (quiet sample_ids 0) sample_offline) =
      Inr (au, start_tx (quiet sample_ids 0) sample_offline)"
    by (rule refresh_authority_tx_ok) (use stored in \<open>simp_all add: start_tx_def quiet_def\<close>)
  from inTx_clean[of "quiet sample_ids" "\<lambda>_. refresh_authority_tx (HashRefreshToken sample_refresh_token)", OF clean_quiet this]
  have read: "GetRefreshTokenAuthority (quiet sample_ids) (HashRefreshToken sample_refresh_token) sample_offline = (Inr au, sample_offline)"
    by (simp add: GetRefreshTokenAuthority_def validLifecycleHash_def length_HashRefreshToken sha256_Size_def start_tx_def)
  have live: "refresh_authority_live au ?owner (HashRefreshToken sample_refresh_token) sample_now"
    using owner by (simp add: refresh_authority_live_def au_def Let_def) (simp add: sample_rows duration_defs)
  have scopes: "SelectRefreshAccessScopes None (fam_Scopes (rta_Family au)) (grant_Scopes (rta_Grant au)) (cl_Scopes (rta_Client au)) = Inr sample_scopes"
    using sample_refresh_scopes owner(5) by (simp add: au_def sample_refresh_def sample_rows)
  have "TrimSpace_unchanged sample_refresh_token"
    unfolding sample_refresh_token_def by (rule opaque_trimmed) (simp_all add: word_char_def)
  moreover have "sample_now \<noteq> 0" "length sample_refresh_token \<le> 16384"
    by (simp_all add: sample_now_def duration_defs sample_refresh_token_def length_b64_encode)
  ultimately show ?thesis
    using owner live scopes digest read
    by (simp add: Introspect_def sample_introspection_def introspect_in_turn_def introspectRefresh_def IsZero_def maxPresentedLifecycleTokenBytes_def)
qed

theorem introspection_is_truthful_witness:
  "\<exists>response. Introspect (quiet sample_ids) (quiet sample_ids) sample_jose sample_keys sample_service sample_introspection sample_offline =
     (Inr response, sample_offline) \<and> isr_Active response \<and>
     (access_introspected sample_jose sample_keys sample_service sample_introspection sample_offline response \<or>
      refresh_introspected sample_service sample_introspection sample_offline response)"
proof -
  obtain response where run: "Introspect (quiet sample_ids) (quiet sample_ids) sample_jose sample_keys sample_service sample_introspection
      sample_offline = (Inr response, sample_offline)" and active: "isr_Active response" using sample_introspects by blast
  from introspection_is_truthful[OF run] run active show ?thesis by auto
qed

text \<open>
  The bound on a token's lifetime is computed in nanoseconds on 64 bits: a claimed lifetime of
  some 585 years passes it.
\<close>

lemma access_lifetime_check_wraps:
  "\<not> lifetime_exceeded (claims\<lparr>ac_ExpiresAt := ac_IssuedAt claims + 18446744074\<rparr>)"
  by (simp add: lifetime_exceeded_def int64_def)

end
