(* ===== verification/Spec2Isabelle.thy ===== *)
theory Spec2Isabelle
  imports Token_Revocation Pkce_Vector Authorization Retention Access_Verification
begin

text \<open>
  Header.
\<close>

end
